(* ===== verification/Made_Prelude.thy ===== *)
theory Made_Prelude
  imports
    Main
    "HOL-Library.Word"
    "HOL-Library.Char_ord"
    "HOL-Library.List_Lexorder"
    "HOL-Library.Sublist"
begin

text \<open>
  What every component of the development shares.

  \<^item> the result type of fallible code, \<open>'e + 'a\<close> with the error on the left, and \<open>and_then\<close>,
    which is Rust's \<open>?\<close> operator: the first error ends the computation;
  \<^item> the ordered map of the standard library, \<open>BTreeMap\<close>, as a list of bindings in strictly
    ascending key order, with the interface the components rely on stated once as the locale
    \<open>ordered_map\<close>;
  \<^item> an event-sourced aggregate as the locale \<open>event_sourced\<close>: a fold over recorded events, decisions
    that turn commands into events, and the replay of a journal; \<open>journal_of\<close> is the relation
    between a journal and the state its writer holds.

  Strings are lists of bytes (\<^typ>\<open>char\<close> has 256 values), so the order, the length and the
  digest input of a string are those of its UTF-8 bytes, as in Rust.
\<close>

named_theorems result_simps \<open>evaluation of computations that may fail\<close>
named_theorems map_simps \<open>lookups in ordered maps\<close>


section \<open>Results\<close>

fun and_then :: "'e + 'a \<Rightarrow> ('a \<Rightarrow> 'e + 'b) \<Rightarrow> 'e + 'b" where
  "and_then (Inl e) f = Inl e"
| "and_then (Inr x) f = f x"

definition require :: "bool \<Rightarrow> 'e \<Rightarrow> 'e + unit" where
  "require b e = (if b then Inr () else Inl e)"

definition ok_or :: "'a option \<Rightarrow> 'e \<Rightarrow> 'e + 'a" where
  "ok_or x e = (case x of None \<Rightarrow> Inl e | Some y \<Rightarrow> Inr y)"

primrec try_map :: "('a \<Rightarrow> 'e + 'b) \<Rightarrow> 'a list \<Rightarrow> 'e + 'b list" where
  "try_map f [] = Inr []"
| "try_map f (x # xs) = and_then (f x) (\<lambda>y. and_then (try_map f xs) (\<lambda>ys. Inr (y # ys)))"

primrec try_fold :: "('s \<Rightarrow> 'a \<Rightarrow> 'e + 's) \<Rightarrow> 's \<Rightarrow> 'a list \<Rightarrow> 'e + 's" where
  "try_fold f s [] = Inr s"
| "try_fold f s (x # xs) = and_then (f s x) (\<lambda>s'. try_fold f s' xs)"

lemma and_then_Inr [result_simps]:
  "and_then r f = Inr y \<longleftrightarrow> (\<exists>x. r = Inr x \<and> f x = Inr y)"
  by (cases r) auto

lemma and_then_Inl:
  "and_then r f = Inl e \<longleftrightarrow> r = Inl e \<or> (\<exists>x. r = Inr x \<and> f x = Inl e)"
  by (cases r) auto

lemma and_then_InrE [elim]:
  assumes "and_then r f = Inr y"
  obtains x where "r = Inr x" and "f x = Inr y"
  using assms by (cases r) auto

lemma and_then_assoc:
  "and_then (and_then r f) g = and_then r (\<lambda>x. and_then (f x) g)"
  by (cases r) auto

lemma require_True [simp]: "require True e = Inr ()"
  and require_False [simp]: "require False e = Inl e"
  by (simp_all add: require_def)

lemma require_Inr [simp, result_simps]: "require b e = Inr u \<longleftrightarrow> b"
  by (simp add: require_def)

lemma require_Inl [simp, result_simps]: "require b e = Inl e' \<longleftrightarrow> \<not> b \<and> e' = e"
  by (auto simp: require_def)

lemma ok_or_simps [simp]: "ok_or None e = Inl e" "ok_or (Some x) e = Inr x"
  by (simp_all add: ok_or_def)

lemma ok_or_Inr [simp, result_simps]: "ok_or x e = Inr y \<longleftrightarrow> x = Some y"
  by (cases x) simp_all

lemma try_fold_append:
  "try_fold f s (xs @ ys) = and_then (try_fold f s xs) (\<lambda>s'. try_fold f s' ys)"
  by (induction xs arbitrary: s) (simp_all add: and_then_assoc)

lemma try_fold_invariant:
  assumes "try_fold f s xs = Inr t" and "P s"
    and "\<And>s x s'. x \<in> set xs \<Longrightarrow> P s \<Longrightarrow> f s x = Inr s' \<Longrightarrow> P s'"
  shows "P t"
  using assms
proof (induction xs arbitrary: s)
  case (Cons x xs)
  then obtain s' where "f s x = Inr s'" and "try_fold f s' xs = Inr t" by auto
  with Cons show ?case by (metis list.set_intros)
qed simp

lemma try_fold_total:
  assumes "\<And>s x. \<exists>s'. f s x = Inr s'"
  shows "\<exists>t. try_fold f s xs = Inr t"
proof (induction xs arbitrary: s)
  case (Cons x xs)
  obtain s' where "f s x = Inr s'" using assms by blast
  then show ?case using Cons by simp
qed simp

lemma try_map_length: "try_map f xs = Inr ys \<Longrightarrow> length ys = length xs"
  by (induction xs arbitrary: ys) (auto elim!: and_then_InrE)


section \<open>Ordered maps\<close>

type_synonym ('k, 'v) bmap = "('k \<times> 'v) list"

fun bm_insert :: "'k::linorder \<Rightarrow> 'v \<Rightarrow> ('k, 'v) bmap \<Rightarrow> ('k, 'v) bmap" where
  "bm_insert k v [] = [(k, v)]"
| "bm_insert k v ((k', v') # m) =
     (if k < k' then (k, v) # (k', v') # m
      else if k = k' then (k, v) # m
      else (k', v') # bm_insert k v m)"

fun bm_remove :: "'k \<Rightarrow> ('k, 'v) bmap \<Rightarrow> ('k, 'v) bmap" where
  "bm_remove k [] = []"
| "bm_remove k ((k', v') # m) = (if k = k' then m else (k', v') # bm_remove k m)"

definition bm_get :: "('k, 'v) bmap \<Rightarrow> 'k \<Rightarrow> 'v option" where
  "bm_get m k = map_of m k"

definition bm_contains :: "('k, 'v) bmap \<Rightarrow> 'k \<Rightarrow> bool" where
  "bm_contains m k = (bm_get m k \<noteq> None)"

definition bm_keys :: "('k, 'v) bmap \<Rightarrow> 'k list" where
  "bm_keys m = map fst m"

definition bm_values :: "('k, 'v) bmap \<Rightarrow> 'v list" where
  "bm_values m = map snd m"

definition bm_of_list :: "('k::linorder \<times> 'v) list \<Rightarrow> ('k, 'v) bmap" where
  "bm_of_list xs = fold (\<lambda>(k, v) m. bm_insert k v m) xs []"

definition bm_extend :: "('k::linorder, 'v) bmap \<Rightarrow> ('k, 'v) bmap \<Rightarrow> ('k, 'v) bmap" where
  "bm_extend m xs = fold (\<lambda>(k, v) m. bm_insert k v m) xs m"

definition bm_wf :: "('k::linorder, 'v) bmap \<Rightarrow> bool" where
  "bm_wf m = sorted_wrt (<) (map fst m)"

text \<open>
  The contract of an ordered map: what a lookup returns after each update, and that every update
  keeps the representation invariant.  The lemmas of the locale are what the components use.
\<close>

locale ordered_map =
  fixes empty :: "'m"
    and get :: "'m \<Rightarrow> 'k::linorder \<Rightarrow> 'v option"
    and insrt :: "'k \<Rightarrow> 'v \<Rightarrow> 'm \<Rightarrow> 'm"
    and remv :: "'k \<Rightarrow> 'm \<Rightarrow> 'm"
    and keys :: "'m \<Rightarrow> 'k list"
    and invar :: "'m \<Rightarrow> bool"
  assumes get_empty: "get empty k = None"
    and get_insert: "get (insrt k v m) k' = (if k' = k then Some v else get m k')"
    and get_remove: "invar m \<Longrightarrow> get (remv k m) k' = (if k' = k then None else get m k')"
    and invar_empty: "invar empty"
    and invar_insert: "invar m \<Longrightarrow> invar (insrt k v m)"
    and invar_remove: "invar m \<Longrightarrow> invar (remv k m)"
    and keys_ascending: "invar m \<Longrightarrow> sorted_wrt (<) (keys m)"
    and keys_dom: "set (keys m) = {k. get m k \<noteq> None}"
begin

lemma get_insert_same: "get (insrt k v m) k = Some v"
  by (simp add: get_insert)

lemma get_insert_other: "k' \<noteq> k \<Longrightarrow> get (insrt k v m) k' = get m k'"
  by (simp add: get_insert)

lemma insert_keeps_bound: "get m k \<noteq> None \<Longrightarrow> get (insrt k' v m) k \<noteq> None"
  by (simp add: get_insert)

lemma keys_insert: "set (keys (insrt k v m)) = insert k (set (keys m))"
  by (auto simp: keys_dom get_insert)

lemma keys_remove: "invar m \<Longrightarrow> set (keys (remv k m)) = set (keys m) - {k}"
  by (auto simp: keys_dom get_remove)

lemma get_inserts:
  "get (fold (\<lambda>(k, v). insrt k v) xs m) k =
     (case map_of (rev xs) k of None \<Rightarrow> get m k | Some v \<Rightarrow> Some v)"
  by (induction xs arbitrary: m)
     (auto simp: get_insert map_add_def split: option.splits)

lemma invar_inserts: "invar m \<Longrightarrow> invar (fold (\<lambda>(k, v). insrt k v) xs m)"
  by (induction xs arbitrary: m) (auto simp: invar_insert)

lemma keys_distinct: "invar m \<Longrightarrow> distinct (keys m)"
  using keys_ascending strict_sorted_iff by (metis sorted_wrt_iff_nth_less distinct_conv_nth
      linorder_neqE_nat order_less_irrefl)

end

lemma bm_get_Nil [simp]: "bm_get [] k = None"
  by (simp add: bm_get_def)

lemma bm_get_Cons [simp]: "bm_get ((k, v) # m) k' = (if k' = k then Some v else bm_get m k')"
  by (simp add: bm_get_def)

lemma bm_get_insert [simp, map_simps]:
  "bm_get (bm_insert k v m) k' = (if k' = k then Some v else bm_get m k')"
  by (induction k v m rule: bm_insert.induct) auto

lemma bm_get_None_iff: "bm_get m k = None \<longleftrightarrow> k \<notin> set (bm_keys m)"
  by (simp add: bm_get_def bm_keys_def map_of_eq_None_iff)

lemma fst_set_bm_insert [simp]: "fst ` set (bm_insert k v m) = insert k (fst ` set m)"
  by (induction k v m rule: bm_insert.induct) auto

lemma bm_wf_Nil [simp]: "bm_wf []"
  by (simp add: bm_wf_def)

lemma bm_wf_Cons [simp]: "bm_wf ((k, v) # m) \<longleftrightarrow> (\<forall>k' \<in> set (bm_keys m). k < k') \<and> bm_wf m"
  by (simp add: bm_wf_def bm_keys_def)

lemma bm_wf_insert [simp]: "bm_wf m \<Longrightarrow> bm_wf (bm_insert k v m)"
proof (induction k v m rule: bm_insert.induct)
  case (2 k v k' v' m)
  then show ?case by (fastforce simp: bm_keys_def)
qed (simp add: bm_keys_def)

lemma set_bm_remove: "set (bm_remove k m) \<subseteq> set m"
  by (induction k m rule: bm_remove.induct) auto

lemma bm_wf_remove [simp]: "bm_wf m \<Longrightarrow> bm_wf (bm_remove k m)"
proof (induction k m rule: bm_remove.induct)
  case (2 k k' v' m)
  then show ?case using set_bm_remove [of k m] by (auto simp: bm_keys_def)
qed simp

lemma bm_get_remove [simp, map_simps]:
  "bm_wf m \<Longrightarrow> bm_get (bm_remove k m) k' = (if k' = k then None else bm_get m k')"
proof (induction k m rule: bm_remove.induct)
  case (2 k k1 v1 m)
  have "bm_get m k1 = None" using 2 by (auto simp: bm_get_None_iff)
  with 2 show ?case by (auto split: if_splits)
qed simp

lemma set_bm_keys: "set (bm_keys m) = {k. bm_get m k \<noteq> None}"
  using bm_get_None_iff [of m] by auto

lemma bm_get_member: "bm_get m k = Some v \<Longrightarrow> (k, v) \<in> set m"
  by (induction m) (auto split: if_splits)

lemma bm_get_of_member: "bm_wf m \<Longrightarrow> (k, v) \<in> set m \<Longrightarrow> bm_get m k = Some v"
proof (induction m)
  case (Cons p m)
  then show ?case by (cases p) (auto simp: bm_keys_def dest!: bspec [where x = "(k, v)"])
qed simp

interpretation bm: ordered_map "[]" bm_get bm_insert bm_remove bm_keys bm_wf
  by unfold_locales (simp_all add: set_bm_keys, simp add: bm_wf_def bm_keys_def)


section \<open>Event-sourced aggregates\<close>

text \<open>
  \<open>journal_of fold_step decision opens es s\<close>: the writer of the journal \<open>es\<close> holds the state \<open>s\<close>.
  The journal starts with an opening batch; every command the state accepts appends the events
  decided and folds them into the state.
\<close>

inductive journal_of ::
  "('s \<Rightarrow> 'e \<Rightarrow> 'x + 's) \<Rightarrow> ('s \<Rightarrow> 'c \<Rightarrow> 'x + 'e list) \<Rightarrow> ('e list \<Rightarrow> 's \<Rightarrow> bool) \<Rightarrow>
     'e list \<Rightarrow> 's \<Rightarrow> bool"
  for fold_step decision opens where
  opened: "opens es s \<Longrightarrow> journal_of fold_step decision opens es s"
| decided: "journal_of fold_step decision opens es s \<Longrightarrow> decision s c = Inr es' \<Longrightarrow>
    try_fold fold_step s es' = Inr s' \<Longrightarrow> journal_of fold_step decision opens (es @ es') s'"

locale event_sourced =
  fixes fold_step :: "'s \<Rightarrow> 'e \<Rightarrow> 'x + 's"
    and decision :: "'s \<Rightarrow> 'c \<Rightarrow> 'x + 'e list"
    and opens :: "'e list \<Rightarrow> 's \<Rightarrow> bool"
    and replay :: "'e list \<Rightarrow> 'x + 's"
  assumes opens_replay: "opens es s \<Longrightarrow> replay es = Inr s"
    and replay_extends: "replay es = Inr s \<Longrightarrow> decision s c = Inr es' \<Longrightarrow>
      replay (es @ es') = try_fold fold_step s es'"
    and decision_folds: "decision s c = Inr es' \<Longrightarrow> \<exists>s'. try_fold fold_step s es' = Inr s'"
begin

lemma replay_journal: "journal_of fold_step decision opens es s \<Longrightarrow> replay es = Inr s"
  by (induction rule: journal_of.induct) (auto simp: opens_replay replay_extends)

lemma journal_functional:
  "journal_of fold_step decision opens es s \<Longrightarrow> journal_of fold_step decision opens es s' \<Longrightarrow>
     s = s'"
  by (auto dest!: replay_journal)

lemma accepted_command_extends:
  assumes "journal_of fold_step decision opens es s" and "decision s c = Inr es'"
  shows "\<exists>s'. journal_of fold_step decision opens (es @ es') s'"
  using assms decision_folds journal_of.decided by metis

lemma replay_after_command:
  assumes "journal_of fold_step decision opens es s" and "decision s c = Inr es'"
  shows "\<exists>s'. try_fold fold_step s es' = Inr s' \<and> replay (es @ es') = Inr s'"
  using assms decision_folds replay_extends replay_journal by metis

end

lemma journal_invariant:
  assumes "journal_of fold_step decision opens es s"
    and "\<And>es s. opens es s \<Longrightarrow> P s"
    and "\<And>s c es' s'. P s \<Longrightarrow> decision s c = Inr es' \<Longrightarrow> try_fold fold_step s es' = Inr s' \<Longrightarrow> P s'"
  shows "P s"
  using assms by (induction rule: journal_of.induct) blast+

lemma journal_invariant2:
  assumes "journal_of fold_step decision opens es s"
    and "\<And>es s. opens es s \<Longrightarrow> P es s"
    and "\<And>es s c es' s'. P es s \<Longrightarrow> decision s c = Inr es' \<Longrightarrow> try_fold fold_step s es' = Inr s' \<Longrightarrow>
      P (es @ es') s'"
  shows "P es s"
  using assms by (induction rule: journal_of.induct) blast+

end
