(* ===== verification/Domain_Values.thy ===== *)
theory Domain_Values
  imports Made_Prelude
begin

text \<open>
  The values every component of \<open>made-core\<close> is built from: the domain error, validated text and
  identifiers (\<open>value_objects/ids.rs\<close> and the newtypes beside it), JSON values, the bounded
  attribute map, the ceremony context with its patches and declared writes, and the execution
  profile of a lease.

  \<open>serde_json::Value\<close> is the JSON datatype \<open>json\<close>; a JSON object is an ordered map, as the crate
  has it without its \<open>preserve_order\<close> feature.  An \<open>expect\<close> that fails is the error \<open>Panic\<close>, the
  only constructor of \<open>domain_error\<close> the Rust enumeration does not have.
\<close>


section \<open>Errors\<close>

datatype lifecycle_phase = Running | Paused | Ended

datatype domain_error =
    LifecycleRefused string lifecycle_phase
  | EmptyField string
  | FieldTooLong string nat nat
  | InvalidCharacters string
  | OutOfRange string int int int
  | MustBeNonZero string
  | EmptyCollection string
  | InvalidTransition string string
  | InvariantViolated string
  | NotFound string
  | InvalidDocument string
  | AlreadyExists string
  | Conflict string
  | NoValidProposal string
  | UnreadableCeremonyEvent string nat string
  | Panic string

type_synonym 'a result = "domain_error + 'a"


section \<open>Text\<close>

definition byte :: "char \<Rightarrow> nat" where
  "byte c = of_char c"

definition ascii_ws :: "nat \<Rightarrow> bool" where
  "ascii_ws b = (b = 32 \<or> (9 \<le> b \<and> b \<le> 13))"

text \<open>The white space of Unicode outside ASCII, as its UTF-8 bytes.\<close>

definition wide_ws2 :: "nat \<Rightarrow> nat \<Rightarrow> bool" where
  "wide_ws2 a b = (a = 0xC2 \<and> (b = 0x85 \<or> b = 0xA0))"

definition wide_ws3 :: "nat \<Rightarrow> nat \<Rightarrow> nat \<Rightarrow> bool" where
  "wide_ws3 a b c =
     (a = 0xE1 \<and> b = 0x9A \<and> c = 0x80 \<or>
      a = 0xE2 \<and> b = 0x80 \<and> (0x80 \<le> c \<and> c \<le> 0x8A \<or> c = 0xA8 \<or> c = 0xA9 \<or> c = 0xAF) \<or>
      a = 0xE2 \<and> b = 0x81 \<and> c = 0x9F \<or>
      a = 0xE3 \<and> b = 0x80 \<and> c = 0x80)"

text \<open>The number of bytes of the white-space character a string starts with, or ends with.\<close>

fun ws_len :: "string \<Rightarrow> nat" where
  "ws_len [] = 0"
| "ws_len [a] = (if ascii_ws (byte a) then 1 else 0)"
| "ws_len [a, b] =
     (if ascii_ws (byte a) then 1 else if wide_ws2 (byte a) (byte b) then 2 else 0)"
| "ws_len (a # b # c # _) =
     (if ascii_ws (byte a) then 1 else if wide_ws2 (byte a) (byte b) then 2
      else if wide_ws3 (byte a) (byte b) (byte c) then 3 else 0)"

fun ws_len_rev :: "string \<Rightarrow> nat" where
  "ws_len_rev [] = 0"
| "ws_len_rev [a] = (if ascii_ws (byte a) then 1 else 0)"
| "ws_len_rev [b, a] =
     (if ascii_ws (byte b) then 1 else if wide_ws2 (byte a) (byte b) then 2 else 0)"
| "ws_len_rev (c # b # a # _) =
     (if ascii_ws (byte c) then 1 else if wide_ws2 (byte b) (byte c) then 2
      else if wide_ws3 (byte a) (byte b) (byte c) then 3 else 0)"

lemma ws_len_Nil [termination_simp]: "0 < ws_len s \<Longrightarrow> s \<noteq> []"
  by auto

lemma ws_len_rev_Nil [termination_simp]: "0 < ws_len_rev s \<Longrightarrow> s \<noteq> []"
  by auto

fun trim_start :: "string \<Rightarrow> string" where
  "trim_start s = (if 0 < ws_len s then trim_start (drop (ws_len s) s) else s)"

fun trim_rev :: "string \<Rightarrow> string" where
  "trim_rev s = (if 0 < ws_len_rev s then trim_rev (drop (ws_len_rev s) s) else s)"

declare trim_start.simps [simp del] trim_rev.simps [simp del]

definition trim_end :: "string \<Rightarrow> string" where
  "trim_end s = rev (trim_rev (rev s))"

definition trim :: "string \<Rightarrow> string" where
  "trim s = trim_end (trim_start s)"

text \<open>Whether a string has a control character: the category Cc, U+0000-U+001F and U+007F-U+009F.\<close>

fun has_control :: "string \<Rightarrow> bool" where
  "has_control [] = False"
| "has_control [a] = (byte a < 0x20 \<or> byte a = 0x7F)"
| "has_control (a # b # s) =
     (byte a < 0x20 \<or> byte a = 0x7F \<or> byte a = 0xC2 \<and> 0x80 \<le> byte b \<and> byte b \<le> 0x9F \<or>
      has_control (b # s))"

definition ascii_lower :: "char \<Rightarrow> bool" where
  "ascii_lower c = (97 \<le> byte c \<and> byte c \<le> 122)"

definition ascii_digit :: "char \<Rightarrow> bool" where
  "ascii_digit c = (48 \<le> byte c \<and> byte c \<le> 57)"

text \<open>
  The constructors of the text newtypes trim their argument and refuse what is left when it is
  empty, too long or holds a control character.
\<close>

definition plain_text :: "string \<Rightarrow> string \<Rightarrow> string result" where
  "plain_text field raw =
     (let trimmed = trim raw in
      if trimmed = [] then Inl (EmptyField field)
      else if has_control trimmed then Inl (InvalidCharacters field)
      else Inr trimmed)"

definition bounded_text :: "string \<Rightarrow> nat \<Rightarrow> string \<Rightarrow> string result" where
  "bounded_text field max_len raw =
     (let trimmed = trim raw in
      if trimmed = [] then Inl (EmptyField field)
      else if max_len < length trimmed then Inl (FieldTooLong field (length trimmed) max_len)
      else if has_control trimmed then Inl (InvalidCharacters field)
      else Inr trimmed)"

definition MAX_ID_LEN :: nat where
  "MAX_ID_LEN = 256"

definition validate_id :: "string \<Rightarrow> string \<Rightarrow> string result" where
  "validate_id field raw = bounded_text field MAX_ID_LEN raw"

definition role_id_new :: "string \<Rightarrow> string result" where
  "role_id_new raw = plain_text ''role_id'' raw"

definition lease_owner_id_new :: "string \<Rightarrow> string result" where
  "lease_owner_id_new raw = plain_text ''lease_owner_id'' raw"

definition idempotency_key_new :: "string \<Rightarrow> string result" where
  "idempotency_key_new raw = plain_text ''idempotency_key'' raw"

definition step_output_field_new :: "string \<Rightarrow> string result" where
  "step_output_field_new raw = plain_text ''step_output_field'' raw"

definition MAX_ERROR_MESSAGE_LEN :: nat where
  "MAX_ERROR_MESSAGE_LEN = 2048"

definition step_error_message_new :: "string \<Rightarrow> string result" where
  "step_error_message_new raw = bounded_text ''step_error_message'' MAX_ERROR_MESSAGE_LEN raw"

definition LIFECYCLE_REASON_MAX_LEN :: nat where
  "LIFECYCLE_REASON_MAX_LEN = 1000"

definition lifecycle_reason_new :: "string \<Rightarrow> string result" where
  "lifecycle_reason_new raw =
     (let v = trim raw in
      if v = [] then Inl (EmptyField ''lifecycle_reason'')
      else if LIFECYCLE_REASON_MAX_LEN < length v
      then Inl (FieldTooLong ''lifecycle_reason'' (length v) LIFECYCLE_REASON_MAX_LEN)
      else Inr v)"

text \<open>The number of characters of a string: its bytes that do not continue a character.\<close>

definition char_count :: "string \<Rightarrow> nat" where
  "char_count s = length (filter (\<lambda>c. \<not> (0x80 \<le> byte c \<and> byte c < 0xC0)) s)"

definition step_id_new :: "string \<Rightarrow> string result" where
  "step_id_new raw =
     (let trimmed = trim raw in
      if trimmed = [] then Inl (EmptyField ''step_id'')
      else if list_ex (\<lambda>c. \<not> (ascii_lower c \<or> ascii_digit c \<or> c = CHR ''_'')) trimmed
      then Inl (InvalidCharacters ''step_id'')
      else Inr trimmed)"

definition context_key_new :: "string \<Rightarrow> string result" where
  "context_key_new raw = plain_text ''context_key'' raw"

definition strip_prefix :: "string \<Rightarrow> string \<Rightarrow> string option" where
  "strip_prefix p s = (if prefix p s then Some (drop (length p) s) else None)"

definition context_key_from_role_from :: "string \<Rightarrow> string result" where
  "context_key_from_role_from raw =
     (case strip_prefix ''context.'' raw of
        None \<Rightarrow> Inl (InvariantViolated ''dynamic role binding must use context.<key>'')
      | Some key \<Rightarrow> context_key_new key)"

definition context_key_role_from :: "string \<Rightarrow> string" where
  "context_key_role_from key = ''context.'' @ key"

definition MAX_HANDLER_KIND_LEN :: nat where
  "MAX_HANDLER_KIND_LEN = 128"

definition step_handler_kind_new :: "string \<Rightarrow> string result" where
  "step_handler_kind_new raw =
     (let trimmed = trim raw in
      if trimmed = [] then Inl (EmptyField ''step_handler_kind'')
      else if MAX_HANDLER_KIND_LEN < length trimmed
      then Inl (FieldTooLong ''step_handler_kind'' (length trimmed) MAX_HANDLER_KIND_LEN)
      else if list_ex (\<lambda>c. \<not> (ascii_lower c \<or> ascii_digit c \<or> c \<in> {CHR ''_'', CHR ''-'', CHR ''.''}))
                trimmed
      then Inl (InvalidCharacters ''step_handler_kind'')
      else Inr trimmed)"


section \<open>JSON values and attributes\<close>

datatype json_number = PosInt nat | NegInt int | Float string

datatype json =
    JNull
  | JBool bool
  | JNumber json_number
  | JString string
  | JArray "json list"
  | JObject "(string \<times> json) list"

fun as_bool :: "json \<Rightarrow> bool option" where
  "as_bool (JBool b) = Some b"
| "as_bool _ = None"

fun as_str :: "json \<Rightarrow> string option" where
  "as_str (JString s) = Some s"
| "as_str _ = None"

type_synonym attributes = "(string, json) bmap"

definition MAX_ATTRIBUTES_KEYS :: nat where
  "MAX_ATTRIBUTES_KEYS = 1024"

definition attributes_new :: "(string, json) bmap \<Rightarrow> attributes result" where
  "attributes_new entries =
     (if MAX_ATTRIBUTES_KEYS < length entries
      then Inl (OutOfRange ''attributes.keys'' (int (length entries)) 0 (int MAX_ATTRIBUTES_KEYS))
      else if list_ex (\<lambda>key. trim key = []) (bm_keys entries)
      then Inl (EmptyField ''attributes.key'')
      else Inr entries)"


section \<open>Ceremony context\<close>

type_synonym ceremony_context = attributes
type_synonym context_patch = "(string, json) bmap"
type_synonym context_writes = "(string, string) bmap"

definition with_guard_approval :: "ceremony_context \<Rightarrow> string \<Rightarrow> ceremony_context result" where
  "with_guard_approval ctx guard_name = attributes_new (bm_insert guard_name (JBool True) ctx)"

definition with_patch :: "ceremony_context \<Rightarrow> context_patch \<Rightarrow> ceremony_context result" where
  "with_patch ctx patch = attributes_new (bm_extend ctx patch)"

definition is_guard_approved :: "ceremony_context \<Rightarrow> string \<Rightarrow> bool" where
  "is_guard_approved ctx guard_name =
     (case bm_get ctx guard_name of
        None \<Rightarrow> False
      | Some v \<Rightarrow> (case as_bool v of None \<Rightarrow> False | Some b \<Rightarrow> b))"

definition context_patch_new :: "(string, json) bmap \<Rightarrow> context_patch result" where
  "context_patch_new entries =
     (if entries = [] then Inl (EmptyCollection ''context_patch.entries'') else Inr entries)"

definition context_writes_resolve :: "context_writes \<Rightarrow> attributes \<Rightarrow> context_patch option result" where
  "context_writes_resolve writes output =
     (if writes = [] then Inr None
      else and_then
        (try_fold
           (\<lambda>patch (destination, source).
              and_then
                (ok_or (bm_get output source)
                   (NotFound ''ceremony_step.context_write.output_field''))
                (\<lambda>v. Inr (bm_insert destination v patch)))
           [] writes)
        (\<lambda>patch. and_then (context_patch_new patch) (\<lambda>p. Inr (Some p))))"


section \<open>Execution profile\<close>

datatype fallback_policy = Reject | Fallback

datatype profile_inheritance =
  RoleDefault | StepDefault | CeremonyDefault | HostDefault | CheckpointProfile

record execution_profile =
  requested_model :: string
  requested_reasoning_effort :: string
  required_capabilities :: "string list"
  profile_fallback_policy :: fallback_policy
  fallback_model :: "string option"
  fallback_reasoning_effort :: "string option"
  actual_model :: string
  actual_reasoning_effort :: string
  actual_capabilities :: "string list"
  host_agent_id :: string
  host_agent_incarnation :: string
  inherited_from :: "profile_inheritance option"
  checkpoint_id :: "string option"
  handoff_from :: "string option"

definition MAX_PROFILE_TEXT :: nat where
  "MAX_PROFILE_TEXT = 256"

definition clean :: "string \<Rightarrow> string \<Rightarrow> string result" where
  "clean raw field = bounded_text field MAX_PROFILE_TEXT raw"

definition clean_list :: "string list \<Rightarrow> string \<Rightarrow> string list result" where
  "clean_list vs field = try_map (\<lambda>v. clean v field) vs"

definition clean_opt :: "string option \<Rightarrow> string \<Rightarrow> string option result" where
  "clean_opt v field =
     (case v of None \<Rightarrow> Inr None | Some x \<Rightarrow> and_then (clean x field) (\<lambda>y. Inr (Some y)))"

definition validate_resolution :: "execution_profile \<Rightarrow> unit result" where
  "validate_resolution p =
     (if list_ex (\<lambda>r. r \<notin> set (actual_capabilities p)) (required_capabilities p)
      then Inl (InvariantViolated
        ''actual execution profile capabilities do not satisfy required capabilities'')
      else case profile_fallback_policy p of
        Reject \<Rightarrow>
          if actual_model p \<noteq> requested_model p
             \<or> actual_reasoning_effort p \<noteq> requested_reasoning_effort p
          then Inl (InvariantViolated
            ''requested execution profile is unsupported and fallback_policy is reject'')
          else Inr ()
      | Fallback \<Rightarrow>
          if actual_model p \<noteq> requested_model p
             \<and> (case fallback_model p of None \<Rightarrow> False | Some f \<Rightarrow> f \<noteq> actual_model p)
          then Inl (InvariantViolated ''declared fallback model does not match actual model'')
          else if actual_reasoning_effort p \<noteq> requested_reasoning_effort p
             \<and> (case fallback_reasoning_effort p of
                   None \<Rightarrow> False | Some f \<Rightarrow> f \<noteq> actual_reasoning_effort p)
          then Inl (InvariantViolated
            ''declared fallback reasoning effort does not match actual effort'')
          else if actual_model p \<noteq> requested_model p
             \<and> fallback_model p \<noteq> Some (actual_model p)
          then Inl (InvariantViolated
            ''actual model is not the declared execution profile fallback'')
          else if actual_reasoning_effort p \<noteq> requested_reasoning_effort p
             \<and> fallback_reasoning_effort p \<noteq> Some (actual_reasoning_effort p)
          then Inl (InvariantViolated
            ''actual reasoning effort is not the declared execution profile fallback'')
          else Inr ())"

text \<open>\<open>ExecutionProfile::new\<close>; the raw argument values are the fields of \<open>p\<close>.\<close>

definition execution_profile_new :: "execution_profile \<Rightarrow> execution_profile result" where
  "execution_profile_new p =
     and_then (clean (requested_model p) ''execution_profile.requested_model'') (\<lambda>rm.
     and_then (clean (requested_reasoning_effort p)
       ''execution_profile.requested_reasoning_effort'') (\<lambda>re.
     and_then (clean_list (required_capabilities p)
       ''execution_profile.required_capabilities'') (\<lambda>rc.
     and_then (clean_opt (fallback_model p) ''execution_profile.fallback_model'') (\<lambda>fm.
     and_then (clean_opt (fallback_reasoning_effort p)
       ''execution_profile.fallback_reasoning_effort'') (\<lambda>fe.
     and_then (clean (actual_model p) ''execution_profile.actual_model'') (\<lambda>am.
     and_then (clean (actual_reasoning_effort p)
       ''execution_profile.actual_reasoning_effort'') (\<lambda>ae.
     and_then (clean_list (actual_capabilities p)
       ''execution_profile.actual_capabilities'') (\<lambda>ac.
     and_then (clean (host_agent_id p) ''execution_profile.host_agent_id'') (\<lambda>ha.
     and_then (clean (host_agent_incarnation p)
       ''execution_profile.host_agent_incarnation'') (\<lambda>hi.
     and_then (clean_opt (checkpoint_id p) ''execution_profile.checkpoint_id'') (\<lambda>ck.
     and_then (clean_opt (handoff_from p) ''execution_profile.handoff_from'') (\<lambda>hf.
       let q = \<lparr>requested_model = rm, requested_reasoning_effort = re,
                required_capabilities = rc,
                profile_fallback_policy = profile_fallback_policy p,
                fallback_model = fm, fallback_reasoning_effort = fe,
                actual_model = am, actual_reasoning_effort = ae, actual_capabilities = ac,
                host_agent_id = ha, host_agent_incarnation = hi,
                inherited_from = inherited_from p, checkpoint_id = ck, handoff_from = hf\<rparr>
       in and_then (validate_resolution q) (\<lambda>_. Inr q)))))))))))))"


section \<open>Lemmas on text\<close>

lemma ws_len_take: "0 < ws_len (take n s) \<Longrightarrow> 0 < ws_len s"
proof -
  have "ws_len s = 0 \<Longrightarrow> ws_len (take n s) = 0"
    by (cases s rule: ws_len.cases; cases "n = 0"; cases "n = 1"; cases "n = 2")
       (auto simp: take_Cons' split: if_splits)
  then show "0 < ws_len (take n s) \<Longrightarrow> 0 < ws_len s" by linarith
qed

lemma trim_start_fixed: "ws_len s = 0 \<Longrightarrow> trim_start s = s"
  by (simp add: trim_start.simps)

lemma trim_rev_fixed: "ws_len_rev s = 0 \<Longrightarrow> trim_rev s = s"
  by (simp add: trim_rev.simps)

lemma ws_len_trim_start: "ws_len (trim_start s) = 0"
proof (induction s rule: trim_start.induct)
  case (1 s)
  show ?case by (subst trim_start.simps) (use 1 in simp)
qed

lemma ws_len_trim_rev: "ws_len_rev (trim_rev s) = 0"
proof (induction s rule: trim_rev.induct)
  case (1 s)
  show ?case by (subst trim_rev.simps) (use 1 in simp)
qed

lemma trim_rev_suffix: "\<exists>n. trim_rev s = drop n s"
proof (induction s rule: trim_rev.induct)
  case (1 s)
  show ?case
    by (subst trim_rev.simps) (use 1 in \<open>auto intro: exI [of _ 0]\<close>)
qed

lemma trim_end_prefix: "\<exists>n. trim_end s = take n s"
proof -
  obtain n where "trim_rev (rev s) = drop n (rev s)" using trim_rev_suffix by blast
  then have "trim_end s = take (length s - n) s"
    by (simp add: trim_end_def rev_drop)
  then show ?thesis ..
qed

lemma trim_idem [simp]: "trim (trim s) = trim s"
proof -
  obtain n where n: "trim s = take n (trim_start s)"
    using trim_end_prefix [of "trim_start s"] by (auto simp: trim_def)
  have "ws_len (trim s) = 0"
    using ws_len_take [of n "trim_start s"] ws_len_trim_start [of s] n by auto
  moreover have "ws_len_rev (rev (trim s)) = 0"
    by (simp add: trim_def trim_end_def ws_len_trim_rev)
  ultimately show ?thesis
    by (simp add: trim_def [of "trim s"] trim_start_fixed trim_end_def trim_rev_fixed)
qed

lemma plain_text_Inr:
  "plain_text f raw = Inr v \<longleftrightarrow> v = trim raw \<and> v \<noteq> [] \<and> \<not> has_control v"
  by (auto simp: plain_text_def Let_def)

lemma bounded_text_Inr:
  "bounded_text f n raw = Inr v \<longleftrightarrow>
     v = trim raw \<and> v \<noteq> [] \<and> length v \<le> n \<and> \<not> has_control v"
  by (auto simp: bounded_text_def Let_def)

text \<open>Validated text is a fixed point of its constructor.\<close>

lemma plain_text_idem: "plain_text f raw = Inr v \<Longrightarrow> plain_text f v = Inr v"
  by (auto simp: plain_text_Inr)

lemma bounded_text_idem: "bounded_text f n raw = Inr v \<Longrightarrow> bounded_text f n v = Inr v"
  by (auto simp: bounded_text_Inr)


section \<open>Lemmas on attributes and the context\<close>

lemma attributes_new_Inr:
  "attributes_new m = Inr m' \<longleftrightarrow>
     m' = m \<and> length m \<le> MAX_ATTRIBUTES_KEYS \<and> (\<forall>k \<in> set (bm_keys m). trim k \<noteq> [])"
  by (auto simp: attributes_new_def list_ex_iff)

lemma bm_get_extend:
  "bm_get (bm_extend m xs) k = (case map_of (rev xs) k of None \<Rightarrow> bm_get m k | Some v \<Rightarrow> Some v)"
  unfolding bm_extend_def using bm.get_inserts by blast

lemma with_guard_approval_approves:
  "with_guard_approval ctx g = Inr ctx' \<Longrightarrow> is_guard_approved ctx' g"
  by (auto simp: with_guard_approval_def attributes_new_Inr is_guard_approved_def)

lemma resolve_fold:
  assumes "try_fold
      (\<lambda>patch (destination, source).
          and_then (ok_or (bm_get output source) e) (\<lambda>v. Inr (bm_insert destination v patch)))
      p ws = Inr q"
    and "distinct (map fst ws)"
  shows "bm_get q k = (case map_of ws k of None \<Rightarrow> bm_get p k | Some f \<Rightarrow> bm_get output f)"
  using assms
proof (induction ws arbitrary: p)
  case (Cons w ws)
  obtain d f where w: "w = (d, f)" by (cases w)
  with Cons.prems obtain v where v: "bm_get output f = Some v"
    and rest: "try_fold
      (\<lambda>patch (destination, source).
          and_then (ok_or (bm_get output source) e) (\<lambda>v. Inr (bm_insert destination v patch)))
      (bm_insert d v p) ws = Inr q"
    by (auto elim!: and_then_InrE)
  have "map_of ws d = None" using Cons.prems(2) w by (simp add: map_of_eq_None_iff)
  then show ?case
    using Cons.IH [OF rest] Cons.prems(2) w v by (auto split: option.splits)
qed simp

lemma bm_wf_distinct: "bm_wf m \<Longrightarrow> distinct (map fst m)"
  using bm.keys_distinct by (auto simp: bm_keys_def)

text \<open>A resolved patch binds exactly the declared destinations, each to its output field.\<close>

lemma context_writes_resolve_get:
  assumes "context_writes_resolve ws output = Inr (Some p)" and "bm_wf ws"
  shows "bm_get p k = (case bm_get ws k of None \<Rightarrow> None | Some f \<Rightarrow> bm_get output f)"
proof -
  from assms(1) obtain q where "try_fold
      (\<lambda>patch (destination, source).
          and_then (ok_or (bm_get output source)
            (NotFound ''ceremony_step.context_write.output_field''))
          (\<lambda>v. Inr (bm_insert destination v patch))) [] ws = Inr q" and q: "q = p"
    by (auto simp: context_writes_resolve_def context_patch_new_def
        split: if_splits elim!: and_then_InrE)
  from resolve_fold [OF this(1) bm_wf_distinct [OF assms(2)], of k]
  show ?thesis using q by (simp add: bm_get_def [of ws] split: option.splits)
qed

lemma validate_resolution_Inr:
  "validate_resolution p = Inr u \<longleftrightarrow>
     set (required_capabilities p) \<subseteq> set (actual_capabilities p) \<and>
     (actual_model p = requested_model p \<or>
        profile_fallback_policy p = Fallback \<and> fallback_model p = Some (actual_model p)) \<and>
     (actual_reasoning_effort p = requested_reasoning_effort p \<or>
        profile_fallback_policy p = Fallback \<and>
        fallback_reasoning_effort p = Some (actual_reasoning_effort p))"
  by (cases "profile_fallback_policy p")
     (auto simp: validate_resolution_def list_ex_iff split: option.splits)

end
