(* ===== verification/Digest_Encoding.thy ===== *)
theory Digest_Encoding
  imports Domain_Values
begin

text \<open>
  The byte string a derived identity is the SHA-256 of.  \<open>StepClaimFence::for_record\<close>,
  \<open>ChildGroupId::derive\<close> and \<open>ChildCeremonyId::derive\<close> all feed the hash with a domain-separation
  tag followed by length-delimited fields: the length of a field as eight big-endian bytes, then
  its bytes.  Numbers are rendered in decimal first.  The hash itself is third-party code: it is
  the parameter \<open>sha\<close> of the definitions that use it, the lower-case hexadecimal rendering of a
  digest.  What is shown here is that the encoding loses nothing.
\<close>


section \<open>Decimal rendering\<close>

definition digit_char :: "nat \<Rightarrow> char" where
  "digit_char d = char_of (48 + d)"

fun show_nat :: "nat \<Rightarrow> string" where
  "show_nat n = (if n < 10 then [digit_char n] else show_nat (n div 10) @ [digit_char (n mod 10)])"

declare show_nat.simps [simp del]

definition show_int :: "int \<Rightarrow> string" where
  "show_int i = (if i < 0 then CHR ''-'' # show_nat (nat (- i)) else show_nat (nat i))"

definition read_nat :: "string \<Rightarrow> nat" where
  "read_nat s = foldl (\<lambda>n c. n * 10 + (byte c - 48)) 0 s"

lemma byte_digit_char [simp]: "d < 10 \<Longrightarrow> byte (digit_char d) = 48 + d"
  by (simp add: byte_def digit_char_def)

lemma read_show_nat [simp]: "read_nat (show_nat n) = n"
proof (induction n rule: show_nat.induct)
  case (1 n)
  show ?case
  proof (cases "n < 10")
    case True
    then show ?thesis by (subst show_nat.simps) (simp add: read_nat_def)
  next
    case False
    have "read_nat (show_nat n) = read_nat (show_nat (n div 10)) * 10 + n mod 10"
      using False by (subst show_nat.simps) (simp add: read_nat_def)
    then show ?thesis using 1 [OF False] by simp
  qed
qed

lemma show_nat_inj: "show_nat m = show_nat n \<Longrightarrow> m = n"
  by (metis read_show_nat)

lemma show_nat_digits: "c \<in> set (show_nat n) \<Longrightarrow> ascii_digit c"
proof (induction n arbitrary: c rule: show_nat.induct)
  case (1 n)
  show ?case
  proof (cases "n < 10")
    case True
    with "1.prems" show ?thesis by (subst (asm) show_nat.simps) (simp add: ascii_digit_def)
  next
    case False
    with "1.prems" "1.IH" show ?thesis
      by (subst (asm) show_nat.simps) (auto simp: ascii_digit_def)
  qed
qed

lemma show_nat_not_Nil [simp]: "show_nat n \<noteq> []"
  by (subst show_nat.simps) simp

lemma show_nat_no_minus: "show_nat n \<noteq> CHR ''-'' # s"
  using show_nat_digits [of "CHR ''-''" n] by (auto simp: ascii_digit_def byte_def)

lemma show_int_inj: "show_int i = show_int j \<Longrightarrow> i = j"
  using show_nat_no_minus show_nat_inj
  by (auto simp: show_int_def split: if_splits dest!: show_nat_inj) (metis show_nat_no_minus)+


section \<open>Length-delimited fields\<close>

definition be64 :: "nat \<Rightarrow> string" where
  "be64 n = map (\<lambda>i. char_of (n div 256 ^ i mod 256)) [7, 6, 5, 4, 3, 2, 1, 0]"

text \<open>The same bytes through \<^typ>\<open>int\<close>, whose numerals are binary, for evaluation.\<close>

lemma char_of_int_digit: "char_of (int n div 256 ^ i mod 256) = (char_of (n div 256 ^ i mod 256) :: char)"
proof -
  have "int n div 256 ^ i mod 256 = int (n div 256 ^ i mod 256)"
    by (simp add: of_nat_mod of_nat_div)
  then show ?thesis by (simp add: char_of_def bit_of_nat_iff_bit)
qed

lemma be64_code [code]:
  "be64 n = (let k = int n in map (\<lambda>i. char_of (k div 256 ^ i mod 256)) [7, 6, 5, 4, 3, 2, 1, 0])"
  by (simp only: be64_def Let_def char_of_int_digit)

definition delimited :: "string list \<Rightarrow> string" where
  "delimited parts = concat (map (\<lambda>p. be64 (length p) @ p) parts)"

text \<open>The preimage of a derived identity.\<close>

definition digest_input :: "string \<Rightarrow> string list \<Rightarrow> string" where
  "digest_input tag parts = tag @ [CHR 0x00] @ delimited parts"

definition is_hex_digest :: "string \<Rightarrow> bool" where
  "is_hex_digest s = (length s = 64 \<and>
     list_all (\<lambda>c. ascii_digit c \<or> 97 \<le> byte c \<and> byte c \<le> 102) s)"

lemma be64_length [simp]: "length (be64 n) = 8"
  by (simp add: be64_def)

lemma base256_digits_eq:
  fixes m n :: nat
  assumes "\<And>i. i < k \<Longrightarrow> m div 256 ^ i mod 256 = n div 256 ^ i mod 256"
  shows "m mod 256 ^ k = n mod 256 ^ k"
  using assms
proof (induction k)
  case (Suc k)
  have "a mod 256 ^ Suc k = 256 ^ k * (a div 256 ^ k mod 256) + a mod 256 ^ k" for a :: nat
    by (metis mod_mult2_eq mult.commute power_Suc)
  then show ?case using Suc by (metis less_Suc_eq)
qed simp

lemma be64_digit: "i < 8 \<Longrightarrow> of_char (be64 n ! (7 - i)) = n div 256 ^ i mod 256"
proof -
  assume "i < 8"
  moreover from this have "[7, 6, 5, 4, 3, 2, 1, 0] ! (7 - i) = i"
    by (cases "i = 0"; cases "i = 1"; cases "i = 2"; cases "i = 3"; cases "i = 4"; cases "i = 5";
        cases "i = 6"; cases "i = 7") simp_all
  ultimately show ?thesis by (simp add: be64_def nth_map del: list.map) metis
qed

lemma be64_inj:
  assumes "be64 m = be64 n" and "m < 2 ^ 64" and "n < 2 ^ 64"
  shows "m = n"
proof -
  have "m mod 256 ^ 8 = n mod 256 ^ 8"
    by (rule base256_digits_eq) (metis assms(1) be64_digit)
  moreover have "(256::nat) ^ 8 = 2 ^ 64" by simp
  ultimately show ?thesis using assms(2,3) by (metis mod_less)
qed

lemma delimited_Cons: "delimited (p # ps) = be64 (length p) @ p @ delimited ps"
  by (simp add: delimited_def)

lemma delimited_inj:
  assumes "delimited ps = delimited qs"
    and "\<forall>p \<in> set ps. length p < 2 ^ 64" and "\<forall>q \<in> set qs. length q < 2 ^ 64"
  shows "ps = qs"
  using assms
proof (induction ps arbitrary: qs)
  case Nil
  then show ?case by (cases qs) (auto simp: delimited_def be64_def)
next
  case (Cons p ps)
  then obtain q qs' where qs: "qs = q # qs'"
    by (cases qs) (auto simp: delimited_def be64_def)
  with Cons.prems(1) have "be64 (length p) = be64 (length q)"
    and rest: "p @ delimited ps = q @ delimited qs'"
    by (simp_all add: delimited_Cons)
  moreover have "length p < 2 ^ 64" and "length q < 2 ^ 64"
    using Cons.prems qs by simp_all
  ultimately have "length p = length q" by (blast intro: be64_inj)
  with rest have "p = q" and "delimited ps = delimited qs'" by auto
  then show ?case using Cons qs by auto
qed

lemma digest_input_inj:
  assumes "digest_input tag ps = digest_input tag qs"
    and "\<forall>p \<in> set ps. length p < 2 ^ 64" and "\<forall>q \<in> set qs. length q < 2 ^ 64"
  shows "ps = qs"
  using assms by (auto simp: digest_input_def intro: delimited_inj)

end
