(* ===== verification/Step_Records.thy ===== *)
theory Step_Records
  imports Digest_Encoding
begin

text \<open>
  The execution of one step (\<open>value_objects/ceremony/step_*.rs\<close> and the counters beside them):
  attempts, iterations and visits as 32-bit words, the retry and repeat policies, the lease a
  worker holds, the result it reports, the execution record the ceremony keeps of the step, the
  fence that names one claim, and the deadlines that hang on a claim.  The lifecycle of a ceremony
  (\<open>ceremony_lifecycle.rs\<close>) is at the end.

  Times are \<open>int\<close>, nanoseconds since the Unix epoch; two \<open>OffsetDateTime\<close> are equal when they are
  the same instant.  What is not code of the repository is gathered in the record \<open>platform\<close>: the
  hexadecimal SHA-256, the checked addition of a duration to a time, and the JSON serialisation of
  an evidence pack (whose context items and references are kept as JSON values).
\<close>

record evidence_pack =
  pack_source_id :: string
  pack_summary :: "string option"
  pack_items :: "json list"
  pack_references :: "json list"
  pack_collected_at :: int

record platform =
  sha256_hex :: "string \<Rightarrow> string"
  datetime_checked_add :: "int \<Rightarrow> int \<Rightarrow> int option"
  evidence_pack_to_value :: "evidence_pack \<Rightarrow> json option"

text \<open>The documented behaviour of \<open>OffsetDateTime::checked_add\<close>: a result, if any, is the sum.\<close>

definition checked_add_sound :: "'a platform_scheme \<Rightarrow> bool" where
  "checked_add_sound env = (\<forall>t d r. datetime_checked_add env t d = Some r \<longrightarrow> r = t + d)"

definition nanos_of_millis :: "int \<Rightarrow> int" where
  "nanos_of_millis ms = ms * 1000000"


section \<open>Counters\<close>

type_synonym u8 = "8 word"
type_synonym u16 = "16 word"
type_synonym u32 = "32 word"
type_synonym u64 = "64 word"

definition saturating_inc :: "'a::len word \<Rightarrow> 'a word" where
  "saturating_inc w = (if w = - 1 then - 1 else w + 1)"

definition checked_inc :: "'a::len word \<Rightarrow> 'a word option" where
  "checked_inc w = (if w = - 1 then None else Some (w + 1))"

definition step_attempt_new :: "u32 \<Rightarrow> u32 result" where
  "step_attempt_new v = (if v = 0 then Inl (MustBeNonZero ''step_attempt'') else Inr v)"

definition step_attempt_next :: "u32 \<Rightarrow> u32 result" where
  "step_attempt_next a = step_attempt_new (saturating_inc a)"

definition MAX_STEP_ITERATIONS :: u32 where
  "MAX_STEP_ITERATIONS = 1000"

definition step_iteration_new :: "u32 \<Rightarrow> u32 result" where
  "step_iteration_new v =
     (if v = 0 then Inl (MustBeNonZero ''step_iteration'')
      else if MAX_STEP_ITERATIONS < v then Inl (OutOfRange ''step_iteration'' (uint v) 1 1000)
      else Inr v)"

definition step_iteration_next :: "u32 \<Rightarrow> u32 result" where
  "step_iteration_next i = step_iteration_new (saturating_inc i)"

definition MAX_STATE_ITERATIONS :: u32 where
  "MAX_STATE_ITERATIONS = 1000"

definition state_iteration_new :: "u32 \<Rightarrow> u32 result" where
  "state_iteration_new v =
     (if v = 0 then Inl (MustBeNonZero ''state_iteration'')
      else if MAX_STATE_ITERATIONS < v then Inl (OutOfRange ''state_iteration'' (uint v) 1 1000)
      else Inr v)"

definition state_iteration_next :: "u32 \<Rightarrow> u32 result" where
  "state_iteration_next i = state_iteration_new (saturating_inc i)"

definition state_visit_new :: "u32 \<Rightarrow> u32 result" where
  "state_visit_new v = (if v = 0 then Inl (MustBeNonZero ''state_visit'') else Inr v)"

definition state_visit_next :: "u32 \<Rightarrow> u32 result" where
  "state_visit_next v =
     ok_or (checked_inc v) (InvariantViolated ''state visit coordinate exhausted'')"

definition FIRST :: u32 where
  "FIRST = 1"


section \<open>Step status, results and policies\<close>

datatype step_status = Pending | InProgress | Completed | Failed | WaitingForHuman | Cancelled

definition is_executable :: "step_status \<Rightarrow> bool" where
  "is_executable s = (s \<in> {Pending, Failed, WaitingForHuman})"

definition status_is_terminal :: "step_status \<Rightarrow> bool" where
  "status_is_terminal s = (s \<in> {Completed, Failed, Cancelled})"

definition is_success :: "step_status \<Rightarrow> bool" where
  "is_success s = (s = Completed)"

datatype step_failure_kind = NoValidProposalFailure | TimeoutFailure

record step_result =
  res_status :: step_status
  res_output :: attributes
  res_error_message :: "string option"
  res_failure_kind :: "step_failure_kind option"

definition step_result_new ::
  "step_status \<Rightarrow> attributes \<Rightarrow> string option \<Rightarrow> step_result result" where
  "step_result_new status output error_message =
     (if status \<in> {Pending, InProgress}
      then Inl (InvariantViolated ''step result status must be observable'')
      else if status = Failed \<and> error_message = None
      then Inl (EmptyField ''step_result.error_message'')
      else if status \<noteq> Failed \<and> error_message \<noteq> None
      then Inl (InvariantViolated ''only failed step results may carry an error message'')
      else Inr \<lparr>res_status = status, res_output = output, res_error_message = error_message,
                res_failure_kind = None\<rparr>)"

definition step_result_completed :: "attributes \<Rightarrow> step_result result" where
  "step_result_completed output = step_result_new Completed output None"

definition step_result_waiting_for_human :: "attributes \<Rightarrow> step_result result" where
  "step_result_waiting_for_human output = step_result_new WaitingForHuman output None"

definition step_result_failed :: "string \<Rightarrow> step_result result" where
  "step_result_failed message = step_result_new Failed [] (Some message)"

definition step_result_timed_out :: "step_result result" where
  "step_result_timed_out =
     and_then (step_error_message_new ''step deadline exceeded'') (\<lambda>message.
     and_then (step_result_failed message) (\<lambda>r.
       Inr (r\<lparr>res_failure_kind := Some TimeoutFailure\<rparr>)))"

record retry_policy =
  max_attempts :: u32
  backoff :: u64

definition allows_attempt :: "retry_policy \<Rightarrow> u32 \<Rightarrow> bool" where
  "allows_attempt p attempt = (attempt \<le> max_attempts p)"

datatype repeat_until = OutputFieldEquals string json

record step_repeat_policy =
  step_repeat_until :: repeat_until
  step_max_iterations :: u32

fun repeat_until_is_satisfied :: "repeat_until \<Rightarrow> attributes \<Rightarrow> bool" where
  "repeat_until_is_satisfied (OutputFieldEquals field expected) output =
     (bm_get output field = Some expected)"

definition step_repeat_is_satisfied :: "step_repeat_policy \<Rightarrow> attributes \<Rightarrow> bool" where
  "step_repeat_is_satisfied p output = repeat_until_is_satisfied (step_repeat_until p) output"

definition step_repeat_permits_another :: "step_repeat_policy \<Rightarrow> u32 \<Rightarrow> bool" where
  "step_repeat_permits_another p current = (current < step_max_iterations p)"


section \<open>Leases\<close>

record step_lease =
  lease_owner_id :: string
  lease_idempotency_key :: string
  lease_acquired_at :: int
  lease_expires_at :: int
  lease_execution_profile :: "execution_profile option"

definition step_lease_new :: "string \<Rightarrow> string \<Rightarrow> int \<Rightarrow> int \<Rightarrow> step_lease result" where
  "step_lease_new owner key acquired_at expires_at =
     (if expires_at \<le> acquired_at
      then Inl (InvariantViolated ''step lease must expire after it is acquired'')
      else Inr \<lparr>lease_owner_id = owner, lease_idempotency_key = key,
                lease_acquired_at = acquired_at, lease_expires_at = expires_at,
                lease_execution_profile = None\<rparr>)"

definition I64_MAX :: int where
  "I64_MAX = 2 ^ 63 - 1"

definition step_lease_acquire ::
  "platform \<Rightarrow> string \<Rightarrow> string \<Rightarrow> int \<Rightarrow> u64 \<Rightarrow> step_lease result" where
  "step_lease_acquire env owner key acquired_at ttl =
     (if I64_MAX < uint ttl
      then Inl (OutOfRange ''step_lease.ttl_ms'' (uint ttl) 0 I64_MAX)
      else and_then
        (ok_or (datetime_checked_add env acquired_at (nanos_of_millis (uint ttl)))
           (OutOfRange ''step_lease.expires_at'' (uint ttl) 0 I64_MAX))
        (\<lambda>expires_at. step_lease_new owner key acquired_at expires_at))"

definition is_expired_at :: "step_lease \<Rightarrow> int \<Rightarrow> bool" where
  "is_expired_at l now = (lease_expires_at l \<le> now)"


section \<open>Execution records\<close>

record source_record_ref =
  src_ceremony_id :: string
  src_step_id :: string
  src_event_id :: string
  src_record_hash :: string
  src_state_visit :: u32
  src_attempt :: u32

record step_record =
  rec_status :: step_status
  rec_state_iteration :: u32
  rec_state_visit :: u32
  rec_iteration :: u32
  rec_attempt :: u32
  rec_lease :: "step_lease option"
  rec_renewed_expires_at :: "int option"
  rec_output :: attributes
  rec_error_message :: "string option"
  rec_claimed_role :: "string option"
  rec_budget_reservation_id :: "string option"
  rec_carried_from :: "source_record_ref option"

definition record_pending :: step_record where
  "record_pending = \<lparr>rec_status = Pending, rec_state_iteration = FIRST, rec_state_visit = FIRST,
     rec_iteration = FIRST, rec_attempt = FIRST, rec_lease = None,
     rec_renewed_expires_at = None, rec_output = [], rec_error_message = None,
     rec_claimed_role = None, rec_budget_reservation_id = None, rec_carried_from = None\<rparr>"

definition pending_state_iteration :: "u32 \<Rightarrow> step_record" where
  "pending_state_iteration state_iteration =
     record_pending\<lparr>rec_state_iteration := state_iteration\<rparr>"

definition pending_coordinates :: "u32 \<Rightarrow> u32 \<Rightarrow> step_record" where
  "pending_coordinates state_iteration iteration =
     record_pending\<lparr>rec_state_iteration := state_iteration, rec_iteration := iteration\<rparr>"

definition with_state_visit :: "step_record \<Rightarrow> u32 \<Rightarrow> step_record" where
  "with_state_visit r visit = r\<lparr>rec_state_visit := visit\<rparr>"

definition next_start_attempt :: "step_record \<Rightarrow> u32 result" where
  "next_start_attempt r =
     (if rec_status r \<in> {Failed, InProgress} then step_attempt_next (rec_attempt r)
      else Inr (rec_attempt r))"

definition effective_lease_expires_at :: "step_record \<Rightarrow> int option" where
  "effective_lease_expires_at r =
     (case rec_renewed_expires_at r of
        Some e \<Rightarrow> Some e
      | None \<Rightarrow> map_option lease_expires_at (rec_lease r))"

definition renew_lease_until :: "step_record \<Rightarrow> int \<Rightarrow> step_record" where
  "renew_lease_until r expires_at = r\<lparr>rec_renewed_expires_at := Some expires_at\<rparr>"

definition can_be_started_at :: "step_record \<Rightarrow> int \<Rightarrow> bool" where
  "can_be_started_at r now =
     (is_executable (rec_status r) \<or>
      rec_status r = InProgress \<and>
      (case effective_lease_expires_at r of None \<Rightarrow> False | Some expiry \<Rightarrow> expiry \<le> now))"

definition has_live_lease_at :: "step_record \<Rightarrow> int \<Rightarrow> bool" where
  "has_live_lease_at r now =
     (rec_status r = InProgress \<and>
      (case effective_lease_expires_at r of None \<Rightarrow> False | Some expiry \<Rightarrow> now < expiry))"

definition with_started ::
  "step_record \<Rightarrow> step_lease \<Rightarrow> u32 \<Rightarrow> string option \<Rightarrow> step_record" where
  "with_started r lease attempt claimed_role =
     r\<lparr>rec_status := InProgress, rec_attempt := attempt, rec_lease := Some lease,
       rec_renewed_expires_at := None, rec_error_message := None,
       rec_claimed_role := claimed_role\<rparr>"

definition with_budget_reservation :: "step_record \<Rightarrow> string option \<Rightarrow> step_record" where
  "with_budget_reservation r reservation_id = r\<lparr>rec_budget_reservation_id := reservation_id\<rparr>"

definition with_result :: "step_record \<Rightarrow> step_result \<Rightarrow> step_record" where
  "with_result r result =
     r\<lparr>rec_status := res_status result, rec_lease := None, rec_renewed_expires_at := None,
       rec_output := res_output result, rec_error_message := res_error_message result\<rparr>"

definition carried ::
  "attributes \<Rightarrow> source_record_ref \<Rightarrow> u32 \<Rightarrow> u32 \<Rightarrow> step_record" where
  "carried output source state_iteration state_visit =
     record_pending\<lparr>rec_status := Completed, rec_state_iteration := state_iteration,
             rec_state_visit := state_visit, rec_output := output,
             rec_carried_from := Some source\<rparr>"

record state_repeat_until =
  state_repeat_step_id :: string
  state_repeat_output_field :: string
  state_repeat_equals :: json

record state_repeat_policy =
  state_max_iterations :: u32
  state_repeat_until_condition :: state_repeat_until

definition state_repeat_until_is_satisfied :: "state_repeat_until \<Rightarrow> step_record \<Rightarrow> bool" where
  "state_repeat_until_is_satisfied c r =
     (is_success (rec_status r) \<and>
      bm_get (rec_output r) (state_repeat_output_field c) = Some (state_repeat_equals c))"

definition state_repeat_is_satisfied :: "state_repeat_policy \<Rightarrow> step_record \<Rightarrow> bool" where
  "state_repeat_is_satisfied p r =
     state_repeat_until_is_satisfied (state_repeat_until_condition p) r"

definition state_repeat_permits_another :: "state_repeat_policy \<Rightarrow> u32 \<Rightarrow> bool" where
  "state_repeat_permits_another p current = (current < state_max_iterations p)"


section \<open>Claim fences\<close>

definition claim_fence_new :: "string \<Rightarrow> string result" where
  "claim_fence_new v = (if is_hex_digest v then Inr v else Inl (InvalidCharacters ''claim_fence''))"

definition claim_fence_parts :: "string \<Rightarrow> string \<Rightarrow> step_record \<Rightarrow> step_lease \<Rightarrow> string list" where
  "claim_fence_parts instance_id step_id r lease =
     [instance_id, step_id,
      show_nat (unat (rec_state_visit r)), show_nat (unat (rec_state_iteration r)),
      show_nat (unat (rec_iteration r)), show_nat (unat (rec_attempt r)),
      lease_owner_id lease, lease_idempotency_key lease,
      show_int (lease_acquired_at lease), show_int (lease_expires_at lease)]"

definition claim_fence_for_record ::
  "platform \<Rightarrow> string \<Rightarrow> string \<Rightarrow> step_record \<Rightarrow> string result" where
  "claim_fence_for_record env instance_id step_id r =
     and_then (ok_or (rec_lease r) (InvariantViolated ''claim fence requires a step lease''))
       (\<lambda>lease. Inr (sha256_hex env
          (digest_input ''made.step-claim-fence.v1''
             (claim_fence_parts instance_id step_id r lease))))"


section \<open>Deadlines and late results\<close>

record step_deadline =
  sd_step_id :: string
  sd_state_visit :: u32
  sd_state_iteration :: u32
  sd_step_iteration :: u32
  sd_attempt :: u32
  sd_claim_fence :: string
  sd_finished_by :: string
  sd_at :: int

record state_deadline =
  std_state_id :: string
  std_state_visit :: u32
  std_at :: int

record late_step_result =
  late_step_id :: string
  late_state_visit :: u32
  late_state_iteration :: u32
  late_step_iteration :: u32
  late_attempt :: u32
  late_claim_fence :: string
  late_result :: step_result
  late_finished_by :: string


section \<open>Lifecycle\<close>

datatype ceremony_end_reason =
  EndCompleted | EndCancelled | EndCeremonyDeadline | EndStateDeadline

record ceremony_lifecycle =
  phase :: lifecycle_phase
  end_reason :: "ceremony_end_reason option"
  lifecycle_reason :: "string option"
  changed_at :: "int option"

definition lifecycle_default :: ceremony_lifecycle where
  "lifecycle_default =
     \<lparr>phase = Running, end_reason = None, lifecycle_reason = None, changed_at = None\<rparr>"

definition lifecycle_completed :: "int \<Rightarrow> ceremony_lifecycle" where
  "lifecycle_completed at =
     \<lparr>phase = Ended, end_reason = Some EndCompleted, lifecycle_reason = None,
      changed_at = Some at\<rparr>"

definition lifecycle_admits_new_work :: "ceremony_lifecycle \<Rightarrow> bool" where
  "lifecycle_admits_new_work l = (phase l = Running)"

definition lifecycle_is_explicit :: "ceremony_lifecycle \<Rightarrow> bool" where
  "lifecycle_is_explicit l = (changed_at l \<noteq> None)"

definition lifecycle_pause :: "ceremony_lifecycle \<Rightarrow> string \<Rightarrow> int \<Rightarrow> ceremony_lifecycle" where
  "lifecycle_pause l reason at =
     l\<lparr>phase := Paused, lifecycle_reason := Some reason, changed_at := Some at\<rparr>"

definition lifecycle_resume :: "ceremony_lifecycle \<Rightarrow> int \<Rightarrow> ceremony_lifecycle" where
  "lifecycle_resume l at =
     l\<lparr>phase := Running, lifecycle_reason := None, changed_at := Some at\<rparr>"

definition lifecycle_end ::
  "ceremony_lifecycle \<Rightarrow> ceremony_end_reason \<Rightarrow> string option \<Rightarrow> int \<Rightarrow> ceremony_lifecycle" where
  "lifecycle_end l reason why at =
     l\<lparr>phase := Ended, end_reason := Some reason, lifecycle_reason := why,
       changed_at := Some at\<rparr>"


section \<open>Lemmas\<close>

lemma checked_inc_Some:
  "checked_inc w = Some w' \<longleftrightarrow> w \<noteq> - 1 \<and> w' = w + 1"
  by (auto simp: checked_inc_def)

lemma unat_inc: "w \<noteq> - 1 \<Longrightarrow> unat (w + 1) = Suc (unat w)" for w :: "'a::len word"
proof -
  assume "w \<noteq> - 1"
  then have "w + 1 \<noteq> 0" by (metis add.inverse_unique add.commute)
  then show ?thesis using unatSuc [of w] by (simp add: add.commute)
qed

lemma state_visit_next_Inr:
  "state_visit_next v = Inr v' \<Longrightarrow> unat v' = Suc (unat v)"
  by (auto simp: state_visit_next_def checked_inc_Some unat_inc)

lemma saturating_inc_mono: "w \<le> saturating_inc w" for w :: "'a::len word"
  by (simp add: saturating_inc_def word_le_nat_alt unat_inc)

lemma iteration_next_Inr:
  assumes "state_iteration_next i = Inr j"
  shows "unat j = Suc (unat i)" and "j \<le> MAX_STATE_ITERATIONS"
  using assms
  by (auto simp: state_iteration_next_def state_iteration_new_def saturating_inc_def
      MAX_STATE_ITERATIONS_def unat_inc split: if_splits)

lemma step_iteration_next_Inr:
  assumes "step_iteration_next i = Inr j"
  shows "unat j = Suc (unat i)" and "j \<le> MAX_STEP_ITERATIONS"
  using assms
  by (auto simp: step_iteration_next_def step_iteration_new_def saturating_inc_def
      MAX_STEP_ITERATIONS_def unat_inc split: if_splits)

lemma step_attempt_next_total: "\<exists>a'. step_attempt_next a = Inr a' \<and> a \<le> a'"
proof -
  have "saturating_inc a \<noteq> 0"
    by (auto simp: saturating_inc_def) (metis add.inverse_unique add.commute)
  then show ?thesis
    by (auto simp: step_attempt_next_def step_attempt_new_def saturating_inc_mono)
qed

lemma next_start_attempt_total: "\<exists>a. next_start_attempt r = Inr a \<and> rec_attempt r \<le> a"
  using step_attempt_next_total by (auto simp: next_start_attempt_def)

text \<open>A record that may be started holds no live lease; a record in progress with a lease is one
  or the other at every time.\<close>

lemma startable_not_live: "can_be_started_at r now \<Longrightarrow> \<not> has_live_lease_at r now"
  by (auto simp: can_be_started_at_def has_live_lease_at_def is_executable_def
      split: option.splits)

lemma in_progress_startable_or_live:
  "rec_status r = InProgress \<Longrightarrow> effective_lease_expires_at r \<noteq> None \<Longrightarrow>
     can_be_started_at r now = (\<not> has_live_lease_at r now)"
  by (auto simp: can_be_started_at_def has_live_lease_at_def is_executable_def
      split: option.splits)

lemma with_started_live:
  "has_live_lease_at (with_started r lease a role) now \<longleftrightarrow> now < lease_expires_at lease"
  by (simp add: has_live_lease_at_def with_started_def effective_lease_expires_at_def)

lemma with_result_not_live:
  "res_status result \<noteq> InProgress \<Longrightarrow> \<not> has_live_lease_at (with_result r result) now"
  by (simp add: has_live_lease_at_def with_result_def)

lemma step_result_new_Inr:
  "step_result_new status output message = Inr r \<Longrightarrow>
     res_status r = status \<and> res_output r = output \<and> res_error_message r = message \<and>
     status \<notin> {Pending, InProgress} \<and> (status = Failed \<longleftrightarrow> message \<noteq> None)"
  by (auto simp: step_result_new_def split: if_splits)

lemma step_lease_acquire_Inr:
  assumes "step_lease_acquire env owner key t ttl = Inr l" and "checked_add_sound env"
  shows "lease_owner_id l = owner" and "lease_idempotency_key l = key"
    and "lease_acquired_at l = t" and "lease_expires_at l = t + nanos_of_millis (uint ttl)"
  using assms
  by (auto simp: step_lease_acquire_def step_lease_new_def checked_add_sound_def
      split: if_splits elim!: and_then_InrE)

text \<open>The coordinates of a claim: what its fence is derived from.\<close>

definition claim_coordinates ::
  "string \<Rightarrow> string \<Rightarrow> step_record \<Rightarrow> step_lease \<Rightarrow>
     (string \<times> string) \<times> (u32 \<times> u32 \<times> u32 \<times> u32) \<times> (string \<times> string \<times> int \<times> int)" where
  "claim_coordinates instance_id step_id r lease =
     ((instance_id, step_id),
      (rec_state_visit r, rec_state_iteration r, rec_iteration r, rec_attempt r),
      (lease_owner_id lease, lease_idempotency_key lease,
       lease_acquired_at lease, lease_expires_at lease))"

lemma claim_fence_parts_inj:
  "claim_fence_parts i s r l = claim_fence_parts i' s' r' l' \<longleftrightarrow>
     claim_coordinates i s r l = claim_coordinates i' s' r' l'"
  by (auto simp: claim_fence_parts_def claim_coordinates_def word_unat_eq_iff
      dest!: show_nat_inj show_int_inj)

end
