(* ===== verification/Ceremony_Values.thy ===== *)
theory Ceremony_Values
  imports Step_Records
begin

text \<open>
  The values a ceremony records beside its steps (\<open>value_objects/ceremony\<close>, \<open>memory\<close> and
  \<open>execution\<close>): recollections, transition and guard-decision records, reasons, child groups with
  their lineage and spawn plans, succession plans, and execution receipts.
\<close>


section \<open>Recollections\<close>

datatype memory_entry_kind = Decision | Observation | Constraint | Outcome
datatype memory_confidence = High | Medium | Low
datatype recollection_completeness = Whole | Truncated

record recalled_entry =
  recalled_id :: string
  recalled_kind :: memory_entry_kind
  recalled_summary :: string
  recalled_from_ceremony :: string
  recalled_observed_at :: int

record session_recollection =
  recollection_scope :: string
  recollection_entries :: "recalled_entry list"
  recollection_completeness :: recollection_completeness

definition leads :: "memory_entry_kind \<Rightarrow> bool" where
  "leads k = (k \<in> {Decision, Constraint})"

definition recalled_cost :: "recalled_entry \<Rightarrow> nat" where
  "recalled_cost e = length (recalled_summary e)"

definition USIZE_MAX :: nat where
  "USIZE_MAX = 2 ^ 64 - 1"

text \<open>
  The loop of \<open>SessionRecollection::rendered\<close>: entries are taken while their running cost fits
  the budget; the first that does not stops it.  The entries are already rendered
  (\<open>RecalledEntry::of\<close> copies fields of a memory entry).
\<close>

fun take_within :: "nat \<Rightarrow> nat \<Rightarrow> recalled_entry list \<Rightarrow>
    recalled_entry list \<times> recollection_completeness" where
  "take_within budget spent [] = ([], Whole)"
| "take_within budget spent (e # es) =
     (if spent + recalled_cost e \<le> USIZE_MAX \<and> spent + recalled_cost e \<le> budget
      then (case take_within budget (spent + recalled_cost e) es of (xs, c) \<Rightarrow> (e # xs, c))
      else ([], Truncated))"

definition recollection_rendered :: "string \<Rightarrow> recalled_entry list \<Rightarrow> nat \<Rightarrow> session_recollection" where
  "recollection_rendered scope recalled budget =
     (let ordered = filter (\<lambda>e. leads (recalled_kind e)) recalled
                    @ filter (\<lambda>e. \<not> leads (recalled_kind e)) recalled;
          taken = take_within budget 0 ordered
      in \<lparr>recollection_scope = scope, recollection_entries = fst taken,
          recollection_completeness = snd taken\<rparr>)"


section \<open>Transitions, guard decisions and participants\<close>

datatype actor_kind = HumanActor | AgentActor | ServiceActor | EngineActor

record transition_record =
  tr_trigger :: string
  tr_from_state :: string
  tr_state_iteration :: "u32 option"
  tr_state_visit :: "u32 option"
  tr_to_state :: string
  tr_applied_by :: "string option"
  tr_applied_at :: int

record guard_approval =
  approval_guard_name :: string
  approved_by :: string
  approved_by_kind :: actor_kind
  approved_at :: int

record guard_deferral_content =
  deferral_statement :: string
  deferral_reason :: string
  reconsider_when :: "string list"

record guard_deferral =
  deferral_guard_name :: string
  deferred_by :: string
  deferred_by_kind :: actor_kind
  deferral_content :: guard_deferral_content
  deferred_at :: int

text \<open>Control characters other than line feed, carriage return and tab.\<close>

fun has_hard_control :: "string \<Rightarrow> bool" where
  "has_hard_control [] = False"
| "has_hard_control [a] = (byte a < 0x20 \<and> byte a \<notin> {9, 10, 13} \<or> byte a = 0x7F)"
| "has_hard_control (a # b # s) =
     (byte a < 0x20 \<and> byte a \<notin> {9, 10, 13} \<or> byte a = 0x7F \<or>
      byte a = 0xC2 \<and> 0x80 \<le> byte b \<and> byte b \<le> 0x9F \<or> has_hard_control (b # s))"

definition validated_text :: "string \<Rightarrow> string \<Rightarrow> nat \<Rightarrow> string result" where
  "validated_text v field max_len =
     (let trimmed = trim v in
      if trimmed = [] then Inl (EmptyField field)
      else if max_len < length trimmed then Inl (FieldTooLong field (length trimmed) max_len)
      else if has_hard_control trimmed then Inl (InvalidCharacters field)
      else Inr trimmed)"

definition RECONSIDER_FIELD :: string where
  "RECONSIDER_FIELD = ''ceremony_guard_deferral.reconsider_when''"

fun reconsideration_loop :: "string set \<Rightarrow> string list \<Rightarrow> string list result" where
  "reconsideration_loop seen [] = Inr []"
| "reconsideration_loop seen (condition # rest) =
     and_then (validated_text condition RECONSIDER_FIELD 1024) (\<lambda>trimmed.
       if trimmed \<in> seen
       then Inl (InvalidDocument
         (''collection `'' @ RECONSIDER_FIELD @ ''` contains duplicate conditions''))
       else and_then (reconsideration_loop (insert trimmed seen) rest) (\<lambda>ts. Inr (trimmed # ts)))"

definition reconsideration_conditions_new :: "string list \<Rightarrow> string list result" where
  "reconsideration_conditions_new conditions =
     (if conditions = [] then Inl (EmptyCollection RECONSIDER_FIELD)
      else if 100 < length conditions
      then Inl (OutOfRange RECONSIDER_FIELD (int (length conditions)) 1 100)
      else reconsideration_loop {} conditions)"

definition guard_deferral_content_new ::
  "string \<Rightarrow> string \<Rightarrow> string list \<Rightarrow> guard_deferral_content result" where
  "guard_deferral_content_new statement reason reconsider =
     and_then (reconsideration_conditions_new reconsider) (\<lambda>conditions.
     and_then (validated_text statement ''ceremony_guard_deferral.statement'' 4096) (\<lambda>st.
     and_then (validated_text reason ''ceremony_guard_deferral.reason'' 4096) (\<lambda>re.
       Inr \<lparr>deferral_statement = st, deferral_reason = re, reconsider_when = conditions\<rparr>)))"

record participant_binding =
  binding_role_id :: string
  binding_specialty :: string
  binding_bound_at :: int


section \<open>Reasons\<close>

datatype record_ref =
    StepRef string
  | AgendaItemRef string
  | ContributionRef string u32
  | GuardDecisionRef string
  | TransitionRef u32

datatype reason_kind =
    Answers | ChosenBecause | Authorizes | AchievedBy | FollowsFrom
  | SatisfiesConstraint | ViolatesConstraint | Supersedes | Contradicts

datatype reason_asserter = TheEngine | ItsAuthor | AnySeat

fun asserter :: "reason_kind \<Rightarrow> reason_asserter" where
  "asserter Answers = TheEngine"
| "asserter Authorizes = ItsAuthor"
| "asserter ChosenBecause = ItsAuthor"
| "asserter AchievedBy = ItsAuthor"
| "asserter FollowsFrom = AnySeat"
| "asserter SatisfiesConstraint = AnySeat"
| "asserter ViolatesConstraint = AnySeat"
| "asserter Supersedes = AnySeat"
| "asserter Contradicts = AnySeat"

record ceremony_reason =
  reason_from :: record_ref
  reason_to :: record_ref
  reason_kind :: reason_kind
  reason_why :: string
  reason_confidence :: memory_confidence
  reason_asserted_by :: "string option"
  reason_asserted_at :: int

definition MAX_WHY :: nat where
  "MAX_WHY = 512"

definition ceremony_reason_new ::
  "record_ref \<Rightarrow> record_ref \<Rightarrow> reason_kind \<Rightarrow> string \<Rightarrow> memory_confidence \<Rightarrow> string option \<Rightarrow>
     int \<Rightarrow> ceremony_reason result" where
  "ceremony_reason_new from to kind why confidence asserted_by asserted_at =
     (if from = to then Inl (InvariantViolated ''nothing in a session explains itself'')
      else let trimmed = trim why in
        if trimmed = [] then Inl (EmptyField ''ceremony_reason.why'')
        else if MAX_WHY < char_count trimmed
        then Inl (FieldTooLong ''ceremony_reason.why'' (char_count trimmed) MAX_WHY)
        else Inr \<lparr>reason_from = from, reason_to = to, reason_kind = kind, reason_why = trimmed,
                  reason_confidence = confidence, reason_asserted_by = asserted_by,
                  reason_asserted_at = asserted_at\<rparr>)"


section \<open>Child ceremonies\<close>

definition ceremony_id_new :: "string \<Rightarrow> string result" where
  "ceremony_id_new raw = bounded_text ''ceremony_id'' MAX_ID_LEN raw"

datatype child_join = JoinAll | JoinAny | JoinQuorum u16

fun child_join_is_satisfied :: "child_join \<Rightarrow> nat \<Rightarrow> nat \<Rightarrow> bool" where
  "child_join_is_satisfied JoinAll completed total_n = (0 < total_n \<and> completed = total_n)"
| "child_join_is_satisfied JoinAny completed total_n = (0 < completed)"
| "child_join_is_satisfied (JoinQuorum count) completed total_n = (unat count \<le> completed)"

record child_spec =
  spec_ceremony :: string
  spec_version :: string
  spec_inputs :: "(string, string) bmap"

record child_spawn =
  spawn_children :: "child_spec list"
  spawn_max_children :: u16
  spawn_max_depth :: u16

definition child_spawn_new :: "child_spec list \<Rightarrow> u16 \<Rightarrow> u16 \<Rightarrow> child_spawn result" where
  "child_spawn_new children max_children max_depth =
     (if children = []
      then Inl (InvalidDocument ''ceremony child spawn must declare at least one child'')
      else if unat max_children < length children
      then Inl (InvalidDocument ''ceremony child spawn exceeds max_children'')
      else Inr \<lparr>spawn_children = children, spawn_max_children = max_children,
                spawn_max_depth = max_depth\<rparr>)"

definition MAX_CHILD_DEPTH :: u16 where
  "MAX_CHILD_DEPTH = 16"

definition max_child_depth_new :: "u16 \<Rightarrow> u16 result" where
  "max_child_depth_new v =
     (if 1 \<le> v \<and> v \<le> MAX_CHILD_DEPTH then Inr v
      else Inl (OutOfRange ''max_child_depth'' (uint v) 1 16))"

definition child_depth_next :: "u16 \<Rightarrow> u16 result" where
  "child_depth_next d =
     ok_or (checked_inc d) (InvariantViolated ''child ceremony depth exhausted'')"

definition child_depth_budget_new :: "u16 \<Rightarrow> u16 result" where
  "child_depth_budget_new v =
     (if MAX_CHILD_DEPTH < v then Inl (OutOfRange ''child_depth_budget'' (uint v) 0 16) else Inr v)"

definition child_depth_budget_for_child :: "u16 \<Rightarrow> u16 \<Rightarrow> u16 result" where
  "child_depth_budget_for_child inherited limit =
     (let effective = min inherited limit in
      if effective = 0
      then Inl (InvariantViolated ''child ceremony depth budget is exhausted'')
      else child_depth_budget_new (effective - 1))"

record spawn_coordinates =
  coord_step_id :: string
  coord_state_visit :: u32
  coord_state_iteration :: u32
  coord_step_iteration :: u32

definition child_group_id_derive :: "platform \<Rightarrow> string \<Rightarrow> spawn_coordinates \<Rightarrow> string" where
  "child_group_id_derive env parent_id c =
     sha256_hex env (digest_input ''made.child-group.v1''
       [parent_id, coord_step_id c, show_nat (unat (coord_state_visit c)),
        show_nat (unat (coord_state_iteration c)), show_nat (unat (coord_step_iteration c))])"

definition child_ceremony_id_derive :: "platform \<Rightarrow> string \<Rightarrow> u16 \<Rightarrow> string result" where
  "child_ceremony_id_derive env group_id position =
     ceremony_id_new (''child-'' @ sha256_hex env
       (digest_input ''made.child-ceremony.v1'' [group_id, show_nat (unat position)]))"

record lineage =
  lin_root_id :: string
  lin_parent_id :: string
  lin_group_id :: string
  lin_position :: u16
  lin_depth :: u16
  lin_remaining_depth :: u16

text \<open>
  The sum of the two depths is on 16-bit words and wraps: the release profile of the workspace
  leaves overflow checks off.
\<close>

definition lineage_validate :: "lineage \<Rightarrow> unit result" where
  "lineage_validate l =
     (if (lin_depth l = 1) \<noteq> (lin_root_id l = lin_parent_id l)
      then Inl (InvalidDocument ''child lineage root and parent are inconsistent with depth'')
      else if MAX_CHILD_DEPTH < lin_depth l + lin_remaining_depth l
      then Inl (InvalidDocument ''child lineage exceeds the server depth ceiling'')
      else Inr ())"

record planned_child =
  planned_child_id :: string
  planned_position :: u16
  planned_ceremony :: string
  planned_version :: string
  planned_digest :: string
  planned_context :: ceremony_context
  planned_lineage :: lineage
  planned_recollection :: "session_recollection option"
  planned_budget_account_id :: "string option"
  planned_opened_at :: int

record spawn_plan =
  plan_group_id :: string
  plan_coordinates :: spawn_coordinates
  plan_active_claim_fence :: string
  plan_children :: "planned_child list"
  plan_max_children :: u16
  plan_max_depth :: u16

definition spawn_plan_new ::
  "platform \<Rightarrow> string \<Rightarrow> spawn_coordinates \<Rightarrow> string \<Rightarrow> planned_child list \<Rightarrow> u16 \<Rightarrow> u16 \<Rightarrow>
     spawn_plan result" where
  "spawn_plan_new env group_id coordinates fence children max_children max_depth =
     (if children = [] \<or> unat max_children < length children
      then Inl (InvalidDocument ''child spawn plan width is invalid'')
      else if list_ex (\<lambda>(i, c). unat (planned_position c) \<noteq> i) (enumerate 0 children)
      then Inl (InvalidDocument
        ''child spawn plan positions must be contiguous declaration indexes'')
      else let first = planned_lineage (hd children) in
        if group_id \<noteq> child_group_id_derive env (lin_parent_id first) coordinates
        then Inl (InvalidDocument
          ''child spawn group id does not match its parent and coordinates'')
        else and_then
          (try_map
             (\<lambda>child. and_then (child_ceremony_id_derive env group_id (planned_position child))
                (\<lambda>expected_id.
                   if planned_child_id child \<noteq> expected_id
                      \<or> lin_group_id (planned_lineage child) \<noteq> group_id
                      \<or> lin_position (planned_lineage child) \<noteq> planned_position child
                      \<or> lin_root_id (planned_lineage child) \<noteq> lin_root_id first
                      \<or> lin_parent_id (planned_lineage child) \<noteq> lin_parent_id first
                      \<or> lin_depth (planned_lineage child) \<noteq> lin_depth first
                      \<or> lin_remaining_depth (planned_lineage child) \<noteq> lin_remaining_depth first
                   then Inl (InvalidDocument
                     ''planned child identity or lineage is inconsistent'')
                   else Inr ()))
             children)
          (\<lambda>_. Inr \<lparr>plan_group_id = group_id, plan_coordinates = coordinates,
                     plan_active_claim_fence = fence, plan_children = children,
                     plan_max_children = max_children, plan_max_depth = max_depth\<rparr>))"

record child_completion =
  completion_group_id :: string
  completion_child_id :: string
  completion_terminal_event_id :: string
  completion_terminal_record_hash :: string

record child_group =
  group_plan :: spawn_plan
  group_adopted_claim_fence :: string
  group_completions :: "(string, child_completion) bmap"

definition child_group_new :: "spawn_plan \<Rightarrow> child_group" where
  "child_group_new plan =
     \<lparr>group_plan = plan, group_adopted_claim_fence = plan_active_claim_fence plan,
      group_completions = []\<rparr>"

definition child_group_adopt :: "child_group \<Rightarrow> string \<Rightarrow> child_group" where
  "child_group_adopt g fence = g\<lparr>group_adopted_claim_fence := fence\<rparr>"

definition child_group_accept :: "child_group \<Rightarrow> child_completion \<Rightarrow> child_group" where
  "child_group_accept g completion =
     g\<lparr>group_completions :=
         bm_insert (completion_child_id completion) completion (group_completions g)\<rparr>"


section \<open>Execution receipts\<close>

datatype receipt_link_kind = Direct | Adopted

record receipt_link =
  link_receipt_id :: string
  link_operation_id :: string
  link_producer_claim_fence :: string
  link_applied_claim_fence :: string
  link_kind :: receipt_link_kind

definition be32 :: "nat \<Rightarrow> string" where
  "be32 n = map (\<lambda>i. char_of (n div 256 ^ i mod 256)) [3, 2, 1, 0]"

lemma be32_code [code]:
  "be32 n = (let k = int n in map (\<lambda>i. char_of (k div 256 ^ i mod 256)) [3, 2, 1, 0])"
  by (simp only: be32_def Let_def char_of_int_digit)

definition operation_id_for_step ::
  "platform \<Rightarrow> string \<Rightarrow> string \<Rightarrow> u32 \<Rightarrow> u32 \<Rightarrow> u32 \<Rightarrow> string" where
  "operation_id_for_step env ceremony_id step_id state_visit state_iteration step_iteration =
     sha256_hex env (digest_input ''made.execution-operation.v1''
       [ceremony_id, step_id, be32 (unat state_visit), be32 (unat state_iteration),
        be32 (unat step_iteration)])"

definition receipt_id_for_operation :: "platform \<Rightarrow> string \<Rightarrow> string" where
  "receipt_id_for_operation env operation_id =
     sha256_hex env (digest_input ''made.execution-receipt.v1'' [operation_id])"

definition receipt_link_validate :: "platform \<Rightarrow> receipt_link \<Rightarrow> unit result" where
  "receipt_link_validate env l =
     (if link_receipt_id l \<noteq> receipt_id_for_operation env (link_operation_id l)
      then Inl (InvariantViolated ''execution receipt link id does not match its operation'')
      else if (link_producer_claim_fence l = link_applied_claim_fence l) \<noteq> (link_kind l = Direct)
      then Inl (InvariantViolated ''execution receipt link kind does not match its claim fences'')
      else Inr ())"


section \<open>Succession\<close>

record definition_pin =
  pin_name :: string
  pin_version :: string
  pin_digest :: string

record succession =
  suc_predecessor_id :: string
  suc_predecessor_head :: string
  suc_predecessor_version :: nat
  suc_predecessor_definition :: definition_pin
  suc_successor_definition :: definition_pin
  suc_plan_id :: string

datatype claim_disposition_kind =
    AbandonNoExternalEffect
  | AbandonEffectReconciled string
  | CarryReceipt string
  | RetryInSuccessor

record claim_disposition =
  disp_step_id :: string
  disp_claim_fence :: string
  disp_kind :: claim_disposition_kind

datatype budget_disposition = Fresh | TransferRemaining

record carried_evidence =
  carried_successor_step_id :: string
  carried_source :: source_record_ref
  carried_output :: attributes

record succession_plan =
  splan_plan_id :: string
  splan_successor_id :: string
  splan_successor_definition :: definition_pin
  splan_carried :: "carried_evidence list"
  splan_dispositions :: "claim_disposition list"
  splan_budget :: budget_disposition
  splan_planned_by :: string
  splan_planned_at :: int

definition disposition_for :: "succession_plan \<Rightarrow> string \<Rightarrow> claim_disposition option" where
  "disposition_for p step_id = find (\<lambda>d. disp_step_id d = step_id) (splan_dispositions p)"

definition successor_ceremony_id_derive :: "platform \<Rightarrow> string \<Rightarrow> string \<Rightarrow> string result" where
  "successor_ceremony_id_derive env predecessor plan_id =
     ceremony_id_new (predecessor @ ''.s.'' @ take 16 (sha256_hex env
       (digest_input ''made.ceremony-successor.v1'' [predecessor, plan_id])))"


section \<open>Lemmas\<close>

lemma take_within_prefix:
  "prefix (fst (take_within b s es)) es"
  by (induction b s es rule: take_within.induct) (auto split: prod.splits)

lemma take_within_cost:
  "s \<le> b \<Longrightarrow> s + sum_list (map recalled_cost (fst (take_within b s es))) \<le> b"
  by (induction b s es rule: take_within.induct) (auto split: prod.splits simp: add.assoc)

lemma take_within_whole:
  "snd (take_within b s es) = Whole \<longleftrightarrow> fst (take_within b s es) = es"
  by (induction b s es rule: take_within.induct) (auto split: prod.splits)

lemma validated_text_idem: "validated_text v f n = Inr t \<Longrightarrow> validated_text t f n = Inr t"
  by (auto simp: validated_text_def Let_def split: if_splits)

lemma reconsideration_loop_Inr:
  "reconsideration_loop seen cs = Inr ts \<Longrightarrow>
     distinct ts \<and> set ts \<inter> seen = {} \<and> length ts = length cs \<and>
     (\<forall>t \<in> set ts. validated_text t RECONSIDER_FIELD 1024 = Inr t)"
proof (induction seen cs arbitrary: ts rule: reconsideration_loop.induct)
  case (2 seen c rest)
  then obtain t ts' where "validated_text c RECONSIDER_FIELD 1024 = Inr t" "t \<notin> seen"
    "reconsideration_loop (insert t seen) rest = Inr ts'" "ts = t # ts'"
    by (auto split: if_splits elim!: and_then_InrE)
  with 2 show ?case by (auto dest: validated_text_idem)
qed simp

lemma reconsideration_loop_fixed:
  "distinct ts \<Longrightarrow> set ts \<inter> seen = {} \<Longrightarrow>
     \<forall>t \<in> set ts. validated_text t RECONSIDER_FIELD 1024 = Inr t \<Longrightarrow>
     reconsideration_loop seen ts = Inr ts"
  by (induction ts arbitrary: seen) auto

lemma reconsideration_conditions_idem:
  "reconsideration_conditions_new cs = Inr ts \<Longrightarrow> reconsideration_conditions_new ts = Inr ts"
  using reconsideration_loop_Inr [of "{}" cs ts] reconsideration_loop_fixed [of ts "{}"]
  by (auto simp: reconsideration_conditions_new_def split: if_splits)

lemma be32_inj: "be32 m = be32 n \<Longrightarrow> m < 2 ^ 32 \<Longrightarrow> n < 2 ^ 32 \<Longrightarrow> m = n"
proof -
  assume a: "be32 m = be32 n" and b: "m < 2 ^ 32" "n < 2 ^ 32"
  have d: "i < 4 \<Longrightarrow> of_char (be32 k ! (3 - i)) = k div 256 ^ i mod 256" for i k
  proof -
    assume "i < 4"
    then consider "i = 0" | "i = 1" | "i = 2" | "i = 3" by linarith
    then show ?thesis by cases (simp_all add: be32_def)
  qed
  have "m mod 256 ^ 4 = n mod 256 ^ 4"
    by (rule base256_digits_eq) (metis a d)
  then show ?thesis using b by simp
qed

end
