(* ===== verification/Ceremony_Definition.thy ===== *)
theory Ceremony_Definition
  imports Ceremony_Values "HOL-Library.Product_Lexorder"
begin

text \<open>
  The definition a ceremony is run from (\<open>entities/ceremony_definition.rs\<close> and its submodules):
  states, transitions, steps, guards and roles, the collection of each into an ordered map, the
  queries on them, and the evaluation of the guards of a transition.  A \<open>BTreeSet\<close> that is iterated
  is the list of its elements in ascending order.
\<close>


section \<open>Roles and role actions\<close>

datatype role_action =
    StepAction string
  | TransitionAction string
  | RequestIntervention
  | RespondToIntervention

fun role_action_key :: "role_action \<Rightarrow> nat \<times> string" where
  "role_action_key (StepAction s) = (0, s)"
| "role_action_key (TransitionAction t) = (1, t)"
| "role_action_key RequestIntervention = (2, [])"
| "role_action_key RespondToIntervention = (3, [])"

lemma role_action_key_inj: "role_action_key a = role_action_key b \<Longrightarrow> a = b"
  by (cases a; cases b) simp_all

text \<open>The derived \<open>Ord\<close> of the enumeration: by variant, then by payload.\<close>

instantiation role_action :: linorder
begin

definition less_eq_role_action :: "role_action \<Rightarrow> role_action \<Rightarrow> bool" where
  "a \<le> b \<longleftrightarrow> role_action_key a \<le> role_action_key b"

definition less_role_action :: "role_action \<Rightarrow> role_action \<Rightarrow> bool" where
  "a < b \<longleftrightarrow> role_action_key a < role_action_key b"

instance
  by standard (auto simp: less_eq_role_action_def less_role_action_def intro: role_action_key_inj)

end

definition btree_set :: "'a::linorder list \<Rightarrow> 'a list" where
  "btree_set xs = sort (remdups xs)"

fun from_capability_label :: "string \<Rightarrow> role_action option" where
  "from_capability_label label =
     (if label = ''request_intervention'' then Some RequestIntervention
      else if label = ''respond_to_intervention'' then Some RespondToIntervention
      else None)"

fun action_step_id :: "role_action \<Rightarrow> string option" where
  "action_step_id (StepAction s) = Some s"
| "action_step_id _ = None"

fun action_transition_trigger :: "role_action \<Rightarrow> string option" where
  "action_transition_trigger (TransitionAction t) = Some t"
| "action_transition_trigger _ = None"

record ceremony_role =
  role_id :: string
  role_allowed_actions :: "role_action list"

definition ceremony_role_new :: "string \<Rightarrow> role_action list \<Rightarrow> ceremony_role result" where
  "ceremony_role_new i actions =
     (let allowed = btree_set actions in
      if allowed = [] then Inl (EmptyCollection ''ceremony_role.allowed_actions'')
      else Inr \<lparr>role_id = i, role_allowed_actions = allowed\<rparr>)"

definition allows :: "ceremony_role \<Rightarrow> role_action \<Rightarrow> bool" where
  "allows r a = (a \<in> set (role_allowed_actions r))"

record dynamic_role_binding =
  drb_context_key :: string
  drb_allowed_roles :: "string list"

definition dynamic_role_binding_new :: "string \<Rightarrow> string list \<Rightarrow> dynamic_role_binding result" where
  "dynamic_role_binding_new key supplied =
     (if supplied = [] then Inl (EmptyCollection ''dynamic_role_binding.allowed_roles'')
      else let canonical = btree_set supplied in
        if length canonical \<noteq> length supplied
        then Inl (AlreadyExists ''dynamic_role_binding.allowed_role'')
        else Inr \<lparr>drb_context_key = key, drb_allowed_roles = canonical\<rparr>)"


section \<open>States, steps, transitions and guards\<close>

datatype state_kind = Initial | Intermediate | Terminal
datatype state_execution = Sequential | Concurrent

record ceremony_state =
  st_id :: string
  st_kind :: state_kind
  st_execution :: state_execution
  st_repeat :: "state_repeat_policy option"
  st_annotations :: attributes

definition state_is_initial :: "ceremony_state \<Rightarrow> bool" where
  "state_is_initial s = (st_kind s = Initial)"

definition state_is_terminal :: "ceremony_state \<Rightarrow> bool" where
  "state_is_terminal s = (st_kind s = Terminal)"

datatype step_aggregation = Synthesize | Vote string

record ceremony_step =
  cs_id :: string
  cs_state_id :: string
  cs_handler_kind :: string
  cs_handler_config :: attributes
  cs_retry_policy :: retry_policy
  cs_timeout :: "u64 option"
  cs_repeat_policy :: "step_repeat_policy option"
  cs_dynamic_role_binding :: "dynamic_role_binding option"
  cs_context_writes :: context_writes
  cs_spawn :: "child_spawn option"
  cs_aggregation :: "step_aggregation option"

record ceremony_transition =
  t_from :: string
  t_to :: string
  t_trigger :: string
  t_required_guards :: "string list"

datatype guard_condition =
    Always
  | AllStepsCompleted
  | AnyStepCompleted
  | StepsCompleted u32
  | StepStatusIs string step_status
  | OutputField string string json
  | StepRepeatExhausted string
  | ChildrenCompleted string child_join
  | HumanApproval
  | StateRepeatExhausted string

fun referenced_step_id :: "guard_condition \<Rightarrow> string option" where
  "referenced_step_id (StepStatusIs step_id _) = Some step_id"
| "referenced_step_id (OutputField step_id _ _) = Some step_id"
| "referenced_step_id (StepRepeatExhausted step_id) = Some step_id"
| "referenced_step_id (ChildrenCompleted step_id _) = Some step_id"
| "referenced_step_id _ = None"

record ceremony_guard =
  guard_name :: string
  guard_condition :: guard_condition

type_synonym step_records = "(string, step_record) bmap"

definition record_succeeded :: "step_records \<Rightarrow> string \<Rightarrow> bool" where
  "record_succeeded records step_id =
     (case bm_get records step_id of None \<Rightarrow> False | Some r \<Rightarrow> is_success (rec_status r))"

definition output_field_is_satisfied :: "string \<Rightarrow> json \<Rightarrow> step_record \<Rightarrow> bool" where
  "output_field_is_satisfied field expected r =
     (is_success (rec_status r) \<and> bm_get (rec_output r) field = Some expected)"

definition guard_is_satisfied :: "ceremony_guard \<Rightarrow> step_records \<Rightarrow> ceremony_context \<Rightarrow> bool" where
  "guard_is_satisfied g records ctx =
     (case guard_condition g of
        Always \<Rightarrow> True
      | AllStepsCompleted \<Rightarrow>
          records \<noteq> [] \<and> list_all (\<lambda>r. is_success (rec_status r)) (bm_values records)
      | AnyStepCompleted \<Rightarrow> list_ex (\<lambda>r. is_success (rec_status r)) (bm_values records)
      | StepsCompleted count \<Rightarrow>
          unat count \<le> length (filter (\<lambda>r. is_success (rec_status r)) (bm_values records))
      | StepStatusIs step_id status \<Rightarrow>
          (case bm_get records step_id of None \<Rightarrow> False | Some r \<Rightarrow> rec_status r = status)
      | OutputField step_id field expected \<Rightarrow>
          (case bm_get records step_id of
             None \<Rightarrow> False | Some r \<Rightarrow> output_field_is_satisfied field expected r)
      | StepRepeatExhausted _ \<Rightarrow> False
      | ChildrenCompleted _ _ \<Rightarrow> False
      | StateRepeatExhausted _ \<Rightarrow> False
      | HumanApproval \<Rightarrow> is_guard_approved ctx (guard_name g))"


section \<open>Definitions\<close>

datatype input_requirement = InputRequired | InputOptional

record ceremony_input =
  input_name :: string
  input_requirement :: input_requirement

record ceremony_definition =
  def_name :: string
  def_version :: string
  def_description :: "string option"
  def_inputs :: "(string, ceremony_input) bmap"
  def_outputs :: "(string, string) bmap"
  def_states :: "(string, ceremony_state) bmap"
  def_transitions :: "ceremony_transition list"
  def_steps :: "(string, ceremony_step) bmap"
  def_step_order :: "string list"
  def_guards :: "(string, ceremony_guard) bmap"
  def_roles :: "(string, ceremony_role) bmap"
  def_max_parallel :: u8
  def_max_transitions :: "u32 option"
  def_max_bounces :: "u32 option"
  def_ceremony_timeout :: "u64 option"
  def_state_timeout :: "u64 option"

text \<open>
  \<open>collect_inputs\<close>, \<open>collect_outputs\<close>, \<open>collect_states\<close>, \<open>collect_guards\<close> and \<open>collect_roles\<close> are
  one loop at five types: insert under the key, refuse a key already present.
\<close>

definition collect_unique ::
  "string \<Rightarrow> ('a \<Rightarrow> string) \<Rightarrow> 'a list \<Rightarrow> (string, 'a) bmap result" where
  "collect_unique what key xs =
     try_fold (\<lambda>m x. if bm_contains m (key x) then Inl (AlreadyExists what)
                     else Inr (bm_insert (key x) x m)) [] xs"

definition collect_inputs :: "ceremony_input list \<Rightarrow> (string, ceremony_input) bmap result" where
  "collect_inputs = collect_unique ''ceremony_input'' input_name"

definition collect_outputs :: "string list \<Rightarrow> (string, string) bmap result" where
  "collect_outputs = collect_unique ''ceremony_output'' (\<lambda>x. x)"

definition collect_states :: "ceremony_state list \<Rightarrow> (string, ceremony_state) bmap result" where
  "collect_states = collect_unique ''ceremony_state'' st_id"

definition collect_guards :: "ceremony_guard list \<Rightarrow> (string, ceremony_guard) bmap result" where
  "collect_guards = collect_unique ''ceremony_guard'' guard_name"

definition collect_roles :: "ceremony_role list \<Rightarrow> (string, ceremony_role) bmap result" where
  "collect_roles = collect_unique ''ceremony_role'' role_id"

definition collect_steps ::
  "ceremony_step list \<Rightarrow> ((string, ceremony_step) bmap \<times> string list) result" where
  "collect_steps steps =
     and_then (collect_unique ''ceremony_step'' cs_id steps) (\<lambda>m. Inr (m, map cs_id steps))"

text \<open>
  A step named in the declaration order and not indexed makes the iterator of
  \<open>steps_in_declaration_order\<close> panic; here it is skipped.  \<open>collect_steps\<close> never builds such an
  order (\<open>steps_in_declaration_order_collect\<close> below).
\<close>

definition steps_in_declaration_order :: "ceremony_definition \<Rightarrow> ceremony_step list" where
  "steps_in_declaration_order d = List.map_filter (bm_get (def_steps d)) (def_step_order d)"

definition initial_state_id :: "ceremony_definition \<Rightarrow> string result" where
  "initial_state_id d =
     (case find state_is_initial (bm_values (def_states d)) of
        None \<Rightarrow> Inl (Panic ''ceremony definition invariant requires one initial state'')
      | Some s \<Rightarrow> Inr (st_id s))"

definition def_state :: "ceremony_definition \<Rightarrow> string \<Rightarrow> ceremony_state option" where
  "def_state d state_id = bm_get (def_states d) state_id"

definition def_step :: "ceremony_definition \<Rightarrow> string \<Rightarrow> ceremony_step option" where
  "def_step d step_id = bm_get (def_steps d) step_id"

definition def_role :: "ceremony_definition \<Rightarrow> string \<Rightarrow> ceremony_role option" where
  "def_role d rid = bm_get (def_roles d) rid"

definition steps_for_state :: "ceremony_definition \<Rightarrow> string \<Rightarrow> ceremony_step list" where
  "steps_for_state d state_id =
     filter (\<lambda>s. cs_state_id s = state_id) (steps_in_declaration_order d)"

definition is_terminal_state :: "ceremony_definition \<Rightarrow> string \<Rightarrow> bool" where
  "is_terminal_state d state_id =
     (case bm_get (def_states d) state_id of None \<Rightarrow> False | Some s \<Rightarrow> state_is_terminal s)"

definition transition_for_trigger ::
  "ceremony_definition \<Rightarrow> string \<Rightarrow> string \<Rightarrow> ceremony_transition option" where
  "transition_for_trigger d state_id trigger =
     find (\<lambda>t. t_from t = state_id \<and> t_trigger t = trigger) (def_transitions d)"

definition available_transitions :: "ceremony_definition \<Rightarrow> string \<Rightarrow> ceremony_transition list" where
  "available_transitions d state_id = filter (\<lambda>t. t_from t = state_id) (def_transitions d)"

definition role_allows :: "ceremony_definition \<Rightarrow> string \<Rightarrow> role_action \<Rightarrow> bool" where
  "role_allows d rid action =
     (case bm_get (def_roles d) rid of None \<Rightarrow> False | Some r \<Rightarrow> allows r action)"

definition role_for_action :: "ceremony_definition \<Rightarrow> role_action \<Rightarrow> ceremony_role option" where
  "role_for_action d action = find (\<lambda>r. allows r action) (bm_values (def_roles d))"

definition role_id_for_step :: "ceremony_definition \<Rightarrow> string \<Rightarrow> string result" where
  "role_id_for_step d step_id =
     ok_or (map_option role_id (role_for_action d (StepAction step_id)))
       (InvariantViolated ''no ceremony role can execute step'')"

definition role_id_for_transition :: "ceremony_definition \<Rightarrow> string \<Rightarrow> string result" where
  "role_id_for_transition d trigger =
     ok_or (map_option role_id (role_for_action d (TransitionAction trigger)))
       (InvariantViolated ''no ceremony role can apply transition'')"


section \<open>Guards of a transition\<close>

definition repeat_requirement_is_satisfied ::
  "ceremony_definition \<Rightarrow> string \<Rightarrow> step_records \<Rightarrow> bool" where
  "repeat_requirement_is_satisfied d step_id records =
     (case Option.bind (def_step d step_id) cs_repeat_policy of
        None \<Rightarrow> True
      | Some policy \<Rightarrow>
          (case bm_get records step_id of
             None \<Rightarrow> False
           | Some r \<Rightarrow> is_success (rec_status r)
                       \<and> step_repeat_is_satisfied policy (rec_output r)))"

definition step_repeat_is_exhausted_on_transition ::
  "ceremony_definition \<Rightarrow> ceremony_transition \<Rightarrow> string \<Rightarrow> step_records \<Rightarrow> bool" where
  "step_repeat_is_exhausted_on_transition d t step_id records =
     (case def_step d step_id of
        None \<Rightarrow> False
      | Some step \<Rightarrow>
          if cs_state_id step \<noteq> t_from t then False
          else (case cs_repeat_policy step of
                  None \<Rightarrow> False
                | Some policy \<Rightarrow>
                    (case bm_get records step_id of
                       None \<Rightarrow> False
                     | Some r \<Rightarrow> is_success (rec_status r)
                                 \<and> \<not> step_repeat_is_satisfied policy (rec_output r)
                                 \<and> \<not> step_repeat_permits_another policy (rec_iteration r))))"

definition transition_waives_exhausted_repeat ::
  "ceremony_definition \<Rightarrow> ceremony_transition \<Rightarrow> string \<Rightarrow> step_records \<Rightarrow> bool" where
  "transition_waives_exhausted_repeat d t step_id records =
     list_ex (\<lambda>name.
       case bm_get (def_guards d) name of
         None \<Rightarrow> False
       | Some g \<Rightarrow>
           (case guard_condition g of
              StepRepeatExhausted s \<Rightarrow>
                s = step_id \<and> step_repeat_is_exhausted_on_transition d t step_id records
            | _ \<Rightarrow> False))
       (t_required_guards t)"

definition repeat_requirement_is_satisfied_or_waived ::
  "ceremony_definition \<Rightarrow> ceremony_transition \<Rightarrow> string \<Rightarrow> step_records \<Rightarrow> bool" where
  "repeat_requirement_is_satisfied_or_waived d t step_id records =
     (repeat_requirement_is_satisfied d step_id records
      \<or> transition_waives_exhausted_repeat d t step_id records)"

definition repeat_requirements_are_satisfied ::
  "ceremony_definition \<Rightarrow> string \<Rightarrow> step_records \<Rightarrow> bool" where
  "repeat_requirements_are_satisfied d state_id records =
     list_all (\<lambda>s. repeat_requirement_is_satisfied d (cs_id s) records) (steps_for_state d state_id)"

definition repeat_requirements_are_satisfied_for_transition ::
  "ceremony_definition \<Rightarrow> ceremony_transition \<Rightarrow> step_records \<Rightarrow> bool" where
  "repeat_requirements_are_satisfied_for_transition d t records =
     list_all (\<lambda>s. repeat_requirement_is_satisfied_or_waived d t (cs_id s) records)
       (steps_for_state d (t_from t))"

definition def_guard_is_satisfied_for_transition ::
  "ceremony_definition \<Rightarrow> ceremony_guard \<Rightarrow> ceremony_transition \<Rightarrow> step_records \<Rightarrow>
     ceremony_context \<Rightarrow> bool" where
  "def_guard_is_satisfied_for_transition d g t records ctx =
     (case guard_condition g of
        StepRepeatExhausted step_id \<Rightarrow> step_repeat_is_exhausted_on_transition d t step_id records
      | StepStatusIs step_id status \<Rightarrow>
          if is_success status
          then guard_is_satisfied g records ctx
               \<and> repeat_requirement_is_satisfied_or_waived d t step_id records
          else guard_is_satisfied g records ctx
      | AllStepsCompleted \<Rightarrow>
          guard_is_satisfied g records ctx
          \<and> list_all (\<lambda>s. repeat_requirement_is_satisfied_or_waived d t s records)
               (bm_keys (def_steps d))
      | AnyStepCompleted \<Rightarrow>
          list_ex (\<lambda>s. record_succeeded records (cs_id s)) (steps_for_state d (t_from t))
      | StepsCompleted required \<Rightarrow>
          unat required
          \<le> length (filter (\<lambda>s. record_succeeded records (cs_id s)) (steps_for_state d (t_from t)))
      | _ \<Rightarrow> guard_is_satisfied g records ctx)"

definition def_guards_are_satisfied ::
  "ceremony_definition \<Rightarrow> ceremony_transition \<Rightarrow> step_records \<Rightarrow> ceremony_context \<Rightarrow> bool" where
  "def_guards_are_satisfied d t records ctx =
     (repeat_requirements_are_satisfied_for_transition d t records \<and>
      list_all (\<lambda>name.
        case bm_get (def_guards d) name of
          None \<Rightarrow> False
        | Some g \<Rightarrow> def_guard_is_satisfied_for_transition d g t records ctx)
        (t_required_guards t))"

definition next_satisfied_transition ::
  "ceremony_definition \<Rightarrow> string \<Rightarrow> step_records \<Rightarrow> ceremony_context \<Rightarrow> ceremony_transition option" where
  "next_satisfied_transition d state_id records ctx =
     find (\<lambda>t. def_guards_are_satisfied d t records ctx) (available_transitions d state_id)"

definition transition_routes_state_repeat_exhaustion ::
  "ceremony_definition \<Rightarrow> ceremony_transition \<Rightarrow> bool" where
  "transition_routes_state_repeat_exhaustion d t =
     list_ex (\<lambda>name.
       case bm_get (def_guards d) name of
         None \<Rightarrow> False
       | Some g \<Rightarrow> (case guard_condition g of
                      StateRepeatExhausted s \<Rightarrow> s = t_from t
                    | _ \<Rightarrow> False))
       (t_required_guards t)"


section \<open>Lemmas\<close>

lemma set_btree_set [simp]: "set (btree_set xs) = set xs"
  by (simp add: btree_set_def)

lemma btree_set_ascending: "sorted_wrt (<) (btree_set xs)"
  by (simp add: btree_set_def strict_sorted_iff)

lemma collect_fold:
  assumes "try_fold (\<lambda>m x. if bm_contains m (key x) then Inl e else Inr (bm_insert (key x) x m))
             m xs = Inr m'"
    and "bm_wf m"
  shows "bm_wf m'" and "distinct (map key xs)"
    and "\<forall>x \<in> set xs. bm_get m (key x) = None"
    and "\<And>k. bm_get m' k = (case find (\<lambda>x. key x = k) xs of Some x \<Rightarrow> Some x | None \<Rightarrow> bm_get m k)"
proof -
  have "bm_wf m' \<and> distinct (map key xs) \<and> (\<forall>x \<in> set xs. bm_get m (key x) = None) \<and>
    (\<forall>k. bm_get m' k =
      (case find (\<lambda>x. key x = k) xs of Some x \<Rightarrow> Some x | None \<Rightarrow> bm_get m k))"
    using assms
  proof (induction xs arbitrary: m)
    case (Cons x xs)
    then have new: "bm_get m (key x) = None"
      and rest: "try_fold (\<lambda>m x. if bm_contains m (key x) then Inl e
                    else Inr (bm_insert (key x) x m)) (bm_insert (key x) x m) xs = Inr m'"
      by (auto simp: bm_contains_def split: if_splits elim!: and_then_InrE)
    from Cons.IH [OF rest] Cons.prems(2)
    have IH: "bm_wf m'" "distinct (map key xs)"
      "\<forall>y \<in> set xs. bm_get (bm_insert (key x) x m) (key y) = None"
      "\<forall>k. bm_get m' k = (case find (\<lambda>x. key x = k) xs of
          Some y \<Rightarrow> Some y | None \<Rightarrow> bm_get (bm_insert (key x) x m) k)"
      by simp_all
    from IH(3) have other: "\<forall>y \<in> set xs. key y \<noteq> key x \<and> bm_get m (key y) = None"
      by (auto split: if_splits)
    then have "find (\<lambda>y. key y = key x) xs = None" by (auto simp: find_None_iff)
    moreover have "key x \<notin> key ` set xs" using other by auto
    ultimately show ?case using IH new other by (auto split: option.splits)
  qed simp
  then show "bm_wf m'" and "distinct (map key xs)"
    and "\<forall>x \<in> set xs. bm_get m (key x) = None"
    and "\<And>k. bm_get m' k = (case find (\<lambda>x. key x = k) xs of Some x \<Rightarrow> Some x | None \<Rightarrow> bm_get m k)"
    by blast+
qed

lemma collect_unique_get:
  assumes "collect_unique what key xs = Inr m"
  shows "bm_wf m" and "distinct (map key xs)"
    and "bm_get m k = find (\<lambda>x. key x = k) xs"
  using collect_fold [OF assms [unfolded collect_unique_def]] by (auto split: option.splits)

lemma find_distinct:
  "distinct (map key xs) \<Longrightarrow> x \<in> set xs \<Longrightarrow> find (\<lambda>y. key y = key x) xs = Some x"
  by (induction xs) auto

text \<open>Every step collected is found in declaration order.\<close>

lemma steps_in_declaration_order_collect:
  assumes "collect_steps steps = Inr (m, order)"
    and "def_steps d = m" and "def_step_order d = order"
  shows "steps_in_declaration_order d = steps"
proof -
  from assms(1) have m: "collect_unique ''ceremony_step'' cs_id steps = Inr m"
    and order: "order = map cs_id steps"
    by (auto simp: collect_steps_def elim!: and_then_InrE)
  have "List.map_filter (bm_get m) (map cs_id xs) = xs" if "set xs \<subseteq> set steps" for xs
    using that
  proof (induction xs)
    case (Cons x xs)
    then have "bm_get m (cs_id x) = Some x"
      using collect_unique_get(2) [OF m] collect_unique_get(3) [OF m, of "cs_id x"]
      by (simp add: find_distinct)
    with Cons show ?case by (simp add: List.map_filter_simps)
  qed (simp add: List.map_filter_simps)
  then show ?thesis
    using assms(2,3) order by (simp add: steps_in_declaration_order_def)
qed

text \<open>A guard of human approval is satisfied on a transition only by an approval in the context.\<close>

lemma human_approval_satisfied:
  "guard_condition g = HumanApproval \<Longrightarrow>
     def_guard_is_satisfied_for_transition d g t records ctx = is_guard_approved ctx (guard_name g)"
  by (simp add: def_guard_is_satisfied_for_transition_def guard_is_satisfied_def)

lemma def_guards_are_satisfiedD:
  assumes "def_guards_are_satisfied d t records ctx" and "name \<in> set (t_required_guards t)"
  obtains g where "bm_get (def_guards d) name = Some g"
    and "def_guard_is_satisfied_for_transition d g t records ctx"
  using assms by (auto simp: def_guards_are_satisfied_def list_all_iff split: option.splits)

lemma transition_for_trigger_Some:
  "transition_for_trigger d s trig = Some t \<Longrightarrow>
     t \<in> set (def_transitions d) \<and> t_from t = s \<and> t_trigger t = trig"
  by (auto simp: transition_for_trigger_def find_Some_iff)

lemma steps_for_state_member:
  "s \<in> set (steps_for_state d st) \<Longrightarrow>
     cs_state_id s = st \<and> (\<exists>i \<in> set (def_step_order d). bm_get (def_steps d) i = Some s)"
  by (auto simp: steps_for_state_def steps_in_declaration_order_def List.map_filter_def)

end
