(* ===== verification/Definition_Analysis.thy ===== *)
theory Definition_Analysis
  imports Ceremony_Definition
begin

text \<open>
  The validation a ceremony definition passes before it may run
  (\<open>entities/ceremony_definition_analysis.rs\<close> and its submodules): every collector returns its
  findings in the order the code pushes them, and the first blocking one is the error of
  \<open>CeremonyDefinition::new\<close>.  The view \<open>CeremonyDefinitionParts\<close> of a definition is the definition
  itself.  The graph searches are worklist loops and a fixpoint loop; both are total functions here,
  and the lemmas at the end show that they compute reachability.
\<close>


section \<open>Findings\<close>

datatype severity = SevError | SevWarning

datatype locus =
    DefinitionLocus
  | InputLocus string
  | OutputLocus string
  | StateLocus string
  | TransitionLocus string string
  | StepLocus string
  | GuardLocus string
  | RoleLocus string

record finding =
  finding_severity :: severity
  finding_locus :: locus
  finding_defect :: domain_error

definition error_finding :: "locus \<Rightarrow> domain_error \<Rightarrow> finding" where
  "error_finding l e = \<lparr>finding_severity = SevError, finding_locus = l, finding_defect = e\<rparr>"

definition warning_finding :: "locus \<Rightarrow> domain_error \<Rightarrow> finding" where
  "warning_finding l e = \<lparr>finding_severity = SevWarning, finding_locus = l, finding_defect = e\<rparr>"

definition is_blocking :: "finding \<Rightarrow> bool" where
  "is_blocking f = (finding_severity f = SevError)"

definition report_errors :: "finding list \<Rightarrow> finding list" where
  "report_errors fs = filter is_blocking fs"

definition first_error :: "finding list \<Rightarrow> finding option" where
  "first_error fs = find is_blocking fs"


section \<open>Graph searches\<close>

definition edges :: "ceremony_transition list \<Rightarrow> (string \<times> string) list" where
  "edges ts = map (\<lambda>t. (t_from t, t_to t)) ts"

text \<open>
  The worklist loop the searches share.  \<open>pending\<close> is the stack with its top first, so the
  successors, pushed in order, are taken last to first.
\<close>

function search :: "('a \<times> 'a) list \<Rightarrow> 'a set \<Rightarrow> 'a list \<Rightarrow> 'a set" where
  "search es reached [] = reached"
| "search es reached (current # pending) =
     (if current \<in> reached then search es reached pending
      else search es (insert current reached)
             (rev (map snd (filter (\<lambda>e. fst e = current) es)) @ pending))"
  by pat_completeness auto

text \<open>Each round shrinks the stack or reaches another endpoint of an edge.\<close>

termination
proof (relation "measures [\<lambda>(es, reached, pending). card ((fst ` set es) - reached),
                           \<lambda>(es, reached, pending). length pending]", goal_cases)
  case 1
  show ?case by simp
next
  case (2 es reached current pending)
  then show ?case by simp
next
  case (3 es reached current pending)
  show ?case
  proof (cases "current \<in> fst ` set es")
    case True
    then have "card (fst ` set es - insert current reached) < card (fst ` set es - reached)"
      using 3 by (intro psubset_card_mono) auto
    then show ?thesis by simp
  next
    case False
    then have "filter (\<lambda>e. fst e = current) es = []" by (auto simp: filter_empty_conv)
    moreover have "fst ` set es - insert current reached = fst ` set es - reached"
      using False by auto
    ultimately show ?thesis by simp
  qed
qed

definition reachable_from :: "string \<Rightarrow> ceremony_transition list \<Rightarrow> string set" where
  "reachable_from initial ts = search (edges ts) {} [initial]"

definition cyclic_component :: "string \<Rightarrow> ceremony_transition list \<Rightarrow> string set" where
  "cyclic_component s ts = Set.filter (\<lambda>c. s \<in> reachable_from c ts) (reachable_from s ts)"

definition has_self_loop :: "string \<Rightarrow> ceremony_transition list \<Rightarrow> bool" where
  "has_self_loop s ts = list_ex (\<lambda>t. t_from t = s \<and> t_to t = s) ts"

fun cyclic_components_loop ::
  "string set \<Rightarrow> string list \<Rightarrow> ceremony_transition list \<Rightarrow> string set list" where
  "cyclic_components_loop assigned [] ts = []"
| "cyclic_components_loop assigned (s # ss) ts =
     (if s \<in> assigned then cyclic_components_loop assigned ss ts
      else let component = cyclic_component s ts;
               rest = cyclic_components_loop (assigned \<union> component) ss ts
        in if 1 < card component \<or> card component = 1 \<and> has_self_loop s ts
           then component # rest else rest)"

definition cyclic_components ::
  "(string, ceremony_state) bmap \<Rightarrow> ceremony_transition list \<Rightarrow> string set list" where
  "cyclic_components states ts = cyclic_components_loop {} (bm_keys states) ts"

definition states_reachable_from :: "ceremony_definition \<Rightarrow> string \<Rightarrow> string set" where
  "states_reachable_from d initial = search (edges (def_transitions d)) {} [initial]"

definition requires_global_completion :: "ceremony_definition \<Rightarrow> ceremony_transition \<Rightarrow> bool" where
  "requires_global_completion d t =
     list_ex (\<lambda>name. case bm_get (def_guards d) name of
                       None \<Rightarrow> False
                     | Some g \<Rightarrow> guard_condition g = AllStepsCompleted)
       (t_required_guards t)"

definition states_leading_to :: "ceremony_definition \<Rightarrow> string \<Rightarrow> string set" where
  "states_leading_to d destination =
     search (map (\<lambda>(a, b). (b, a)) (edges (def_transitions d))) {} [destination]"

definition states_before_global_completion :: "ceremony_definition \<Rightarrow> string \<Rightarrow> string set" where
  "states_before_global_completion d initial =
     search (edges (filter (\<lambda>t. \<not> requires_global_completion d t) (def_transitions d))) {} [initial]"

definition finish_pass :: "('a \<times> 'a) list \<Rightarrow> 'a set \<Rightarrow> 'a set" where
  "finish_pass es S = fold (\<lambda>(a, b) S. if b \<in> S \<and> a \<notin> S then insert a S else S) es S"

lemma finish_pass_increasing: "S \<subseteq> finish_pass es S"
  unfolding finish_pass_def
proof (induction es arbitrary: S)
  case (Cons e es)
  have "S \<subseteq> (\<lambda>(a, b) S. if b \<in> S \<and> a \<notin> S then insert a S else S) e S"
    by (auto split: prod.splits)
  then show ?case using Cons by (fastforce simp: case_prod_unfold)
qed simp

lemma finish_pass_bound: "finish_pass es S \<subseteq> S \<union> fst ` set es"
  unfolding finish_pass_def
proof (induction es arbitrary: S)
  case (Cons e es)
  have "fold (\<lambda>(a, b) S. if b \<in> S \<and> a \<notin> S then insert a S else S) es
          ((\<lambda>(a, b) S. if b \<in> S \<and> a \<notin> S then insert a S else S) e S)
        \<subseteq> (\<lambda>(a, b) S. if b \<in> S \<and> a \<notin> S then insert a S else S) e S \<union> fst ` set es"
    by (rule Cons)
  then show ?case by (auto split: prod.splits if_splits)
qed simp

function finish_loop :: "('a \<times> 'a) list \<Rightarrow> 'a set \<Rightarrow> 'a set" where
  "finish_loop es S =
     (let S' = finish_pass es S in if S' = S then S else finish_loop es S')"
  by pat_completeness auto

termination
proof (relation "measure (\<lambda>(es, S). card (fst ` set es - S))", goal_cases)
  case 1
  show ?case by simp
next
  case (2 es S S')
  then have "fst ` set es - S' \<subset> fst ` set es - S"
    using finish_pass_increasing [of S es] finish_pass_bound [of es S] by blast
  then show ?case by (simp add: psubset_card_mono)
qed

definition states_that_reach_a_terminal :: "ceremony_definition \<Rightarrow> string set" where
  "states_that_reach_a_terminal d =
     finish_loop (edges (def_transitions d))
       (set (map fst (filter (\<lambda>(i, s). state_is_terminal s) (def_states d))))"

definition sole_initial_state_id :: "ceremony_definition \<Rightarrow> string option" where
  "sole_initial_state_id d =
     (case filter (\<lambda>(i, s). state_is_initial s) (def_states d) of
        [(i, _)] \<Rightarrow> Some i
      | _ \<Rightarrow> None)"

definition transition_endpoints_resolve :: "ceremony_definition \<Rightarrow> bool" where
  "transition_endpoints_resolve d =
     list_all (\<lambda>t. bm_contains (def_states d) (t_from t) \<and> bm_contains (def_states d) (t_to t))
       (def_transitions d)"

definition transition_guards_resolve :: "ceremony_definition \<Rightarrow> bool" where
  "transition_guards_resolve d =
     list_all (\<lambda>t. list_all (bm_contains (def_guards d)) (t_required_guards t)) (def_transitions d)"


section \<open>Collectors\<close>

definition collect_initial_state_findings :: "ceremony_definition \<Rightarrow> finding list" where
  "collect_initial_state_findings d =
     (if def_states d = []
      then [error_finding DefinitionLocus (EmptyCollection ''ceremony_definition.states'')]
      else if length (filter state_is_initial (bm_values (def_states d))) \<noteq> 1
      then [error_finding DefinitionLocus
              (InvariantViolated ''ceremony definition must have exactly one initial state'')]
      else [])"

definition transition_guard_finding ::
  "ceremony_definition \<Rightarrow> ceremony_transition \<Rightarrow> string \<Rightarrow> finding list" where
  "transition_guard_finding d t name =
     (case bm_get (def_guards d) name of
        None \<Rightarrow> [error_finding (TransitionLocus (t_from t) (t_trigger t))
                   (NotFound ''ceremony_transition.guard'')]
      | Some g \<Rightarrow>
          (case guard_condition g of
             StepRepeatExhausted step_id \<Rightarrow>
               (case bm_get (def_steps d) step_id of
                  None \<Rightarrow> []
                | Some step \<Rightarrow>
                    if cs_state_id step \<noteq> t_from t
                    then [error_finding (TransitionLocus (t_from t) (t_trigger t))
                            (InvariantViolated
                               ''exhausted-repeat guard must reference a step in the transition source state'')]
                    else [])
           | _ \<Rightarrow> []))"

fun transition_graph_loop ::
  "ceremony_definition \<Rightarrow> (string \<times> string) set \<Rightarrow> ceremony_transition list \<Rightarrow> finding list" where
  "transition_graph_loop d seen [] = []"
| "transition_graph_loop d seen (t # ts) =
     (let locus = TransitionLocus (t_from t) (t_trigger t) in
      case bm_get (def_states d) (t_from t) of
        None \<Rightarrow> error_finding locus (NotFound ''ceremony_transition.from_state'')
                # transition_graph_loop d seen ts
      | Some from \<Rightarrow>
          if \<not> bm_contains (def_states d) (t_to t)
          then error_finding locus (NotFound ''ceremony_transition.to_state'')
               # transition_graph_loop d seen ts
          else if state_is_terminal from
          then error_finding locus
                 (InvariantViolated ''terminal ceremony states cannot have outgoing transitions'')
               # transition_graph_loop d seen ts
          else if (t_from t, t_trigger t) \<in> seen
          then error_finding locus (AlreadyExists ''ceremony_transition.state_trigger'')
               # transition_graph_loop d seen ts
          else concat (map (transition_guard_finding d t) (t_required_guards t))
               @ transition_graph_loop d (insert (t_from t, t_trigger t) seen) ts)"

definition collect_transition_graph_findings :: "ceremony_definition \<Rightarrow> finding list" where
  "collect_transition_graph_findings d = transition_graph_loop d {} (def_transitions d)"

definition component_has_human_control :: "ceremony_definition \<Rightarrow> string set \<Rightarrow> bool" where
  "component_has_human_control d component =
     list_ex (\<lambda>t. t_from t \<in> component \<and>
       list_ex (\<lambda>name. case bm_get (def_guards d) name of
                         None \<Rightarrow> False
                       | Some g \<Rightarrow> guard_condition g = HumanApproval)
         (t_required_guards t))
       (def_transitions d)"

definition collect_cycle_findings :: "ceremony_definition \<Rightarrow> finding list" where
  "collect_cycle_findings d =
     (if \<not> transition_endpoints_resolve d then []
      else let components = cyclic_components (def_states d) (def_transitions d) in
        if components = [] then []
        else (if def_max_transitions d = None \<and> def_max_bounces d = None
              then [error_finding DefinitionLocus (InvariantViolated
                      ''cyclic ceremony definition requires max_transitions or max_bounces'')]
              else [])
          @ (if \<not> transition_guards_resolve d then []
             else concat (map (\<lambda>component.
                    if component_has_human_control d component then []
                    else [warning_finding (StateLocus (Min component)) (InvariantViolated
                            ''cyclic ceremony component has no human-controlled state'')])
                    components)))"

definition dynamic_role_findings :: "ceremony_definition \<Rightarrow> string \<Rightarrow> ceremony_step \<Rightarrow> finding list" where
  "dynamic_role_findings d step_id step =
     (case cs_dynamic_role_binding step of
        None \<Rightarrow> []
      | Some binding \<Rightarrow>
          (if drb_allowed_roles binding = []
           then [error_finding (StepLocus step_id)
                   (EmptyCollection ''dynamic_role_binding.allowed_roles'')]
           else [])
          @ concat (map (\<lambda>rid.
              case bm_get (def_roles d) rid of
                None \<Rightarrow> [error_finding (StepLocus step_id) (NotFound ''ceremony_step.dynamic_role'')]
              | Some r \<Rightarrow>
                  if \<not> allows r (StepAction step_id)
                  then [error_finding (StepLocus step_id) (InvariantViolated
                          ''dynamic role must be authorised for the ceremony step'')]
                  else [])
              (drb_allowed_roles binding)))"

definition step_findings :: "ceremony_definition \<Rightarrow> string \<Rightarrow> ceremony_step \<Rightarrow> finding list" where
  "step_findings d step_id step =
     (case bm_get (def_states d) (cs_state_id step) of
        None \<Rightarrow> [error_finding (StepLocus step_id) (NotFound ''ceremony_step.state'')]
      | Some state \<Rightarrow>
          (if state_is_terminal state
           then [error_finding (StepLocus step_id) (InvariantViolated
                   ''terminal ceremony states cannot own executable steps'')] else [])
          @ (if cs_spawn step \<noteq> None \<and> cs_repeat_policy step \<noteq> None
             then [error_finding (StepLocus step_id) (InvariantViolated
                     ''child-spawning ceremony steps cannot repeat'')] else [])
          @ (if cs_spawn step \<noteq> None \<and> cs_aggregation step \<noteq> None
             then [error_finding (StepLocus step_id) (InvariantViolated
                     ''a ceremony step cannot both spawn children and aggregate a prior state'')]
             else [])
          @ dynamic_role_findings d step_id step)"

definition collect_step_findings :: "ceremony_definition \<Rightarrow> finding list" where
  "collect_step_findings d = concat (map (\<lambda>(i, s). step_findings d i s) (def_steps d))"

definition required_guards_of :: "ceremony_definition \<Rightarrow> ceremony_transition \<Rightarrow> ceremony_guard list" where
  "required_guards_of d t = List.map_filter (bm_get (def_guards d)) (t_required_guards t)"

definition joins_every_step :: "ceremony_guard list \<Rightarrow> ceremony_step list \<Rightarrow> bool" where
  "joins_every_step required steps =
     list_all (\<lambda>step. list_ex (\<lambda>g.
       case guard_condition g of
         StepStatusIs step_id status \<Rightarrow> step_id = cs_id step \<and> is_success status
       | _ \<Rightarrow> False) required) steps"

definition requires_every_sibling ::
  "ceremony_definition \<Rightarrow> ceremony_transition \<Rightarrow> ceremony_step list \<Rightarrow> bool" where
  "requires_every_sibling d t steps =
     (let required = required_guards_of d t in
      list_ex (\<lambda>g. case guard_condition g of
                     StepsCompleted count \<Rightarrow> unat count = length steps
                   | _ \<Rightarrow> False) required
      \<or> joins_every_step required steps)"

definition aggregate_error :: "ceremony_step \<Rightarrow> string \<Rightarrow> finding" where
  "aggregate_error step reason = error_finding (StepLocus (cs_id step)) (InvariantViolated reason)"

definition aggregate_predecessor_findings ::
  "ceremony_definition \<Rightarrow> ceremony_step \<Rightarrow> finding list" where
  "aggregate_predecessor_findings d step =
     (case filter (\<lambda>t. t_to t = cs_state_id step) (def_transitions d) of
        [t] \<Rightarrow>
          if t_from t = t_to t
          then [aggregate_error step ''aggregate step predecessor must differ from its destination'']
          else (case bm_get (def_states d) (t_from t) of
                  None \<Rightarrow> []
                | Some predecessor \<Rightarrow>
                    if st_execution predecessor \<noteq> Concurrent
                    then [aggregate_error step
                            ''aggregate step requires a concurrent predecessor state'']
                    else if \<not> requires_every_sibling d t
                          (filter (\<lambda>c. cs_state_id c = st_id predecessor) (bm_values (def_steps d)))
                    then [aggregate_error step
                            ''aggregate step requires an all-siblings predecessor join'']
                    else [])
      | _ \<Rightarrow> [aggregate_error step ''aggregate step requires exactly one predecessor state''])"

definition aggregation_findings :: "ceremony_definition \<Rightarrow> ceremony_step \<Rightarrow> finding list" where
  "aggregation_findings d step =
     (case bm_get (def_states d) (cs_state_id step) of
        None \<Rightarrow> []
      | Some destination \<Rightarrow>
          (if state_is_initial destination
           then [aggregate_error step ''aggregate step cannot belong to the initial state'']
           else [])
          @ (if st_execution destination \<noteq> Sequential
             then [aggregate_error step ''aggregate step destination state must be sequential'']
             else [])
          @ (if find (\<lambda>c. case bm_get (def_steps d) c of
                            None \<Rightarrow> False
                          | Some candidate \<Rightarrow> cs_state_id candidate = cs_state_id step)
                  (def_step_order d) \<noteq> Some (cs_id step)
             then [aggregate_error step ''aggregate step must be first in its destination state'']
             else [])
          @ (if Option.bind (bm_get (cs_handler_config step) ''see_prior'') as_bool \<noteq> Some True
             then [aggregate_error step ''aggregate step requires see_prior: true''] else [])
          @ aggregate_predecessor_findings d step)"

definition collect_aggregation_findings :: "ceremony_definition \<Rightarrow> finding list" where
  "collect_aggregation_findings d =
     concat (map (aggregation_findings d)
       (filter (\<lambda>s. cs_aggregation s \<noteq> None) (bm_values (def_steps d))))"

definition collect_state_repeat_findings :: "ceremony_definition \<Rightarrow> finding list" where
  "collect_state_repeat_findings d =
     concat (map (\<lambda>state.
       case st_repeat state of
         None \<Rightarrow> []
       | Some policy \<Rightarrow>
           (case bm_get (def_steps d) (state_repeat_step_id (state_repeat_until_condition policy)) of
              None \<Rightarrow> [error_finding (StateLocus (st_id state))
                         (NotFound ''ceremony_state.repeat.until.step'')]
            | Some step \<Rightarrow>
                if cs_state_id step \<noteq> st_id state
                then [error_finding (StateLocus (st_id state)) (InvariantViolated
                        ''state repeat condition must reference a step in that state'')]
                else []))
       (bm_values (def_states d)))"

definition guard_findings :: "ceremony_definition \<Rightarrow> string \<Rightarrow> ceremony_guard \<Rightarrow> finding list" where
  "guard_findings d name g =
     (case referenced_step_id (guard_condition g) of
        None \<Rightarrow> []
      | Some step_id \<Rightarrow>
          (case bm_get (def_steps d) step_id of
             None \<Rightarrow> [error_finding (GuardLocus name) (NotFound ''ceremony_guard.step'')]
           | Some step \<Rightarrow>
               (case guard_condition g of
                  StepRepeatExhausted _ \<Rightarrow>
                    if cs_repeat_policy step = None
                    then [error_finding (GuardLocus name) (InvariantViolated
                            ''exhausted-repeat guard must reference a repeating step'')]
                    else []
                | ChildrenCompleted _ join \<Rightarrow>
                    (case cs_spawn step of
                       None \<Rightarrow> [error_finding (GuardLocus name) (InvariantViolated
                                  ''children_completed guard must reference a child-spawning step'')]
                     | Some spawn \<Rightarrow>
                         (case join of
                            JoinQuorum count \<Rightarrow>
                              if length (spawn_children spawn) < unat count
                              then [error_finding (GuardLocus name)
                                      (OutOfRange ''child_quorum'' (uint count) 1
                                         (int (length (spawn_children spawn))))]
                              else []
                          | _ \<Rightarrow> []))
                | _ \<Rightarrow> [])))"

definition collect_guard_findings :: "ceremony_definition \<Rightarrow> finding list" where
  "collect_guard_findings d = concat (map (\<lambda>(n, g). guard_findings d n g) (def_guards d))"

definition guard_exhausts :: "ceremony_definition \<Rightarrow> string \<Rightarrow> string \<Rightarrow> bool" where
  "guard_exhausts d name state_id =
     (case bm_get (def_guards d) name of
        None \<Rightarrow> False
      | Some g \<Rightarrow> guard_condition g = StateRepeatExhausted state_id)"

definition guard_exhausts_other :: "ceremony_definition \<Rightarrow> string \<Rightarrow> string \<Rightarrow> bool" where
  "guard_exhausts_other d name state_id =
     (case bm_get (def_guards d) name of
        None \<Rightarrow> False
      | Some g \<Rightarrow> (case guard_condition g of
                     StateRepeatExhausted s \<Rightarrow> s \<noteq> state_id | _ \<Rightarrow> False))"

definition exhausted_guard_findings ::
  "ceremony_definition \<Rightarrow> string \<Rightarrow> ceremony_guard \<Rightarrow> finding list" where
  "exhausted_guard_findings d name g =
     (case guard_condition g of
        StateRepeatExhausted state_id \<Rightarrow>
          (case bm_get (def_states d) state_id of
             None \<Rightarrow> [error_finding (GuardLocus name) (NotFound ''ceremony_guard.state'')]
           | Some state \<Rightarrow>
               if st_repeat state = None
               then [error_finding (GuardLocus name) (InvariantViolated
                       ''exhausted-state-repeat guard must reference a repeating state'')]
               else [])
      | _ \<Rightarrow> [])"

definition collect_state_repeat_exhaustion_findings :: "ceremony_definition \<Rightarrow> finding list" where
  "collect_state_repeat_exhaustion_findings d =
     concat (map (\<lambda>(n, g). exhausted_guard_findings d n g) (def_guards d))
     @ concat (map (\<lambda>state.
         if st_repeat state = None then []
         else if list_ex (\<lambda>t. t_from t = st_id state
                \<and> list_ex (\<lambda>name. guard_exhausts d name (st_id state)) (t_required_guards t))
              (def_transitions d)
         then []
         else [warning_finding (StateLocus (st_id state)) (InvariantViolated
                 ''repeating state has no state_repeat_exhausted exit; exhausting its iterations stops the ceremony there'')])
         (bm_values (def_states d)))
     @ concat (map (\<lambda>t.
         if list_ex (\<lambda>name. guard_exhausts_other d name (t_from t)) (t_required_guards t)
         then [error_finding (TransitionLocus (t_from t) (t_trigger t)) (InvariantViolated
                 ''exhausted-state-repeat guard must reference the transition source state'')]
         else []) (def_transitions d))"

definition collect_role_findings :: "ceremony_definition \<Rightarrow> finding list" where
  "collect_role_findings d =
     concat (map (\<lambda>(rid, role). concat (map (\<lambda>action.
       (case action_step_id action of
          None \<Rightarrow> []
        | Some step_id \<Rightarrow>
            if bm_contains (def_steps d) step_id then []
            else [error_finding (RoleLocus rid) (NotFound ''ceremony_role.step_action'')])
       @ (case action_transition_trigger action of
            None \<Rightarrow> []
          | Some trigger \<Rightarrow>
              if trigger \<in> set (map t_trigger (def_transitions d)) then []
              else [error_finding (RoleLocus rid) (NotFound ''ceremony_role.transition_action'')]))
       (role_allowed_actions role))) (def_roles d))"

definition static_owner :: "ceremony_definition \<Rightarrow> ceremony_step \<Rightarrow> string option" where
  "static_owner d step =
     (if cs_dynamic_role_binding step \<noteq> None then None
      else map_option role_id
             (find (\<lambda>r. allows r (StepAction (cs_id step))) (bm_values (def_roles d))))"

definition static_owners :: "ceremony_definition \<Rightarrow> ceremony_step list \<Rightarrow> string list" where
  "static_owners d steps = List.map_filter (static_owner d) steps"

definition possible_roles :: "ceremony_definition \<Rightarrow> ceremony_step list \<Rightarrow> string set" where
  "possible_roles d steps =
     set (concat (map (\<lambda>s. case cs_dynamic_role_binding s of
                              None \<Rightarrow> [] | Some b \<Rightarrow> drb_allowed_roles b) steps))
     \<union> set (static_owners d steps)"

definition transition_has_join ::
  "ceremony_definition \<Rightarrow> ceremony_transition \<Rightarrow> ceremony_step list \<Rightarrow> bool" where
  "transition_has_join d t steps =
     (let required = required_guards_of d t in
      list_ex (\<lambda>g. case guard_condition g of
                     AllStepsCompleted \<Rightarrow> True | AnyStepCompleted \<Rightarrow> True
                   | StepsCompleted _ \<Rightarrow> True | _ \<Rightarrow> False) required
      \<or> joins_every_step required steps)"

definition concurrent_state_findings :: "ceremony_definition \<Rightarrow> ceremony_state \<Rightarrow> finding list" where
  "concurrent_state_findings d state =
     (let steps = filter (\<lambda>s. cs_state_id s = st_id state) (bm_values (def_steps d));
          outgoing = filter (\<lambda>t. t_from t = st_id state) (def_transitions d)
      in (if \<not> distinct (static_owners d steps)
          then [error_finding (StateLocus (st_id state)) (InvariantViolated
                  ''concurrent ceremony steps must have distinct role owners'')] else [])
         @ (if 3 < card (possible_roles d steps)
            then [warning_finding (StateLocus (st_id state)) (InvariantViolated
                    ''concurrent ceremony state has more than three role owners'')] else [])
         @ (if \<not> list_ex (\<lambda>t. transition_has_join d t steps) outgoing
            then [error_finding (StateLocus (st_id state)) (InvariantViolated
                    ''concurrent ceremony state requires an outgoing join guard'')] else [])
         @ concat (map (\<lambda>t. concat (map (\<lambda>name.
             case bm_get (def_guards d) name of
               None \<Rightarrow> []
             | Some g \<Rightarrow>
                 (case guard_condition g of
                    StepsCompleted count \<Rightarrow>
                      if length steps < unat count
                      then [error_finding (GuardLocus name)
                              (OutOfRange ''join_step_count'' (uint count) 1 (int (length steps)))]
                      else []
                  | _ \<Rightarrow> [])) (t_required_guards t))) outgoing))"

definition collect_concurrent_state_findings :: "ceremony_definition \<Rightarrow> finding list" where
  "collect_concurrent_state_findings d =
     concat (map (concurrent_state_findings d)
       (filter (\<lambda>s. st_execution s = Concurrent) (bm_values (def_states d))))"

definition collect_reachability_findings :: "ceremony_definition \<Rightarrow> finding list" where
  "collect_reachability_findings d =
     (case sole_initial_state_id d of
        None \<Rightarrow> []
      | Some initial \<Rightarrow>
          if \<not> transition_endpoints_resolve d then []
          else if \<not> list_ex state_is_terminal (bm_values (def_states d))
          then [warning_finding DefinitionLocus
                  (InvariantViolated ''ceremony definition has no terminal state'')]
          else concat (map (\<lambda>state_id.
            if state_id \<notin> states_reachable_from d initial
            then [warning_finding (StateLocus state_id) (InvariantViolated
                    ''ceremony state is unreachable from the initial state'')]
            else if state_id \<notin> states_that_reach_a_terminal d
            then [warning_finding (StateLocus state_id) (InvariantViolated
                    ''no terminal state is reachable from this ceremony state'')]
            else []) (bm_keys (def_states d))))"

definition collect_global_completion_findings :: "ceremony_definition \<Rightarrow> finding list" where
  "collect_global_completion_findings d =
     (case sole_initial_state_id d of
        None \<Rightarrow> []
      | Some initial \<Rightarrow>
          if \<not> transition_endpoints_resolve d \<or> \<not> transition_guards_resolve d then []
          else let before = states_before_global_completion d initial in
            concat (map (\<lambda>t.
              if t_from t \<notin> before \<or> \<not> requires_global_completion d t then []
              else if list_ex (\<lambda>step.
                     cs_state_id step \<in> states_reachable_from d (t_to t)
                     \<and> \<not> (cs_state_id step \<in> before
                           \<and> cs_state_id step \<in> states_leading_to d (t_from t)))
                   (bm_values (def_steps d))
              then [warning_finding (TransitionLocus (t_from t) (t_trigger t)) (InvariantViolated
                      ''all_steps_completed is global and waits for downstream steps; use explicit source step_status guards or a state-scoped steps_completed join'')]
              else []) (def_transitions d)))"

definition analyze :: "ceremony_definition \<Rightarrow> finding list" where
  "analyze d =
     collect_initial_state_findings d
     @ collect_transition_graph_findings d
     @ collect_cycle_findings d
     @ collect_step_findings d
     @ collect_aggregation_findings d
     @ collect_state_repeat_findings d
     @ collect_guard_findings d
     @ collect_state_repeat_exhaustion_findings d
     @ collect_role_findings d
     @ collect_concurrent_state_findings d
     @ collect_reachability_findings d
     @ collect_global_completion_findings d"

definition validate :: "ceremony_definition \<Rightarrow> unit result" where
  "validate d =
     (case first_error (analyze d) of
        Some f \<Rightarrow> Inl (finding_defect f)
      | None \<Rightarrow> Inr ())"

definition MAX_PARALLEL_DEFAULT :: u8 where
  "MAX_PARALLEL_DEFAULT = 3"

definition definition_new ::
  "string \<Rightarrow> string \<Rightarrow> string option \<Rightarrow> ceremony_input list \<Rightarrow> string list \<Rightarrow> ceremony_state list \<Rightarrow>
   ceremony_transition list \<Rightarrow> ceremony_step list \<Rightarrow> ceremony_guard list \<Rightarrow> ceremony_role list \<Rightarrow>
   u32 option \<Rightarrow> u32 option \<Rightarrow> ceremony_definition result" where
  "definition_new name version description inputs outputs states transitions steps guards roles
     max_transitions max_bounces =
     and_then (collect_inputs inputs) (\<lambda>ins.
     and_then (collect_outputs outputs) (\<lambda>outs.
     and_then (collect_states states) (\<lambda>sts.
     and_then (collect_steps steps) (\<lambda>(stps, order).
     and_then (collect_guards guards) (\<lambda>gs.
     and_then (collect_roles roles) (\<lambda>rs.
       let d = \<lparr>def_name = name, def_version = version, def_description = description,
                def_inputs = ins, def_outputs = outs, def_states = sts,
                def_transitions = transitions, def_steps = stps, def_step_order = order,
                def_guards = gs, def_roles = rs, def_max_parallel = MAX_PARALLEL_DEFAULT,
                def_max_transitions = max_transitions, def_max_bounces = max_bounces,
                def_ceremony_timeout = None, def_state_timeout = None\<rparr>
       in and_then (validate d) (\<lambda>_. Inr d)))))))"

end
