(* ===== verification/Definition_Diff.thy ===== *)
theory Definition_Diff
  imports Definition_Analysis
begin

text \<open>
  What differs between two definitions of a ceremony
  (\<open>value_objects/ceremony/ceremony_definition_diff.rs\<close>), and whether each difference carries a
  running session or can strand it.  Every collector returns the changes it pushes, in order, and
  \<open>between\<close> is their concatenation.  The lemmas at the end say what a definition that strands
  nobody keeps of the earlier one.
\<close>

datatype change_kind = ChangeAdded | ChangeRemoved | ChangeAltered

datatype change_impact = Carries | Strands

record definition_change =
  chg_kind :: change_kind
  chg_locus :: locus
  chg_impact :: change_impact
  chg_detail :: string

definition change :: "change_kind \<Rightarrow> locus \<Rightarrow> change_impact \<Rightarrow> string \<Rightarrow> definition_change" where
  "change k l i d = \<lparr>chg_kind = k, chg_locus = l, chg_impact = i, chg_detail = d\<rparr>"

definition is_required :: "ceremony_input \<Rightarrow> bool" where
  "is_required i = (input_requirement i = InputRequired)"

definition change_when :: "bool \<Rightarrow> definition_change \<Rightarrow> definition_change list" where
  "change_when b c = (if b then [c] else [])"


section \<open>Collectors\<close>

definition diff_transition_budget :: "u32 option \<Rightarrow> u32 option \<Rightarrow> string \<Rightarrow> definition_change list" where
  "diff_transition_budget before after detail =
     (if before = after then []
      else let impact = (case (before, after) of
                           (None, Some _) \<Rightarrow> Strands
                         | (Some old, Some new) \<Rightarrow> if new < old then Strands else Carries
                         | _ \<Rightarrow> Carries)
           in [change ChangeAltered DefinitionLocus impact detail])"

definition diff_transition_budgets ::
  "ceremony_definition \<Rightarrow> ceremony_definition \<Rightarrow> definition_change list" where
  "diff_transition_budgets before after =
     diff_transition_budget (def_max_transitions before) (def_max_transitions after)
       ''the total number of transitions a running session may apply'' @
     diff_transition_budget (def_max_bounces before) (def_max_bounces after)
       ''the number of times a running session may apply one exact edge''"

definition diff_max_parallel ::
  "ceremony_definition \<Rightarrow> ceremony_definition \<Rightarrow> definition_change list" where
  "diff_max_parallel before after =
     (if def_max_parallel before = def_max_parallel after then []
      else [change ChangeAltered DefinitionLocus
              (if def_max_parallel after < def_max_parallel before then Strands else Carries)
              ''how many steps may be claimed concurrently''])"

definition diff_state ::
  "ceremony_definition \<Rightarrow> string \<times> ceremony_state \<Rightarrow> definition_change list" where
  "diff_state after = (\<lambda>(i, s).
     case bm_get (def_states after) i of
       None \<Rightarrow> [change ChangeRemoved (StateLocus i) Strands
                  ''a session in this state would have nowhere to be'']
     | Some now \<Rightarrow>
         change_when (st_kind now \<noteq> st_kind s)
           (change ChangeAltered (StateLocus i) Strands
              ''whether the session may start or finish here'') @
         change_when (st_execution now \<noteq> st_execution s)
           (change ChangeAltered (StateLocus i) Strands
              ''whether work in this state runs sequentially or concurrently'') @
         change_when (st_repeat now \<noteq> st_repeat s)
           (change ChangeAltered (StateLocus i) Strands
              ''when and how often this state repeats''))"

definition diff_states :: "ceremony_definition \<Rightarrow> ceremony_definition \<Rightarrow> definition_change list" where
  "diff_states before after =
     concat (map (diff_state after) (def_states before)) @
     concat (map (\<lambda>i. change_when (\<not> bm_contains (def_states before) i)
                    (change ChangeAdded (StateLocus i) Carries
                       ''a state no running session is in yet''))
              (bm_keys (def_states after)))"

definition transition_key :: "ceremony_transition \<Rightarrow> string \<times> string" where
  "transition_key t = (t_from t, t_trigger t)"

definition diff_transition ::
  "ceremony_definition \<Rightarrow> ceremony_transition \<Rightarrow> definition_change list" where
  "diff_transition after old =
     (let l = TransitionLocus (t_from old) (t_trigger old) in
      case find (\<lambda>c. transition_key c = transition_key old) (def_transitions after) of
        None \<Rightarrow> [change ChangeRemoved l Strands ''a way out of the state it leaves'']
      | Some now \<Rightarrow>
          if t_to now \<noteq> t_to old then [change ChangeAltered l Strands ''where it leads'']
          else if t_required_guards now \<noteq> t_required_guards old
          then [change ChangeAltered l
                  (if set (t_required_guards old) \<subseteq> set (t_required_guards now)
                   then Strands else Carries)
                  ''what has to hold before it can fire'']
          else [])"

definition diff_transitions ::
  "ceremony_definition \<Rightarrow> ceremony_definition \<Rightarrow> definition_change list" where
  "diff_transitions before after =
     concat (map (diff_transition after) (def_transitions before)) @
     concat (map (\<lambda>now. change_when
                    (\<not> list_ex (\<lambda>c. transition_key c = transition_key now) (def_transitions before))
                    (change ChangeAdded (TransitionLocus (t_from now) (t_trigger now)) Carries
                       ''another way out of a state''))
              (def_transitions after))"

definition dynamic_role_binding_impact ::
  "dynamic_role_binding option \<Rightarrow> dynamic_role_binding option \<Rightarrow> change_impact" where
  "dynamic_role_binding_impact before after =
     (case (before, after) of
        (_, None) \<Rightarrow> Carries
      | (Some b, Some a) \<Rightarrow>
          if drb_context_key b = drb_context_key a
             \<and> set (drb_allowed_roles b) \<subseteq> set (drb_allowed_roles a)
          then Carries else Strands
      | (None, Some _) \<Rightarrow> Strands)"

definition diff_step ::
  "ceremony_definition \<Rightarrow> string \<times> ceremony_step \<Rightarrow> definition_change list" where
  "diff_step after = (\<lambda>(i, old).
     case bm_get (def_steps after) i of
       None \<Rightarrow> [change ChangeRemoved (StepLocus i) Strands ''work a session may not have done yet'']
     | Some now \<Rightarrow>
         change_when (cs_state_id now \<noteq> cs_state_id old)
           (change ChangeAltered (StepLocus i) Strands ''the state it belongs to'') @
         change_when (cs_handler_kind now \<noteq> cs_handler_kind old)
           (change ChangeAltered (StepLocus i) Carries ''who does the work'') @
         change_when (cs_handler_config now \<noteq> cs_handler_config old)
           (change ChangeAltered (StepLocus i) Carries ''how the work is asked for'') @
         change_when (cs_dynamic_role_binding now \<noteq> cs_dynamic_role_binding old)
           (change ChangeAltered (StepLocus i)
              (dynamic_role_binding_impact (cs_dynamic_role_binding old)
                 (cs_dynamic_role_binding now))
              ''how the role that may claim the step is resolved'') @
         change_when (cs_context_writes now \<noteq> cs_context_writes old)
           (change ChangeAltered (StepLocus i) Strands
              ''which successful output fields update ceremony context'') @
         change_when (cs_aggregation now \<noteq> cs_aggregation old)
           (change ChangeAltered (StepLocus i) Carries
              ''how predecessor sibling outputs are aggregated'') @
         change_when (cs_retry_policy now \<noteq> cs_retry_policy old
                      \<or> cs_timeout now \<noteq> cs_timeout old
                      \<or> cs_repeat_policy now \<noteq> cs_repeat_policy old)
           (change ChangeAltered (StepLocus i) Carries
              ''how long it may take, how often it may be retried, or when repetition stops''))"

definition diff_steps :: "ceremony_definition \<Rightarrow> ceremony_definition \<Rightarrow> definition_change list" where
  "diff_steps before after =
     concat (map (diff_step after) (def_steps before)) @
     concat (map (\<lambda>i. change_when (\<not> bm_contains (def_steps before) i)
                    (change ChangeAdded (StepLocus i) Strands
                       ''work a session may already have moved past''))
              (bm_keys (def_steps after)))"

definition diff_guards :: "ceremony_definition \<Rightarrow> ceremony_definition \<Rightarrow> definition_change list" where
  "diff_guards before after =
     concat (map (\<lambda>(name, old).
               case bm_get (def_guards after) name of
                 None \<Rightarrow> [change ChangeRemoved (GuardLocus name) Carries
                            ''a condition no longer asked for'']
               | Some now \<Rightarrow>
                   change_when (guard_condition now \<noteq> guard_condition old)
                     (change ChangeAltered (GuardLocus name) Strands ''what satisfies it''))
              (def_guards before)) @
     concat (map (\<lambda>name. change_when (\<not> bm_contains (def_guards before) name)
                    (change ChangeAdded (GuardLocus name) Carries
                       ''a condition that only matters where a transition asks for it''))
              (bm_keys (def_guards after)))"

definition diff_role ::
  "ceremony_definition \<Rightarrow> string \<times> ceremony_role \<Rightarrow> definition_change list" where
  "diff_role after = (\<lambda>(i, old).
     case bm_get (def_roles after) i of
       None \<Rightarrow> [change ChangeRemoved (RoleLocus i) Strands
                  ''whoever was acting as this role can no longer act'']
     | Some now \<Rightarrow>
         change_when (role_allowed_actions now \<noteq> role_allowed_actions old)
           (change ChangeAltered (RoleLocus i)
              (if set (role_allowed_actions old) \<subseteq> set (role_allowed_actions now)
               then Carries else Strands)
              ''what this role is allowed to do''))"

definition diff_roles :: "ceremony_definition \<Rightarrow> ceremony_definition \<Rightarrow> definition_change list" where
  "diff_roles before after =
     concat (map (diff_role after) (def_roles before)) @
     concat (map (\<lambda>i. change_when (\<not> bm_contains (def_roles before) i)
                    (change ChangeAdded (RoleLocus i) Carries ''another role at the table''))
              (bm_keys (def_roles after)))"

definition diff_input ::
  "ceremony_definition \<Rightarrow> string \<times> ceremony_input \<Rightarrow> definition_change list" where
  "diff_input before = (\<lambda>(name, now).
     case bm_get (def_inputs before) name of
       None \<Rightarrow> [change ChangeAdded (InputLocus name)
                  (if is_required now then Strands else Carries)
                  ''an input the ceremony now asks for'']
     | Some was \<Rightarrow>
         change_when (is_required was \<noteq> is_required now)
           (change ChangeAltered (InputLocus name)
              (if is_required now then Strands else Carries)
              ''whether it has to be supplied''))"

definition diff_shape :: "ceremony_definition \<Rightarrow> ceremony_definition \<Rightarrow> definition_change list" where
  "diff_shape before after =
     concat (map (\<lambda>name. change_when (\<not> bm_contains (def_inputs after) name)
                    (change ChangeRemoved (InputLocus name) Carries
                       ''an input no longer asked for''))
              (bm_keys (def_inputs before))) @
     concat (map (diff_input before) (def_inputs after)) @
     concat (map (\<lambda>name. change_when (\<not> bm_contains (def_outputs after) name)
                    (change ChangeRemoved (OutputLocus name) Carries
                       ''an output no longer produced''))
              (bm_keys (def_outputs before))) @
     concat (map (\<lambda>name. change_when (\<not> bm_contains (def_outputs before) name)
                    (change ChangeAdded (OutputLocus name) Carries
                       ''an output not produced before''))
              (bm_keys (def_outputs after))) @
     change_when (def_description before \<noteq> def_description after)
       (change ChangeAltered DefinitionLocus Carries ''what the ceremony says it is for'')"

definition between :: "ceremony_definition \<Rightarrow> ceremony_definition \<Rightarrow> definition_change list" where
  "between before after =
     diff_states before after @ diff_transitions before after @ diff_steps before after @
     diff_guards before after @ diff_roles before after @ diff_max_parallel before after @
     diff_transition_budgets before after @ diff_shape before after"

definition strands_running_sessions :: "definition_change list \<Rightarrow> bool" where
  "strands_running_sessions changes = list_ex (\<lambda>c. chg_impact c = Strands) changes"


section \<open>What carrying a running session keeps\<close>

lemma strands_append [simp]:
  "strands_running_sessions (xs @ ys) \<longleftrightarrow> strands_running_sessions xs \<or> strands_running_sessions ys"
  "\<not> strands_running_sessions []"
  by (simp_all add: strands_running_sessions_def)

lemma strands_concat [simp]:
  "strands_running_sessions (concat (map f xs)) \<longleftrightarrow> (\<exists>x \<in> set xs. strands_running_sessions (f x))"
  by (induction xs) auto

lemma strands_Cons [simp]:
  "strands_running_sessions (change k l i d # cs) \<longleftrightarrow> i = Strands \<or> strands_running_sessions cs"
  by (simp add: strands_running_sessions_def change_def)

lemma strands_change_when [simp]:
  "strands_running_sessions (change_when b (change k l i d)) \<longleftrightarrow> b \<and> i = Strands"
  by (simp add: change_when_def strands_running_sessions_def change_def)

definition budget_carried :: "u32 option \<Rightarrow> u32 option \<Rightarrow> bool" where
  "budget_carried before after =
     (case after of None \<Rightarrow> True
      | Some new \<Rightarrow> (case before of None \<Rightarrow> False | Some old \<Rightarrow> old \<le> new))"

definition state_carried :: "ceremony_definition \<Rightarrow> string \<times> ceremony_state \<Rightarrow> bool" where
  "state_carried after = (\<lambda>(i, s). case bm_get (def_states after) i of
     None \<Rightarrow> False
   | Some now \<Rightarrow> st_kind now = st_kind s \<and> st_execution now = st_execution s
                 \<and> st_repeat now = st_repeat s)"

text \<open>
  Note the guards of a transition: a change that neither keeps nor extends the old set, for
  instance the replacement of one guard by another, counts as carried.
\<close>

definition transition_carried :: "ceremony_definition \<Rightarrow> ceremony_transition \<Rightarrow> bool" where
  "transition_carried after old =
     (case find (\<lambda>c. transition_key c = transition_key old) (def_transitions after) of
        None \<Rightarrow> False
      | Some now \<Rightarrow> t_to now = t_to old
          \<and> (t_required_guards now = t_required_guards old
             \<or> \<not> set (t_required_guards old) \<subseteq> set (t_required_guards now)))"

definition step_carried :: "ceremony_definition \<Rightarrow> string \<times> ceremony_step \<Rightarrow> bool" where
  "step_carried after = (\<lambda>(i, old). case bm_get (def_steps after) i of
     None \<Rightarrow> False
   | Some now \<Rightarrow> cs_state_id now = cs_state_id old
                 \<and> (cs_dynamic_role_binding now = cs_dynamic_role_binding old
                    \<or> dynamic_role_binding_impact (cs_dynamic_role_binding old)
                         (cs_dynamic_role_binding now) = Carries)
                 \<and> cs_context_writes now = cs_context_writes old)"

definition role_carried :: "ceremony_definition \<Rightarrow> string \<times> ceremony_role \<Rightarrow> bool" where
  "role_carried after = (\<lambda>(i, old). case bm_get (def_roles after) i of
     None \<Rightarrow> False
   | Some now \<Rightarrow> set (role_allowed_actions old) \<subseteq> set (role_allowed_actions now))"

definition guard_carried :: "ceremony_definition \<Rightarrow> string \<times> ceremony_guard \<Rightarrow> bool" where
  "guard_carried after = (\<lambda>(name, old). case bm_get (def_guards after) name of
     None \<Rightarrow> True | Some now \<Rightarrow> guard_condition now = guard_condition old)"

definition input_carried :: "ceremony_definition \<Rightarrow> string \<times> ceremony_input \<Rightarrow> bool" where
  "input_carried before = (\<lambda>(name, now). is_required now \<longrightarrow>
     (case bm_get (def_inputs before) name of None \<Rightarrow> False | Some was \<Rightarrow> is_required was))"

definition carried_over :: "ceremony_definition \<Rightarrow> ceremony_definition \<Rightarrow> bool" where
  "carried_over before after =
     (list_all (state_carried after) (def_states before)
      \<and> list_all (transition_carried after) (def_transitions before)
      \<and> list_all (step_carried after) (def_steps before)
      \<and> set (bm_keys (def_steps after)) \<subseteq> set (bm_keys (def_steps before))
      \<and> list_all (guard_carried after) (def_guards before)
      \<and> list_all (role_carried after) (def_roles before)
      \<and> def_max_parallel before \<le> def_max_parallel after
      \<and> budget_carried (def_max_transitions before) (def_max_transitions after)
      \<and> budget_carried (def_max_bounces before) (def_max_bounces after)
      \<and> list_all (input_carried before) (def_inputs after))"

lemma diff_state_strands: "strands_running_sessions (diff_state a p) \<longleftrightarrow> \<not> state_carried a p"
  by (auto simp: diff_state_def state_carried_def split: prod.splits option.splits)

lemma diff_transition_strands:
  "strands_running_sessions (diff_transition a t) \<longleftrightarrow> \<not> transition_carried a t"
  by (auto simp: diff_transition_def transition_carried_def Let_def split: option.splits)

lemma diff_step_strands: "strands_running_sessions (diff_step a p) \<longleftrightarrow> \<not> step_carried a p"
  by (cases p)
    (auto simp: diff_step_def step_carried_def dynamic_role_binding_impact_def
          split: option.splits if_splits)

lemma diff_role_strands: "strands_running_sessions (diff_role a p) \<longleftrightarrow> \<not> role_carried a p"
  by (cases p) (auto simp: diff_role_def role_carried_def split: option.splits)

lemma diff_input_strands: "strands_running_sessions (diff_input b p) \<longleftrightarrow> \<not> input_carried b p"
  by (cases p) (auto simp: diff_input_def input_carried_def split: option.splits)

lemma diff_budget_strands:
  "strands_running_sessions (diff_transition_budget b a d) \<longleftrightarrow> \<not> budget_carried b a"
  by (cases b; cases a) (auto simp: diff_transition_budget_def budget_carried_def)

lemma diff_max_parallel_strands:
  "strands_running_sessions (diff_max_parallel b a) \<longleftrightarrow>
     \<not> def_max_parallel b \<le> def_max_parallel a"
  by (auto simp: diff_max_parallel_def)

lemma diff_guards_strands:
  "strands_running_sessions (diff_guards b a) \<longleftrightarrow> \<not> list_all (guard_carried a) (def_guards b)"
proof -
  have "strands_running_sessions ((\<lambda>(name, old).
            case bm_get (def_guards a) name of
              None \<Rightarrow> [change ChangeRemoved (GuardLocus name) Carries
                         ''a condition no longer asked for'']
            | Some now \<Rightarrow>
                change_when (guard_condition now \<noteq> guard_condition old)
                  (change ChangeAltered (GuardLocus name) Strands ''what satisfies it'')) p)
          \<longleftrightarrow> \<not> guard_carried a p" for p
    by (cases p) (simp add: guard_carried_def split: option.splits)
  then show ?thesis
    by (simp add: diff_guards_def list_all_iff)
qed

lemma diff_steps_strands:
  "strands_running_sessions (diff_steps b a) \<longleftrightarrow>
     \<not> (list_all (step_carried a) (def_steps b)
        \<and> set (bm_keys (def_steps a)) \<subseteq> set (bm_keys (def_steps b)))"
  by (simp add: diff_steps_def diff_step_strands list_all_iff bm_contains_def bm_get_None_iff
      subset_iff) blast

lemma strands_iff_not_carried:
  "strands_running_sessions (between b a) \<longleftrightarrow> \<not> carried_over b a"
  unfolding between_def carried_over_def diff_states_def diff_transitions_def diff_roles_def
    diff_shape_def diff_transition_budgets_def strands_append strands_concat strands_change_when
    diff_guards_strands diff_steps_strands diff_state_strands diff_transition_strands
    diff_role_strands diff_input_strands diff_budget_strands diff_max_parallel_strands list_all_iff
  by simp blast

end
