(* ===== verification/Ceremony_Intervention.thy ===== *)
theory Ceremony_Intervention
  imports Ceremony_Values
begin

text \<open>
  Interventions (\<open>entities/ceremony_intervention.rs\<close> and its value objects): an agenda item raised
  during a ceremony, addressed to the table, to roles or to one agent execution; answered at most
  once per role while it is open; closed once, by the role that raised it.
\<close>


section \<open>Values\<close>

datatype intervention_kind = Opinion | Investigation | Action
datatype intervention_status = Open | Closed
datatype intervention_intent =
  QuestionIntent | FeedbackIntent | ConstraintIntent | CheckpointIntent

definition expects_response :: "intervention_intent \<Rightarrow> bool" where
  "expects_response i = (i \<in> {QuestionIntent, CheckpointIntent})"

record intervention_content =
  content_message :: string
  content_details :: attributes

definition MAX_MESSAGE_LEN :: nat where
  "MAX_MESSAGE_LEN = 16384"

definition intervention_content_new :: "string \<Rightarrow> attributes \<Rightarrow> intervention_content result" where
  "intervention_content_new message details =
     and_then (validated_text message ''ceremony_intervention.message'' MAX_MESSAGE_LEN)
       (\<lambda>trimmed. Inr \<lparr>content_message = trimmed, content_details = details\<rparr>)"

definition evidence_pack_new :: "evidence_pack \<Rightarrow> evidence_pack result" where
  "evidence_pack_new p =
     (if pack_summary p = None then Inl (EmptyField ''ceremony_evidence_pack.summary'')
      else if pack_items p = [] \<and> pack_references p = []
      then Inl (EmptyCollection ''ceremony_evidence_pack.evidence'')
      else Inr p)"

definition evidence_pack_intervention_content ::
  "platform \<Rightarrow> evidence_pack \<Rightarrow> intervention_content result" where
  "evidence_pack_intervention_content env p =
     and_then (ok_or (pack_summary p)
       (InvariantViolated ''ceremony evidence pack must retain its summary'')) (\<lambda>summary.
     and_then (ok_or (evidence_pack_to_value env p)
       (InvariantViolated
          ''ceremony evidence pack could not be represented as attributes'')) (\<lambda>serialized.
     and_then (attributes_new [(''evidence_pack'', serialized)]) (\<lambda>details.
       intervention_content_new summary details)))"

record delivery_recipient =
  rcpt_agent_execution_id :: string
  rcpt_incarnation :: string
  rcpt_role_id :: string

definition is_same_incarnation_as :: "delivery_recipient \<Rightarrow> delivery_recipient \<Rightarrow> bool" where
  "is_same_incarnation_as a b =
     (rcpt_agent_execution_id a = rcpt_agent_execution_id b
      \<and> rcpt_incarnation a = rcpt_incarnation b)"

datatype observation_kind =
  ObsReceived | ObsRefused | ObsIncapable | ObsBusy | ObsTimeout

record delivery_observation =
  obs_kind :: observation_kind
  obs_observed_at :: int
  obs_evidence :: "string option"
  obs_note :: string

record delivery_ack =
  ack_delivery_id :: string
  ack_recipient :: delivery_recipient
  ack_observation :: delivery_observation
  ack_acknowledged_at :: int

definition agrees_with :: "delivery_ack \<Rightarrow> delivery_ack \<Rightarrow> bool" where
  "agrees_with a b =
     (ack_delivery_id a = ack_delivery_id b \<and> ack_recipient a = ack_recipient b
      \<and> ack_observation a = ack_observation b)"

datatype delivery_mode = PullLease | Activation
datatype follow_replacement = Stay | Follow

record delivery_policy =
  dp_mode :: delivery_mode
  dp_lease_duration :: u64
  dp_ack_timeout :: "u64 option"
  dp_max_attempts :: u32
  dp_follow_replacement :: follow_replacement

definition delivery_policy_new ::
  "delivery_mode \<Rightarrow> u64 \<Rightarrow> u64 option \<Rightarrow> u32 \<Rightarrow> follow_replacement \<Rightarrow> delivery_policy result" where
  "delivery_policy_new mode lease_duration ack_timeout attempts follow =
     (if \<not> (1 \<le> lease_duration \<and> lease_duration \<le> 3600000)
      then Inl (OutOfRange ''host_delivery_lease_duration'' (uint lease_duration) 1 3600000)
      else if ack_timeout = Some 0 then Inl (MustBeNonZero ''host_delivery_ack_timeout'')
      else Inr \<lparr>dp_mode = mode, dp_lease_duration = lease_duration, dp_ack_timeout = ack_timeout,
                dp_max_attempts = attempts, dp_follow_replacement = follow\<rparr>)"

datatype intervention_target =
    Table
  | Roles "string list"
  | AgentExecution delivery_recipient

definition TARGET_ROLES_FIELD :: string where
  "TARGET_ROLES_FIELD = ''ceremony_intervention.target_role_ids''"

fun role_ids_loop :: "string list \<Rightarrow> string list \<Rightarrow> string list result" where
  "role_ids_loop roles [] = Inr roles"
| "role_ids_loop roles (raw # rest) =
     and_then (role_id_new raw) (\<lambda>role.
       if role \<in> set roles
       then Inl (InvalidDocument
         (''collection `'' @ TARGET_ROLES_FIELD @ ''` contains duplicate roles''))
       else if 100 < length (insort role roles)
       then Inl (OutOfRange TARGET_ROLES_FIELD (int (length (insort role roles))) 1 100)
       else role_ids_loop (insort role roles) rest)"

definition intervention_role_ids_new :: "string list \<Rightarrow> string list result" where
  "intervention_role_ids_new raw =
     and_then (role_ids_loop [] raw) (\<lambda>roles.
       if roles = [] then Inl (EmptyCollection TARGET_ROLES_FIELD) else Inr roles)"

fun target_validate :: "intervention_target \<Rightarrow> unit result" where
  "target_validate Table = Inr ()"
| "target_validate (AgentExecution _) = Inr ()"
| "target_validate (Roles role_ids) =
     and_then (intervention_role_ids_new role_ids) (\<lambda>_. Inr ())"

fun target_accepts :: "intervention_target \<Rightarrow> string \<Rightarrow> bool" where
  "target_accepts Table rid = True"
| "target_accepts (Roles role_ids) rid = (rid \<in> set role_ids)"
| "target_accepts (AgentExecution recipient) rid = (rcpt_role_id recipient = rid)"

fun exact_recipient :: "intervention_target \<Rightarrow> delivery_recipient option" where
  "exact_recipient (AgentExecution recipient) = Some recipient"
| "exact_recipient _ = None"

fun admits_recipient :: "intervention_target \<Rightarrow> delivery_recipient \<Rightarrow> bool" where
  "admits_recipient (AgentExecution addressed) recipient =
     is_same_incarnation_as addressed recipient"
| "admits_recipient t recipient = target_accepts t (rcpt_role_id recipient)"

record intervention_provenance =
  prov_source_intervention :: string
  prov_source_response_role :: string
  prov_selected_role :: string

record supervisor_principal =
  sup_principal_id :: string
  sup_display :: string

definition supervisor_requesting_role :: "supervisor_principal \<Rightarrow> string result" where
  "supervisor_requesting_role s = role_id_new (''supervisor:'' @ sup_principal_id s)"

record intervention_response =
  resp_role_id :: string
  resp_content :: intervention_content
  resp_evidence_pack :: "evidence_pack option"
  resp_responded_at :: int
  resp_executor :: "delivery_recipient option"
  resp_delivery_id :: "string option"

definition intervention_response_new ::
  "string \<Rightarrow> intervention_content \<Rightarrow> int \<Rightarrow> intervention_response" where
  "intervention_response_new rid content at =
     \<lparr>resp_role_id = rid, resp_content = content, resp_evidence_pack = None,
      resp_responded_at = at, resp_executor = None, resp_delivery_id = None\<rparr>"

definition answering_delivery ::
  "intervention_response \<Rightarrow> delivery_recipient \<Rightarrow> string \<Rightarrow> intervention_response" where
  "answering_delivery r executor delivery_id =
     r\<lparr>resp_executor := Some executor, resp_delivery_id := Some delivery_id\<rparr>"

definition intervention_response_from_evidence ::
  "platform \<Rightarrow> string \<Rightarrow> evidence_pack \<Rightarrow> int \<Rightarrow> intervention_response result" where
  "intervention_response_from_evidence env rid pack at =
     and_then (evidence_pack_intervention_content env pack) (\<lambda>content.
       Inr \<lparr>resp_role_id = rid, resp_content = content, resp_evidence_pack = Some pack,
            resp_responded_at = at, resp_executor = None, resp_delivery_id = None\<rparr>)"


section \<open>The intervention\<close>

record ceremony_intervention =
  iv_id :: string
  iv_kind :: intervention_kind
  iv_requested_by :: string
  iv_target :: intervention_target
  iv_request :: intervention_content
  iv_provenance :: "intervention_provenance option"
  iv_responses :: "intervention_response list"
  iv_status :: intervention_status
  iv_created_at :: int
  iv_updated_at :: int
  iv_closed_at :: "int option"
  iv_intent :: "intervention_intent option"
  iv_delivery :: "delivery_policy option"
  iv_supervisor :: "supervisor_principal option"
  iv_deliveries :: "delivery_ack list"

definition open_with_provenance ::
  "string \<Rightarrow> intervention_kind \<Rightarrow> string \<Rightarrow> intervention_target \<Rightarrow> intervention_content \<Rightarrow>
     intervention_provenance option \<Rightarrow> int \<Rightarrow> ceremony_intervention" where
  "open_with_provenance i kind requested_by target request provenance now =
     \<lparr>iv_id = i, iv_kind = kind, iv_requested_by = requested_by, iv_target = target,
      iv_request = request, iv_provenance = provenance, iv_responses = [], iv_status = Open,
      iv_created_at = now, iv_updated_at = now, iv_closed_at = None, iv_intent = None,
      iv_delivery = None, iv_supervisor = None, iv_deliveries = []\<rparr>"

definition intervention_delivery_ack ::
  "ceremony_intervention \<Rightarrow> string \<Rightarrow> delivery_ack option" where
  "intervention_delivery_ack i delivery_id =
     find (\<lambda>a. ack_delivery_id a = delivery_id) (iv_deliveries i)"

definition acknowledge_delivery ::
  "ceremony_intervention \<Rightarrow> delivery_ack \<Rightarrow> ceremony_intervention result" where
  "acknowledge_delivery i ack =
     (case intervention_delivery_ack i (ack_delivery_id ack) of
        Some existing \<Rightarrow>
          if agrees_with existing ack then Inr i
          else Inl (Conflict ''ceremony_intervention.delivery_acknowledgement'')
      | None \<Rightarrow> Inr (i\<lparr>iv_updated_at := ack_acknowledged_at ack,
                        iv_deliveries := iv_deliveries i @ [ack]\<rparr>))"

definition ensure_can_respond :: "ceremony_intervention \<Rightarrow> string \<Rightarrow> unit result" where
  "ensure_can_respond i rid =
     (if iv_status i \<noteq> Open
      then Inl (InvariantViolated ''closed ceremony interventions cannot receive responses'')
      else if \<not> target_accepts (iv_target i) rid
      then Inl (InvariantViolated ''ceremony intervention does not target responding role'')
      else if list_ex (\<lambda>r. resp_role_id r = rid) (iv_responses i)
      then Inl (AlreadyExists ''ceremony_intervention.response_role'')
      else Inr ())"

definition accept_response ::
  "ceremony_intervention \<Rightarrow> intervention_response \<Rightarrow> ceremony_intervention result" where
  "accept_response i response =
     and_then (ensure_can_respond i (resp_role_id response)) (\<lambda>_.
       Inr (i\<lparr>iv_updated_at := resp_responded_at response,
              iv_responses := iv_responses i @ [response]\<rparr>))"

definition close_intervention ::
  "ceremony_intervention \<Rightarrow> string \<Rightarrow> int \<Rightarrow> ceremony_intervention result" where
  "close_intervention i rid now =
     (if iv_status i \<noteq> Open
      then Inl (InvariantViolated ''ceremony intervention is already closed'')
      else if rid \<noteq> iv_requested_by i
      then Inl (InvariantViolated
        ''only the requesting role can close a ceremony intervention'')
      else Inr (i\<lparr>iv_status := Closed, iv_updated_at := now, iv_closed_at := Some now\<rparr>))"


section \<open>Invariant\<close>

text \<open>
  A role answers at most once and only when addressed, an offer is acknowledged at most once, and
  the closing time is recorded exactly when the item is closed.
\<close>

definition intervention_inv :: "ceremony_intervention \<Rightarrow> bool" where
  "intervention_inv i =
     (distinct (map resp_role_id (iv_responses i)) \<and>
      (\<forall>r \<in> set (iv_responses i). target_accepts (iv_target i) (resp_role_id r)) \<and>
      distinct (map ack_delivery_id (iv_deliveries i)) \<and>
      (iv_status i = Closed \<longleftrightarrow> iv_closed_at i \<noteq> None))"

lemma open_inv [simp]: "intervention_inv (open_with_provenance i k r t c p now)"
  by (simp add: intervention_inv_def open_with_provenance_def)

lemma find_None_distinct:
  "find (\<lambda>a. f a = x) as = None \<Longrightarrow> distinct (map f as) \<Longrightarrow> f b = x \<Longrightarrow> distinct (map f (as @ [b]))"
  by (auto simp: find_None_iff)

lemma acknowledge_delivery_inv:
  "intervention_inv i \<Longrightarrow> acknowledge_delivery i ack = Inr j \<Longrightarrow> intervention_inv j"
  using find_None_distinct [of ack_delivery_id "ack_delivery_id ack" "iv_deliveries i" ack]
  by (auto simp: acknowledge_delivery_def intervention_delivery_ack_def intervention_inv_def
      split: option.splits if_splits)

lemma accept_response_inv:
  "intervention_inv i \<Longrightarrow> accept_response i r = Inr j \<Longrightarrow> intervention_inv j"
  by (fastforce simp: accept_response_def ensure_can_respond_def intervention_inv_def list_ex_iff
      split: if_splits elim!: and_then_InrE)

lemma close_intervention_inv:
  "intervention_inv i \<Longrightarrow> close_intervention i rid now = Inr j \<Longrightarrow> intervention_inv j"
  by (auto simp: close_intervention_def intervention_inv_def split: if_splits)

text \<open>A closed item takes no response and stays closed; only an open one can be closed.\<close>

lemma closed_refuses_response:
  "iv_status i = Closed \<Longrightarrow>
     accept_response i r =
       Inl (InvariantViolated ''closed ceremony interventions cannot receive responses'')"
  by (simp add: accept_response_def ensure_can_respond_def)

lemma closed_refuses_close:
  "iv_status i = Closed \<Longrightarrow>
     close_intervention i rid now =
       Inl (InvariantViolated ''ceremony intervention is already closed'')"
  by (simp add: close_intervention_def)

lemma find_snoc: "find P xs = None \<Longrightarrow> P x \<Longrightarrow> find P (xs @ [x]) = Some x"
  by (induction xs) (auto split: if_splits)

lemma acknowledge_delivery_idem:
  assumes "acknowledge_delivery i ack = Inr j"
  shows "acknowledge_delivery j ack = Inr j"
  using assms
  by (auto simp: acknowledge_delivery_def intervention_delivery_ack_def agrees_with_def
      find_snoc split: option.splits if_splits)

lemma role_ids_loop_Inr:
  "role_ids_loop roles raw = Inr res \<Longrightarrow> distinct roles \<Longrightarrow> sorted roles \<Longrightarrow> length roles \<le> 100 \<Longrightarrow>
     distinct res \<and> sorted res \<and> length res \<le> 100 \<and> set roles \<subseteq> set res"
proof (induction roles raw rule: role_ids_loop.induct)
  case (2 roles raw rest)
  then obtain role where "role_id_new raw = Inr role" "role \<notin> set roles"
    "length (insort role roles) \<le> 100" "role_ids_loop (insort role roles) rest = Inr res"
    by (auto split: if_splits elim!: and_then_InrE)
  with 2 show ?case by (force simp: distinct_insort sorted_insort set_insort_key)
qed simp

lemma intervention_role_ids_bounds:
  "intervention_role_ids_new raw = Inr roles \<Longrightarrow>
     roles \<noteq> [] \<and> distinct roles \<and> sorted roles \<and> length roles \<le> 100"
  using role_ids_loop_Inr [of "[]" raw roles]
  by (auto simp: intervention_role_ids_new_def split: if_splits elim!: and_then_InrE)

end
