(* ===== verification/Ceremony_Instance.thy ===== *)
theory Ceremony_Instance
  imports Definition_Diff Ceremony_Intervention
begin

text \<open>
  The aggregate \<open>CeremonyInstance\<close> (\<open>entities/ceremony_instance.rs\<close>), the facts its stream holds
  (\<open>entities/ceremony_event.rs\<close> and the payloads of \<open>entities/ceremony_events/\<close>) and the
  questions the aggregate answers about itself: its lifecycle, the guards of a transition, who may
  take a step and whether a step can be claimed.  Event payloads with one or two fields are the
  arguments of their event's constructor; longer ones are records.  \<open>Box\<close> and borrowing leave no
  trace in the model.
\<close>


section \<open>Event payloads\<close>

datatype host_work_state = HandoffRequested | HandoffAcknowledged | Quiesced | Lost

record host_handoff_declaration =
  hhd_id :: string
  hhd_step_id :: string
  hhd_claim_fence :: string
  hhd_owner :: string
  hhd_incarnation :: string
  hhd_state :: host_work_state
  hhd_observed_at :: int
  hhd_evidence :: string

definition handoff_field :: "string \<Rightarrow> string \<Rightarrow> nat \<Rightarrow> unit result" where
  "handoff_field field v max_len =
     (if trim v = [] then Inl (EmptyField field)
      else if max_len < char_count v then Inl (FieldTooLong field (char_count v) max_len)
      else if has_control v then Inl (InvalidCharacters field)
      else Inr ())"

definition handoff_validate :: "host_handoff_declaration \<Rightarrow> unit result" where
  "handoff_validate d =
     and_then (handoff_field ''host_handoff.id'' (hhd_id d) 256) (\<lambda>_.
     and_then (handoff_field ''host_handoff.owner'' (hhd_owner d) 256) (\<lambda>_.
       handoff_field ''host_handoff.evidence'' (hhd_evidence d) 2048))"

record host_handoff_recorded =
  hhr_declaration :: host_handoff_declaration
  hhr_recorded_at :: int

record lease_renewal_request =
  lrr_id :: string
  lrr_ttl :: u64

record step_lease_renewed =
  slr_request :: "lease_renewal_request option"
  slr_step_id :: string
  slr_claim_fence :: string
  slr_lease_owner_id :: string
  slr_previous_expires_at :: int
  slr_expires_at :: int
  slr_renewed_at :: int

record instance_started =
  cis_ceremony_id :: string
  cis_definition_name :: string
  cis_definition_version :: string
  cis_initial_state :: string
  cis_step_ids :: "string list"
  cis_context :: ceremony_context
  cis_bound_definition :: "string option"
  cis_lineage :: "lineage option"
  cis_succession :: "succession option"
  cis_budget_account_id :: "string option"
  cis_ceremony_deadline :: "int option"
  cis_state_deadline :: "state_deadline option"
  cis_created_at :: int

record step_started =
  ss_step_id :: string
  ss_state_visit :: "u32 option"
  ss_state_iteration :: "u32 option"
  ss_iteration :: u32
  ss_attempt :: u32
  ss_lease :: step_lease
  ss_started_by :: string
  ss_role_from :: "string option"
  ss_sealed_role :: "string option"
  ss_deadline :: "step_deadline option"
  ss_budget_reservation_id :: "string option"
  ss_started_at :: int

record step_completed =
  sc_step_id :: string
  sc_state_visit :: "u32 option"
  sc_state_iteration :: "u32 option"
  sc_iteration :: u32
  sc_attempt :: u32
  sc_result :: step_result
  sc_next_iteration :: "u32 option"
  sc_finished_by :: string
  sc_finished_at :: int

record step_failed =
  sf_step_id :: string
  sf_state_visit :: "u32 option"
  sf_state_iteration :: "u32 option"
  sf_iteration :: u32
  sf_attempt :: u32
  sf_result :: step_result
  sf_finished_by :: string
  sf_finished_at :: int

record context_written =
  cw_step_id :: string
  cw_state_visit :: "u32 option"
  cw_state_iteration :: u32
  cw_iteration :: u32
  cw_attempt :: u32
  cw_patch :: context_patch
  cw_written_at :: int

record state_iteration_started =
  sis_state_id :: string
  sis_state_visit :: "u32 option"
  sis_state_iteration :: u32
  sis_step_ids :: "string list"
  sis_started_at :: int

record state_visit_entry =
  sve_state_visit :: u32
  sve_step_ids :: "string list"
  sve_deadline :: "state_deadline option"

record evidence_collected =
  evc_intervention_id :: string
  evc_source_id :: string
  evc_collected_by :: string
  evc_evidence_pack :: evidence_pack
  evc_collected_at :: int


section \<open>The aggregate\<close>

record ceremony_instance =
  ci_lease_renewals :: "(string, step_lease_renewed) bmap"
  ci_host_handoffs :: "(string, host_handoff_recorded) bmap"
  ci_id :: string
  ci_definition_name :: string
  ci_definition_version :: string
  ci_current_state :: string
  ci_current_state_iteration :: u32
  ci_current_state_visit :: u32
  ci_step_records :: step_records
  ci_step_record_history :: "(string, step_record list) bmap"
  ci_interventions :: "ceremony_intervention list"
  ci_guard_deferrals :: "guard_deferral list"
  ci_guard_approvals :: "guard_approval list"
  ci_transitions :: "transition_record list"
  ci_reasons :: "ceremony_reason list"
  ci_participant_bindings :: "(string, participant_binding) bmap"
  ci_context :: ceremony_context
  ci_recollection :: "session_recollection option"
  ci_idempotency_keys :: "string set"
  ci_created_at :: int
  ci_updated_at :: int
  ci_completed_at :: "int option"
  ci_bound_definition :: "string option"
  ci_lineage :: "lineage option"
  ci_budget_account_id :: "string option"
  ci_child_groups :: "(string, child_group) bmap"
  ci_lifecycle :: ceremony_lifecycle
  ci_ceremony_deadline :: "int option"
  ci_state_deadline :: "state_deadline option"
  ci_step_deadlines :: "(string, step_deadline) bmap"
  ci_retired_deadline_claims :: "(string, step_deadline) bmap"
  ci_late_step_results :: "(string, late_step_result) bmap"
  ci_execution_receipt_links :: "(string, receipt_link) bmap"
  ci_execution_receipt_adoptions :: "(string, (string, receipt_link) bmap) bmap"
  ci_succession :: "succession option"
  ci_successor_plan :: "succession_plan option"

record instance_imported =
  imp_ceremony_id :: string
  imp_definition_name :: string
  imp_definition_version :: string
  imp_snapshot :: ceremony_instance
  imp_legacy_journal_head_hash :: "string option"
  imp_legacy_revision :: u64
  imp_imported_at :: int

datatype ceremony_event =
    HostHandoffRecorded host_handoff_recorded
  | CeremonyInstanceStarted instance_started
  | ParticipantsBound "participant_binding list"
  | StepStarted step_started
  | StepLeaseRenewed step_lease_renewed
  | StepCompleted step_completed
  | StepFailed step_failed
  | ContextWritten context_written
  | StateIterationStarted state_iteration_started
  | TransitionApplied transition_record "state_visit_entry option"
  | InterventionRequested ceremony_intervention
  | InterventionResponded string intervention_response
  | InterventionClosed string string int
  | InterventionDeliveryAcknowledged string delivery_ack
  | EvidenceCollected evidence_collected
  | ReasonAsserted ceremony_reason
  | HumanApprovalRecorded guard_approval
  | HumanDeferralRecorded guard_deferral
  | CeremonyCompleted string int
  | InstanceImported instance_imported
  | MemoryRecalled session_recollection int
  | ChildSpawnPlanned spawn_plan int
  | ChildSpawnPlanAdopted string string int
  | ChildCompletionAccepted child_completion int
  | CeremonyPaused string int
  | CeremonyResumed int
  | CeremonyCancelled string int
  | CeremonyDeadlineExceeded int int
  | StateDeadlineExceeded state_deadline int
  | StepDeadlineExceeded step_deadline step_result int
  | LateStepResultObserved late_step_result int
  | ExecutionReceiptLinked string receipt_link int
  | SuccessorPlanned succession_plan
  | SuccessionCarried "carried_evidence list" int

definition schema_version :: "ceremony_event \<Rightarrow> nat" where
  "schema_version e = (case e of
     StepStarted s \<Rightarrow>
       if ss_budget_reservation_id s \<noteq> None then 6
       else if ss_deadline s \<noteq> None then 5
       else if ss_state_visit s \<noteq> None then 4
       else if ss_role_from s \<noteq> None \<or> ss_sealed_role s \<noteq> None then 3
       else if ss_state_iteration s = None then 1 else 2
   | StepCompleted s \<Rightarrow>
       if sc_state_visit s \<noteq> None then 3 else if sc_state_iteration s = None then 1 else 2
   | StepFailed s \<Rightarrow>
       if res_failure_kind (sf_result s) \<noteq> None then 4
       else if sf_state_visit s \<noteq> None then 3
       else if sf_state_iteration s = None then 1 else 2
   | TransitionApplied t destination \<Rightarrow>
       if (case destination of None \<Rightarrow> False | Some v \<Rightarrow> sve_deadline v \<noteq> None) then 4
       else if destination \<noteq> None \<or> tr_state_visit t \<noteq> None then 3
       else if tr_state_iteration t \<noteq> None then 2 else 1
   | StateIterationStarted s \<Rightarrow> if sis_state_visit s = None then 1 else 2
   | ContextWritten w \<Rightarrow> if cw_state_visit w = None then 1 else 2
   | CeremonyInstanceStarted s \<Rightarrow>
       if cis_budget_account_id s \<noteq> None then 4
       else if cis_ceremony_deadline s \<noteq> None \<or> cis_state_deadline s \<noteq> None then 3
       else if cis_lineage s \<noteq> None then 2 else 1
   | StepLeaseRenewed r \<Rightarrow> if slr_request r \<noteq> None then 2 else 1
   | _ \<Rightarrow> 1)"

text \<open>\<open>StepStarted::claim_fence\<close>: the fence of the claim the event records.\<close>

definition started_claim_fence :: "platform \<Rightarrow> step_started \<Rightarrow> string \<Rightarrow> string result" where
  "started_claim_fence env s ceremony_id =
     (let r = with_started
                (with_state_visit
                   (pending_coordinates
                      (case ss_state_iteration s of None \<Rightarrow> FIRST | Some i \<Rightarrow> i) (ss_iteration s))
                   (case ss_state_visit s of None \<Rightarrow> FIRST | Some v \<Rightarrow> v))
                (ss_lease s) (ss_attempt s)
                (if ss_role_from s \<noteq> None then Some (ss_started_by s) else ss_sealed_role s)
      in claim_fence_for_record env ceremony_id (ss_step_id s) r)"


section \<open>Lifecycle and state questions\<close>

definition matches_definition :: "ceremony_instance \<Rightarrow> ceremony_definition \<Rightarrow> bool" where
  "matches_definition i d =
     (ci_definition_name i = def_name d \<and> ci_definition_version i = def_version d)"

definition instance_lifecycle :: "ceremony_instance \<Rightarrow> ceremony_lifecycle" where
  "instance_lifecycle i =
     (case ci_completed_at i of
        None \<Rightarrow> ci_lifecycle i
      | Some at \<Rightarrow> if lifecycle_is_explicit (ci_lifecycle i) then ci_lifecycle i
                    else lifecycle_completed at)"

definition is_paused :: "ceremony_instance \<Rightarrow> bool" where
  "is_paused i = (phase (instance_lifecycle i) = Paused)"

definition is_ended :: "ceremony_instance \<Rightarrow> bool" where
  "is_ended i = (phase (instance_lifecycle i) = Ended)"

definition admits_new_work :: "ceremony_instance \<Rightarrow> bool" where
  "admits_new_work i = (\<not> is_ended i \<and> lifecycle_admits_new_work (ci_lifecycle i))"

definition is_terminal :: "ceremony_instance \<Rightarrow> ceremony_definition \<Rightarrow> bool" where
  "is_terminal i d = (matches_definition i d \<and> is_terminal_state d (ci_current_state i))"

definition is_completed :: "ceremony_instance \<Rightarrow> ceremony_definition \<Rightarrow> bool" where
  "is_completed i d = (is_terminal i d \<and> ci_completed_at i \<noteq> None)"

definition is_superseded :: "ceremony_instance \<Rightarrow> bool" where
  "is_superseded i = (ci_successor_plan i \<noteq> None)"

definition instance_intervention :: "ceremony_instance \<Rightarrow> string \<Rightarrow> ceremony_intervention option" where
  "instance_intervention i intervention_id =
     find (\<lambda>v. iv_id v = intervention_id) (ci_interventions i)"

definition execution_receipt_adoption ::
  "ceremony_instance \<Rightarrow> string \<Rightarrow> string \<Rightarrow> receipt_link option" where
  "execution_receipt_adoption i operation_id fence =
     Option.bind (bm_get (ci_execution_receipt_adoptions i) operation_id)
       (\<lambda>adoptions. bm_get adoptions fence)"

definition current_repeat_policy ::
  "ceremony_instance \<Rightarrow> ceremony_definition \<Rightarrow> state_repeat_policy option" where
  "current_repeat_policy i d = Option.bind (def_state d (ci_current_state i)) st_repeat"

definition state_work_is_complete :: "ceremony_instance \<Rightarrow> ceremony_definition \<Rightarrow> bool" where
  "state_work_is_complete i d =
     (list_all (\<lambda>s. record_succeeded (ci_step_records i) (cs_id s))
        (steps_for_state d (ci_current_state i))
      \<and> repeat_requirements_are_satisfied d (ci_current_state i) (ci_step_records i))"

definition state_repeat_condition_is_satisfied ::
  "ceremony_instance \<Rightarrow> ceremony_definition \<Rightarrow> bool" where
  "state_repeat_condition_is_satisfied i d =
     (case current_repeat_policy i d of
        None \<Rightarrow> True
      | Some policy \<Rightarrow>
          (case bm_get (ci_step_records i)
                  (state_repeat_step_id (state_repeat_until_condition policy)) of
             None \<Rightarrow> False | Some r \<Rightarrow> state_repeat_is_satisfied policy r))"

definition state_repeat_permits_transition ::
  "ceremony_instance \<Rightarrow> ceremony_definition \<Rightarrow> bool" where
  "state_repeat_permits_transition i d =
     (current_repeat_policy i d = None
      \<or> state_work_is_complete i d \<and> state_repeat_condition_is_satisfied i d)"

definition state_repeat_limit_reached :: "ceremony_instance \<Rightarrow> ceremony_definition \<Rightarrow> bool" where
  "state_repeat_limit_reached i d =
     (case current_repeat_policy i d of
        None \<Rightarrow> False
      | Some policy \<Rightarrow>
          state_work_is_complete i d
          \<and> \<not> state_repeat_condition_is_satisfied i d
          \<and> \<not> state_repeat_permits_another policy (ci_current_state_iteration i))"

definition step_repeat_limit_reached ::
  "ceremony_instance \<Rightarrow> ceremony_definition \<Rightarrow> string \<Rightarrow> bool" where
  "step_repeat_limit_reached i d step_id =
     (case def_step d step_id of
        None \<Rightarrow> False
      | Some step \<Rightarrow>
          (case cs_repeat_policy step of
             None \<Rightarrow> False
           | Some policy \<Rightarrow>
               (case bm_get (ci_step_records i) step_id of
                  None \<Rightarrow> False
                | Some r \<Rightarrow> is_success (rec_status r)
                            \<and> \<not> step_repeat_is_satisfied policy (rec_output r)
                            \<and> \<not> step_repeat_permits_another policy (rec_iteration r))))"


section \<open>Checks the decisions share\<close>

definition require_definition :: "ceremony_instance \<Rightarrow> ceremony_definition \<Rightarrow> unit result" where
  "require_definition i d =
     require (matches_definition i d)
       (InvariantViolated ''ceremony instance definition mismatch'')"

definition require_active ::
  "ceremony_instance \<Rightarrow> ceremony_definition \<Rightarrow> string \<Rightarrow> unit result" where
  "require_active i d terminal_reason =
     and_then (require_definition i d) (\<lambda>_.
       require (\<not> (is_terminal i d \<or> is_ended i)) (InvariantViolated terminal_reason))"

definition require_admits_new_work :: "ceremony_instance \<Rightarrow> string \<Rightarrow> unit result" where
  "require_admits_new_work i operation =
     require (admits_new_work i) (LifecycleRefused operation (phase (instance_lifecycle i)))"

definition require_declared_role ::
  "ceremony_instance \<Rightarrow> ceremony_definition \<Rightarrow> string \<Rightarrow> unit result" where
  "require_declared_role i d rid =
     and_then (require_definition i d) (\<lambda>_.
       require (def_role d rid \<noteq> None) (NotFound ''ceremony_role''))"

definition require_role ::
  "ceremony_instance \<Rightarrow> ceremony_definition \<Rightarrow> string \<Rightarrow> role_action \<Rightarrow> unit result" where
  "require_role i d rid action =
     and_then (require_definition i d) (\<lambda>_.
       require (role_allows d rid action)
         (InvariantViolated ''ceremony role is not allowed to perform action''))"

definition require_answering_role :: "ceremony_definition \<Rightarrow> string \<Rightarrow> unit result" where
  "require_answering_role d rid =
     (if def_role d rid = None then Inl (NotFound ''ceremony_intervention.target_role'')
      else if \<not> role_allows d rid RespondToIntervention
      then Inl (InvariantViolated ''target role cannot respond to ceremony interventions'')
      else Inr ())"

definition require_intervention_target ::
  "ceremony_definition \<Rightarrow> intervention_target \<Rightarrow> unit result" where
  "require_intervention_target d target =
     (case target of
        AgentExecution recipient \<Rightarrow> require_answering_role d (rcpt_role_id recipient)
      | Table \<Rightarrow> Inr ()
      | Roles role_ids \<Rightarrow>
          and_then (try_map (require_answering_role d) role_ids) (\<lambda>_. Inr ()))"

definition require_intervention_provenance ::
  "ceremony_instance \<Rightarrow> ceremony_definition \<Rightarrow> string \<Rightarrow> intervention_target \<Rightarrow>
     intervention_provenance \<Rightarrow> unit result" where
  "require_intervention_provenance i d requested_by target p =
     and_then (ok_or (instance_intervention i (prov_source_intervention p))
       (NotFound ''ceremony_intervention.provenance_source'')) (\<lambda>source.
     and_then (require (iv_requested_by source = requested_by)
       (InvariantViolated ''only the source requester can select an intervention response'')) (\<lambda>_.
     and_then (require (list_ex (\<lambda>r. resp_role_id r = prov_source_response_role p)
         (iv_responses source))
       (NotFound ''ceremony_intervention.provenance_response'')) (\<lambda>_.
     and_then (require (def_role d (prov_selected_role p) \<noteq> None)
       (NotFound ''ceremony_intervention.provenance_selected_role'')) (\<lambda>_.
     and_then (require (role_allows d (prov_selected_role p) RespondToIntervention)
       (InvariantViolated ''selected intervention role cannot respond'')) (\<lambda>_.
       require (target_accepts target (prov_selected_role p))
         (InvariantViolated ''intervention target does not include the selected role''))))))"

definition step_claim_fence ::
  "platform \<Rightarrow> ceremony_instance \<Rightarrow> string \<Rightarrow> string result" where
  "step_claim_fence env i step_id =
     and_then (ok_or (bm_get (ci_step_records i) step_id)
       (NotFound ''ceremony_instance.step_record''))
       (\<lambda>r. claim_fence_for_record env (ci_id i) step_id r)"

definition require_step_claim_fence ::
  "platform \<Rightarrow> ceremony_instance \<Rightarrow> string \<Rightarrow> string \<Rightarrow> unit result" where
  "require_step_claim_fence env i step_id fence =
     and_then (step_claim_fence env i step_id) (\<lambda>current.
       require (current = fence)
         (InvariantViolated ''step completion claim fence does not match the current claim''))"


section \<open>Roles\<close>

definition reserved_role ::
  "ceremony_definition \<Rightarrow> string \<Rightarrow> step_record \<Rightarrow> string option result" where
  "reserved_role d step_id r =
     (case rec_claimed_role r of
        Some role \<Rightarrow> Inr (Some role)
      | None \<Rightarrow>
          if rec_status r \<noteq> Pending
             \<and> (case def_step d step_id of
                   None \<Rightarrow> False | Some step \<Rightarrow> cs_dynamic_role_binding step = None)
          then and_then (role_id_for_step d step_id) (\<lambda>role. Inr (Some role))
          else Inr None)"

definition is_current_sibling ::
  "ceremony_instance \<Rightarrow> ceremony_definition \<Rightarrow> string \<Rightarrow> step_record \<Rightarrow> bool" where
  "is_current_sibling i d other_id r =
     (rec_state_iteration r = ci_current_state_iteration i
      \<and> rec_state_visit r = ci_current_state_visit i
      \<and> (case def_step d other_id of
            None \<Rightarrow> False | Some step \<Rightarrow> cs_state_id step = ci_current_state i))"

definition roles_assigned_to_other_steps ::
  "ceremony_instance \<Rightarrow> ceremony_definition \<Rightarrow> string \<Rightarrow> string set result" where
  "roles_assigned_to_other_steps i d step_id =
     (let assign = (\<lambda>roles (other_id, r).
            if other_id \<noteq> step_id \<and> is_current_sibling i d other_id r
            then and_then (reserved_role d other_id r) (\<lambda>role. Inr (roles \<union> set_option role))
            else Inr roles)
      in and_then (try_fold assign {} (ci_step_records i)) (\<lambda>roles.
           try_fold assign roles
             (concat (map (\<lambda>(other_id, history). map (Pair other_id) history)
                (ci_step_record_history i)))))"

definition in_concurrent_state :: "ceremony_instance \<Rightarrow> ceremony_definition \<Rightarrow> bool" where
  "in_concurrent_state i d =
     (case def_state d (ci_current_state i) of
        None \<Rightarrow> False | Some s \<Rightarrow> st_execution s = Concurrent)"

definition require_role_is_available ::
  "ceremony_instance \<Rightarrow> ceremony_definition \<Rightarrow> string \<Rightarrow> string \<Rightarrow> unit result" where
  "require_role_is_available i d step_id role =
     (if in_concurrent_state i d
      then and_then (roles_assigned_to_other_steps i d step_id) (\<lambda>roles.
             require (role \<notin> roles) (InvariantViolated
               ''role is already assigned to another step in this state iteration''))
      else Inr ())"

definition resolve_step_role ::
  "ceremony_instance \<Rightarrow> ceremony_definition \<Rightarrow> string \<Rightarrow> string option \<Rightarrow> (string \<times> bool) result" where
  "resolve_step_role i d step_id requested_role =
     and_then (ok_or (def_step d step_id) (NotFound ''ceremony_instance.step'')) (\<lambda>step.
     case cs_dynamic_role_binding step of
       None \<Rightarrow>
         and_then (case requested_role of
                     None \<Rightarrow> role_id_for_step d step_id | Some role \<Rightarrow> Inr role) (\<lambda>role.
         and_then (require_role i d role (StepAction step_id)) (\<lambda>_.
         and_then (require_role_is_available i d step_id role) (\<lambda>_. Inr (role, False))))
     | Some binding \<Rightarrow>
         and_then (ok_or (bm_get (ci_context i) (drb_context_key binding))
           (NotFound ''ceremony_step.role_from.context_key'')) (\<lambda>raw.
         and_then (ok_or (as_str raw)
           (InvariantViolated ''dynamic role context value must be a string'')) (\<lambda>text.
         and_then (role_id_new text) (\<lambda>resolved.
         and_then (require (resolved \<in> set (drb_allowed_roles binding))
           (InvariantViolated ''dynamic role is outside the step allow-list'')) (\<lambda>_.
         and_then (require (case requested_role of
                              None \<Rightarrow> True | Some requested \<Rightarrow> requested = resolved)
           (InvariantViolated ''requested step role differs from the dynamic role'')) (\<lambda>_.
         and_then (require_role i d resolved (StepAction step_id)) (\<lambda>_.
         and_then (require_role_is_available i d step_id resolved) (\<lambda>_.
           Inr (resolved, True)))))))))"


section \<open>Claims\<close>

definition SERVER_MAX_PARALLEL :: u8 where
  "SERVER_MAX_PARALLEL = 8"

definition effective_with :: "u8 \<Rightarrow> u8 \<Rightarrow> u8" where
  "effective_with m ceiling = (if m < ceiling then m else ceiling)"

definition record_is_live :: "ceremony_instance \<Rightarrow> int \<Rightarrow> string \<Rightarrow> bool" where
  "record_is_live i now step_id =
     (case bm_get (ci_step_records i) step_id of
        None \<Rightarrow> False | Some r \<Rightarrow> has_live_lease_at r now)"

definition first_unfinished ::
  "ceremony_instance \<Rightarrow> ceremony_step list \<Rightarrow> ceremony_step option" where
  "first_unfinished i steps =
     find (\<lambda>s. case bm_get (ci_step_records i) (cs_id s) of
                 None \<Rightarrow> False | Some r \<Rightarrow> \<not> is_success (rec_status r)) steps"

definition live_claims :: "ceremony_instance \<Rightarrow> ceremony_definition \<Rightarrow> int \<Rightarrow> nat" where
  "live_claims i d now =
     length (filter (\<lambda>s. record_is_live i now (cs_id s)) (steps_for_state d (ci_current_state i)))"

definition step_is_ready_without_role_at ::
  "ceremony_instance \<Rightarrow> string \<Rightarrow> ceremony_definition \<Rightarrow> int \<Rightarrow> bool result" where
  "step_is_ready_without_role_at i step_id d now =
     and_then (ok_or (def_step d step_id) (NotFound ''ceremony_instance.step'')) (\<lambda>step.
     and_then (ok_or (bm_get (ci_step_records i) step_id)
       (NotFound ''ceremony_instance.step_record'')) (\<lambda>r.
     if \<not> can_be_started_at r now then Inr False
     else and_then (next_start_attempt r) (\<lambda>attempt.
       Inr (allows_attempt (cs_retry_policy step) attempt))))"

definition resolved_step_is_claimable_at ::
  "ceremony_instance \<Rightarrow> string \<Rightarrow> ceremony_definition \<Rightarrow> int \<Rightarrow> u8 \<Rightarrow> bool result" where
  "resolved_step_is_claimable_at i step_id d now host_ceiling =
     and_then (require_definition i d) (\<lambda>_.
     and_then (ok_or (def_state d (ci_current_state i))
       (NotFound ''ceremony_instance.current_state'')) (\<lambda>state.
     let steps = steps_for_state d (ci_current_state i) in
     if st_execution state = Sequential
     then (case first_unfinished i steps of
             None \<Rightarrow> Inr False
           | Some first \<Rightarrow>
               if cs_id first \<noteq> step_id then Inr False
               else step_is_ready_without_role_at i step_id d now)
     else if unat (effective_with (def_max_parallel d) host_ceiling) \<le> live_claims i d now
     then Inr False
     else step_is_ready_without_role_at i step_id d now))"

definition step_is_claimable_at ::
  "ceremony_instance \<Rightarrow> string \<Rightarrow> ceremony_definition \<Rightarrow> int \<Rightarrow> bool result" where
  "step_is_claimable_at i step_id d now =
     (case resolve_step_role i d step_id None of
        Inl _ \<Rightarrow> Inr False
      | Inr _ \<Rightarrow> step_is_ready_without_role_at i step_id d now)"

definition claimable_step_ids_at ::
  "ceremony_instance \<Rightarrow> ceremony_definition \<Rightarrow> int \<Rightarrow> u8 \<Rightarrow> string list result" where
  "claimable_step_ids_at i d now host_ceiling =
     and_then (require_definition i d) (\<lambda>_.
     and_then (ok_or (def_state d (ci_current_state i))
       (NotFound ''ceremony_instance.current_state'')) (\<lambda>state.
     let steps = steps_for_state d (ci_current_state i) in
     if st_execution state = Sequential
     then (case first_unfinished i steps of
             None \<Rightarrow> Inr []
           | Some step \<Rightarrow>
               and_then (step_is_claimable_at i (cs_id step) d now) (\<lambda>b.
                 Inr (if b then [cs_id step] else [])))
     else if unat (effective_with (def_max_parallel d) host_ceiling) \<le> live_claims i d now
     then Inr []
     else and_then (try_map (\<lambda>s. and_then (step_is_claimable_at i (cs_id s) d now) (\<lambda>b.
            Inr (if b then [cs_id s] else []))) steps) (\<lambda>idss. Inr (concat idss))))"

definition has_live_step_leases_at ::
  "ceremony_instance \<Rightarrow> ceremony_definition \<Rightarrow> int \<Rightarrow> bool" where
  "has_live_step_leases_at i d now =
     list_ex (\<lambda>s. record_is_live i now (cs_id s)) (steps_for_state d (ci_current_state i))"


section \<open>Guards and budgets of a transition\<close>

definition children_completed_guard_is_satisfied ::
  "platform \<Rightarrow> ceremony_instance \<Rightarrow> string \<Rightarrow> child_join \<Rightarrow> bool" where
  "children_completed_guard_is_satisfied env i step_id join =
     (case bm_get (ci_step_records i) step_id of
        None \<Rightarrow> False
      | Some r \<Rightarrow>
          let coordinates =
                \<lparr>coord_step_id = step_id, coord_state_visit = ci_current_state_visit i,
                 coord_state_iteration = ci_current_state_iteration i,
                 coord_step_iteration = rec_iteration r\<rparr>
          in (case bm_get (ci_child_groups i) (child_group_id_derive env (ci_id i) coordinates) of
                None \<Rightarrow> False
              | Some g \<Rightarrow> plan_coordinates (group_plan g) = coordinates
                          \<and> child_join_is_satisfied join (length (group_completions g))
                               (length (plan_children (group_plan g)))))"

definition guard_is_satisfied_for_transition ::
  "platform \<Rightarrow> ceremony_instance \<Rightarrow> ceremony_definition \<Rightarrow> ceremony_transition \<Rightarrow>
     ceremony_guard \<Rightarrow> bool" where
  "guard_is_satisfied_for_transition env i d t g =
     (case guard_condition g of
        ChildrenCompleted step_id join \<Rightarrow>
          (case def_step d step_id of None \<Rightarrow> False | Some step \<Rightarrow> cs_state_id step = t_from t)
          \<and> children_completed_guard_is_satisfied env i step_id join
      | StateRepeatExhausted state_id \<Rightarrow>
          state_id = t_from t \<and> t_from t = ci_current_state i \<and> state_repeat_limit_reached i d
      | _ \<Rightarrow> def_guard_is_satisfied_for_transition d g t (ci_step_records i) (ci_context i))"

definition guards_are_satisfied ::
  "platform \<Rightarrow> ceremony_instance \<Rightarrow> ceremony_definition \<Rightarrow> ceremony_transition \<Rightarrow> bool" where
  "guards_are_satisfied env i d t =
     (repeat_requirements_are_satisfied_for_transition d t (ci_step_records i)
      \<and> list_all (\<lambda>name. case bm_get (def_guards d) name of
                            None \<Rightarrow> False
                          | Some g \<Rightarrow> guard_is_satisfied_for_transition env i d t g)
           (t_required_guards t))"

definition state_repeat_permits ::
  "ceremony_instance \<Rightarrow> ceremony_definition \<Rightarrow> ceremony_transition \<Rightarrow> bool" where
  "state_repeat_permits i d t =
     (state_repeat_permits_transition i d
      \<or> state_repeat_limit_reached i d \<and> transition_routes_state_repeat_exhaustion d t)"

definition state_repeat_exhaustion_is_unrouted ::
  "ceremony_instance \<Rightarrow> ceremony_definition \<Rightarrow> bool" where
  "state_repeat_exhaustion_is_unrouted i d =
     (state_repeat_limit_reached i d
      \<and> \<not> list_ex (transition_routes_state_repeat_exhaustion d)
             (available_transitions d (ci_current_state i)))"

definition exact_edge_count :: "ceremony_instance \<Rightarrow> ceremony_transition \<Rightarrow> nat" where
  "exact_edge_count i t =
     length (filter (\<lambda>r. tr_from_state r = t_from t \<and> tr_trigger r = t_trigger t
                          \<and> tr_to_state r = t_to t) (ci_transitions i))"

text \<open>The lengths compared here fit in 64 bits, so the \<open>u64\<close> conversions never saturate.\<close>

definition require_transition_budget ::
  "ceremony_instance \<Rightarrow> ceremony_definition \<Rightarrow> ceremony_transition \<Rightarrow> unit result" where
  "require_transition_budget i d t =
     (if (case def_max_transitions d of
            None \<Rightarrow> False | Some limit \<Rightarrow> unat limit \<le> length (ci_transitions i))
      then Inl (InvariantViolated ''ceremony transition limit exhausted'')
      else if (case def_max_bounces d of
                 None \<Rightarrow> False | Some limit \<Rightarrow> unat limit \<le> exact_edge_count i t)
      then Inl (InvariantViolated ''ceremony transition bounce limit exhausted'')
      else Inr ())"

definition require_interventions_resolved_before_entering ::
  "ceremony_instance \<Rightarrow> ceremony_definition \<Rightarrow> string \<Rightarrow> unit result" where
  "require_interventions_resolved_before_entering i d state_id =
     (if is_terminal_state d state_id \<and> list_ex (\<lambda>v. iv_status v = Open) (ci_interventions i)
      then Inl (InvariantViolated
        ''ceremony cannot enter a terminal state with open interventions'')
      else Inr ())"

definition transition_requirements_are_satisfied ::
  "platform \<Rightarrow> ceremony_instance \<Rightarrow> ceremony_definition \<Rightarrow> ceremony_transition \<Rightarrow> bool" where
  "transition_requirements_are_satisfied env i d t =
     (state_repeat_permits i d t \<and> guards_are_satisfied env i d t
      \<and> require_interventions_resolved_before_entering i d (t_to t) = Inr ())"

definition transition_is_enabled ::
  "platform \<Rightarrow> ceremony_instance \<Rightarrow> ceremony_definition \<Rightarrow> ceremony_transition \<Rightarrow> bool" where
  "transition_is_enabled env i d t =
     (require_transition_budget i d t = Inr () \<and> transition_requirements_are_satisfied env i d t)"

definition transition_is_enabled_at ::
  "platform \<Rightarrow> ceremony_instance \<Rightarrow> ceremony_definition \<Rightarrow> ceremony_transition \<Rightarrow> int \<Rightarrow> bool" where
  "transition_is_enabled_at env i d t now =
     (\<not> has_live_step_leases_at i d now \<and> transition_is_enabled env i d t)"

end
