(* ===== verification/Ceremony_Fold.thy ===== *)
theory Ceremony_Fold
  imports Ceremony_Instance
begin

text \<open>
  The fold of a ceremony's stream (\<open>entities/ceremony_instance/fold/\<close>): one function per event,
  \<open>apply_event\<close> which dispatches on the event, and \<open>rehydrate\<close> which folds a whole stream.  The one
  handler that can fail is that of \<open>ContextWritten\<close>, whose \<open>expect\<close> panics when the context
  refuses the patch; the fold therefore runs in the result type.  Taking a record out of a map
  and putting it back is one insertion.
\<close>


section \<open>Handlers\<close>

fun update_first :: "('a \<Rightarrow> bool) \<Rightarrow> ('a \<Rightarrow> 'a) \<Rightarrow> 'a list \<Rightarrow> 'a list" where
  "update_first P f [] = []"
| "update_first P f (x # xs) = (if P x then f x # xs else x # update_first P f xs)"

definition from_started :: "instance_started \<Rightarrow> ceremony_instance" where
  "from_started s =
     \<lparr>ci_lease_renewals = [], ci_host_handoffs = [], ci_id = cis_ceremony_id s,
      ci_definition_name = cis_definition_name s,
      ci_definition_version = cis_definition_version s,
      ci_current_state = cis_initial_state s,
      ci_current_state_iteration = FIRST, ci_current_state_visit = FIRST,
      ci_step_records = bm_of_list (map (\<lambda>step_id. (step_id, record_pending)) (cis_step_ids s)),
      ci_step_record_history = [], ci_interventions = [], ci_guard_deferrals = [],
      ci_guard_approvals = [], ci_transitions = [], ci_reasons = [],
      ci_participant_bindings = [], ci_context = cis_context s, ci_recollection = None,
      ci_idempotency_keys = {}, ci_created_at = cis_created_at s,
      ci_updated_at = cis_created_at s, ci_completed_at = None,
      ci_bound_definition = cis_bound_definition s, ci_lineage = cis_lineage s,
      ci_budget_account_id = cis_budget_account_id s, ci_child_groups = [],
      ci_lifecycle = lifecycle_default, ci_ceremony_deadline = cis_ceremony_deadline s,
      ci_state_deadline = cis_state_deadline s, ci_step_deadlines = [],
      ci_retired_deadline_claims = [], ci_late_step_results = [],
      ci_execution_receipt_links = [], ci_execution_receipt_adoptions = [],
      ci_succession = cis_succession s, ci_successor_plan = None\<rparr>"

definition from_imported :: "instance_imported \<Rightarrow> ceremony_instance" where
  "from_imported m = imp_snapshot m"

definition take_step_record :: "ceremony_instance \<Rightarrow> string \<Rightarrow> step_record" where
  "take_step_record i step_id =
     (case bm_get (ci_step_records i) step_id of None \<Rightarrow> record_pending | Some r \<Rightarrow> r)"

definition history_push :: "ceremony_instance \<Rightarrow> string \<Rightarrow> step_record \<Rightarrow>
    (string, step_record list) bmap" where
  "history_push i step_id r =
     bm_insert step_id
       ((case bm_get (ci_step_record_history i) step_id of None \<Rightarrow> [] | Some rs \<Rightarrow> rs) @ [r])
       (ci_step_record_history i)"

definition apply_host_handoff_recorded ::
  "ceremony_instance \<Rightarrow> host_handoff_recorded \<Rightarrow> ceremony_instance" where
  "apply_host_handoff_recorded i h =
     i\<lparr>ci_host_handoffs := bm_insert (hhd_id (hhr_declaration h)) h (ci_host_handoffs i),
       ci_updated_at := hhr_recorded_at h\<rparr>"

definition apply_participants_bound ::
  "ceremony_instance \<Rightarrow> participant_binding list \<Rightarrow> ceremony_instance" where
  "apply_participants_bound i bindings =
     fold (\<lambda>b s. s\<lparr>ci_participant_bindings :=
                    bm_insert (binding_role_id b) b (ci_participant_bindings s),
                  ci_updated_at := binding_bound_at b\<rparr>) bindings i"

definition apply_step_started :: "ceremony_instance \<Rightarrow> step_started \<Rightarrow> ceremony_instance" where
  "apply_step_started i s =
     i\<lparr>ci_idempotency_keys := insert (lease_idempotency_key (ss_lease s)) (ci_idempotency_keys i),
       ci_step_records :=
         bm_insert (ss_step_id s)
           (with_budget_reservation
              (with_started (take_step_record i (ss_step_id s)) (ss_lease s) (ss_attempt s)
                 (if ss_role_from s \<noteq> None then Some (ss_started_by s) else ss_sealed_role s))
              (ss_budget_reservation_id s))
           (ci_step_records i),
       ci_step_deadlines :=
         (case ss_deadline s of
            Some deadline \<Rightarrow> bm_insert (ss_step_id s) deadline (ci_step_deadlines i)
          | None \<Rightarrow> bm_remove (ss_step_id s) (ci_step_deadlines i)),
       ci_updated_at := ss_started_at s\<rparr>"

definition apply_step_lease_renewed ::
  "ceremony_instance \<Rightarrow> step_lease_renewed \<Rightarrow> ceremony_instance" where
  "apply_step_lease_renewed i r =
     i\<lparr>ci_lease_renewals :=
         (case slr_request r of
            None \<Rightarrow> ci_lease_renewals i
          | Some request \<Rightarrow> bm_insert (lrr_id request) r (ci_lease_renewals i)),
       ci_step_records :=
         (case bm_get (ci_step_records i) (slr_step_id r) of
            None \<Rightarrow> ci_step_records i
          | Some rec \<Rightarrow> bm_insert (slr_step_id r) (renew_lease_until rec (slr_expires_at r))
                          (ci_step_records i)),
       ci_updated_at := slr_renewed_at r\<rparr>"

definition apply_step_completed :: "ceremony_instance \<Rightarrow> step_completed \<Rightarrow> ceremony_instance" where
  "apply_step_completed i c =
     (let j = i\<lparr>ci_step_deadlines := bm_remove (sc_step_id c) (ci_step_deadlines i)\<rparr>;
          finished = with_result (take_step_record j (sc_step_id c)) (sc_result c);
          k = (case sc_next_iteration c of
                 Some next_iteration \<Rightarrow>
                   j\<lparr>ci_step_record_history := history_push j (sc_step_id c) finished,
                     ci_step_records :=
                       bm_insert (sc_step_id c)
                         (with_state_visit
                            (pending_coordinates (rec_state_iteration finished) next_iteration)
                            (rec_state_visit finished))
                         (ci_step_records j)\<rparr>
               | None \<Rightarrow>
                   j\<lparr>ci_step_records := bm_insert (sc_step_id c) finished (ci_step_records j)\<rparr>)
      in k\<lparr>ci_updated_at := sc_finished_at c\<rparr>)"

definition apply_step_failed :: "ceremony_instance \<Rightarrow> step_failed \<Rightarrow> ceremony_instance" where
  "apply_step_failed i f =
     i\<lparr>ci_step_deadlines := bm_remove (sf_step_id f) (ci_step_deadlines i),
       ci_step_records :=
         bm_insert (sf_step_id f)
           (with_result (take_step_record i (sf_step_id f)) (sf_result f)) (ci_step_records i),
       ci_updated_at := sf_finished_at f\<rparr>"

definition apply_context_written ::
  "ceremony_instance \<Rightarrow> context_written \<Rightarrow> ceremony_instance result" where
  "apply_context_written i w =
     (case with_patch (ci_context i) (cw_patch w) of
        Inl _ \<Rightarrow> Inl (Panic ''a sealed context patch must remain valid'')
      | Inr ctx \<Rightarrow> Inr (i\<lparr>ci_context := ctx, ci_updated_at := cw_written_at w\<rparr>))"

definition restart_step ::
  "u32 \<Rightarrow> u32 \<Rightarrow> string \<Rightarrow> ceremony_instance \<Rightarrow> ceremony_instance" where
  "restart_step state_iteration visit step_id i =
     i\<lparr>ci_step_record_history := history_push i step_id (take_step_record i step_id),
       ci_step_records :=
         bm_insert step_id (with_state_visit (pending_state_iteration state_iteration) visit)
           (ci_step_records i)\<rparr>"

definition apply_state_iteration_started ::
  "ceremony_instance \<Rightarrow> state_iteration_started \<Rightarrow> ceremony_instance" where
  "apply_state_iteration_started i s =
     (fold (restart_step (sis_state_iteration s)
              (case sis_state_visit s of None \<Rightarrow> FIRST | Some v \<Rightarrow> v))
        (sis_step_ids s) (i\<lparr>ci_current_state_iteration := sis_state_iteration s\<rparr>))
     \<lparr>ci_updated_at := sis_started_at s\<rparr>"

definition enter_step :: "u32 \<Rightarrow> string \<Rightarrow> ceremony_instance \<Rightarrow> ceremony_instance" where
  "enter_step visit step_id i =
     i\<lparr>ci_step_record_history :=
         (case bm_get (ci_step_records i) step_id of
            None \<Rightarrow> ci_step_record_history i
          | Some previous \<Rightarrow>
              if rec_status previous \<noteq> Pending then history_push i step_id previous
              else ci_step_record_history i),
       ci_step_records :=
         bm_insert step_id (with_state_visit record_pending visit) (ci_step_records i)\<rparr>"

definition apply_transition_applied ::
  "ceremony_instance \<Rightarrow> transition_record \<Rightarrow> state_visit_entry option \<Rightarrow> ceremony_instance" where
  "apply_transition_applied i t destination =
     (let j = (case destination of
                 None \<Rightarrow> i
               | Some v \<Rightarrow>
                   fold (enter_step (sve_state_visit v)) (sve_step_ids v)
                     (i\<lparr>ci_current_state_visit := sve_state_visit v,
                        ci_state_deadline := sve_deadline v\<rparr>))
      in j\<lparr>ci_current_state := tr_to_state t, ci_current_state_iteration := FIRST,
           ci_transitions := ci_transitions j @ [t], ci_updated_at := tr_applied_at t\<rparr>)"

definition apply_ceremony_completed :: "ceremony_instance \<Rightarrow> int \<Rightarrow> ceremony_instance" where
  "apply_ceremony_completed i at = i\<lparr>ci_completed_at := Some at, ci_updated_at := at\<rparr>"

definition apply_intervention_requested ::
  "ceremony_instance \<Rightarrow> ceremony_intervention \<Rightarrow> ceremony_instance" where
  "apply_intervention_requested i v =
     i\<lparr>ci_updated_at := iv_created_at v, ci_interventions := ci_interventions i @ [v]\<rparr>"

definition with_intervention ::
  "ceremony_instance \<Rightarrow> string \<Rightarrow> ceremony_intervention \<Rightarrow> ceremony_instance" where
  "with_intervention i intervention_id v =
     i\<lparr>ci_interventions :=
         update_first (\<lambda>v. iv_id v = intervention_id) (\<lambda>_. v) (ci_interventions i)\<rparr>"

definition record_that_it_answers ::
  "ceremony_instance \<Rightarrow> string \<Rightarrow> int \<Rightarrow> ceremony_instance" where
  "record_that_it_answers i agenda_item now =
     (case instance_intervention i agenda_item of
        None \<Rightarrow> i
      | Some item \<Rightarrow>
          let count = length (iv_responses item) in
          if count = 0 \<or> 2 ^ 32 \<le> count - 1 then i
          else (case ceremony_reason_new
                       (ContributionRef agenda_item (of_nat (count - 1)))
                       (AgendaItemRef agenda_item) Answers
                       ''a contribution made against this agenda item'' High None now of
                  Inl _ \<Rightarrow> i
                | Inr reason \<Rightarrow> i\<lparr>ci_reasons := ci_reasons i @ [reason]\<rparr>))"

definition apply_intervention_responded ::
  "ceremony_instance \<Rightarrow> string \<Rightarrow> intervention_response \<Rightarrow> ceremony_instance" where
  "apply_intervention_responded i intervention_id response =
     (case instance_intervention i intervention_id of
        None \<Rightarrow> i
      | Some v \<Rightarrow>
          (case accept_response v response of
             Inl _ \<Rightarrow> i
           | Inr v' \<Rightarrow> record_that_it_answers (with_intervention i intervention_id v')
                          intervention_id (resp_responded_at response))
          \<lparr>ci_updated_at := resp_responded_at response\<rparr>)"

definition apply_intervention_delivery_acknowledged ::
  "ceremony_instance \<Rightarrow> string \<Rightarrow> delivery_ack \<Rightarrow> ceremony_instance" where
  "apply_intervention_delivery_acknowledged i intervention_id ack =
     (case instance_intervention i intervention_id of
        None \<Rightarrow> i
      | Some v \<Rightarrow> (case acknowledge_delivery v ack of
                     Inl _ \<Rightarrow> i
                   | Inr v' \<Rightarrow> with_intervention i intervention_id v'))
     \<lparr>ci_updated_at := ack_acknowledged_at ack\<rparr>"

definition apply_intervention_closed ::
  "ceremony_instance \<Rightarrow> string \<Rightarrow> string \<Rightarrow> int \<Rightarrow> ceremony_instance" where
  "apply_intervention_closed i intervention_id closed_by at =
     (case instance_intervention i intervention_id of
        None \<Rightarrow> i
      | Some v \<Rightarrow> (case close_intervention v closed_by at of
                     Inl _ \<Rightarrow> i
                   | Inr v' \<Rightarrow> with_intervention i intervention_id v'))
     \<lparr>ci_updated_at := at\<rparr>"

definition apply_reason_asserted :: "ceremony_instance \<Rightarrow> ceremony_reason \<Rightarrow> ceremony_instance" where
  "apply_reason_asserted i r =
     i\<lparr>ci_updated_at := reason_asserted_at r, ci_reasons := ci_reasons i @ [r]\<rparr>"

definition apply_human_approval_recorded ::
  "ceremony_instance \<Rightarrow> guard_approval \<Rightarrow> ceremony_instance" where
  "apply_human_approval_recorded i a =
     i\<lparr>ci_context :=
         (case with_guard_approval (ci_context i) (approval_guard_name a) of
            Inl _ \<Rightarrow> ci_context i | Inr ctx \<Rightarrow> ctx),
       ci_guard_approvals := ci_guard_approvals i @ [a], ci_updated_at := approved_at a\<rparr>"

definition apply_human_deferral_recorded ::
  "ceremony_instance \<Rightarrow> guard_deferral \<Rightarrow> ceremony_instance" where
  "apply_human_deferral_recorded i d =
     i\<lparr>ci_guard_deferrals := ci_guard_deferrals i @ [d], ci_updated_at := deferred_at d\<rparr>"

definition apply_memory_recalled ::
  "ceremony_instance \<Rightarrow> session_recollection \<Rightarrow> int \<Rightarrow> ceremony_instance" where
  "apply_memory_recalled i r at = i\<lparr>ci_updated_at := at, ci_recollection := Some r\<rparr>"

definition apply_child_spawn_planned ::
  "ceremony_instance \<Rightarrow> spawn_plan \<Rightarrow> int \<Rightarrow> ceremony_instance" where
  "apply_child_spawn_planned i plan at =
     i\<lparr>ci_child_groups :=
         (case bm_get (ci_child_groups i) (plan_group_id plan) of
            Some _ \<Rightarrow> ci_child_groups i
          | None \<Rightarrow> bm_insert (plan_group_id plan) (child_group_new plan) (ci_child_groups i)),
       ci_updated_at := at\<rparr>"

definition apply_child_spawn_plan_adopted ::
  "ceremony_instance \<Rightarrow> string \<Rightarrow> string \<Rightarrow> int \<Rightarrow> ceremony_instance" where
  "apply_child_spawn_plan_adopted i group_id fence at =
     (case bm_get (ci_child_groups i) group_id of
        None \<Rightarrow> i
      | Some g \<Rightarrow>
          i\<lparr>ci_child_groups := bm_insert group_id (child_group_adopt g fence) (ci_child_groups i),
            ci_updated_at := at\<rparr>)"

definition apply_child_completion_accepted ::
  "ceremony_instance \<Rightarrow> child_completion \<Rightarrow> int \<Rightarrow> ceremony_instance" where
  "apply_child_completion_accepted i c at =
     (case bm_get (ci_child_groups i) (completion_group_id c) of
        None \<Rightarrow> i
      | Some g \<Rightarrow>
          i\<lparr>ci_child_groups :=
              bm_insert (completion_group_id c) (child_group_accept g c) (ci_child_groups i),
            ci_updated_at := at\<rparr>)"

definition apply_ceremony_paused :: "ceremony_instance \<Rightarrow> string \<Rightarrow> int \<Rightarrow> ceremony_instance" where
  "apply_ceremony_paused i reason at =
     i\<lparr>ci_lifecycle := lifecycle_pause (ci_lifecycle i) reason at, ci_updated_at := at\<rparr>"

definition apply_ceremony_resumed :: "ceremony_instance \<Rightarrow> int \<Rightarrow> ceremony_instance" where
  "apply_ceremony_resumed i at =
     i\<lparr>ci_lifecycle := lifecycle_resume (ci_lifecycle i) at, ci_updated_at := at\<rparr>"

definition apply_ceremony_cancelled ::
  "ceremony_instance \<Rightarrow> string \<Rightarrow> int \<Rightarrow> ceremony_instance" where
  "apply_ceremony_cancelled i reason at =
     i\<lparr>ci_lifecycle := lifecycle_end (ci_lifecycle i) EndCancelled (Some reason) at,
       ci_updated_at := at\<rparr>"

definition apply_ceremony_deadline_exceeded ::
  "ceremony_instance \<Rightarrow> int \<Rightarrow> ceremony_instance" where
  "apply_ceremony_deadline_exceeded i observed_at =
     i\<lparr>ci_lifecycle := lifecycle_end (ci_lifecycle i) EndCeremonyDeadline None observed_at,
       ci_updated_at := observed_at\<rparr>"

definition apply_state_deadline_exceeded ::
  "ceremony_instance \<Rightarrow> int \<Rightarrow> ceremony_instance" where
  "apply_state_deadline_exceeded i observed_at =
     i\<lparr>ci_lifecycle := lifecycle_end (ci_lifecycle i) EndStateDeadline None observed_at,
       ci_updated_at := observed_at\<rparr>"

definition apply_step_deadline_exceeded ::
  "ceremony_instance \<Rightarrow> step_deadline \<Rightarrow> step_result \<Rightarrow> int \<Rightarrow> ceremony_instance" where
  "apply_step_deadline_exceeded i deadline result observed_at =
     i\<lparr>ci_step_records :=
         (case bm_get (ci_step_records i) (sd_step_id deadline) of
            None \<Rightarrow> ci_step_records i
          | Some r \<Rightarrow> bm_insert (sd_step_id deadline) (with_result r result) (ci_step_records i)),
       ci_step_deadlines := bm_remove (sd_step_id deadline) (ci_step_deadlines i),
       ci_retired_deadline_claims :=
         bm_insert (sd_claim_fence deadline) deadline (ci_retired_deadline_claims i),
       ci_updated_at := observed_at\<rparr>"

definition apply_late_step_result_observed ::
  "ceremony_instance \<Rightarrow> late_step_result \<Rightarrow> int \<Rightarrow> ceremony_instance" where
  "apply_late_step_result_observed i result observed_at =
     i\<lparr>ci_late_step_results := bm_insert (late_claim_fence result) result (ci_late_step_results i),
       ci_updated_at := observed_at\<rparr>"

definition or_insert :: "'k::linorder \<Rightarrow> 'v \<Rightarrow> ('k, 'v) bmap \<Rightarrow> ('k, 'v) bmap" where
  "or_insert k v m = (if bm_contains m k then m else bm_insert k v m)"

definition apply_execution_receipt_linked ::
  "ceremony_instance \<Rightarrow> receipt_link \<Rightarrow> int \<Rightarrow> ceremony_instance" where
  "apply_execution_receipt_linked i l at =
     (if bm_contains (ci_execution_receipt_links i) (link_operation_id l) \<and> link_kind l = Adopted
      then i\<lparr>ci_execution_receipt_adoptions :=
               bm_insert (link_operation_id l)
                 (or_insert (link_applied_claim_fence l) l
                    (case bm_get (ci_execution_receipt_adoptions i) (link_operation_id l) of
                       None \<Rightarrow> [] | Some adoptions \<Rightarrow> adoptions))
                 (ci_execution_receipt_adoptions i)\<rparr>
      else i\<lparr>ci_execution_receipt_links :=
               or_insert (link_operation_id l) l (ci_execution_receipt_links i)\<rparr>)
     \<lparr>ci_updated_at := at\<rparr>"

definition apply_successor_planned :: "ceremony_instance \<Rightarrow> succession_plan \<Rightarrow> ceremony_instance" where
  "apply_successor_planned i plan =
     i\<lparr>ci_updated_at := splan_planned_at plan, ci_successor_plan := Some plan\<rparr>"

definition carry_step :: "carried_evidence \<Rightarrow> ceremony_instance \<Rightarrow> ceremony_instance" where
  "carry_step e i =
     (if \<not> bm_contains (ci_step_records i) (carried_successor_step_id e) then i
      else i\<lparr>ci_step_records :=
               bm_insert (carried_successor_step_id e)
                 (carried (carried_output e) (carried_source e)
                    (ci_current_state_iteration i) (ci_current_state_visit i))
                 (ci_step_records i)\<rparr>)"

definition apply_succession_carried ::
  "ceremony_instance \<Rightarrow> carried_evidence list \<Rightarrow> int \<Rightarrow> ceremony_instance" where
  "apply_succession_carried i evidence at = (fold carry_step evidence i)\<lparr>ci_updated_at := at\<rparr>"


section \<open>The fold\<close>

fun apply_event :: "ceremony_instance \<Rightarrow> ceremony_event \<Rightarrow> ceremony_instance result" where
  "apply_event i (HostHandoffRecorded h) = Inr (apply_host_handoff_recorded i h)"
| "apply_event i (CeremonyInstanceStarted _) = Inr i"
| "apply_event i (ParticipantsBound bindings) = Inr (apply_participants_bound i bindings)"
| "apply_event i (StepStarted s) = Inr (apply_step_started i s)"
| "apply_event i (StepLeaseRenewed r) = Inr (apply_step_lease_renewed i r)"
| "apply_event i (StepCompleted c) = Inr (apply_step_completed i c)"
| "apply_event i (StepFailed f) = Inr (apply_step_failed i f)"
| "apply_event i (ContextWritten w) = apply_context_written i w"
| "apply_event i (StateIterationStarted s) = Inr (apply_state_iteration_started i s)"
| "apply_event i (TransitionApplied t destination) = Inr (apply_transition_applied i t destination)"
| "apply_event i (InterventionRequested v) = Inr (apply_intervention_requested i v)"
| "apply_event i (InterventionResponded v r) = Inr (apply_intervention_responded i v r)"
| "apply_event i (InterventionClosed v by at) = Inr (apply_intervention_closed i v by at)"
| "apply_event i (InterventionDeliveryAcknowledged v a) =
     Inr (apply_intervention_delivery_acknowledged i v a)"
| "apply_event i (EvidenceCollected e) = Inr (i\<lparr>ci_updated_at := evc_collected_at e\<rparr>)"
| "apply_event i (ReasonAsserted r) = Inr (apply_reason_asserted i r)"
| "apply_event i (HumanApprovalRecorded a) = Inr (apply_human_approval_recorded i a)"
| "apply_event i (HumanDeferralRecorded d) = Inr (apply_human_deferral_recorded i d)"
| "apply_event i (CeremonyCompleted _ at) = Inr (apply_ceremony_completed i at)"
| "apply_event i (InstanceImported m) = Inr (from_imported m)"
| "apply_event i (MemoryRecalled r at) = Inr (apply_memory_recalled i r at)"
| "apply_event i (ChildSpawnPlanned p at) = Inr (apply_child_spawn_planned i p at)"
| "apply_event i (ChildSpawnPlanAdopted g f at) = Inr (apply_child_spawn_plan_adopted i g f at)"
| "apply_event i (ChildCompletionAccepted c at) = Inr (apply_child_completion_accepted i c at)"
| "apply_event i (CeremonyPaused reason at) = Inr (apply_ceremony_paused i reason at)"
| "apply_event i (CeremonyResumed at) = Inr (apply_ceremony_resumed i at)"
| "apply_event i (CeremonyCancelled reason at) = Inr (apply_ceremony_cancelled i reason at)"
| "apply_event i (CeremonyDeadlineExceeded _ at) = Inr (apply_ceremony_deadline_exceeded i at)"
| "apply_event i (StateDeadlineExceeded _ at) = Inr (apply_state_deadline_exceeded i at)"
| "apply_event i (StepDeadlineExceeded d r at) = Inr (apply_step_deadline_exceeded i d r at)"
| "apply_event i (LateStepResultObserved r at) = Inr (apply_late_step_result_observed i r at)"
| "apply_event i (ExecutionReceiptLinked _ l at) = Inr (apply_execution_receipt_linked i l at)"
| "apply_event i (SuccessorPlanned p) = Inr (apply_successor_planned i p)"
| "apply_event i (SuccessionCarried es at) = Inr (apply_succession_carried i es at)"

definition apply_all :: "ceremony_instance \<Rightarrow> ceremony_event list \<Rightarrow> ceremony_instance result" where
  "apply_all i events = try_fold apply_event i events"

fun is_import :: "ceremony_event \<Rightarrow> bool" where
  "is_import (InstanceImported _) = True"
| "is_import _ = False"

definition rehydrate_step :: "ceremony_instance \<Rightarrow> ceremony_event \<Rightarrow> ceremony_instance result" where
  "rehydrate_step i e =
     (if is_import e
      then Inl (InvariantViolated ''a ceremony stream carries an import only as its first event'')
      else apply_event i e)"

definition rehydrate :: "ceremony_event list \<Rightarrow> ceremony_instance result" where
  "rehydrate events =
     (case events of
        CeremonyInstanceStarted s # rest \<Rightarrow> try_fold rehydrate_step (from_started s) rest
      | InstanceImported m # rest \<Rightarrow> try_fold rehydrate_step (from_imported m) rest
      | _ \<Rightarrow> Inl (InvariantViolated
               ''a ceremony stream opens with its start or with its import''))"

end
