(* ===== verification/Ceremony_Decide.thy ===== *)
theory Ceremony_Decide
  imports Ceremony_Fold
begin

text \<open>
  The decisions of the aggregate (\<open>entities/ceremony_instance/decisions/\<close>): one function per
  command, returning the events the command decides or the error that refuses it, and \<open>decide\<close>
  which dispatches on the command (\<open>entities/ceremony_command.rs\<close>).  The public mutators of the
  aggregate are all \<open>execute\<close>: decide, then fold the decided events.  The argument \<open>env\<close> carries
  the hash and the checked time addition.
\<close>


section \<open>Commands\<close>

datatype digest_scheme = MadeV1 | ChoreographerV1

record published_definition =
  pub_definition :: ceremony_definition
  pub_digest :: string
  pub_scheme :: digest_scheme

record renew_step_lease =
  rn_request :: "lease_renewal_request option"
  rn_step_id :: string
  rn_claim_fence :: string
  rn_lease_owner_id :: string
  rn_expected_expires_at :: int
  rn_expires_at :: int
  rn_now :: int

record start_step =
  st_cmd_role_id :: "string option"
  st_cmd_step_id :: string
  st_cmd_lease :: step_lease
  st_cmd_now :: int
  st_cmd_max_parallel_ceiling :: u8
  st_cmd_budget_reservation_id :: "string option"

record apply_step_result =
  ar_step_id :: string
  ar_claim_fence :: string
  ar_result :: step_result
  ar_now :: int

record request_intervention =
  ri_intervention_id :: string
  ri_role_id :: string
  ri_kind :: intervention_kind
  ri_target :: intervention_target
  ri_content :: intervention_content
  ri_provenance :: "intervention_provenance option"
  ri_intent :: "intervention_intent option"
  ri_delivery :: "delivery_policy option"
  ri_supervisor :: "supervisor_principal option"
  ri_now :: int

record respond_to_intervention =
  rt_intervention_id :: string
  rt_role_id :: string
  rt_content :: intervention_content
  rt_executor :: "delivery_recipient option"
  rt_delivery_id :: "string option"
  rt_now :: int

record plan_successor =
  ps_plan :: succession_plan
  ps_successor :: published_definition
  ps_diff :: "definition_change list"
  ps_now :: int

text \<open>
  The constructors carry the payload structs of \<open>entities/ceremony_commands/\<close>; those with at most
  five plain fields are written as arguments, in field order.
\<close>

datatype ceremony_command =
    RecordHostHandoff host_handoff_declaration int
  | BindParticipant string string int
  | StartStep start_step
  | RenewStepLease renew_step_lease
  | ApplyStepResult apply_step_result
  | ApplyExecutionReceiptResult string string receipt_link step_result int
  | ApplyTransition "string option" string int
  | ApproveGuard string string actor_kind int
  | DeferGuard string guard_deferral_content string actor_kind int
  | RequestInterventionCommand request_intervention
  | RespondToInterventionCommand respond_to_intervention
  | RespondToInterventionWithEvidence string string evidence_pack int
  | AcknowledgeInterventionDelivery string delivery_ack int
  | AssertReason ceremony_reason
  | CloseIntervention string string int
  | PlanCeremonyChildren spawn_plan int
  | PlanSuccessor plan_successor
  | AdoptChildSpawnPlan string string int
  | AcceptChildCompletion child_completion int
  | PauseCeremony string int
  | ResumeCeremony int
  | CancelCeremony string int
  | EnforceCeremonyDeadlines int


section \<open>Opening a ceremony\<close>

definition checked_deadline :: "platform \<Rightarrow> int \<Rightarrow> u64 \<Rightarrow> string \<Rightarrow> int result" where
  "checked_deadline env now duration field =
     (if I64_MAX < uint duration
      then Inl (OutOfRange field (uint duration) 0 I64_MAX)
      else ok_or (datetime_checked_add env now (nanos_of_millis (uint duration)))
             (OutOfRange field (uint duration) 0 I64_MAX))"

definition deadline_of :: "platform \<Rightarrow> int \<Rightarrow> u64 option \<Rightarrow> string \<Rightarrow> int option result" where
  "deadline_of env now timeout field =
     (case timeout of
        None \<Rightarrow> Inr None
      | Some duration \<Rightarrow> and_then (checked_deadline env now duration field) (\<lambda>at. Inr (Some at)))"

fun join :: "string \<Rightarrow> string list \<Rightarrow> string" where
  "join sep [] = []"
| "join sep [x] = x"
| "join sep (x # y # xs) = x @ sep @ join sep (y # xs)"

definition missing_inputs :: "ceremony_definition \<Rightarrow> ceremony_context \<Rightarrow> string list" where
  "missing_inputs d ctx =
     map input_name
       (filter (\<lambda>p. is_required p \<and> bm_get ctx (input_name p) = None) (bm_values (def_inputs d)))"

definition instance_opening ::
  "platform \<Rightarrow> string \<Rightarrow> ceremony_definition \<Rightarrow> ceremony_context \<Rightarrow> int \<Rightarrow> string option \<Rightarrow>
     lineage option \<Rightarrow> string option \<Rightarrow> instance_started result" where
  "instance_opening env i d ctx now bound_definition lin budget_account_id =
     (if missing_inputs d ctx \<noteq> []
      then Inl (InvalidDocument
        (''missing required ceremony inputs: '' @ join '', '' (missing_inputs d ctx)))
      else
        and_then (deadline_of env now (def_ceremony_timeout d) ''ceremony_deadline'') (\<lambda>cd.
        and_then (deadline_of env now (def_state_timeout d) ''state_deadline'') (\<lambda>sd.
        and_then (initial_state_id d) (\<lambda>initial.
          Inr \<lparr>cis_ceremony_id = i, cis_definition_name = def_name d,
               cis_definition_version = def_version d, cis_initial_state = initial,
               cis_step_ids = bm_keys (def_steps d), cis_context = ctx,
               cis_bound_definition = bound_definition, cis_lineage = lin,
               cis_succession = None, cis_budget_account_id = budget_account_id,
               cis_ceremony_deadline = cd,
               cis_state_deadline =
                 map_option (\<lambda>at. \<lparr>std_state_id = initial, std_state_visit = FIRST,
                                    std_at = at\<rparr>) sd,
               cis_created_at = now\<rparr>))))"

definition opening_batch ::
  "instance_started \<Rightarrow> session_recollection option \<Rightarrow> int \<Rightarrow> ceremony_event list" where
  "opening_batch opened recollection now =
     CeremonyInstanceStarted opened #
     (case recollection of
        None \<Rightarrow> []
      | Some r \<Rightarrow> if recollection_entries r = [] then [] else [MemoryRecalled r now])"

definition decide_opening ::
  "platform \<Rightarrow> string \<Rightarrow> ceremony_definition \<Rightarrow> ceremony_context \<Rightarrow> session_recollection option \<Rightarrow>
     int \<Rightarrow> string option \<Rightarrow> lineage option \<Rightarrow> string option \<Rightarrow> ceremony_event list result" where
  "decide_opening env i d ctx recollection now bound lin account =
     and_then (instance_opening env i d ctx now bound lin account) (\<lambda>opened.
       Inr (opening_batch opened recollection now))"

definition decide_start ::
  "platform \<Rightarrow> string \<Rightarrow> ceremony_definition \<Rightarrow> ceremony_context \<Rightarrow> session_recollection option \<Rightarrow>
     int \<Rightarrow> ceremony_event list result" where
  "decide_start env i d ctx recollection now =
     decide_opening env i d ctx recollection now None None None"

definition decide_start_bound ::
  "platform \<Rightarrow> string \<Rightarrow> published_definition \<Rightarrow> ceremony_context \<Rightarrow>
     session_recollection option \<Rightarrow> int \<Rightarrow> ceremony_event list result" where
  "decide_start_bound env i published ctx recollection now =
     decide_opening env i (pub_definition published) ctx recollection now
       (Some (pub_digest published)) None None"

definition decide_start_bound_child ::
  "platform \<Rightarrow> string \<Rightarrow> published_definition \<Rightarrow> ceremony_context \<Rightarrow> lineage \<Rightarrow>
     session_recollection option \<Rightarrow> int \<Rightarrow> ceremony_event list result" where
  "decide_start_bound_child env i published ctx lin recollection now =
     decide_opening env i (pub_definition published) ctx recollection now
       (Some (pub_digest published)) (Some lin) None"

definition decide_start_bound_budgeted ::
  "platform \<Rightarrow> string \<Rightarrow> published_definition \<Rightarrow> ceremony_context \<Rightarrow> string \<Rightarrow>
     session_recollection option \<Rightarrow> int \<Rightarrow> ceremony_event list result" where
  "decide_start_bound_budgeted env i published ctx account recollection now =
     decide_opening env i (pub_definition published) ctx recollection now
       (Some (pub_digest published)) None (Some account)"

definition decide_start_bound_budgeted_child ::
  "platform \<Rightarrow> string \<Rightarrow> published_definition \<Rightarrow> ceremony_context \<Rightarrow> lineage \<Rightarrow> string \<Rightarrow>
     session_recollection option \<Rightarrow> int \<Rightarrow> ceremony_event list result" where
  "decide_start_bound_budgeted_child env i published ctx lin account recollection now =
     decide_opening env i (pub_definition published) ctx recollection now
       (Some (pub_digest published)) (Some lin) (Some account)"

definition decide_start_successor ::
  "platform \<Rightarrow> string \<Rightarrow> published_definition \<Rightarrow> ceremony_context \<Rightarrow> succession \<Rightarrow>
     succession_plan \<Rightarrow> int \<Rightarrow> ceremony_event list result" where
  "decide_start_successor env i published ctx suc plan now =
     and_then (instance_opening env i (pub_definition published) ctx now (Some (pub_digest published))
       None None) (\<lambda>opened.
       Inr (CeremonyInstanceStarted (opened\<lparr>cis_succession := Some suc\<rparr>) #
            (if splan_carried plan = [] then []
             else [SuccessionCarried (splan_carried plan) now])))"


section \<open>Lifecycle decisions\<close>

definition decide_pause ::
  "ceremony_instance \<Rightarrow> string \<Rightarrow> int \<Rightarrow> ceremony_definition \<Rightarrow> ceremony_event list result" where
  "decide_pause i reason now d =
     and_then (require_definition i d) (\<lambda>_.
     if is_ended i then Inl (LifecycleRefused ''pause'' Ended)
     else (case phase (ci_lifecycle i) of
             Running \<Rightarrow> Inr [CeremonyPaused reason now]
           | Paused \<Rightarrow> Inr []
           | Ended \<Rightarrow> Inl (LifecycleRefused ''pause'' Ended)))"

definition decide_resume ::
  "ceremony_instance \<Rightarrow> int \<Rightarrow> ceremony_definition \<Rightarrow> ceremony_event list result" where
  "decide_resume i now d =
     and_then (require_definition i d) (\<lambda>_.
     if is_ended i then Inl (LifecycleRefused ''resume'' Ended)
     else if is_superseded i
     then Inl (LifecycleRefused ''superseded_by_successor'' (phase (ci_lifecycle i)))
     else (case phase (ci_lifecycle i) of
             Paused \<Rightarrow> Inr [CeremonyResumed now]
           | Running \<Rightarrow> Inr []
           | Ended \<Rightarrow> Inl (LifecycleRefused ''resume'' Ended)))"

definition decide_cancel ::
  "ceremony_instance \<Rightarrow> string \<Rightarrow> int \<Rightarrow> ceremony_definition \<Rightarrow> ceremony_event list result" where
  "decide_cancel i reason now d =
     and_then (require_definition i d) (\<lambda>_.
     if end_reason (ci_lifecycle i) = Some EndCancelled then Inr []
     else if is_ended i then Inl (LifecycleRefused ''cancel'' Ended)
     else Inr [CeremonyCancelled reason now])"

definition due_step_deadlines ::
  "ceremony_instance \<Rightarrow> int \<Rightarrow> int option \<Rightarrow> step_deadline list" where
  "due_step_deadlines i now terminal_at =
     sort_key (\<lambda>dl. (sd_at dl, sd_step_id dl))
       (filter (\<lambda>dl. sd_at dl \<le> now
                      \<and> (case terminal_at of None \<Rightarrow> True | Some at \<Rightarrow> sd_at dl < at))
          (bm_values (ci_step_deadlines i)))"

definition decide_enforce_deadlines ::
  "ceremony_instance \<Rightarrow> int \<Rightarrow> ceremony_definition \<Rightarrow> ceremony_event list result" where
  "decide_enforce_deadlines i now d =
     and_then (require_definition i d) (\<lambda>_.
     if is_ended i then Inr []
     else
       let ceremony = (case ci_ceremony_deadline i of
                         None \<Rightarrow> None | Some at \<Rightarrow> if at \<le> now then Some at else None);
           state = (case ci_state_deadline i of
                      None \<Rightarrow> None | Some dl \<Rightarrow> if std_at dl \<le> now then Some dl else None);
           terminal_at = (case (ceremony, state) of
                            (Some c, Some s) \<Rightarrow> Some (min c (std_at s))
                          | (Some c, None) \<Rightarrow> Some c
                          | (None, Some s) \<Rightarrow> Some (std_at s)
                          | (None, None) \<Rightarrow> None)
       in and_then
            (try_map (\<lambda>dl. and_then step_result_timed_out (\<lambda>result.
                        Inr (StepDeadlineExceeded dl result now)))
               (due_step_deadlines i now terminal_at))
            (\<lambda>events. Inr (events @
               (case (ceremony, state) of
                  (Some c, Some s) \<Rightarrow>
                    if c \<le> std_at s then [CeremonyDeadlineExceeded c now]
                    else [StateDeadlineExceeded s now]
                | (None, Some s) \<Rightarrow> [StateDeadlineExceeded s now]
                | (Some c, None) \<Rightarrow> [CeremonyDeadlineExceeded c now]
                | (None, None) \<Rightarrow> []))))"


section \<open>Transitions\<close>

definition decide_apply_transition ::
  "platform \<Rightarrow> ceremony_instance \<Rightarrow> string option \<Rightarrow> string \<Rightarrow> int \<Rightarrow> ceremony_definition \<Rightarrow>
     ceremony_event list result" where
  "decide_apply_transition env i rid trigger now d =
     and_then (case rid of
                 None \<Rightarrow> Inr () | Some r \<Rightarrow> require_role i d r (TransitionAction trigger)) (\<lambda>_.
     and_then (require_definition i d) (\<lambda>_.
     and_then (require_admits_new_work i ''apply_transition'') (\<lambda>_.
     and_then (require (\<not> (is_terminal i d \<or> is_ended i))
       (InvariantViolated ''terminal ceremony instances cannot transition'')) (\<lambda>_.
     and_then (ok_or (transition_for_trigger d (ci_current_state i) trigger)
       (InvalidTransition ''ceremony_instance.current_state'' ''transition_trigger'')) (\<lambda>t.
     and_then (require_transition_budget i d t) (\<lambda>_.
     and_then (require (\<not> has_live_step_leases_at i d now)
       (InvariantViolated ''ceremony cannot transition while a step lease is active'')) (\<lambda>_.
     and_then (require (state_repeat_permits i d t)
       (InvariantViolated ''ceremony state repeat condition is not satisfied'')) (\<lambda>_.
     and_then (require (guards_are_satisfied env i d t)
       (InvariantViolated ''ceremony transition guards are not satisfied'')) (\<lambda>_.
     and_then (state_visit_next (ci_current_state_visit i)) (\<lambda>next_visit.
     and_then (deadline_of env now (def_state_timeout d) ''state_deadline'') (\<lambda>deadline.
     and_then (require_interventions_resolved_before_entering i d (t_to t)) (\<lambda>_.
       Inr (TransitionApplied
              \<lparr>tr_trigger = trigger, tr_from_state = ci_current_state i,
               tr_state_iteration = Some (ci_current_state_iteration i),
               tr_state_visit = Some (ci_current_state_visit i),
               tr_to_state = t_to t, tr_applied_by = rid, tr_applied_at = now\<rparr>
              (Some \<lparr>sve_state_visit = next_visit,
                     sve_step_ids = map cs_id (steps_for_state d (t_to t)),
                     sve_deadline =
                       map_option (\<lambda>at. \<lparr>std_state_id = t_to t, std_state_visit = next_visit,
                                          std_at = at\<rparr>) deadline\<rparr>) #
            (if is_terminal_state d (t_to t) then [CeremonyCompleted (t_to t) now]
             else [])))))))))))))) "


section \<open>Starting a step\<close>

definition budget_reservation_id_for_operation :: "platform \<Rightarrow> string \<Rightarrow> string \<Rightarrow> string" where
  "budget_reservation_id_for_operation env account operation =
     sha256_hex env (''made:budget-reservation:v1'' @ [CHR 0x00] @ account @ [CHR 0x00] @ operation)"

definition require_budget_reservation ::
  "platform \<Rightarrow> ceremony_instance \<Rightarrow> string \<Rightarrow> step_record \<Rightarrow> string option \<Rightarrow> unit result" where
  "require_budget_reservation env i step_id r reservation_id =
     (case (ci_budget_account_id i, reservation_id) of
        (None, None) \<Rightarrow> Inr ()
      | (Some account, Some reservation) \<Rightarrow>
          require (reservation = budget_reservation_id_for_operation env account
                     (operation_id_for_step env (ci_id i) step_id (ci_current_state_visit i)
                        (ci_current_state_iteration i) (rec_iteration r)))
            (InvariantViolated
              ''step claim budget reservation does not match its execution identity'')
      | (Some _, None) \<Rightarrow>
          Inl (InvariantViolated ''budgeted ceremony steps require an admitted reservation'')
      | (None, Some _) \<Rightarrow>
          Inl (InvariantViolated ''unbudgeted ceremony steps cannot name a budget reservation''))"

definition earliest :: "int option \<Rightarrow> int option \<Rightarrow> int option" where
  "earliest a b =
     (case b of None \<Rightarrow> a | Some y \<Rightarrow> Some (case a of None \<Rightarrow> y | Some x \<Rightarrow> min x y))"

definition decide_step_deadline ::
  "platform \<Rightarrow> ceremony_instance \<Rightarrow> start_step \<Rightarrow> step_record \<Rightarrow> u32 \<Rightarrow> string \<Rightarrow> string \<Rightarrow>
     u64 option \<Rightarrow> step_deadline option result" where
  "decide_step_deadline env i c r attempt fence started_by timeout =
     and_then (deadline_of env (st_cmd_now c) timeout ''step_deadline'') (\<lambda>own.
       Inr (map_option
         (\<lambda>at. \<lparr>sd_step_id = st_cmd_step_id c, sd_state_visit = ci_current_state_visit i,
                sd_state_iteration = ci_current_state_iteration i,
                sd_step_iteration = rec_iteration r, sd_attempt = attempt,
                sd_claim_fence = fence, sd_finished_by = started_by, sd_at = at\<rparr>)
         (earliest (earliest own (map_option std_at (ci_state_deadline i)))
            (ci_ceremony_deadline i))))"

definition has_dynamic_sibling :: "ceremony_instance \<Rightarrow> ceremony_definition \<Rightarrow> bool" where
  "has_dynamic_sibling i d =
     list_ex (\<lambda>s. cs_dynamic_role_binding s \<noteq> None) (steps_for_state d (ci_current_state i))"

text \<open>The role sealed into the claim of a step whose role was not resolved dynamically.\<close>

definition sealed_role_for ::
  "ceremony_instance \<Rightarrow> ceremony_definition \<Rightarrow> string \<Rightarrow> string \<Rightarrow> bool \<Rightarrow> string option result" where
  "sealed_role_for i d step_id started_by dynamic =
     and_then (if \<not> dynamic \<and> in_concurrent_state i d
               then and_then (role_id_for_step d step_id) (\<lambda>role. Inr (role \<noteq> started_by))
               else Inr False) (\<lambda>alternate_static_role.
       Inr (if \<not> dynamic \<and> (in_concurrent_state i d \<and> has_dynamic_sibling i d
                            \<or> alternate_static_role)
            then Some started_by else None))"

definition decide_start_step ::
  "platform \<Rightarrow> ceremony_instance \<Rightarrow> start_step \<Rightarrow> ceremony_definition \<Rightarrow>
     ceremony_event list result" where
  "decide_start_step env i c d =
     and_then (require_definition i d) (\<lambda>_.
     and_then (require_admits_new_work i ''start_step'') (\<lambda>_.
     and_then (require (\<not> (is_terminal i d \<or> is_ended i))
       (InvariantViolated ''terminal ceremony instances cannot start steps'')) (\<lambda>_.
     and_then (ok_or (def_step d (st_cmd_step_id c))
       (NotFound ''ceremony_instance.step'')) (\<lambda>step.
     and_then (require (cs_state_id step = ci_current_state i)
       (InvalidTransition ''ceremony_instance.current_state'' ''ceremony_step.state'')) (\<lambda>_.
     and_then (ok_or (bm_get (ci_step_records i) (st_cmd_step_id c))
       (NotFound ''ceremony_instance.step_record'')) (\<lambda>r.
     and_then (require (can_be_started_at r (st_cmd_now c))
       (InvariantViolated ''step lease is still active'')) (\<lambda>_.
     and_then (next_start_attempt r) (\<lambda>attempt.
     and_then (require (allows_attempt (cs_retry_policy step) attempt)
       (InvariantViolated ''step retry policy exhausted'')) (\<lambda>_.
     and_then (resolve_step_role i d (st_cmd_step_id c) (st_cmd_role_id c))
       (\<lambda>(started_by, dynamic).
     and_then (sealed_role_for i d (st_cmd_step_id c) started_by dynamic) (\<lambda>sealed_role.
     and_then (resolved_step_is_claimable_at i (st_cmd_step_id c) d (st_cmd_now c)
       (st_cmd_max_parallel_ceiling c)) (\<lambda>claimable.
     and_then (require claimable (InvariantViolated
       ''ceremony step is not claimable at the observed time and capacity'')) (\<lambda>_.
     and_then (require (lease_idempotency_key (st_cmd_lease c) \<notin> ci_idempotency_keys i)
       (AlreadyExists ''ceremony_instance.idempotency_key'')) (\<lambda>_.
     and_then (require_budget_reservation env i (st_cmd_step_id c) r
       (st_cmd_budget_reservation_id c)) (\<lambda>_.
     and_then (claim_fence_for_record env (ci_id i) (st_cmd_step_id c)
       (with_budget_reservation
          (with_started r (st_cmd_lease c) attempt (if dynamic then Some started_by else sealed_role))
          (st_cmd_budget_reservation_id c))) (\<lambda>fence.
     and_then (decide_step_deadline env i c r attempt fence started_by (cs_timeout step))
       (\<lambda>deadline.
       Inr [StepStarted
              \<lparr>ss_step_id = st_cmd_step_id c,
               ss_state_visit = Some (ci_current_state_visit i),
               ss_state_iteration = Some (ci_current_state_iteration i),
               ss_iteration = rec_iteration r, ss_attempt = attempt, ss_lease = st_cmd_lease c,
               ss_started_by = started_by,
               ss_role_from =
                 (if dynamic then map_option drb_context_key (cs_dynamic_role_binding step)
                  else None),
               ss_sealed_role = sealed_role, ss_deadline = deadline,
               ss_budget_reservation_id = st_cmd_budget_reservation_id c,
               ss_started_at = st_cmd_now c\<rparr>])))))))))))))))))"


section \<open>Step results\<close>

definition finished_by_of :: "ceremony_definition \<Rightarrow> string \<Rightarrow> step_record \<Rightarrow> string result" where
  "finished_by_of d step_id r =
     (case rec_claimed_role r of Some role \<Rightarrow> Inr role | None \<Rightarrow> role_id_for_step d step_id)"

definition retired_claim :: "ceremony_instance \<Rightarrow> string \<Rightarrow> string \<Rightarrow> step_deadline option" where
  "retired_claim i fence step_id =
     (case bm_get (ci_retired_deadline_claims i) fence of
        None \<Rightarrow> None
      | Some dl \<Rightarrow> if sd_step_id dl = step_id then Some dl else None)"

definition late_result_of ::
  "ceremony_definition \<Rightarrow> apply_step_result \<Rightarrow> step_record \<Rightarrow> step_deadline option \<Rightarrow>
     late_step_result result" where
  "late_result_of d c r retired =
     (case retired of
        None \<Rightarrow>
          and_then (finished_by_of d (ar_step_id c) r) (\<lambda>finished_by.
            Inr \<lparr>late_step_id = ar_step_id c, late_state_visit = rec_state_visit r,
                 late_state_iteration = rec_state_iteration r,
                 late_step_iteration = rec_iteration r, late_attempt = rec_attempt r,
                 late_claim_fence = ar_claim_fence c, late_result = ar_result c,
                 late_finished_by = finished_by\<rparr>)
      | Some dl \<Rightarrow>
          Inr \<lparr>late_step_id = ar_step_id c, late_state_visit = sd_state_visit dl,
               late_state_iteration = sd_state_iteration dl,
               late_step_iteration = sd_step_iteration dl, late_attempt = sd_attempt dl,
               late_claim_fence = ar_claim_fence c, late_result = ar_result c,
               late_finished_by = sd_finished_by dl\<rparr>)"

definition decide_late_step_result ::
  "platform \<Rightarrow> ceremony_instance \<Rightarrow> apply_step_result \<Rightarrow> ceremony_definition \<Rightarrow>
     ceremony_event list option result" where
  "decide_late_step_result env i c d =
     (case bm_get (ci_late_step_results i) (ar_claim_fence c) of
        Some existing \<Rightarrow>
          if late_step_id existing = ar_step_id c \<and> late_result existing = ar_result c
          then Inr (Some [])
          else Inl (InvariantViolated
            ''late step claim already has a different step or observed result'')
      | None \<Rightarrow>
          let retired = retired_claim i (ar_claim_fence c) (ar_step_id c) in
          if \<not> is_ended i \<and> retired = None then Inr None
          else
            and_then (ok_or (bm_get (ci_step_records i) (ar_step_id c))
              (NotFound ''ceremony_instance.step_record'')) (\<lambda>r.
            and_then (require
              (rec_status r = InProgress
               \<and> step_claim_fence env i (ar_step_id c) = Inr (ar_claim_fence c)
               \<or> retired \<noteq> None)
              (InvariantViolated
                 ''step result claim fence is not current or retired by a deadline'')) (\<lambda>_.
            and_then (late_result_of d c r retired) (\<lambda>late.
              Inr (Some [LateStepResultObserved late (ar_now c)])))))"

definition decide_state_iteration ::
  "ceremony_instance \<Rightarrow> ceremony_definition \<Rightarrow> int \<Rightarrow> ceremony_event list result" where
  "decide_state_iteration i d now =
     (case current_repeat_policy i d of
        None \<Rightarrow> Inr []
      | Some policy \<Rightarrow>
          if \<not> state_work_is_complete i d
             \<or> state_repeat_condition_is_satisfied i d
             \<or> \<not> state_repeat_permits_another policy (ci_current_state_iteration i)
          then Inr []
          else and_then (state_iteration_next (ci_current_state_iteration i)) (\<lambda>next.
            Inr [StateIterationStarted
                   \<lparr>sis_state_id = ci_current_state i,
                    sis_state_visit = Some (ci_current_state_visit i),
                    sis_state_iteration = next,
                    sis_step_ids = map cs_id (steps_for_state d (ci_current_state i)),
                    sis_started_at = now\<rparr>]))"

definition next_iteration_of ::
  "ceremony_step \<Rightarrow> u32 \<Rightarrow> attributes \<Rightarrow> u32 option result" where
  "next_iteration_of step iteration output =
     (case cs_repeat_policy step of
        None \<Rightarrow> Inr None
      | Some policy \<Rightarrow>
          if \<not> step_repeat_is_satisfied policy output
             \<and> step_repeat_permits_another policy iteration
          then and_then (step_iteration_next iteration) (\<lambda>n. Inr (Some n))
          else Inr None)"

definition decide_step_success ::
  "ceremony_instance \<Rightarrow> apply_step_result \<Rightarrow> ceremony_definition \<Rightarrow> ceremony_step \<Rightarrow>
     step_record \<Rightarrow> ceremony_event list result" where
  "decide_step_success i c d step r =
     and_then (next_iteration_of step (rec_iteration r) (res_output (ar_result c))) (\<lambda>next.
     and_then (finished_by_of d (ar_step_id c) r) (\<lambda>finished_by.
     and_then (context_writes_resolve (cs_context_writes step) (res_output (ar_result c)))
       (\<lambda>patch.
     let events =
           StepCompleted
             \<lparr>sc_step_id = ar_step_id c, sc_state_visit = Some (ci_current_state_visit i),
              sc_state_iteration = Some (ci_current_state_iteration i),
              sc_iteration = rec_iteration r, sc_attempt = rec_attempt r,
              sc_result = ar_result c, sc_next_iteration = next,
              sc_finished_by = finished_by, sc_finished_at = ar_now c\<rparr> #
           (case patch of
              None \<Rightarrow> []
            | Some p \<Rightarrow>
                [ContextWritten
                   \<lparr>cw_step_id = ar_step_id c, cw_state_visit = Some (ci_current_state_visit i),
                    cw_state_iteration = ci_current_state_iteration i,
                    cw_iteration = rec_iteration r, cw_attempt = rec_attempt r,
                    cw_patch = p, cw_written_at = ar_now c\<rparr>])
     in and_then (apply_all i events) (\<lambda>projected.
        and_then (decide_state_iteration projected d (ar_now c)) (\<lambda>more.
          Inr (events @ more))))))"

definition decide_apply_step_result ::
  "platform \<Rightarrow> ceremony_instance \<Rightarrow> apply_step_result \<Rightarrow> ceremony_definition \<Rightarrow>
     ceremony_event list result" where
  "decide_apply_step_result env i c d =
     and_then (require_definition i d) (\<lambda>_.
     and_then (require (res_failure_kind (ar_result c) = None
                        \<or> res_status (ar_result c) = Failed)
       (InvariantViolated ''only failed step results may carry a failure kind'')) (\<lambda>_.
     and_then (ok_or (def_step d (ar_step_id c)) (NotFound ''ceremony_instance.step'')) (\<lambda>step.
     and_then (decide_late_step_result env i c d) (\<lambda>late.
     case late of
       Some events \<Rightarrow> Inr events
     | None \<Rightarrow>
         and_then (require (cs_state_id step = ci_current_state i)
           (InvalidTransition ''ceremony_instance.current_state'' ''ceremony_step.state'')) (\<lambda>_.
         and_then (ok_or (bm_get (ci_step_records i) (ar_step_id c))
           (NotFound ''ceremony_instance.step_record'')) (\<lambda>r.
         and_then (require (rec_status r = InProgress)
           (InvariantViolated ''step result requires an in-progress step'')) (\<lambda>_.
         and_then (require_step_claim_fence env i (ar_step_id c) (ar_claim_fence c)) (\<lambda>_.
         if \<not> is_success (res_status (ar_result c))
         then and_then (finished_by_of d (ar_step_id c) r) (\<lambda>finished_by.
           Inr [StepFailed
                  \<lparr>sf_step_id = ar_step_id c, sf_state_visit = Some (ci_current_state_visit i),
                   sf_state_iteration = Some (ci_current_state_iteration i),
                   sf_iteration = rec_iteration r, sf_attempt = rec_attempt r,
                   sf_result = ar_result c, sf_finished_by = finished_by,
                   sf_finished_at = ar_now c\<rparr>])
         else decide_step_success i c d step r)))))))) "

definition require_same_receipt :: "receipt_link \<Rightarrow> receipt_link \<Rightarrow> unit result" where
  "require_same_receipt original adoption =
     require (link_receipt_id original = link_receipt_id adoption
              \<and> link_operation_id original = link_operation_id adoption
              \<and> link_producer_claim_fence original = link_producer_claim_fence adoption)
       (Conflict ''execution_receipt_adoption'')"

text \<open>The early answers of a receipt: \<open>Some events\<close> ends the decision, \<open>None\<close> goes on.\<close>

definition receipt_replay ::
  "ceremony_instance \<Rightarrow> receipt_link \<Rightarrow> ceremony_event list option result" where
  "receipt_replay i l =
     (let original = bm_get (ci_execution_receipt_links i) (link_operation_id l) in
      if original = Some l then Inr (Some [])
      else if link_kind l = Direct
      then (if original \<noteq> None then Inl (Conflict ''execution_receipt_link'') else Inr None)
      else (case execution_receipt_adoption i (link_operation_id l)
                   (link_applied_claim_fence l) of
              Some stored \<Rightarrow>
                if stored = l then Inr (Some [])
                else Inl (Conflict ''execution_receipt_adoption'')
            | None \<Rightarrow>
                and_then (require_admits_new_work i ''adopt_execution_receipt'') (\<lambda>_.
                and_then (case original of
                            None \<Rightarrow> Inr () | Some o' \<Rightarrow> require_same_receipt o' l) (\<lambda>_.
                  Inr None))))"

definition decide_apply_execution_receipt_result ::
  "platform \<Rightarrow> ceremony_instance \<Rightarrow> string \<Rightarrow> string \<Rightarrow> receipt_link \<Rightarrow> step_result \<Rightarrow> int \<Rightarrow>
     ceremony_definition \<Rightarrow> ceremony_event list result" where
  "decide_apply_execution_receipt_result env i step_id fence l result now d =
     and_then (receipt_link_validate env l) (\<lambda>_.
     and_then (require (link_applied_claim_fence l = fence)
       (InvariantViolated
          ''execution receipt link does not target the completing claim fence'')) (\<lambda>_.
     and_then (receipt_replay i l) (\<lambda>replay.
     case replay of
       Some events \<Rightarrow> Inr events
     | None \<Rightarrow>
         and_then (ok_or (bm_get (ci_step_records i) step_id)
           (NotFound ''ceremony_instance.step_record'')) (\<lambda>r.
         let operation_id =
               (case retired_claim i fence step_id of
                  None \<Rightarrow> operation_id_for_step env (ci_id i) step_id (rec_state_visit r)
                            (rec_state_iteration r) (rec_iteration r)
                | Some dl \<Rightarrow> operation_id_for_step env (ci_id i) step_id (sd_state_visit dl)
                              (sd_state_iteration dl) (sd_step_iteration dl))
         in and_then (require (link_operation_id l = operation_id)
              (InvariantViolated
                 ''execution receipt operation does not match the step coordinates'')) (\<lambda>_.
            and_then (decide_apply_step_result env i
              \<lparr>ar_step_id = step_id, ar_claim_fence = fence, ar_result = result,
               ar_now = now\<rparr> d) (\<lambda>events.
              Inr (ExecutionReceiptLinked step_id l now # events)))))))"


section \<open>Lease renewal and host handoff\<close>

definition absolute_deadline :: "ceremony_instance \<Rightarrow> string \<Rightarrow> int option" where
  "absolute_deadline i step_id =
     earliest
       (earliest (map_option sd_at (bm_get (ci_step_deadlines i) step_id))
          (map_option std_at (ci_state_deadline i)))
       (ci_ceremony_deadline i)"

definition renew_fresh ::
  "platform \<Rightarrow> ceremony_instance \<Rightarrow> renew_step_lease \<Rightarrow> ceremony_definition \<Rightarrow>
     ceremony_event list result" where
  "renew_fresh env i c d =
     and_then (require (\<not> (is_ended i \<or> is_terminal i d))
       (InvariantViolated ''ended ceremony cannot renew a lease'')) (\<lambda>_.
     and_then (require_step_claim_fence env i (rn_step_id c) (rn_claim_fence c)) (\<lambda>_.
     and_then (ok_or (bm_get (ci_step_records i) (rn_step_id c)) (NotFound ''ceremony_step''))
       (\<lambda>r.
     and_then (ok_or (rec_lease r) (NotFound ''step_lease'')) (\<lambda>lease.
     and_then (require (lease_owner_id lease = rn_lease_owner_id c
                        \<and> has_live_lease_at r (rn_now c))
       (InvariantViolated ''only the live lease owner may renew'')) (\<lambda>_.
     and_then (require (effective_lease_expires_at r = Some (rn_expected_expires_at c))
       (Conflict ''step_lease_expiry'')) (\<lambda>_.
     and_then (require (\<not> (rn_expires_at c < rn_expected_expires_at c
                           \<or> rn_expires_at c \<le> rn_now c))
       (InvariantViolated ''renewal cannot shorten the effective lease expiry'')) (\<lambda>_.
     and_then (require (case absolute_deadline i (rn_step_id c) of
                          None \<Rightarrow> True
                        | Some at \<Rightarrow> \<not> (at \<le> rn_now c \<or> at < rn_expires_at c))
       (InvariantViolated ''renewal cannot exceed the absolute deadline'')) (\<lambda>_.
       Inr (if rn_expires_at c = rn_expected_expires_at c \<and> rn_request c = None then []
            else [StepLeaseRenewed
                    \<lparr>slr_request = rn_request c, slr_step_id = rn_step_id c,
                     slr_claim_fence = rn_claim_fence c,
                     slr_lease_owner_id = rn_lease_owner_id c,
                     slr_previous_expires_at = rn_expected_expires_at c,
                     slr_expires_at = rn_expires_at c, slr_renewed_at = rn_now c\<rparr>])))))))))"

definition decide_renew_step_lease ::
  "platform \<Rightarrow> ceremony_instance \<Rightarrow> renew_step_lease \<Rightarrow> ceremony_definition \<Rightarrow>
     ceremony_event list result" where
  "decide_renew_step_lease env i c d =
     and_then (require_definition i d) (\<lambda>_.
     case Option.bind (rn_request c) (\<lambda>q. bm_get (ci_lease_renewals i) (lrr_id q)) of
       Some accepted \<Rightarrow>
         if slr_request accepted \<noteq> rn_request c
            \<or> slr_step_id accepted \<noteq> rn_step_id c
            \<or> slr_claim_fence accepted \<noteq> rn_claim_fence c
            \<or> slr_lease_owner_id accepted \<noteq> rn_lease_owner_id c
         then Inl (Conflict ''step_lease_renewal_request'')
         else Inr []
     | None \<Rightarrow> renew_fresh env i c d)"

definition decide_record_host_handoff ::
  "platform \<Rightarrow> ceremony_instance \<Rightarrow> host_handoff_declaration \<Rightarrow> int \<Rightarrow> ceremony_definition \<Rightarrow>
     ceremony_event list result" where
  "decide_record_host_handoff env i h now d =
     and_then (require_definition i d) (\<lambda>_.
     and_then (handoff_validate h) (\<lambda>_.
     case bm_get (ci_host_handoffs i) (hhd_id h) of
       Some accepted \<Rightarrow>
         if hhr_declaration accepted = h then Inr [] else Inl (Conflict ''host_handoff_identity'')
     | None \<Rightarrow>
         and_then (require_step_claim_fence env i (hhd_step_id h) (hhd_claim_fence h)) (\<lambda>_.
         and_then (ok_or (Option.bind (bm_get (ci_step_records i) (hhd_step_id h)) rec_lease)
           (NotFound ''accepted_step_lease'')) (\<lambda>lease.
         and_then (require (lease_owner_id lease = hhd_owner h
                            \<and> lease_acquired_at lease \<le> hhd_observed_at h
                            \<and> hhd_observed_at h \<le> now)
           (InvariantViolated
              ''host handoff must name its accepted owner and a valid observation time'')) (\<lambda>_.
         and_then (require (\<not> list_ex (\<lambda>accepted.
               hhd_claim_fence (hhr_declaration accepted) = hhd_claim_fence h
               \<and> (hhd_incarnation (hhr_declaration accepted) \<noteq> hhd_incarnation h
                  \<or> hhd_observed_at h \<le> hhd_observed_at (hhr_declaration accepted)))
             (bm_values (ci_host_handoffs i)))
           (Conflict ''host_handoff_incarnation_or_order'')) (\<lambda>_.
           Inr [HostHandoffRecorded \<lparr>hhr_declaration = h, hhr_recorded_at = now\<rparr>]))))))"


section \<open>Guard decisions and seats\<close>

definition decide_approve_guard ::
  "ceremony_instance \<Rightarrow> string \<Rightarrow> string \<Rightarrow> actor_kind \<Rightarrow> int \<Rightarrow> ceremony_definition \<Rightarrow>
     ceremony_event list result" where
  "decide_approve_guard i name by kind now d =
     and_then (require_active i d ''terminal ceremony instances cannot approve guards'') (\<lambda>_.
     and_then (ok_or (bm_get (def_guards d) name) (NotFound ''ceremony_guard'')) (\<lambda>g.
     and_then (require (guard_condition g = HumanApproval)
       (InvariantViolated ''only human approval guards can be approved'')) (\<lambda>_.
     and_then (require_declared_role i d by) (\<lambda>_.
     and_then (with_guard_approval (ci_context i) name) (\<lambda>_.
       Inr [HumanApprovalRecorded
              \<lparr>approval_guard_name = name, approved_by = by, approved_by_kind = kind,
               approved_at = now\<rparr>])))))"

definition decide_defer_guard ::
  "ceremony_instance \<Rightarrow> string \<Rightarrow> guard_deferral_content \<Rightarrow> string \<Rightarrow> actor_kind \<Rightarrow> int \<Rightarrow>
     ceremony_definition \<Rightarrow> ceremony_event list result" where
  "decide_defer_guard i name content by kind now d =
     and_then (reconsideration_conditions_new (reconsider_when content)) (\<lambda>_.
     and_then (require_active i d
       ''terminal ceremony instances cannot defer guard decisions'') (\<lambda>_.
     and_then (ok_or (bm_get (def_guards d) name) (NotFound ''ceremony_guard'')) (\<lambda>g.
     and_then (require (guard_condition g = HumanApproval)
       (InvariantViolated ''only human approval guards can be deferred'')) (\<lambda>_.
     and_then (require (\<not> is_guard_approved (ci_context i) name)
       (InvariantViolated ''approved human guards cannot be deferred'')) (\<lambda>_.
     and_then (require (list_ex (\<lambda>t. name \<in> set (t_required_guards t))
         (available_transitions d (ci_current_state i)))
       (InvariantViolated ''human guard is not required from the current state'')) (\<lambda>_.
     and_then (require_declared_role i d by) (\<lambda>_.
       Inr [HumanDeferralRecorded
              \<lparr>deferral_guard_name = name, deferred_by = by, deferred_by_kind = kind,
               deferral_content = content, deferred_at = now\<rparr>])))))))"

definition decide_bind_participant ::
  "ceremony_instance \<Rightarrow> string \<Rightarrow> string \<Rightarrow> int \<Rightarrow> ceremony_definition \<Rightarrow>
     ceremony_event list result" where
  "decide_bind_participant i rid specialty now d =
     and_then (require_active i d ''terminal ceremony instances cannot be re-seated'') (\<lambda>_.
     and_then (require (def_role d rid \<noteq> None) (NotFound ''ceremony_role'')) (\<lambda>_.
       Inr [ParticipantsBound
              [\<lparr>binding_role_id = rid, binding_specialty = specialty,
                binding_bound_at = now\<rparr>]]))"


section \<open>Interventions\<close>

definition requested_intervention :: "request_intervention \<Rightarrow> ceremony_intervention" where
  "requested_intervention c =
     (let v = open_with_provenance (ri_intervention_id c) (ri_kind c) (ri_role_id c) (ri_target c)
                (ri_content c) (ri_provenance c) (ri_now c);
          v1 = (case ri_intent c of None \<Rightarrow> v | Some x \<Rightarrow> v\<lparr>iv_intent := Some x\<rparr>);
          v2 = (case ri_delivery c of None \<Rightarrow> v1 | Some x \<Rightarrow> v1\<lparr>iv_delivery := Some x\<rparr>)
      in (case ri_supervisor c of None \<Rightarrow> v2 | Some x \<Rightarrow> v2\<lparr>iv_supervisor := Some x\<rparr>))"

definition decide_request_intervention ::
  "ceremony_instance \<Rightarrow> request_intervention \<Rightarrow> ceremony_definition \<Rightarrow>
     ceremony_event list result" where
  "decide_request_intervention i c d =
     and_then (target_validate (ri_target c)) (\<lambda>_.
     and_then (require_active i d
       ''terminal ceremony instances cannot accept interventions'') (\<lambda>_.
     and_then (case ri_supervisor c of
                 Some supervisor \<Rightarrow>
                   and_then (supervisor_requesting_role supervisor) (\<lambda>role.
                     require (ri_role_id c = role) (InvariantViolated
                       ''supervisor intervention must be asked under its derived role''))
               | None \<Rightarrow> require_role i d (ri_role_id c) RequestIntervention) (\<lambda>_.
     and_then (require_intervention_target d (ri_target c)) (\<lambda>_.
     and_then (case ri_provenance c of
                 None \<Rightarrow> Inr ()
               | Some p \<Rightarrow>
                   require_intervention_provenance i d (ri_role_id c) (ri_target c) p) (\<lambda>_.
     and_then (require (instance_intervention i (ri_intervention_id c) = None)
       (AlreadyExists ''ceremony_intervention'')) (\<lambda>_.
       Inr [InterventionRequested (requested_intervention c)]))))))"

definition require_open_intervention ::
  "ceremony_instance \<Rightarrow> string \<Rightarrow> ceremony_intervention result" where
  "require_open_intervention i intervention_id =
     ok_or (instance_intervention i intervention_id) (NotFound ''ceremony_intervention'')"

definition require_answering_executor ::
  "ceremony_intervention \<Rightarrow> string \<Rightarrow> delivery_recipient \<Rightarrow> unit result" where
  "require_answering_executor v rid executor =
     (if rcpt_role_id executor \<noteq> rid
      then Inl (InvariantViolated ''answering executor does not hold the responding role'')
      else if \<not> admits_recipient (iv_target v) executor
      then Inl (InvariantViolated
        ''answering executor is not the one this intervention was put to'')
      else Inr ())"

definition decide_respond_to_intervention ::
  "ceremony_instance \<Rightarrow> respond_to_intervention \<Rightarrow> ceremony_definition \<Rightarrow>
     ceremony_event list result" where
  "decide_respond_to_intervention i c d =
     and_then (require_active i d
       ''terminal ceremony instances cannot receive intervention responses'') (\<lambda>_.
     and_then (require_role i d (rt_role_id c) RespondToIntervention) (\<lambda>_.
     and_then (require_open_intervention i (rt_intervention_id c)) (\<lambda>v.
     and_then (ensure_can_respond v (rt_role_id c)) (\<lambda>_.
     let response = intervention_response_new (rt_role_id c) (rt_content c) (rt_now c) in
     and_then (case rt_executor c of
                 None \<Rightarrow> Inr response
               | Some executor \<Rightarrow>
                   and_then (require_answering_executor v (rt_role_id c) executor) (\<lambda>_.
                   and_then (ok_or (rt_delivery_id c) (InvariantViolated
                     ''an answer naming its executor must name the delivery it answers''))
                     (\<lambda>delivery_id. Inr (answering_delivery response executor delivery_id))))
       (\<lambda>answer. Inr [InterventionResponded (rt_intervention_id c) answer])))))"

definition decide_respond_to_intervention_with_evidence ::
  "platform \<Rightarrow> ceremony_instance \<Rightarrow> string \<Rightarrow> string \<Rightarrow> evidence_pack \<Rightarrow> int \<Rightarrow>
     ceremony_definition \<Rightarrow> ceremony_event list result" where
  "decide_respond_to_intervention_with_evidence env i intervention_id rid pack now d =
     and_then (require_active i d
       ''terminal ceremony instances cannot receive intervention evidence'') (\<lambda>_.
     and_then (require_role i d rid RespondToIntervention) (\<lambda>_.
     and_then (require_open_intervention i intervention_id) (\<lambda>v.
     and_then (ensure_can_respond v rid) (\<lambda>_.
     and_then (intervention_response_from_evidence env rid pack now) (\<lambda>response.
       Inr [EvidenceCollected
              \<lparr>evc_intervention_id = intervention_id, evc_source_id = pack_source_id pack,
               evc_collected_by = rid, evc_evidence_pack = pack, evc_collected_at = now\<rparr>,
            InterventionResponded intervention_id response])))))"

definition decide_close_intervention ::
  "ceremony_instance \<Rightarrow> string \<Rightarrow> string \<Rightarrow> int \<Rightarrow> ceremony_definition \<Rightarrow>
     ceremony_event list result" where
  "decide_close_intervention i intervention_id rid now d =
     and_then (require_active i d
       ''terminal ceremony instances cannot close interventions'') (\<lambda>_.
     and_then (require_role i d rid RequestIntervention) (\<lambda>_.
     and_then (require_open_intervention i intervention_id) (\<lambda>v.
     and_then (close_intervention v rid now) (\<lambda>_.
       Inr [InterventionClosed intervention_id rid now]))))"

definition decide_acknowledge_intervention_delivery ::
  "ceremony_instance \<Rightarrow> string \<Rightarrow> delivery_ack \<Rightarrow> ceremony_definition \<Rightarrow>
     ceremony_event list result" where
  "decide_acknowledge_intervention_delivery i intervention_id ack d =
     and_then (require_active i d
       ''terminal ceremony instances cannot record intervention deliveries'') (\<lambda>_.
     and_then (require_open_intervention i intervention_id) (\<lambda>v.
     and_then (require (admits_recipient (iv_target v) (ack_recipient ack))
       (InvariantViolated ''ceremony intervention was not delivered to this recipient'')) (\<lambda>_.
     case intervention_delivery_ack v (ack_delivery_id ack) of
       Some existing \<Rightarrow>
         if agrees_with existing ack then Inr []
         else Inl (Conflict ''ceremony_intervention.delivery_acknowledgement'')
     | None \<Rightarrow> Inr [InterventionDeliveryAcknowledged intervention_id ack])))"


section \<open>Reasons\<close>

definition author_of :: "ceremony_instance \<Rightarrow> record_ref \<Rightarrow> string option" where
  "author_of i ref =
     (case ref of
        StepRef _ \<Rightarrow> None
      | AgendaItemRef agenda_item \<Rightarrow>
          map_option iv_requested_by (instance_intervention i agenda_item)
      | ContributionRef agenda_item ordinal \<Rightarrow>
          (case instance_intervention i agenda_item of
             None \<Rightarrow> None
           | Some item \<Rightarrow>
               if unat ordinal < length (iv_responses item)
               then Some (resp_role_id (iv_responses item ! unat ordinal)) else None)
      | GuardDecisionRef name \<Rightarrow>
          (case find (\<lambda>a. approval_guard_name a = name) (ci_guard_approvals i) of
             Some a \<Rightarrow> Some (approved_by a)
           | None \<Rightarrow> map_option deferred_by
                       (find (\<lambda>x. deferral_guard_name x = name) (ci_guard_deferrals i)))
      | TransitionRef ordinal \<Rightarrow>
          let k = unat ordinal - 1 in
          if k < length (ci_transitions i) then tr_applied_by (ci_transitions i ! k) else None)"

definition record_exists :: "ceremony_instance \<Rightarrow> record_ref \<Rightarrow> bool" where
  "record_exists i ref =
     (case ref of
        StepRef step_id \<Rightarrow> bm_contains (ci_step_records i) step_id
      | AgendaItemRef agenda_item \<Rightarrow> instance_intervention i agenda_item \<noteq> None
      | ContributionRef agenda_item ordinal \<Rightarrow>
          (case instance_intervention i agenda_item of
             None \<Rightarrow> False | Some item \<Rightarrow> unat ordinal < length (iv_responses item))
      | GuardDecisionRef name \<Rightarrow>
          list_ex (\<lambda>a. approval_guard_name a = name) (ci_guard_approvals i)
          \<or> list_ex (\<lambda>x. deferral_guard_name x = name) (ci_guard_deferrals i)
      | TransitionRef ordinal \<Rightarrow>
          1 \<le> unat ordinal \<and> unat ordinal \<le> length (ci_transitions i))"

definition require_record :: "ceremony_instance \<Rightarrow> record_ref \<Rightarrow> unit result" where
  "require_record i ref = require (record_exists i ref) (NotFound ''ceremony_record'')"

definition decide_assert_reason ::
  "ceremony_instance \<Rightarrow> ceremony_reason \<Rightarrow> ceremony_definition \<Rightarrow> ceremony_event list result" where
  "decide_assert_reason i reason d =
     and_then (ok_or (reason_asserted_by reason) (InvariantViolated
       ''a reason is asserted by a seat; the engine records its own unasked'')) (\<lambda>rid.
     and_then (require_declared_role i d rid) (\<lambda>_.
     and_then (require_record i (reason_from reason)) (\<lambda>_.
     and_then (require_record i (reason_to reason)) (\<lambda>_.
     and_then (case asserter (reason_kind reason) of
                 TheEngine \<Rightarrow> Inl (InvariantViolated
                   (''this kind of reason states the shape of the session, not a judgement, ''
                    @ ''and only the engine may assert it''))
               | ItsAuthor \<Rightarrow>
                   require (author_of i (reason_from reason) = Some rid) (InvariantViolated
                     (''only whoever produced something may say why they decided it or ''
                      @ ''how they did it''))
               | AnySeat \<Rightarrow> Inr ()) (\<lambda>_.
       Inr [ReasonAsserted reason])))))"


section \<open>Children\<close>

definition child_lineage_expected ::
  "ceremony_instance \<Rightarrow> child_spawn \<Rightarrow> (u16 \<times> u16 \<times> string) result" where
  "child_lineage_expected i spawn =
     and_then (child_depth_budget_for_child
       (case ci_lineage i of None \<Rightarrow> MAX_CHILD_DEPTH | Some l \<Rightarrow> lin_remaining_depth l)
       (spawn_max_depth spawn)) (\<lambda>remaining.
     and_then (case ci_lineage i of None \<Rightarrow> Inr 1 | Some l \<Rightarrow> child_depth_next (lin_depth l))
       (\<lambda>depth.
       Inr (remaining, depth, case ci_lineage i of None \<Rightarrow> ci_id i | Some l \<Rightarrow> lin_root_id l)))"

definition require_planned_child ::
  "ceremony_instance \<Rightarrow> spawn_plan \<Rightarrow> u16 \<times> u16 \<times> string \<Rightarrow> planned_child \<times> child_spec \<Rightarrow>
     unit result" where
  "require_planned_child i plan = (\<lambda>(remaining, depth, root) (child, spec).
     if planned_ceremony child \<noteq> spec_ceremony spec \<or> planned_version child \<noteq> spec_version spec
     then Inl (InvariantViolated
       ''planned child binding differs from the ceremony definition'')
     else if lin_parent_id (planned_lineage child) \<noteq> ci_id i
        \<or> lin_group_id (planned_lineage child) \<noteq> plan_group_id plan
        \<or> lin_position (planned_lineage child) \<noteq> planned_position child
        \<or> lin_root_id (planned_lineage child) \<noteq> root
        \<or> lin_depth (planned_lineage child) \<noteq> depth
        \<or> lin_remaining_depth (planned_lineage child) \<noteq> remaining
     then Inl (InvariantViolated ''planned child lineage does not match its parent plan'')
     else Inr ())"

definition decide_plan_children ::
  "platform \<Rightarrow> ceremony_instance \<Rightarrow> spawn_plan \<Rightarrow> int \<Rightarrow> ceremony_definition \<Rightarrow>
     ceremony_event list result" where
  "decide_plan_children env i plan now d =
     and_then (require_definition i d) (\<lambda>_.
     case bm_get (ci_child_groups i) (plan_group_id plan) of
       Some existing \<Rightarrow>
         if group_plan existing = plan then Inr [] else Inl (AlreadyExists ''child_spawn_group'')
     | None \<Rightarrow>
         let c = plan_coordinates plan in
         and_then (require_admits_new_work i ''plan_children'') (\<lambda>_.
         and_then (require (coord_state_visit c = ci_current_state_visit i
                            \<and> coord_state_iteration c = ci_current_state_iteration i)
           (InvariantViolated ''child spawn plan coordinates are not current'')) (\<lambda>_.
         and_then (ok_or (def_step d (coord_step_id c))
           (NotFound ''ceremony_child_spawn.step'')) (\<lambda>step.
         and_then (require (cs_state_id step = ci_current_state i)
           (InvariantViolated
              ''child-spawning step does not belong to the current state'')) (\<lambda>_.
         and_then (ok_or (cs_spawn step)
           (InvariantViolated ''child spawn plan requires a child-spawning step'')) (\<lambda>spawn.
         and_then (ok_or (bm_get (ci_step_records i) (coord_step_id c))
           (NotFound ''ceremony_child_spawn.step_record'')) (\<lambda>r.
         and_then (require (rec_state_visit r = coord_state_visit c
                            \<and> rec_state_iteration r = coord_state_iteration c
                            \<and> rec_iteration r = coord_step_iteration c)
           (InvariantViolated ''child spawn plan step iteration is not current'')) (\<lambda>_.
         and_then (require (plan_group_id plan = child_group_id_derive env (ci_id i) c)
           (InvariantViolated
              ''child spawn group identity does not match parent and coordinates'')) (\<lambda>_.
         and_then (require (length (spawn_children spawn) = length (plan_children plan)
                            \<and> spawn_max_children spawn = plan_max_children plan
                            \<and> spawn_max_depth spawn = plan_max_depth plan)
           (InvariantViolated ''child spawn plan differs from the ceremony definition'')) (\<lambda>_.
         and_then (child_lineage_expected i spawn) (\<lambda>expected.
         and_then (try_map (require_planned_child i plan expected)
           (zip (plan_children plan) (spawn_children spawn))) (\<lambda>_.
         and_then (require_step_claim_fence env i (coord_step_id c)
           (plan_active_claim_fence plan)) (\<lambda>_.
           Inr [ChildSpawnPlanned plan now])))))))))))))"

definition decide_adopt_child_plan ::
  "platform \<Rightarrow> ceremony_instance \<Rightarrow> string \<Rightarrow> string \<Rightarrow> int \<Rightarrow> ceremony_definition \<Rightarrow>
     ceremony_event list result" where
  "decide_adopt_child_plan env i group_id fence now d =
     and_then (require_definition i d) (\<lambda>_.
     and_then (ok_or (bm_get (ci_child_groups i) group_id) (NotFound ''child_spawn_group'')) (\<lambda>g.
     if group_adopted_claim_fence g = fence then Inr []
     else
       let c = plan_coordinates (group_plan g) in
       and_then (ok_or (bm_get (ci_step_records i) (coord_step_id c))
         (NotFound ''ceremony_child_spawn.step_record'')) (\<lambda>r.
       and_then (require (coord_state_visit c = ci_current_state_visit i
                          \<and> coord_state_iteration c = ci_current_state_iteration i
                          \<and> coord_state_visit c = rec_state_visit r
                          \<and> coord_state_iteration c = rec_state_iteration r
                          \<and> coord_step_iteration c = rec_iteration r)
         (InvariantViolated
            ''cannot adopt a child spawn plan from another visit or iteration'')) (\<lambda>_.
       and_then (require_step_claim_fence env i (coord_step_id c) fence) (\<lambda>_.
         Inr [ChildSpawnPlanAdopted group_id fence now])))))"

definition decide_accept_child_completion ::
  "ceremony_instance \<Rightarrow> child_completion \<Rightarrow> int \<Rightarrow> ceremony_definition \<Rightarrow>
     ceremony_event list result" where
  "decide_accept_child_completion i completion now d =
     and_then (require_definition i d) (\<lambda>_.
     and_then (ok_or (bm_get (ci_child_groups i) (completion_group_id completion))
       (NotFound ''child_spawn_group'')) (\<lambda>g.
     and_then (require (list_ex (\<lambda>child. planned_child_id child = completion_child_id completion)
         (plan_children (group_plan g)))
       (InvariantViolated ''child completion does not belong to the sealed spawn plan'')) (\<lambda>_.
     case bm_get (group_completions g) (completion_child_id completion) of
       Some existing \<Rightarrow>
         if existing = completion then Inr []
         else Inl (InvariantViolated
           ''child ceremony already has a different accepted terminal'')
     | None \<Rightarrow> Inr [ChildCompletionAccepted completion now])))"


section \<open>Succession\<close>

datatype claim_phase =
  ClaimLive | ClaimExpired | ClaimRetired | ClaimCompleted | ClaimFailed

definition is_outstanding :: "claim_phase \<Rightarrow> bool" where
  "is_outstanding p = (p \<in> {ClaimLive, ClaimExpired})"

definition claim_phase_of :: "step_record \<Rightarrow> int \<Rightarrow> claim_phase option" where
  "claim_phase_of r now =
     (case rec_status r of
        InProgress \<Rightarrow> Some (if has_live_lease_at r now then ClaimLive else ClaimExpired)
      | Completed \<Rightarrow> Some ClaimCompleted
      | Failed \<Rightarrow> Some ClaimFailed
      | _ \<Rightarrow> None)"

definition holds_outstanding_claim :: "step_record \<Rightarrow> int \<Rightarrow> bool" where
  "holds_outstanding_claim r now =
     (case claim_phase_of r now of None \<Rightarrow> False | Some p \<Rightarrow> is_outstanding p)"

definition require_pinned_successor :: "succession_plan \<Rightarrow> published_definition \<Rightarrow> unit result" where
  "require_pinned_successor plan successor =
     require (pin_name (splan_successor_definition plan) = def_name (pub_definition successor)
              \<and> pin_version (splan_successor_definition plan)
                = def_version (pub_definition successor)
              \<and> pin_digest (splan_successor_definition plan) = pub_digest successor)
       (InvariantViolated ''the sealed successor publication is not the one this plan pinned'')"

definition require_derived_successor_id ::
  "platform \<Rightarrow> ceremony_instance \<Rightarrow> succession_plan \<Rightarrow> unit result" where
  "require_derived_successor_id env i plan =
     and_then (successor_ceremony_id_derive env (ci_id i) (splan_plan_id plan)) (\<lambda>derived.
       require (derived = splan_successor_id plan)
         (InvariantViolated ''successor id is not the one this plan derives''))"

definition require_claim_disposed ::
  "platform \<Rightarrow> ceremony_instance \<Rightarrow> succession_plan \<Rightarrow> int \<Rightarrow> string \<times> step_record \<Rightarrow>
     unit result" where
  "require_claim_disposed env i plan now = (\<lambda>(step_id, r).
     if \<not> holds_outstanding_claim r now then Inr ()
     else and_then (ok_or (disposition_for plan step_id) (InvalidDocument
            (''step `'' @ step_id @ ''` holds an outstanding claim with no disposition'')))
            (\<lambda>disposition.
              require_step_claim_fence env i step_id (disp_claim_fence disposition)))"

definition require_disposes_claim ::
  "ceremony_instance \<Rightarrow> int \<Rightarrow> claim_disposition \<Rightarrow> unit result" where
  "require_disposes_claim i now disposition =
     require (case bm_get (ci_step_records i) (disp_step_id disposition) of
                None \<Rightarrow> False | Some r \<Rightarrow> holds_outstanding_claim r now)
       (InvalidDocument
          (''step `'' @ disp_step_id disposition
           @ ''` holds no outstanding claim to dispose of''))"

definition require_every_outstanding_claim_is_disposed ::
  "platform \<Rightarrow> ceremony_instance \<Rightarrow> succession_plan \<Rightarrow> int \<Rightarrow> unit result" where
  "require_every_outstanding_claim_is_disposed env i plan now =
     and_then (try_map (require_claim_disposed env i plan now) (ci_step_records i)) (\<lambda>_.
     and_then (try_map (require_disposes_claim i now) (splan_dispositions plan)) (\<lambda>_. Inr ()))"

definition require_carried_evidence_is_sound ::
  "ceremony_instance \<Rightarrow> plan_successor \<Rightarrow> carried_evidence \<Rightarrow> unit result" where
  "require_carried_evidence_is_sound i c e =
     (let source = carried_source e; step = src_step_id source;
          into = carried_successor_step_id e in
      and_then (require (src_ceremony_id source = ci_id i) (InvalidDocument
        (''carried evidence for step `'' @ into
         @ ''` names another ceremony as its source''))) (\<lambda>_.
      and_then (ok_or (bm_get (ci_step_records i) step) (InvalidDocument
        (''carried evidence names step `'' @ step
         @ ''`, which this ceremony has no record of''))) (\<lambda>r.
      and_then (require (rec_status r = Completed) (InvalidDocument
        (''carried evidence names step `'' @ step
         @ ''`, which this ceremony did not complete''))) (\<lambda>_.
      and_then (require (rec_state_visit r = src_state_visit source
                         \<and> rec_attempt r = src_attempt source) (InvalidDocument
        (''carried evidence for step `'' @ step
         @ ''` names a visit or attempt this ceremony did not seal''))) (\<lambda>_.
      and_then (require (rec_output r = carried_output e) (InvalidDocument
        (''carried evidence for step `'' @ step
         @ ''` differs from the output this ceremony sealed''))) (\<lambda>_.
      and_then (require (def_step (pub_definition (ps_successor c)) into \<noteq> None)
        (InvalidDocument
          (''the successor's definition declares no step `'' @ into @ ''`''))) (\<lambda>_.
        require (\<not> list_ex (\<lambda>ch. chg_locus ch = StepLocus into \<and> chg_impact ch = Strands)
            (ps_diff c))
          (InvalidDocument
            (''step `'' @ into
             @ ''` is stranded by the successor's definition and cannot carry evidence'')))))))))"

definition decide_plan_successor ::
  "platform \<Rightarrow> ceremony_instance \<Rightarrow> plan_successor \<Rightarrow> ceremony_definition \<Rightarrow>
     ceremony_event list result" where
  "decide_plan_successor env i c d =
     and_then (require_definition i d) (\<lambda>_.
     case ci_successor_plan i of
       Some existing \<Rightarrow>
         if existing = ps_plan c then Inr [] else Inl (Conflict ''successor_already_planned'')
     | None \<Rightarrow>
         and_then (require (phase (ci_lifecycle i) = Paused)
           (LifecycleRefused ''plan_successor'' (phase (ci_lifecycle i)))) (\<lambda>_.
         and_then (require (splan_budget (ps_plan c) \<noteq> TransferRemaining)
           (InvariantViolated ''budget transfer is not supported in this release'')) (\<lambda>_.
         and_then (require_pinned_successor (ps_plan c) (ps_successor c)) (\<lambda>_.
         and_then (require_derived_successor_id env i (ps_plan c)) (\<lambda>_.
         and_then (require_every_outstanding_claim_is_disposed env i (ps_plan c) (ps_now c)) (\<lambda>_.
         and_then (try_map (require_carried_evidence_is_sound i c) (splan_carried (ps_plan c)))
           (\<lambda>_. Inr [SuccessorPlanned (ps_plan c)])))))))"


section \<open>The dispatcher\<close>

fun decide ::
  "platform \<Rightarrow> ceremony_instance \<Rightarrow> ceremony_command \<Rightarrow> ceremony_definition \<Rightarrow>
     ceremony_event list result" where
  "decide env i (RecordHostHandoff h now) d = decide_record_host_handoff env i h now d"
| "decide env i (BindParticipant rid specialty now) d = decide_bind_participant i rid specialty now d"
| "decide env i (StartStep c) d = decide_start_step env i c d"
| "decide env i (RenewStepLease c) d = decide_renew_step_lease env i c d"
| "decide env i (ApplyStepResult c) d = decide_apply_step_result env i c d"
| "decide env i (ApplyExecutionReceiptResult s f l r now) d =
     decide_apply_execution_receipt_result env i s f l r now d"
| "decide env i (ApplyTransition rid trigger now) d =
     decide_apply_transition env i rid trigger now d"
| "decide env i (ApproveGuard name by kind now) d = decide_approve_guard i name by kind now d"
| "decide env i (DeferGuard name content by kind now) d =
     decide_defer_guard i name content by kind now d"
| "decide env i (RequestInterventionCommand c) d = decide_request_intervention i c d"
| "decide env i (RespondToInterventionCommand c) d = decide_respond_to_intervention i c d"
| "decide env i (RespondToInterventionWithEvidence v rid pack now) d =
     decide_respond_to_intervention_with_evidence env i v rid pack now d"
| "decide env i (AcknowledgeInterventionDelivery v ack now) d =
     decide_acknowledge_intervention_delivery i v ack d"
| "decide env i (AssertReason r) d = decide_assert_reason i r d"
| "decide env i (CloseIntervention v rid now) d = decide_close_intervention i v rid now d"
| "decide env i (PlanCeremonyChildren plan now) d = decide_plan_children env i plan now d"
| "decide env i (PlanSuccessor c) d = decide_plan_successor env i c d"
| "decide env i (AdoptChildSpawnPlan g f now) d = decide_adopt_child_plan env i g f now d"
| "decide env i (AcceptChildCompletion c now) d = decide_accept_child_completion i c now d"
| "decide env i (PauseCeremony reason now) d = decide_pause i reason now d"
| "decide env i (ResumeCeremony now) d = decide_resume i now d"
| "decide env i (CancelCeremony reason now) d = decide_cancel i reason now d"
| "decide env i (EnforceCeremonyDeadlines now) d = decide_enforce_deadlines i now d"

definition execute ::
  "platform \<Rightarrow> ceremony_definition \<Rightarrow> ceremony_instance \<Rightarrow> ceremony_command \<Rightarrow>
     ceremony_instance result" where
  "execute env d i c = and_then (decide env i c d) (\<lambda>events. apply_all i events)"

end
