(* ===== verification/Decision_Shapes.thy ===== *)
theory Decision_Shapes
  imports Ceremony_Decide
begin

text \<open>
  What an accepted command decides: one lemma per command gives the shape of the events and the
  conditions under which they are decided.  The proofs about journals rest on these lemmas and
  never unfold a decision again.
\<close>

lemma require_definitionD [dest!]:
  "require_definition i d = Inr u \<Longrightarrow> matches_definition i d"
  by (simp add: require_definition_def)

lemma require_activeD [dest!]:
  "require_active i d r = Inr u \<Longrightarrow> matches_definition i d \<and> \<not> is_terminal i d \<and> \<not> is_ended i"
  by (auto simp: require_active_def result_simps)

lemma require_admits_new_workD [dest!]: "require_admits_new_work i w = Inr u \<Longrightarrow> admits_new_work i"
  by (simp add: require_admits_new_work_def)

lemma require_roleD [dest!]:
  "require_role i d rid a = Inr u \<Longrightarrow> matches_definition i d \<and> role_allows d rid a"
  by (auto simp: require_role_def result_simps)

lemma require_declared_roleD [dest!]:
  "require_declared_role i d rid = Inr u \<Longrightarrow> matches_definition i d \<and> def_role d rid \<noteq> None"
  by (auto simp: require_declared_role_def result_simps)

lemma require_step_claim_fenceD [dest!]:
  "require_step_claim_fence env i step_id fence = Inr u \<Longrightarrow> step_claim_fence env i step_id = Inr fence"
  by (auto simp: require_step_claim_fence_def result_simps)

lemma admits_new_work_not_ended: "admits_new_work i \<Longrightarrow> \<not> is_ended i"
  by (simp add: admits_new_work_def)

lemma admits_new_work_running: "admits_new_work i \<Longrightarrow> phase (ci_lifecycle i) = Running"
  by (simp add: admits_new_work_def lifecycle_admits_new_work_def)


section \<open>Lifecycle\<close>

lemma decide_pause_shape:
  assumes "decide_pause i reason now d = Inr es"
  shows "matches_definition i d \<and> \<not> is_ended i \<and>
    (es = [] \<and> phase (ci_lifecycle i) = Paused \<or>
     es = [CeremonyPaused reason now] \<and> phase (ci_lifecycle i) = Running)"
  using assms
  by (auto simp: decide_pause_def result_simps split: if_splits lifecycle_phase.splits)

lemma decide_resume_shape:
  assumes "decide_resume i now d = Inr es"
  shows "matches_definition i d \<and> \<not> is_ended i \<and> \<not> is_superseded i \<and>
    (es = [] \<and> phase (ci_lifecycle i) = Running \<or>
     es = [CeremonyResumed now] \<and> phase (ci_lifecycle i) = Paused)"
  using assms
  by (auto simp: decide_resume_def result_simps split: if_splits lifecycle_phase.splits)

lemma decide_cancel_shape:
  assumes "decide_cancel i reason now d = Inr es"
  shows "matches_definition i d \<and>
    (es = [] \<and> end_reason (ci_lifecycle i) = Some EndCancelled \<or>
     es = [CeremonyCancelled reason now] \<and> \<not> is_ended i)"
  using assms by (auto simp: decide_cancel_def result_simps split: if_splits)

lemma step_result_timed_out_eq:
  "step_result_timed_out = Inr \<lparr>res_status = Failed, res_output = [],
     res_error_message = Some ''step deadline exceeded'', res_failure_kind = Some TimeoutFailure\<rparr>"
  by code_simp

definition ceremony_due :: "ceremony_instance \<Rightarrow> int \<Rightarrow> int option" where
  "ceremony_due i now =
     (case ci_ceremony_deadline i of None \<Rightarrow> None | Some at \<Rightarrow> if at \<le> now then Some at else None)"

definition state_due :: "ceremony_instance \<Rightarrow> int \<Rightarrow> state_deadline option" where
  "state_due i now =
     (case ci_state_deadline i of
        None \<Rightarrow> None | Some dl \<Rightarrow> if std_at dl \<le> now then Some dl else None)"

definition terminal_due :: "ceremony_instance \<Rightarrow> int \<Rightarrow> int option" where
  "terminal_due i now = earliest (ceremony_due i now) (map_option std_at (state_due i now))"

lemma try_map_Inr: "(\<And>x. f x = Inr (g x)) \<Longrightarrow> try_map f xs = Inr (map g xs)"
  by (induction xs) auto

text \<open>The result every expired step deadline records.\<close>

definition timeout_result :: step_result where
  "timeout_result = \<lparr>res_status = Failed, res_output = [],
     res_error_message = Some ''step deadline exceeded'', res_failure_kind = Some TimeoutFailure\<rparr>"

definition terminal_events :: "ceremony_instance \<Rightarrow> int \<Rightarrow> ceremony_event list" where
  "terminal_events i now =
     (case (ceremony_due i now, state_due i now) of
        (Some c, Some s) \<Rightarrow>
          if c \<le> std_at s then [CeremonyDeadlineExceeded c now] else [StateDeadlineExceeded s now]
      | (None, Some s) \<Rightarrow> [StateDeadlineExceeded s now]
      | (Some c, None) \<Rightarrow> [CeremonyDeadlineExceeded c now]
      | (None, None) \<Rightarrow> [])"

lemma decide_enforce_deadlines_eq:
  "decide_enforce_deadlines i now d =
     and_then (require_definition i d) (\<lambda>_.
       Inr (if is_ended i then []
            else map (\<lambda>dl. StepDeadlineExceeded dl timeout_result now)
                   (due_step_deadlines i now (terminal_due i now)) @ terminal_events i now))"
proof -
  have map: "try_map (\<lambda>dl. and_then step_result_timed_out (\<lambda>result.
       Inr (StepDeadlineExceeded dl result now))) dls
     = Inr (map (\<lambda>dl. StepDeadlineExceeded dl timeout_result now) dls)" for dls
    by (rule try_map_Inr) (simp add: step_result_timed_out_eq timeout_result_def)
  have due: "terminal_due i now = (case (ceremony_due i now, state_due i now) of
                            (Some c, Some s) \<Rightarrow> Some (min c (std_at s))
                          | (Some c, None) \<Rightarrow> Some c
                          | (None, Some s) \<Rightarrow> Some (std_at s)
                          | (None, None) \<Rightarrow> None)"
    by (simp add: terminal_due_def earliest_def split: option.splits)
  show ?thesis
    unfolding decide_enforce_deadlines_def Let_def map ceremony_due_def [symmetric]
      state_due_def [symmetric] due [symmetric] terminal_events_def and_then.simps
    by (cases "require_definition i d") (simp_all split: option.splits)
qed

lemma decide_enforce_deadlines_shape:
  assumes "decide_enforce_deadlines i now d = Inr es"
  shows "matches_definition i d \<and> (es = [] \<or> \<not> is_ended i \<and>
    es = map (\<lambda>dl. StepDeadlineExceeded dl timeout_result now)
           (due_step_deadlines i now (terminal_due i now)) @ terminal_events i now)"
  using assms by (auto simp: decide_enforce_deadlines_eq result_simps split: if_splits)


section \<open>Transitions\<close>

definition visit_entry :: "ceremony_definition \<Rightarrow> string \<Rightarrow> u32 \<Rightarrow> int option \<Rightarrow> state_visit_entry" where
  "visit_entry d to_state visit deadline =
     \<lparr>sve_state_visit = visit, sve_step_ids = map cs_id (steps_for_state d to_state),
      sve_deadline = map_option (\<lambda>at. \<lparr>std_state_id = to_state, std_state_visit = visit,
                                        std_at = at\<rparr>) deadline\<rparr>"

definition transition_taken ::
  "ceremony_instance \<Rightarrow> string option \<Rightarrow> ceremony_transition \<Rightarrow> int \<Rightarrow> transition_record" where
  "transition_taken i rid t now =
     \<lparr>tr_trigger = t_trigger t, tr_from_state = ci_current_state i,
      tr_state_iteration = Some (ci_current_state_iteration i),
      tr_state_visit = Some (ci_current_state_visit i),
      tr_to_state = t_to t, tr_applied_by = rid, tr_applied_at = now\<rparr>"

definition transition_admitted ::
  "platform \<Rightarrow> ceremony_instance \<Rightarrow> string option \<Rightarrow> string \<Rightarrow> int \<Rightarrow> ceremony_definition \<Rightarrow>
     ceremony_transition \<Rightarrow> u32 \<Rightarrow> int option \<Rightarrow> bool" where
  "transition_admitted env i rid trigger now d t visit deadline =
     ((case rid of None \<Rightarrow> True | Some r \<Rightarrow> role_allows d r (TransitionAction trigger))
      \<and> matches_definition i d \<and> admits_new_work i \<and> \<not> is_terminal i d
      \<and> transition_for_trigger d (ci_current_state i) trigger = Some t
      \<and> transition_is_enabled_at env i d t now
      \<and> state_visit_next (ci_current_state_visit i) = Inr visit
      \<and> deadline_of env now (def_state_timeout d) ''state_deadline'' = Inr deadline)"

lemma require_role_Inr:
  "require_role i d rid a = Inr u \<longleftrightarrow> matches_definition i d \<and> role_allows d rid a"
  by (auto simp: require_role_def require_definition_def result_simps)

lemma decide_apply_transition_iff:
  "decide_apply_transition env i rid trigger now d = Inr es \<longleftrightarrow>
     (\<exists>t visit deadline. transition_admitted env i rid trigger now d t visit deadline \<and>
        es = TransitionApplied (transition_taken i rid t now)
               (Some (visit_entry d (t_to t) visit deadline)) #
             (if is_terminal_state d (t_to t) then [CeremonyCompleted (t_to t) now] else []))"
proof -
  have trigger: "transition_for_trigger d s trigger = Some t \<Longrightarrow> t_trigger t = trigger" for s t
    by (drule transition_for_trigger_Some) simp
  have role: "(case rid of None \<Rightarrow> Inr () | Some r \<Rightarrow> require_role i d r (TransitionAction trigger))
       = Inr u \<and> matches_definition i d \<longleftrightarrow>
     (case rid of None \<Rightarrow> True | Some r \<Rightarrow> role_allows d r (TransitionAction trigger))
       \<and> matches_definition i d" for u
    by (cases rid) (auto simp: require_role_Inr)
  have ended: "admits_new_work i \<Longrightarrow> \<not> is_ended i"
    by (rule admits_new_work_not_ended)
  show ?thesis
    unfolding decide_apply_transition_def transition_admitted_def transition_is_enabled_at_def
      transition_is_enabled_def transition_requirements_are_satisfied_def
      require_admits_new_work_def and_then_Inr require_Inr ok_or_Inr transition_taken_def
      visit_entry_def require_definition_def
    using trigger role ended by (auto simp: require_role_Inr split: option.splits)
qed


section \<open>Steps\<close>

definition claim_event ::
  "ceremony_instance \<Rightarrow> start_step \<Rightarrow> ceremony_step \<Rightarrow> step_record \<Rightarrow> u32 \<Rightarrow> string \<times> bool \<Rightarrow>
     string option \<Rightarrow> step_deadline option \<Rightarrow> step_started" where
  "claim_event i c step r attempt = (\<lambda>(started_by, dynamic) sealed_role deadline.
     \<lparr>ss_step_id = st_cmd_step_id c, ss_state_visit = Some (ci_current_state_visit i),
      ss_state_iteration = Some (ci_current_state_iteration i),
      ss_iteration = rec_iteration r, ss_attempt = attempt, ss_lease = st_cmd_lease c,
      ss_started_by = started_by,
      ss_role_from =
        (if dynamic then map_option drb_context_key (cs_dynamic_role_binding step) else None),
      ss_sealed_role = sealed_role, ss_deadline = deadline,
      ss_budget_reservation_id = st_cmd_budget_reservation_id c,
      ss_started_at = st_cmd_now c\<rparr>)"

definition claim_admitted ::
  "platform \<Rightarrow> ceremony_instance \<Rightarrow> start_step \<Rightarrow> ceremony_definition \<Rightarrow> ceremony_step \<Rightarrow>
     step_record \<Rightarrow> u32 \<Rightarrow> string \<times> bool \<Rightarrow> string option \<Rightarrow> bool" where
  "claim_admitted env i c d step r attempt = (\<lambda>(started_by, dynamic) sealed_role.
     matches_definition i d \<and> admits_new_work i \<and> \<not> is_terminal i d
     \<and> def_step d (st_cmd_step_id c) = Some step
     \<and> cs_state_id step = ci_current_state i
     \<and> bm_get (ci_step_records i) (st_cmd_step_id c) = Some r
     \<and> can_be_started_at r (st_cmd_now c)
     \<and> next_start_attempt r = Inr attempt
     \<and> allows_attempt (cs_retry_policy step) attempt
     \<and> resolve_step_role i d (st_cmd_step_id c) (st_cmd_role_id c) = Inr (started_by, dynamic)
     \<and> sealed_role_for i d (st_cmd_step_id c) started_by dynamic = Inr sealed_role
     \<and> resolved_step_is_claimable_at i (st_cmd_step_id c) d (st_cmd_now c)
          (st_cmd_max_parallel_ceiling c) = Inr True
     \<and> lease_idempotency_key (st_cmd_lease c) \<notin> ci_idempotency_keys i
     \<and> require_budget_reservation env i (st_cmd_step_id c) r
          (st_cmd_budget_reservation_id c) = Inr ())"

text \<open>The fence of the claim a start is about to make.\<close>

definition new_claim_fence ::
  "platform \<Rightarrow> ceremony_instance \<Rightarrow> start_step \<Rightarrow> step_record \<Rightarrow> u32 \<Rightarrow> string" where
  "new_claim_fence env i c r attempt =
     sha256_hex env (digest_input ''made.step-claim-fence.v1''
       (claim_fence_parts (ci_id i) (st_cmd_step_id c) (r\<lparr>rec_attempt := attempt\<rparr>)
          (st_cmd_lease c)))"

lemma claim_fence_with_started:
  "claim_fence_for_record env n s (with_budget_reservation (with_started r l a role) b) =
     Inr (sha256_hex env (digest_input ''made.step-claim-fence.v1''
       (claim_fence_parts n s (r\<lparr>rec_attempt := a\<rparr>) l)))"
  by (simp add: claim_fence_for_record_def with_budget_reservation_def with_started_def
      claim_fence_parts_def)

lemma decide_start_step_shape:
  assumes "decide_start_step env i c d = Inr es"
  obtains step r attempt role sealed_role deadline where
    "claim_admitted env i c d step r attempt role sealed_role"
    "decide_step_deadline env i c r attempt (new_claim_fence env i c r attempt) (fst role)
       (cs_timeout step) = Inr deadline"
    "es = [StepStarted (claim_event i c step r attempt role sealed_role deadline)]"
  using assms
  by (auto simp: decide_start_step_def result_simps claim_fence_with_started
      claim_admitted_def claim_event_def new_claim_fence_def split: prod.splits)

lemma late_result_of_Inr:
  "late_result_of d c r retired = Inr l \<Longrightarrow>
     late_claim_fence l = ar_claim_fence c \<and> late_step_id l = ar_step_id c \<and>
     late_result l = ar_result c"
  by (auto simp: late_result_of_def result_simps split: option.splits)

lemma decide_late_step_result_shape:
  assumes "decide_late_step_result env i c d = Inr x"
  obtains
    (fresh) "x = None" "\<not> is_ended i" "bm_get (ci_late_step_results i) (ar_claim_fence c) = None"
      "retired_claim i (ar_claim_fence c) (ar_step_id c) = None"
  | (replayed) l where "x = Some []" "bm_get (ci_late_step_results i) (ar_claim_fence c) = Some l"
      "late_step_id l = ar_step_id c" "late_result l = ar_result c"
  | (late) l where "x = Some [LateStepResultObserved l (ar_now c)]"
      "bm_get (ci_late_step_results i) (ar_claim_fence c) = None"
      "late_claim_fence l = ar_claim_fence c" "late_step_id l = ar_step_id c"
      "late_result l = ar_result c"
      "is_ended i \<or> retired_claim i (ar_claim_fence c) (ar_step_id c) \<noteq> None"
  using assms
  by (auto simp: decide_late_step_result_def result_simps Let_def dest!: late_result_of_Inr
      split: if_splits option.splits)

definition result_admitted ::
  "platform \<Rightarrow> ceremony_instance \<Rightarrow> apply_step_result \<Rightarrow> ceremony_definition \<Rightarrow> ceremony_step \<Rightarrow>
     step_record \<Rightarrow> bool" where
  "result_admitted env i c d step r =
     (matches_definition i d \<and> \<not> is_ended i
      \<and> def_step d (ar_step_id c) = Some step \<and> cs_state_id step = ci_current_state i
      \<and> bm_get (ci_step_records i) (ar_step_id c) = Some r
      \<and> rec_status r = InProgress
      \<and> step_claim_fence env i (ar_step_id c) = Inr (ar_claim_fence c)
      \<and> retired_claim i (ar_claim_fence c) (ar_step_id c) = None)"

lemma decide_state_iteration_shape:
  assumes "decide_state_iteration i d now = Inr es"
  obtains "es = []"
  | policy nxt where "current_repeat_policy i d = Some policy"
      "state_work_is_complete i d" "\<not> state_repeat_condition_is_satisfied i d"
      "state_repeat_permits_another policy (ci_current_state_iteration i)"
      "state_iteration_next (ci_current_state_iteration i) = Inr nxt"
      "es = [StateIterationStarted
               \<lparr>sis_state_id = ci_current_state i,
                sis_state_visit = Some (ci_current_state_visit i), sis_state_iteration = nxt,
                sis_step_ids = map cs_id (steps_for_state d (ci_current_state i)),
                sis_started_at = now\<rparr>]"
  using assms
  by (auto simp: decide_state_iteration_def result_simps split: option.splits if_splits)

definition completed_event ::
  "ceremony_instance \<Rightarrow> apply_step_result \<Rightarrow> step_record \<Rightarrow> u32 option \<Rightarrow> string \<Rightarrow> step_completed" where
  "completed_event i c r nxt finished_by =
     \<lparr>sc_step_id = ar_step_id c, sc_state_visit = Some (ci_current_state_visit i),
      sc_state_iteration = Some (ci_current_state_iteration i),
      sc_iteration = rec_iteration r, sc_attempt = rec_attempt r,
      sc_result = ar_result c, sc_next_iteration = nxt,
      sc_finished_by = finished_by, sc_finished_at = ar_now c\<rparr>"

definition written_events ::
  "ceremony_instance \<Rightarrow> apply_step_result \<Rightarrow> step_record \<Rightarrow> context_patch option \<Rightarrow>
     context_written list" where
  "written_events i c r patch =
     (case patch of
        None \<Rightarrow> []
      | Some p \<Rightarrow>
          [\<lparr>cw_step_id = ar_step_id c, cw_state_visit = Some (ci_current_state_visit i),
            cw_state_iteration = ci_current_state_iteration i,
            cw_iteration = rec_iteration r, cw_attempt = rec_attempt r,
            cw_patch = p, cw_written_at = ar_now c\<rparr>])"

lemma decide_step_success_shape:
  assumes "decide_step_success i c d step r = Inr es"
  obtains nxt finished_by patch j it where
    "next_iteration_of step (rec_iteration r) (res_output (ar_result c)) = Inr nxt"
    "context_writes_resolve (cs_context_writes step) (res_output (ar_result c)) = Inr patch"
    "apply_all i (StepCompleted (completed_event i c r nxt finished_by)
       # map ContextWritten (written_events i c r patch)) = Inr j"
    "decide_state_iteration j d (ar_now c) = Inr it"
    "es = StepCompleted (completed_event i c r nxt finished_by)
       # map ContextWritten (written_events i c r patch) @ it"
proof -
  have list: "(case patch of None \<Rightarrow> []
     | Some p \<Rightarrow>
         [ContextWritten
            \<lparr>cw_step_id = ar_step_id c, cw_state_visit = Some (ci_current_state_visit i),
             cw_state_iteration = ci_current_state_iteration i,
             cw_iteration = rec_iteration r, cw_attempt = rec_attempt r,
             cw_patch = p, cw_written_at = ar_now c\<rparr>])
     = map ContextWritten (written_events i c r patch)" for patch
    by (simp add: written_events_def split: option.splits)
  show thesis
    using assms that
    unfolding decide_step_success_def Let_def list completed_event_def [symmetric] and_then_Inr
    by auto
qed

lemma decide_apply_step_result_shape:
  assumes "decide_apply_step_result env i c d = Inr es"
  obtains
    (replayed) l where "es = []" "matches_definition i d"
      "bm_get (ci_late_step_results i) (ar_claim_fence c) = Some l"
  | (late) l where "es = [LateStepResultObserved l (ar_now c)]" "matches_definition i d"
      "bm_get (ci_late_step_results i) (ar_claim_fence c) = None"
      "late_claim_fence l = ar_claim_fence c" "late_result l = ar_result c"
      "is_ended i \<or> retired_claim i (ar_claim_fence c) (ar_step_id c) \<noteq> None"
  | (failed) step r f where "es = [StepFailed f]" "result_admitted env i c d step r"
      "sf_step_id f = ar_step_id c" "sf_result f = ar_result c"
      "\<not> is_success (res_status (ar_result c))"
  | (completed) step r where "result_admitted env i c d step r"
      "is_success (res_status (ar_result c))" "decide_step_success i c d step r = Inr es"
proof -
  from assms obtain step x where
    d: "matches_definition i d" and step: "def_step d (ar_step_id c) = Some step" and
    x: "decide_late_step_result env i c d = Inr x" and
    rest: "(case x of Some events \<Rightarrow> Inr events
     | None \<Rightarrow>
         and_then (require (cs_state_id step = ci_current_state i)
           (InvalidTransition ''ceremony_instance.current_state'' ''ceremony_step.state'')) (\<lambda>_.
         and_then (ok_or (bm_get (ci_step_records i) (ar_step_id c))
           (NotFound ''ceremony_instance.step_record'')) (\<lambda>r.
         and_then (require (rec_status r = InProgress)
           (InvariantViolated ''step result requires an in-progress step'')) (\<lambda>_.
         and_then (require_step_claim_fence env i (ar_step_id c) (ar_claim_fence c)) (\<lambda>_.
         if \<not> is_success (res_status (ar_result c))
         then and_then (finished_by_of d (ar_step_id c) r) (\<lambda>finished_by.
           Inr [StepFailed
                  \<lparr>sf_step_id = ar_step_id c, sf_state_visit = Some (ci_current_state_visit i),
                   sf_state_iteration = Some (ci_current_state_iteration i),
                   sf_iteration = rec_iteration r, sf_attempt = rec_attempt r,
                   sf_result = ar_result c, sf_finished_by = finished_by,
                   sf_finished_at = ar_now c\<rparr>])
         else decide_step_success i c d step r))))) = Inr es"
    unfolding decide_apply_step_result_def and_then_Inr ok_or_Inr by blast
  from x show thesis
  proof (cases rule: decide_late_step_result_shape)
    case fresh
    with d step rest that(3,4) show thesis
      by (cases "is_success (res_status (ar_result c))")
        (auto simp: result_simps result_admitted_def)
  next
    case (replayed l)
    with d rest that(1) show thesis by simp
  next
    case (late l)
    with d rest show thesis by (intro that(2) [of l]) simp_all
  qed
qed

lemma receipt_replay_shape:
  assumes "receipt_replay i l = Inr x"
  obtains "x = Some []" | "x = None"
    "link_kind l = Direct \<Longrightarrow> bm_get (ci_execution_receipt_links i) (link_operation_id l) = None"
    "link_kind l = Adopted \<Longrightarrow>
       execution_receipt_adoption i (link_operation_id l) (link_applied_claim_fence l) = None
       \<and> admits_new_work i"
  using assms
  by (cases "link_kind l") (auto simp: receipt_replay_def result_simps Let_def
      split: if_splits option.splits)

lemma decide_apply_execution_receipt_result_shape:
  assumes "decide_apply_execution_receipt_result env i step_id fence l result now d = Inr es"
  obtains "es = []" | es' where
    "es = ExecutionReceiptLinked step_id l now # es'"
    "receipt_link_validate env l = Inr ()" "link_applied_claim_fence l = fence"
    "link_kind l = Direct \<Longrightarrow> bm_get (ci_execution_receipt_links i) (link_operation_id l) = None"
    "link_kind l = Adopted \<Longrightarrow>
       execution_receipt_adoption i (link_operation_id l) (link_applied_claim_fence l) = None
       \<and> admits_new_work i"
    "decide_apply_step_result env i \<lparr>ar_step_id = step_id, ar_claim_fence = fence,
       ar_result = result, ar_now = now\<rparr> d = Inr es'"
proof -
  from assms obtain x where v: "receipt_link_validate env l = Inr ()"
    and f: "link_applied_claim_fence l = fence" and x: "receipt_replay i l = Inr x"
    and rest: "(case x of
       Some events \<Rightarrow> Inr events
     | None \<Rightarrow>
         and_then (ok_or (bm_get (ci_step_records i) step_id)
           (NotFound ''ceremony_instance.step_record'')) (\<lambda>r.
         let operation_id =
               (case retired_claim i fence step_id of
                  None \<Rightarrow> operation_id_for_step env (ci_id i) step_id (rec_state_visit r)
                            (rec_state_iteration r) (rec_iteration r)
                | Some dl \<Rightarrow> operation_id_for_step env (ci_id i) step_id (sd_state_visit dl)
                              (sd_state_iteration dl) (sd_step_iteration dl))
         in and_then (require (link_operation_id l = operation_id)
              (InvariantViolated
                 ''execution receipt operation does not match the step coordinates'')) (\<lambda>_.
            and_then (decide_apply_step_result env i
              \<lparr>ar_step_id = step_id, ar_claim_fence = fence, ar_result = result,
               ar_now = now\<rparr> d) (\<lambda>events.
              Inr (ExecutionReceiptLinked step_id l now # events))))) = Inr es"
    unfolding decide_apply_execution_receipt_result_def and_then_Inr by auto
  from x show thesis
  proof (cases rule: receipt_replay_shape)
    case 1
    with rest that(1) show thesis by simp
  next
    case 2
    with v f rest that(2) show thesis by (auto simp: result_simps Let_def)
  qed
qed


section \<open>Leases and handoffs\<close>

definition renewal_admitted ::
  "platform \<Rightarrow> ceremony_instance \<Rightarrow> renew_step_lease \<Rightarrow> ceremony_definition \<Rightarrow> step_record \<Rightarrow>
     step_lease \<Rightarrow> bool" where
  "renewal_admitted env i c d r lease =
     (\<not> is_ended i \<and> \<not> is_terminal i d
      \<and> step_claim_fence env i (rn_step_id c) = Inr (rn_claim_fence c)
      \<and> bm_get (ci_step_records i) (rn_step_id c) = Some r \<and> rec_lease r = Some lease
      \<and> lease_owner_id lease = rn_lease_owner_id c \<and> has_live_lease_at r (rn_now c)
      \<and> effective_lease_expires_at r = Some (rn_expected_expires_at c)
      \<and> rn_expected_expires_at c \<le> rn_expires_at c \<and> rn_now c < rn_expires_at c
      \<and> (case absolute_deadline i (rn_step_id c) of
           None \<Rightarrow> True | Some at \<Rightarrow> rn_now c < at \<and> rn_expires_at c \<le> at))"

definition renewal_event :: "renew_step_lease \<Rightarrow> step_lease_renewed" where
  "renewal_event c =
     \<lparr>slr_request = rn_request c, slr_step_id = rn_step_id c, slr_claim_fence = rn_claim_fence c,
      slr_lease_owner_id = rn_lease_owner_id c,
      slr_previous_expires_at = rn_expected_expires_at c, slr_expires_at = rn_expires_at c,
      slr_renewed_at = rn_now c\<rparr>"

lemma decide_renew_step_lease_shape:
  assumes "decide_renew_step_lease env i c d = Inr es"
  shows "matches_definition i d \<and> (es = [] \<or>
    (\<exists>r lease. renewal_admitted env i c d r lease) \<and> es = [StepLeaseRenewed (renewal_event c)])"
proof (cases "Option.bind (rn_request c) (\<lambda>q. bm_get (ci_lease_renewals i) (lrr_id q))")
  case None
  with assms show ?thesis
    by (cases "absolute_deadline i (rn_step_id c)")
      (auto simp: decide_renew_step_lease_def renew_fresh_def result_simps
        renewal_admitted_def renewal_event_def split: if_splits)
next
  case (Some accepted)
  with assms show ?thesis
    by (auto simp: decide_renew_step_lease_def result_simps split: if_splits)
qed

lemma decide_record_host_handoff_shape:
  assumes "decide_record_host_handoff env i h now d = Inr es"
  shows "matches_definition i d \<and>
    (es = [] \<and> (\<exists>x. bm_get (ci_host_handoffs i) (hhd_id h) = Some x \<and> hhr_declaration x = h) \<or>
     es = [HostHandoffRecorded \<lparr>hhr_declaration = h, hhr_recorded_at = now\<rparr>]
     \<and> bm_get (ci_host_handoffs i) (hhd_id h) = None
     \<and> step_claim_fence env i (hhd_step_id h) = Inr (hhd_claim_fence h)
     \<and> (\<forall>x \<in> set (bm_values (ci_host_handoffs i)).
          hhd_claim_fence (hhr_declaration x) = hhd_claim_fence h \<longrightarrow>
            hhd_incarnation (hhr_declaration x) = hhd_incarnation h
            \<and> hhd_observed_at (hhr_declaration x) < hhd_observed_at h))"
  using assms
  by (auto simp: decide_record_host_handoff_def result_simps list_ex_iff
      split: if_splits option.splits)


section \<open>Guards, seats and interventions\<close>

lemma decide_approve_guard_shape:
  assumes "decide_approve_guard i name by' kind now d = Inr es"
  shows "matches_definition i d \<and> \<not> is_terminal i d \<and> \<not> is_ended i
    \<and> (\<exists>g. bm_get (def_guards d) name = Some g \<and> guard_condition g = HumanApproval)
    \<and> def_role d by' \<noteq> None \<and> (\<exists>ctx. with_guard_approval (ci_context i) name = Inr ctx)
    \<and> es = [HumanApprovalRecorded
              \<lparr>approval_guard_name = name, approved_by = by', approved_by_kind = kind,
               approved_at = now\<rparr>]"
  using assms by (auto simp: decide_approve_guard_def result_simps)

lemma decide_defer_guard_shape:
  assumes "decide_defer_guard i name content by' kind now d = Inr es"
  shows "matches_definition i d \<and> \<not> is_terminal i d \<and> \<not> is_ended i
    \<and> \<not> is_guard_approved (ci_context i) name
    \<and> es = [HumanDeferralRecorded
              \<lparr>deferral_guard_name = name, deferred_by = by', deferred_by_kind = kind,
               deferral_content = content, deferred_at = now\<rparr>]"
  using assms by (auto simp: decide_defer_guard_def result_simps)

lemma decide_bind_participant_shape:
  assumes "decide_bind_participant i rid specialty now d = Inr es"
  shows "matches_definition i d \<and> \<not> is_terminal i d \<and> \<not> is_ended i \<and> def_role d rid \<noteq> None
    \<and> es = [ParticipantsBound
              [\<lparr>binding_role_id = rid, binding_specialty = specialty,
                binding_bound_at = now\<rparr>]]"
  using assms by (auto simp: decide_bind_participant_def result_simps)

lemma decide_request_intervention_shape:
  assumes "decide_request_intervention i c d = Inr es"
  shows "matches_definition i d \<and> \<not> is_terminal i d \<and> \<not> is_ended i
    \<and> instance_intervention i (ri_intervention_id c) = None
    \<and> es = [InterventionRequested (requested_intervention c)]"
  using assms by (auto simp: decide_request_intervention_def result_simps)

lemma decide_respond_to_intervention_shape:
  assumes "decide_respond_to_intervention i c d = Inr es"
  shows "matches_definition i d \<and> \<not> is_terminal i d \<and> \<not> is_ended i
    \<and> role_allows d (rt_role_id c) RespondToIntervention
    \<and> (\<exists>v answer. instance_intervention i (rt_intervention_id c) = Some v
        \<and> ensure_can_respond v (rt_role_id c) = Inr () \<and> resp_role_id answer = rt_role_id c
        \<and> es = [InterventionResponded (rt_intervention_id c) answer])"
  using assms
  by (auto simp: decide_respond_to_intervention_def require_open_intervention_def Let_def
      intervention_response_new_def answering_delivery_def result_simps split: option.splits)

lemma decide_respond_with_evidence_shape:
  assumes "decide_respond_to_intervention_with_evidence env i v rid pack now d = Inr es"
  shows "matches_definition i d \<and> \<not> is_terminal i d \<and> \<not> is_ended i
    \<and> role_allows d rid RespondToIntervention
    \<and> (\<exists>w e answer. instance_intervention i v = Some w
        \<and> ensure_can_respond w rid = Inr () \<and> resp_role_id answer = rid
        \<and> es = [EvidenceCollected e, InterventionResponded v answer])"
  using assms
  by (auto simp: decide_respond_to_intervention_with_evidence_def require_open_intervention_def
      intervention_response_from_evidence_def result_simps)

lemma decide_close_intervention_shape:
  assumes "decide_close_intervention i v rid now d = Inr es"
  shows "matches_definition i d \<and> \<not> is_terminal i d \<and> \<not> is_ended i
    \<and> (\<exists>w w'. instance_intervention i v = Some w \<and> close_intervention w rid now = Inr w')
    \<and> es = [InterventionClosed v rid now]"
  using assms
  by (auto simp: decide_close_intervention_def require_open_intervention_def result_simps)

lemma decide_acknowledge_shape:
  assumes "decide_acknowledge_intervention_delivery i v ack d = Inr es"
  shows "matches_definition i d \<and> \<not> is_terminal i d \<and> \<not> is_ended i
    \<and> (es = [] \<or> es = [InterventionDeliveryAcknowledged v ack])"
  using assms
  by (auto simp: decide_acknowledge_intervention_delivery_def result_simps
      split: option.splits if_splits)

lemma decide_assert_reason_shape:
  assumes "decide_assert_reason i reason d = Inr es"
  shows "matches_definition i d
    \<and> (\<exists>rid. reason_asserted_by reason = Some rid \<and> def_role d rid \<noteq> None
        \<and> asserter (reason_kind reason) \<noteq> TheEngine
        \<and> (asserter (reason_kind reason) = ItsAuthor \<longrightarrow>
             author_of i (reason_from reason) = Some rid))
    \<and> record_exists i (reason_from reason) \<and> record_exists i (reason_to reason)
    \<and> es = [ReasonAsserted reason]"
  using assms
  by (cases "asserter (reason_kind reason)")
    (auto simp: decide_assert_reason_def require_record_def result_simps)


section \<open>Children and succession\<close>

lemma decide_plan_children_shape:
  assumes "decide_plan_children env i plan now d = Inr es"
  obtains "es = []" "matches_definition i d"
  | step spawn r expected where "matches_definition i d" "admits_new_work i"
    "bm_get (ci_child_groups i) (plan_group_id plan) = None"
    "coord_state_visit (plan_coordinates plan) = ci_current_state_visit i"
    "coord_state_iteration (plan_coordinates plan) = ci_current_state_iteration i"
    "def_step d (coord_step_id (plan_coordinates plan)) = Some step"
    "cs_state_id step = ci_current_state i" "cs_spawn step = Some spawn"
    "bm_get (ci_step_records i) (coord_step_id (plan_coordinates plan)) = Some r"
    "plan_group_id plan = child_group_id_derive env (ci_id i) (plan_coordinates plan)"
    "length (spawn_children spawn) = length (plan_children plan)"
    "child_lineage_expected i spawn = Inr expected"
    "try_map (require_planned_child i plan expected)
       (zip (plan_children plan) (spawn_children spawn)) \<in> range Inr"
    "step_claim_fence env i (coord_step_id (plan_coordinates plan))
       = Inr (plan_active_claim_fence plan)"
    "es = [ChildSpawnPlanned plan now]"
proof (cases "bm_get (ci_child_groups i) (plan_group_id plan)")
  case None
  with assms that(2) show thesis
    by (auto simp: decide_plan_children_def result_simps Let_def)
next
  case (Some g)
  with assms that(1) show thesis
    by (auto simp: decide_plan_children_def result_simps split: if_splits)
qed

lemma decide_adopt_child_plan_shape:
  assumes "decide_adopt_child_plan env i g fence now d = Inr es"
  shows "matches_definition i d \<and> (\<exists>x. bm_get (ci_child_groups i) g = Some x) \<and>
    (es = [] \<or> es = [ChildSpawnPlanAdopted g fence now])"
  using assms
  by (auto simp: decide_adopt_child_plan_def result_simps Let_def split: if_splits)

lemma decide_accept_child_completion_shape:
  assumes "decide_accept_child_completion i c now d = Inr es"
  shows "matches_definition i d \<and>
    (\<exists>g. bm_get (ci_child_groups i) (completion_group_id c) = Some g \<and>
      (\<exists>child \<in> set (plan_children (group_plan g)).
          planned_child_id child = completion_child_id c) \<and>
      (es = [] \<and> bm_get (group_completions g) (completion_child_id c) = Some c \<or>
       es = [ChildCompletionAccepted c now]
       \<and> bm_get (group_completions g) (completion_child_id c) = None))"
  using assms
  by (auto simp: decide_accept_child_completion_def result_simps list_ex_iff
      split: option.splits if_splits)

lemma decide_plan_successor_shape:
  assumes "decide_plan_successor env i c d = Inr es"
  shows "matches_definition i d \<and>
    (es = [] \<and> ci_successor_plan i = Some (ps_plan c) \<or>
     es = [SuccessorPlanned (ps_plan c)] \<and> ci_successor_plan i = None
     \<and> phase (ci_lifecycle i) = Paused
     \<and> require_every_outstanding_claim_is_disposed env i (ps_plan c) (ps_now c) = Inr ()
     \<and> try_map (require_carried_evidence_is_sound i c) (splan_carried (ps_plan c)) \<in> range Inr)"
  using assms
  by (auto simp: decide_plan_successor_def result_simps split: option.splits if_splits)

end
