(* ===== verification/Ceremony_Effects.thy ===== *)
theory Ceremony_Effects
  imports Decision_Shapes
begin

text \<open>
  What each event changes of the aggregate, field by field: the field after an event as a function
  of the event and of the field before it.  Loops of the fold (over the steps of a state, over
  carried evidence, over seats) are shown to leave every other field alone.  \<open>instance_wf\<close> is the
  well-formedness of the ordered maps, and every event keeps it.
\<close>

lemmas fold_defs =
  apply_host_handoff_recorded_def apply_step_started_def
  apply_step_lease_renewed_def apply_step_failed_def
  apply_state_iteration_started_def apply_transition_applied_def
  apply_ceremony_completed_def apply_intervention_requested_def
  apply_reason_asserted_def apply_human_approval_recorded_def
  apply_human_deferral_recorded_def apply_memory_recalled_def apply_child_spawn_planned_def
  apply_child_spawn_plan_adopted_def apply_child_completion_accepted_def
  apply_ceremony_paused_def apply_ceremony_resumed_def apply_ceremony_cancelled_def
  apply_ceremony_deadline_exceeded_def apply_state_deadline_exceeded_def
  apply_step_deadline_exceeded_def apply_late_step_result_observed_def
  apply_successor_planned_def apply_succession_carried_def from_imported_def


section \<open>Loops and helpers leave other fields alone\<close>

lemma enter_steps_frame [simp]:
  "ci_lease_renewals (fold (enter_step v) xs i) = ci_lease_renewals i \<and>
     ci_host_handoffs (fold (enter_step v) xs i) = ci_host_handoffs i \<and>
     ci_id (fold (enter_step v) xs i) = ci_id i \<and>
     ci_definition_name (fold (enter_step v) xs i) = ci_definition_name i \<and>
     ci_definition_version (fold (enter_step v) xs i) = ci_definition_version i \<and>
     ci_current_state (fold (enter_step v) xs i) = ci_current_state i \<and>
     ci_current_state_iteration (fold (enter_step v) xs i) = ci_current_state_iteration i \<and>
     ci_current_state_visit (fold (enter_step v) xs i) = ci_current_state_visit i \<and>
     ci_interventions (fold (enter_step v) xs i) = ci_interventions i \<and>
     ci_guard_deferrals (fold (enter_step v) xs i) = ci_guard_deferrals i \<and>
     ci_guard_approvals (fold (enter_step v) xs i) = ci_guard_approvals i \<and>
     ci_transitions (fold (enter_step v) xs i) = ci_transitions i \<and>
     ci_reasons (fold (enter_step v) xs i) = ci_reasons i \<and>
     ci_participant_bindings (fold (enter_step v) xs i) = ci_participant_bindings i \<and>
     ci_context (fold (enter_step v) xs i) = ci_context i \<and>
     ci_recollection (fold (enter_step v) xs i) = ci_recollection i \<and>
     ci_idempotency_keys (fold (enter_step v) xs i) = ci_idempotency_keys i \<and>
     ci_created_at (fold (enter_step v) xs i) = ci_created_at i \<and>
     ci_updated_at (fold (enter_step v) xs i) = ci_updated_at i \<and>
     ci_completed_at (fold (enter_step v) xs i) = ci_completed_at i \<and>
     ci_bound_definition (fold (enter_step v) xs i) = ci_bound_definition i \<and>
     ci_lineage (fold (enter_step v) xs i) = ci_lineage i \<and>
     ci_budget_account_id (fold (enter_step v) xs i) = ci_budget_account_id i \<and>
     ci_child_groups (fold (enter_step v) xs i) = ci_child_groups i \<and>
     ci_lifecycle (fold (enter_step v) xs i) = ci_lifecycle i \<and>
     ci_ceremony_deadline (fold (enter_step v) xs i) = ci_ceremony_deadline i \<and>
     ci_state_deadline (fold (enter_step v) xs i) = ci_state_deadline i \<and>
     ci_step_deadlines (fold (enter_step v) xs i) = ci_step_deadlines i \<and>
     ci_retired_deadline_claims (fold (enter_step v) xs i) = ci_retired_deadline_claims i \<and>
     ci_late_step_results (fold (enter_step v) xs i) = ci_late_step_results i \<and>
     ci_execution_receipt_links (fold (enter_step v) xs i) = ci_execution_receipt_links i \<and>
     ci_execution_receipt_adoptions (fold (enter_step v) xs i) = ci_execution_receipt_adoptions i \<and>
     ci_succession (fold (enter_step v) xs i) = ci_succession i \<and>
     ci_successor_plan (fold (enter_step v) xs i) = ci_successor_plan i"
  by (induction xs arbitrary: i) (simp_all add: enter_step_def)

lemma restart_steps_frame [simp]:
  "ci_lease_renewals (fold (restart_step n v) xs i) = ci_lease_renewals i \<and>
     ci_host_handoffs (fold (restart_step n v) xs i) = ci_host_handoffs i \<and>
     ci_id (fold (restart_step n v) xs i) = ci_id i \<and>
     ci_definition_name (fold (restart_step n v) xs i) = ci_definition_name i \<and>
     ci_definition_version (fold (restart_step n v) xs i) = ci_definition_version i \<and>
     ci_current_state (fold (restart_step n v) xs i) = ci_current_state i \<and>
     ci_current_state_iteration (fold (restart_step n v) xs i) = ci_current_state_iteration i \<and>
     ci_current_state_visit (fold (restart_step n v) xs i) = ci_current_state_visit i \<and>
     ci_interventions (fold (restart_step n v) xs i) = ci_interventions i \<and>
     ci_guard_deferrals (fold (restart_step n v) xs i) = ci_guard_deferrals i \<and>
     ci_guard_approvals (fold (restart_step n v) xs i) = ci_guard_approvals i \<and>
     ci_transitions (fold (restart_step n v) xs i) = ci_transitions i \<and>
     ci_reasons (fold (restart_step n v) xs i) = ci_reasons i \<and>
     ci_participant_bindings (fold (restart_step n v) xs i) = ci_participant_bindings i \<and>
     ci_context (fold (restart_step n v) xs i) = ci_context i \<and>
     ci_recollection (fold (restart_step n v) xs i) = ci_recollection i \<and>
     ci_idempotency_keys (fold (restart_step n v) xs i) = ci_idempotency_keys i \<and>
     ci_created_at (fold (restart_step n v) xs i) = ci_created_at i \<and>
     ci_updated_at (fold (restart_step n v) xs i) = ci_updated_at i \<and>
     ci_completed_at (fold (restart_step n v) xs i) = ci_completed_at i \<and>
     ci_bound_definition (fold (restart_step n v) xs i) = ci_bound_definition i \<and>
     ci_lineage (fold (restart_step n v) xs i) = ci_lineage i \<and>
     ci_budget_account_id (fold (restart_step n v) xs i) = ci_budget_account_id i \<and>
     ci_child_groups (fold (restart_step n v) xs i) = ci_child_groups i \<and>
     ci_lifecycle (fold (restart_step n v) xs i) = ci_lifecycle i \<and>
     ci_ceremony_deadline (fold (restart_step n v) xs i) = ci_ceremony_deadline i \<and>
     ci_state_deadline (fold (restart_step n v) xs i) = ci_state_deadline i \<and>
     ci_step_deadlines (fold (restart_step n v) xs i) = ci_step_deadlines i \<and>
     ci_retired_deadline_claims (fold (restart_step n v) xs i) = ci_retired_deadline_claims i \<and>
     ci_late_step_results (fold (restart_step n v) xs i) = ci_late_step_results i \<and>
     ci_execution_receipt_links (fold (restart_step n v) xs i) = ci_execution_receipt_links i \<and>
     ci_execution_receipt_adoptions (fold (restart_step n v) xs i) = ci_execution_receipt_adoptions i \<and>
     ci_succession (fold (restart_step n v) xs i) = ci_succession i \<and>
     ci_successor_plan (fold (restart_step n v) xs i) = ci_successor_plan i"
  by (induction xs arbitrary: i) (simp_all add: restart_step_def)

lemma carry_steps_frame [simp]:
  "ci_lease_renewals (fold carry_step xs i) = ci_lease_renewals i \<and>
     ci_host_handoffs (fold carry_step xs i) = ci_host_handoffs i \<and>
     ci_id (fold carry_step xs i) = ci_id i \<and>
     ci_definition_name (fold carry_step xs i) = ci_definition_name i \<and>
     ci_definition_version (fold carry_step xs i) = ci_definition_version i \<and>
     ci_current_state (fold carry_step xs i) = ci_current_state i \<and>
     ci_current_state_iteration (fold carry_step xs i) = ci_current_state_iteration i \<and>
     ci_current_state_visit (fold carry_step xs i) = ci_current_state_visit i \<and>
     ci_step_record_history (fold carry_step xs i) = ci_step_record_history i \<and>
     ci_interventions (fold carry_step xs i) = ci_interventions i \<and>
     ci_guard_deferrals (fold carry_step xs i) = ci_guard_deferrals i \<and>
     ci_guard_approvals (fold carry_step xs i) = ci_guard_approvals i \<and>
     ci_transitions (fold carry_step xs i) = ci_transitions i \<and>
     ci_reasons (fold carry_step xs i) = ci_reasons i \<and>
     ci_participant_bindings (fold carry_step xs i) = ci_participant_bindings i \<and>
     ci_context (fold carry_step xs i) = ci_context i \<and>
     ci_recollection (fold carry_step xs i) = ci_recollection i \<and>
     ci_idempotency_keys (fold carry_step xs i) = ci_idempotency_keys i \<and>
     ci_created_at (fold carry_step xs i) = ci_created_at i \<and>
     ci_updated_at (fold carry_step xs i) = ci_updated_at i \<and>
     ci_completed_at (fold carry_step xs i) = ci_completed_at i \<and>
     ci_bound_definition (fold carry_step xs i) = ci_bound_definition i \<and>
     ci_lineage (fold carry_step xs i) = ci_lineage i \<and>
     ci_budget_account_id (fold carry_step xs i) = ci_budget_account_id i \<and>
     ci_child_groups (fold carry_step xs i) = ci_child_groups i \<and>
     ci_lifecycle (fold carry_step xs i) = ci_lifecycle i \<and>
     ci_ceremony_deadline (fold carry_step xs i) = ci_ceremony_deadline i \<and>
     ci_state_deadline (fold carry_step xs i) = ci_state_deadline i \<and>
     ci_step_deadlines (fold carry_step xs i) = ci_step_deadlines i \<and>
     ci_retired_deadline_claims (fold carry_step xs i) = ci_retired_deadline_claims i \<and>
     ci_late_step_results (fold carry_step xs i) = ci_late_step_results i \<and>
     ci_execution_receipt_links (fold carry_step xs i) = ci_execution_receipt_links i \<and>
     ci_execution_receipt_adoptions (fold carry_step xs i) = ci_execution_receipt_adoptions i \<and>
     ci_succession (fold carry_step xs i) = ci_succession i \<and>
     ci_successor_plan (fold carry_step xs i) = ci_successor_plan i"
  by (induction xs arbitrary: i) (simp_all add: carry_step_def)

lemma record_that_it_answers_frame [simp]:
  "ci_lease_renewals (record_that_it_answers i v now) = ci_lease_renewals i \<and>
     ci_host_handoffs (record_that_it_answers i v now) = ci_host_handoffs i \<and>
     ci_id (record_that_it_answers i v now) = ci_id i \<and>
     ci_definition_name (record_that_it_answers i v now) = ci_definition_name i \<and>
     ci_definition_version (record_that_it_answers i v now) = ci_definition_version i \<and>
     ci_current_state (record_that_it_answers i v now) = ci_current_state i \<and>
     ci_current_state_iteration (record_that_it_answers i v now) = ci_current_state_iteration i \<and>
     ci_current_state_visit (record_that_it_answers i v now) = ci_current_state_visit i \<and>
     ci_step_records (record_that_it_answers i v now) = ci_step_records i \<and>
     ci_step_record_history (record_that_it_answers i v now) = ci_step_record_history i \<and>
     ci_interventions (record_that_it_answers i v now) = ci_interventions i \<and>
     ci_guard_deferrals (record_that_it_answers i v now) = ci_guard_deferrals i \<and>
     ci_guard_approvals (record_that_it_answers i v now) = ci_guard_approvals i \<and>
     ci_transitions (record_that_it_answers i v now) = ci_transitions i \<and>
     ci_participant_bindings (record_that_it_answers i v now) = ci_participant_bindings i \<and>
     ci_context (record_that_it_answers i v now) = ci_context i \<and>
     ci_recollection (record_that_it_answers i v now) = ci_recollection i \<and>
     ci_idempotency_keys (record_that_it_answers i v now) = ci_idempotency_keys i \<and>
     ci_created_at (record_that_it_answers i v now) = ci_created_at i \<and>
     ci_updated_at (record_that_it_answers i v now) = ci_updated_at i \<and>
     ci_completed_at (record_that_it_answers i v now) = ci_completed_at i \<and>
     ci_bound_definition (record_that_it_answers i v now) = ci_bound_definition i \<and>
     ci_lineage (record_that_it_answers i v now) = ci_lineage i \<and>
     ci_budget_account_id (record_that_it_answers i v now) = ci_budget_account_id i \<and>
     ci_child_groups (record_that_it_answers i v now) = ci_child_groups i \<and>
     ci_lifecycle (record_that_it_answers i v now) = ci_lifecycle i \<and>
     ci_ceremony_deadline (record_that_it_answers i v now) = ci_ceremony_deadline i \<and>
     ci_state_deadline (record_that_it_answers i v now) = ci_state_deadline i \<and>
     ci_step_deadlines (record_that_it_answers i v now) = ci_step_deadlines i \<and>
     ci_retired_deadline_claims (record_that_it_answers i v now) = ci_retired_deadline_claims i \<and>
     ci_late_step_results (record_that_it_answers i v now) = ci_late_step_results i \<and>
     ci_execution_receipt_links (record_that_it_answers i v now) = ci_execution_receipt_links i \<and>
     ci_execution_receipt_adoptions (record_that_it_answers i v now) = ci_execution_receipt_adoptions i \<and>
     ci_succession (record_that_it_answers i v now) = ci_succession i \<and>
     ci_successor_plan (record_that_it_answers i v now) = ci_successor_plan i"
  by (simp add: record_that_it_answers_def Let_def split: option.splits sum.splits)

lemma apply_step_completed_frame [simp]:
  "ci_lease_renewals (apply_step_completed i c) = ci_lease_renewals i \<and>
     ci_host_handoffs (apply_step_completed i c) = ci_host_handoffs i \<and>
     ci_id (apply_step_completed i c) = ci_id i \<and>
     ci_definition_name (apply_step_completed i c) = ci_definition_name i \<and>
     ci_definition_version (apply_step_completed i c) = ci_definition_version i \<and>
     ci_current_state (apply_step_completed i c) = ci_current_state i \<and>
     ci_current_state_iteration (apply_step_completed i c) = ci_current_state_iteration i \<and>
     ci_current_state_visit (apply_step_completed i c) = ci_current_state_visit i \<and>
     ci_interventions (apply_step_completed i c) = ci_interventions i \<and>
     ci_guard_deferrals (apply_step_completed i c) = ci_guard_deferrals i \<and>
     ci_guard_approvals (apply_step_completed i c) = ci_guard_approvals i \<and>
     ci_transitions (apply_step_completed i c) = ci_transitions i \<and>
     ci_reasons (apply_step_completed i c) = ci_reasons i \<and>
     ci_participant_bindings (apply_step_completed i c) = ci_participant_bindings i \<and>
     ci_context (apply_step_completed i c) = ci_context i \<and>
     ci_recollection (apply_step_completed i c) = ci_recollection i \<and>
     ci_idempotency_keys (apply_step_completed i c) = ci_idempotency_keys i \<and>
     ci_created_at (apply_step_completed i c) = ci_created_at i \<and>
     ci_completed_at (apply_step_completed i c) = ci_completed_at i \<and>
     ci_bound_definition (apply_step_completed i c) = ci_bound_definition i \<and>
     ci_lineage (apply_step_completed i c) = ci_lineage i \<and>
     ci_budget_account_id (apply_step_completed i c) = ci_budget_account_id i \<and>
     ci_child_groups (apply_step_completed i c) = ci_child_groups i \<and>
     ci_lifecycle (apply_step_completed i c) = ci_lifecycle i \<and>
     ci_ceremony_deadline (apply_step_completed i c) = ci_ceremony_deadline i \<and>
     ci_state_deadline (apply_step_completed i c) = ci_state_deadline i \<and>
     ci_retired_deadline_claims (apply_step_completed i c) = ci_retired_deadline_claims i \<and>
     ci_late_step_results (apply_step_completed i c) = ci_late_step_results i \<and>
     ci_execution_receipt_links (apply_step_completed i c) = ci_execution_receipt_links i \<and>
     ci_execution_receipt_adoptions (apply_step_completed i c) = ci_execution_receipt_adoptions i \<and>
     ci_succession (apply_step_completed i c) = ci_succession i \<and>
     ci_successor_plan (apply_step_completed i c) = ci_successor_plan i"
  by (simp add: apply_step_completed_def Let_def split: option.splits)

lemma apply_intervention_responded_frame [simp]:
  "ci_lease_renewals (apply_intervention_responded i v r) = ci_lease_renewals i \<and>
     ci_host_handoffs (apply_intervention_responded i v r) = ci_host_handoffs i \<and>
     ci_id (apply_intervention_responded i v r) = ci_id i \<and>
     ci_definition_name (apply_intervention_responded i v r) = ci_definition_name i \<and>
     ci_definition_version (apply_intervention_responded i v r) = ci_definition_version i \<and>
     ci_current_state (apply_intervention_responded i v r) = ci_current_state i \<and>
     ci_current_state_iteration (apply_intervention_responded i v r) = ci_current_state_iteration i \<and>
     ci_current_state_visit (apply_intervention_responded i v r) = ci_current_state_visit i \<and>
     ci_step_records (apply_intervention_responded i v r) = ci_step_records i \<and>
     ci_step_record_history (apply_intervention_responded i v r) = ci_step_record_history i \<and>
     ci_guard_deferrals (apply_intervention_responded i v r) = ci_guard_deferrals i \<and>
     ci_guard_approvals (apply_intervention_responded i v r) = ci_guard_approvals i \<and>
     ci_transitions (apply_intervention_responded i v r) = ci_transitions i \<and>
     ci_participant_bindings (apply_intervention_responded i v r) = ci_participant_bindings i \<and>
     ci_context (apply_intervention_responded i v r) = ci_context i \<and>
     ci_recollection (apply_intervention_responded i v r) = ci_recollection i \<and>
     ci_idempotency_keys (apply_intervention_responded i v r) = ci_idempotency_keys i \<and>
     ci_created_at (apply_intervention_responded i v r) = ci_created_at i \<and>
     ci_completed_at (apply_intervention_responded i v r) = ci_completed_at i \<and>
     ci_bound_definition (apply_intervention_responded i v r) = ci_bound_definition i \<and>
     ci_lineage (apply_intervention_responded i v r) = ci_lineage i \<and>
     ci_budget_account_id (apply_intervention_responded i v r) = ci_budget_account_id i \<and>
     ci_child_groups (apply_intervention_responded i v r) = ci_child_groups i \<and>
     ci_lifecycle (apply_intervention_responded i v r) = ci_lifecycle i \<and>
     ci_ceremony_deadline (apply_intervention_responded i v r) = ci_ceremony_deadline i \<and>
     ci_state_deadline (apply_intervention_responded i v r) = ci_state_deadline i \<and>
     ci_step_deadlines (apply_intervention_responded i v r) = ci_step_deadlines i \<and>
     ci_retired_deadline_claims (apply_intervention_responded i v r) = ci_retired_deadline_claims i \<and>
     ci_late_step_results (apply_intervention_responded i v r) = ci_late_step_results i \<and>
     ci_execution_receipt_links (apply_intervention_responded i v r) = ci_execution_receipt_links i \<and>
     ci_execution_receipt_adoptions (apply_intervention_responded i v r) = ci_execution_receipt_adoptions i \<and>
     ci_succession (apply_intervention_responded i v r) = ci_succession i \<and>
     ci_successor_plan (apply_intervention_responded i v r) = ci_successor_plan i"
  by (simp add: apply_intervention_responded_def with_intervention_def split: option.splits sum.splits)

lemma apply_acknowledged_frame [simp]:
  "ci_lease_renewals (apply_intervention_delivery_acknowledged i v a) = ci_lease_renewals i \<and>
     ci_host_handoffs (apply_intervention_delivery_acknowledged i v a) = ci_host_handoffs i \<and>
     ci_id (apply_intervention_delivery_acknowledged i v a) = ci_id i \<and>
     ci_definition_name (apply_intervention_delivery_acknowledged i v a) = ci_definition_name i \<and>
     ci_definition_version (apply_intervention_delivery_acknowledged i v a) = ci_definition_version i \<and>
     ci_current_state (apply_intervention_delivery_acknowledged i v a) = ci_current_state i \<and>
     ci_current_state_iteration (apply_intervention_delivery_acknowledged i v a) = ci_current_state_iteration i \<and>
     ci_current_state_visit (apply_intervention_delivery_acknowledged i v a) = ci_current_state_visit i \<and>
     ci_step_records (apply_intervention_delivery_acknowledged i v a) = ci_step_records i \<and>
     ci_step_record_history (apply_intervention_delivery_acknowledged i v a) = ci_step_record_history i \<and>
     ci_guard_deferrals (apply_intervention_delivery_acknowledged i v a) = ci_guard_deferrals i \<and>
     ci_guard_approvals (apply_intervention_delivery_acknowledged i v a) = ci_guard_approvals i \<and>
     ci_transitions (apply_intervention_delivery_acknowledged i v a) = ci_transitions i \<and>
     ci_reasons (apply_intervention_delivery_acknowledged i v a) = ci_reasons i \<and>
     ci_participant_bindings (apply_intervention_delivery_acknowledged i v a) = ci_participant_bindings i \<and>
     ci_context (apply_intervention_delivery_acknowledged i v a) = ci_context i \<and>
     ci_recollection (apply_intervention_delivery_acknowledged i v a) = ci_recollection i \<and>
     ci_idempotency_keys (apply_intervention_delivery_acknowledged i v a) = ci_idempotency_keys i \<and>
     ci_created_at (apply_intervention_delivery_acknowledged i v a) = ci_created_at i \<and>
     ci_completed_at (apply_intervention_delivery_acknowledged i v a) = ci_completed_at i \<and>
     ci_bound_definition (apply_intervention_delivery_acknowledged i v a) = ci_bound_definition i \<and>
     ci_lineage (apply_intervention_delivery_acknowledged i v a) = ci_lineage i \<and>
     ci_budget_account_id (apply_intervention_delivery_acknowledged i v a) = ci_budget_account_id i \<and>
     ci_child_groups (apply_intervention_delivery_acknowledged i v a) = ci_child_groups i \<and>
     ci_lifecycle (apply_intervention_delivery_acknowledged i v a) = ci_lifecycle i \<and>
     ci_ceremony_deadline (apply_intervention_delivery_acknowledged i v a) = ci_ceremony_deadline i \<and>
     ci_state_deadline (apply_intervention_delivery_acknowledged i v a) = ci_state_deadline i \<and>
     ci_step_deadlines (apply_intervention_delivery_acknowledged i v a) = ci_step_deadlines i \<and>
     ci_retired_deadline_claims (apply_intervention_delivery_acknowledged i v a) = ci_retired_deadline_claims i \<and>
     ci_late_step_results (apply_intervention_delivery_acknowledged i v a) = ci_late_step_results i \<and>
     ci_execution_receipt_links (apply_intervention_delivery_acknowledged i v a) = ci_execution_receipt_links i \<and>
     ci_execution_receipt_adoptions (apply_intervention_delivery_acknowledged i v a) = ci_execution_receipt_adoptions i \<and>
     ci_succession (apply_intervention_delivery_acknowledged i v a) = ci_succession i \<and>
     ci_successor_plan (apply_intervention_delivery_acknowledged i v a) = ci_successor_plan i"
  by (simp add: apply_intervention_delivery_acknowledged_def with_intervention_def
      split: option.splits sum.splits)

lemma apply_closed_frame [simp]:
  "ci_lease_renewals (apply_intervention_closed i v r at) = ci_lease_renewals i \<and>
     ci_host_handoffs (apply_intervention_closed i v r at) = ci_host_handoffs i \<and>
     ci_id (apply_intervention_closed i v r at) = ci_id i \<and>
     ci_definition_name (apply_intervention_closed i v r at) = ci_definition_name i \<and>
     ci_definition_version (apply_intervention_closed i v r at) = ci_definition_version i \<and>
     ci_current_state (apply_intervention_closed i v r at) = ci_current_state i \<and>
     ci_current_state_iteration (apply_intervention_closed i v r at) = ci_current_state_iteration i \<and>
     ci_current_state_visit (apply_intervention_closed i v r at) = ci_current_state_visit i \<and>
     ci_step_records (apply_intervention_closed i v r at) = ci_step_records i \<and>
     ci_step_record_history (apply_intervention_closed i v r at) = ci_step_record_history i \<and>
     ci_guard_deferrals (apply_intervention_closed i v r at) = ci_guard_deferrals i \<and>
     ci_guard_approvals (apply_intervention_closed i v r at) = ci_guard_approvals i \<and>
     ci_transitions (apply_intervention_closed i v r at) = ci_transitions i \<and>
     ci_reasons (apply_intervention_closed i v r at) = ci_reasons i \<and>
     ci_participant_bindings (apply_intervention_closed i v r at) = ci_participant_bindings i \<and>
     ci_context (apply_intervention_closed i v r at) = ci_context i \<and>
     ci_recollection (apply_intervention_closed i v r at) = ci_recollection i \<and>
     ci_idempotency_keys (apply_intervention_closed i v r at) = ci_idempotency_keys i \<and>
     ci_created_at (apply_intervention_closed i v r at) = ci_created_at i \<and>
     ci_completed_at (apply_intervention_closed i v r at) = ci_completed_at i \<and>
     ci_bound_definition (apply_intervention_closed i v r at) = ci_bound_definition i \<and>
     ci_lineage (apply_intervention_closed i v r at) = ci_lineage i \<and>
     ci_budget_account_id (apply_intervention_closed i v r at) = ci_budget_account_id i \<and>
     ci_child_groups (apply_intervention_closed i v r at) = ci_child_groups i \<and>
     ci_lifecycle (apply_intervention_closed i v r at) = ci_lifecycle i \<and>
     ci_ceremony_deadline (apply_intervention_closed i v r at) = ci_ceremony_deadline i \<and>
     ci_state_deadline (apply_intervention_closed i v r at) = ci_state_deadline i \<and>
     ci_step_deadlines (apply_intervention_closed i v r at) = ci_step_deadlines i \<and>
     ci_retired_deadline_claims (apply_intervention_closed i v r at) = ci_retired_deadline_claims i \<and>
     ci_late_step_results (apply_intervention_closed i v r at) = ci_late_step_results i \<and>
     ci_execution_receipt_links (apply_intervention_closed i v r at) = ci_execution_receipt_links i \<and>
     ci_execution_receipt_adoptions (apply_intervention_closed i v r at) = ci_execution_receipt_adoptions i \<and>
     ci_succession (apply_intervention_closed i v r at) = ci_succession i \<and>
     ci_successor_plan (apply_intervention_closed i v r at) = ci_successor_plan i"
  by (simp add: apply_intervention_closed_def with_intervention_def
      split: option.splits sum.splits)

lemma apply_linked_frame [simp]:
  "ci_lease_renewals (apply_execution_receipt_linked i l at) = ci_lease_renewals i \<and>
     ci_host_handoffs (apply_execution_receipt_linked i l at) = ci_host_handoffs i \<and>
     ci_id (apply_execution_receipt_linked i l at) = ci_id i \<and>
     ci_definition_name (apply_execution_receipt_linked i l at) = ci_definition_name i \<and>
     ci_definition_version (apply_execution_receipt_linked i l at) = ci_definition_version i \<and>
     ci_current_state (apply_execution_receipt_linked i l at) = ci_current_state i \<and>
     ci_current_state_iteration (apply_execution_receipt_linked i l at) = ci_current_state_iteration i \<and>
     ci_current_state_visit (apply_execution_receipt_linked i l at) = ci_current_state_visit i \<and>
     ci_step_records (apply_execution_receipt_linked i l at) = ci_step_records i \<and>
     ci_step_record_history (apply_execution_receipt_linked i l at) = ci_step_record_history i \<and>
     ci_interventions (apply_execution_receipt_linked i l at) = ci_interventions i \<and>
     ci_guard_deferrals (apply_execution_receipt_linked i l at) = ci_guard_deferrals i \<and>
     ci_guard_approvals (apply_execution_receipt_linked i l at) = ci_guard_approvals i \<and>
     ci_transitions (apply_execution_receipt_linked i l at) = ci_transitions i \<and>
     ci_reasons (apply_execution_receipt_linked i l at) = ci_reasons i \<and>
     ci_participant_bindings (apply_execution_receipt_linked i l at) = ci_participant_bindings i \<and>
     ci_context (apply_execution_receipt_linked i l at) = ci_context i \<and>
     ci_recollection (apply_execution_receipt_linked i l at) = ci_recollection i \<and>
     ci_idempotency_keys (apply_execution_receipt_linked i l at) = ci_idempotency_keys i \<and>
     ci_created_at (apply_execution_receipt_linked i l at) = ci_created_at i \<and>
     ci_completed_at (apply_execution_receipt_linked i l at) = ci_completed_at i \<and>
     ci_bound_definition (apply_execution_receipt_linked i l at) = ci_bound_definition i \<and>
     ci_lineage (apply_execution_receipt_linked i l at) = ci_lineage i \<and>
     ci_budget_account_id (apply_execution_receipt_linked i l at) = ci_budget_account_id i \<and>
     ci_child_groups (apply_execution_receipt_linked i l at) = ci_child_groups i \<and>
     ci_lifecycle (apply_execution_receipt_linked i l at) = ci_lifecycle i \<and>
     ci_ceremony_deadline (apply_execution_receipt_linked i l at) = ci_ceremony_deadline i \<and>
     ci_state_deadline (apply_execution_receipt_linked i l at) = ci_state_deadline i \<and>
     ci_step_deadlines (apply_execution_receipt_linked i l at) = ci_step_deadlines i \<and>
     ci_retired_deadline_claims (apply_execution_receipt_linked i l at) = ci_retired_deadline_claims i \<and>
     ci_late_step_results (apply_execution_receipt_linked i l at) = ci_late_step_results i \<and>
     ci_succession (apply_execution_receipt_linked i l at) = ci_succession i \<and>
     ci_successor_plan (apply_execution_receipt_linked i l at) = ci_successor_plan i"
  by (simp add: apply_execution_receipt_linked_def)

lemma bind_participants_frame:
  "\<exists>m u. fold (\<lambda>b s. s\<lparr>ci_participant_bindings :=
             bm_insert (binding_role_id b) b (ci_participant_bindings s),
             ci_updated_at := binding_bound_at b\<rparr>) bs i
         = i\<lparr>ci_participant_bindings := m, ci_updated_at := u\<rparr>"
proof (induction bs arbitrary: i)
  case Nil
  then show ?case
    by (intro exI [of _ "ci_participant_bindings i"] exI [of _ "ci_updated_at i"]) simp
next
  case (Cons b bs)
  obtain m u where "fold (\<lambda>b s. s\<lparr>ci_participant_bindings :=
             bm_insert (binding_role_id b) b (ci_participant_bindings s),
             ci_updated_at := binding_bound_at b\<rparr>) bs
       (i\<lparr>ci_participant_bindings := bm_insert (binding_role_id b) b (ci_participant_bindings i),
          ci_updated_at := binding_bound_at b\<rparr>)
     = i\<lparr>ci_participant_bindings := bm_insert (binding_role_id b) b (ci_participant_bindings i),
          ci_updated_at := binding_bound_at b\<rparr>\<lparr>ci_participant_bindings := m, ci_updated_at := u\<rparr>"
    using Cons.IH by blast
  then show ?case by (intro exI [of _ m] exI [of _ u]) simp
qed

lemma apply_participants_bound_frame [simp]:
  "ci_lease_renewals (apply_participants_bound i bs) = ci_lease_renewals i \<and>
     ci_host_handoffs (apply_participants_bound i bs) = ci_host_handoffs i \<and>
     ci_id (apply_participants_bound i bs) = ci_id i \<and>
     ci_definition_name (apply_participants_bound i bs) = ci_definition_name i \<and>
     ci_definition_version (apply_participants_bound i bs) = ci_definition_version i \<and>
     ci_current_state (apply_participants_bound i bs) = ci_current_state i \<and>
     ci_current_state_iteration (apply_participants_bound i bs) = ci_current_state_iteration i \<and>
     ci_current_state_visit (apply_participants_bound i bs) = ci_current_state_visit i \<and>
     ci_step_records (apply_participants_bound i bs) = ci_step_records i \<and>
     ci_step_record_history (apply_participants_bound i bs) = ci_step_record_history i \<and>
     ci_interventions (apply_participants_bound i bs) = ci_interventions i \<and>
     ci_guard_deferrals (apply_participants_bound i bs) = ci_guard_deferrals i \<and>
     ci_guard_approvals (apply_participants_bound i bs) = ci_guard_approvals i \<and>
     ci_transitions (apply_participants_bound i bs) = ci_transitions i \<and>
     ci_reasons (apply_participants_bound i bs) = ci_reasons i \<and>
     ci_context (apply_participants_bound i bs) = ci_context i \<and>
     ci_recollection (apply_participants_bound i bs) = ci_recollection i \<and>
     ci_idempotency_keys (apply_participants_bound i bs) = ci_idempotency_keys i \<and>
     ci_created_at (apply_participants_bound i bs) = ci_created_at i \<and>
     ci_completed_at (apply_participants_bound i bs) = ci_completed_at i \<and>
     ci_bound_definition (apply_participants_bound i bs) = ci_bound_definition i \<and>
     ci_lineage (apply_participants_bound i bs) = ci_lineage i \<and>
     ci_budget_account_id (apply_participants_bound i bs) = ci_budget_account_id i \<and>
     ci_child_groups (apply_participants_bound i bs) = ci_child_groups i \<and>
     ci_lifecycle (apply_participants_bound i bs) = ci_lifecycle i \<and>
     ci_ceremony_deadline (apply_participants_bound i bs) = ci_ceremony_deadline i \<and>
     ci_state_deadline (apply_participants_bound i bs) = ci_state_deadline i \<and>
     ci_step_deadlines (apply_participants_bound i bs) = ci_step_deadlines i \<and>
     ci_retired_deadline_claims (apply_participants_bound i bs) = ci_retired_deadline_claims i \<and>
     ci_late_step_results (apply_participants_bound i bs) = ci_late_step_results i \<and>
     ci_execution_receipt_links (apply_participants_bound i bs) = ci_execution_receipt_links i \<and>
     ci_execution_receipt_adoptions (apply_participants_bound i bs) = ci_execution_receipt_adoptions i \<and>
     ci_succession (apply_participants_bound i bs) = ci_succession i \<and>
     ci_successor_plan (apply_participants_bound i bs) = ci_successor_plan i"
  using bind_participants_frame [of bs i] by (auto simp: apply_participants_bound_def)


section \<open>Effects of an event\<close>

lemma apply_context_written_Inr:
  "apply_context_written i w = Inr j \<longleftrightarrow>
     (\<exists>ctx. with_patch (ci_context i) (cw_patch w) = Inr ctx \<and>
        j = i\<lparr>ci_context := ctx, ci_updated_at := cw_written_at w\<rparr>)"
  by (auto simp: apply_context_written_def split: sum.splits)

lemma effect_constants:
  assumes "apply_event i e = Inr j" and "\<not> is_import e"
  shows "ci_id j = ci_id i \<and> ci_definition_name j = ci_definition_name i
    \<and> ci_definition_version j = ci_definition_version i \<and> ci_created_at j = ci_created_at i
    \<and> ci_bound_definition j = ci_bound_definition i \<and> ci_lineage j = ci_lineage i
    \<and> ci_budget_account_id j = ci_budget_account_id i
    \<and> ci_ceremony_deadline j = ci_ceremony_deadline i \<and> ci_succession j = ci_succession i"
  using assms
  by (cases e) (auto simp: fold_defs apply_context_written_Inr Let_def split: option.splits)

fun transition_of :: "ceremony_event \<Rightarrow> transition_record option" where
  "transition_of (TransitionApplied t _) = Some t"
| "transition_of _ = None"

fun visit_of :: "ceremony_event \<Rightarrow> u32 option" where
  "visit_of (TransitionApplied _ (Some v)) = Some (sve_state_visit v)"
| "visit_of _ = None"

fun lifecycle_after :: "ceremony_event \<Rightarrow> ceremony_lifecycle \<Rightarrow> ceremony_lifecycle" where
  "lifecycle_after (CeremonyPaused reason at) l = lifecycle_pause l reason at"
| "lifecycle_after (CeremonyResumed at) l = lifecycle_resume l at"
| "lifecycle_after (CeremonyCancelled reason at) l = lifecycle_end l EndCancelled (Some reason) at"
| "lifecycle_after (CeremonyDeadlineExceeded _ at) l = lifecycle_end l EndCeremonyDeadline None at"
| "lifecycle_after (StateDeadlineExceeded _ at) l = lifecycle_end l EndStateDeadline None at"
| "lifecycle_after _ l = l"

fun completed_after :: "ceremony_event \<Rightarrow> int option \<Rightarrow> int option" where
  "completed_after (CeremonyCompleted _ at) _ = Some at"
| "completed_after _ c = c"

fun started_key :: "ceremony_event \<Rightarrow> string option" where
  "started_key (StepStarted s) = Some (lease_idempotency_key (ss_lease s))"
| "started_key _ = None"

lemma effect_transitions:
  assumes "apply_event i e = Inr j" and "\<not> is_import e"
  shows "ci_transitions j =
    ci_transitions i @ (case transition_of e of None \<Rightarrow> [] | Some t \<Rightarrow> [t])"
  using assms
  by (cases e) (auto simp: fold_defs apply_context_written_Inr Let_def split: option.splits)

lemma effect_current_state:
  assumes "apply_event i e = Inr j" and "\<not> is_import e"
  shows "ci_current_state j =
    (case transition_of e of None \<Rightarrow> ci_current_state i | Some t \<Rightarrow> tr_to_state t)"
  using assms
  by (cases e) (auto simp: fold_defs apply_context_written_Inr Let_def split: option.splits)

lemma effect_visit:
  assumes "apply_event i e = Inr j" and "\<not> is_import e"
  shows "ci_current_state_visit j =
    (case visit_of e of None \<Rightarrow> ci_current_state_visit i | Some v \<Rightarrow> v)"
  using assms
  by (cases e) (auto simp: fold_defs apply_context_written_Inr Let_def split: option.splits)

lemma effect_lifecycle:
  assumes "apply_event i e = Inr j" and "\<not> is_import e"
  shows "ci_lifecycle j = lifecycle_after e (ci_lifecycle i)"
  using assms
  by (cases e) (auto simp: fold_defs apply_context_written_Inr Let_def split: option.splits)

lemma effect_completed_at:
  assumes "apply_event i e = Inr j" and "\<not> is_import e"
  shows "ci_completed_at j = completed_after e (ci_completed_at i)"
  using assms
  by (cases e) (auto simp: fold_defs apply_context_written_Inr Let_def split: option.splits)

lemma effect_idempotency_keys:
  assumes "apply_event i e = Inr j" and "\<not> is_import e"
  shows "ci_idempotency_keys j = set_option (started_key e) \<union> ci_idempotency_keys i"
  using assms
  by (cases e) (auto simp: fold_defs apply_context_written_Inr Let_def split: option.splits)

fun approval_of :: "ceremony_event \<Rightarrow> guard_approval list" where
  "approval_of (HumanApprovalRecorded a) = [a]"
| "approval_of _ = []"

lemma effect_guard_approvals:
  assumes "apply_event i e = Inr j" and "\<not> is_import e"
  shows "ci_guard_approvals j = ci_guard_approvals i @ approval_of e"
  using assms
  by (cases e) (auto simp: fold_defs apply_context_written_Inr Let_def split: option.splits)

fun plan_after :: "ceremony_event \<Rightarrow> succession_plan option \<Rightarrow> succession_plan option" where
  "plan_after (SuccessorPlanned p) _ = Some p"
| "plan_after _ p = p"

lemma effect_successor_plan:
  assumes "apply_event i e = Inr j" and "\<not> is_import e"
  shows "ci_successor_plan j = plan_after e (ci_successor_plan i)"
  using assms
  by (cases e) (auto simp: fold_defs apply_context_written_Inr Let_def split: option.splits)

fun writes_context :: "ceremony_event \<Rightarrow> bool" where
  "writes_context (ContextWritten _) = True"
| "writes_context (HumanApprovalRecorded _) = True"
| "writes_context _ = False"

lemma effect_context:
  assumes "apply_event i e = Inr j" and "\<not> is_import e" and "\<not> writes_context e"
  shows "ci_context j = ci_context i"
  using assms
  by (cases e) (auto simp: fold_defs apply_context_written_Inr Let_def split: option.splits)

fun touches_interventions :: "ceremony_event \<Rightarrow> bool" where
  "touches_interventions (InterventionRequested _) = True"
| "touches_interventions (InterventionResponded _ _) = True"
| "touches_interventions (InterventionClosed _ _ _) = True"
| "touches_interventions (InterventionDeliveryAcknowledged _ _) = True"
| "touches_interventions _ = False"

lemma effect_interventions:
  assumes "apply_event i e = Inr j" and "\<not> is_import e" and "\<not> touches_interventions e"
  shows "ci_interventions j = ci_interventions i"
  using assms
  by (cases e) (auto simp: fold_defs apply_context_written_Inr Let_def split: option.splits)

fun touches_records :: "ceremony_event \<Rightarrow> bool" where
  "touches_records (StepStarted _) = True"
| "touches_records (StepLeaseRenewed _) = True"
| "touches_records (StepCompleted _) = True"
| "touches_records (StepFailed _) = True"
| "touches_records (StateIterationStarted _) = True"
| "touches_records (TransitionApplied _ _) = True"
| "touches_records (StepDeadlineExceeded _ _ _) = True"
| "touches_records (SuccessionCarried _ _) = True"
| "touches_records _ = False"

lemma effect_step_records:
  assumes "apply_event i e = Inr j" and "\<not> is_import e" and "\<not> touches_records e"
  shows "ci_step_records j = ci_step_records i
    \<and> ci_step_record_history j = ci_step_record_history i
    \<and> ci_step_deadlines j = ci_step_deadlines i
    \<and> ci_retired_deadline_claims j = ci_retired_deadline_claims i
    \<and> ci_state_deadline j = ci_state_deadline i
    \<and> ci_current_state_iteration j = ci_current_state_iteration i"
  using assms
  by (cases e) (auto simp: fold_defs apply_context_written_Inr Let_def split: option.splits)

end
