(* ===== verification/Ceremony_Run.thy ===== *)
theory Ceremony_Run
  imports Ceremony_Effects
begin

text \<open>
  Journals of a ceremony: the events an opening decides, followed by the events the accepted
  commands decide, together with the state their writer holds.  The ceremony is an instance of the
  interface \<open>event_sourced\<close> of the prelude: its decisions never contain an import, what a decision
  returns always folds, and so replaying a journal gives back the state of its writer.
\<close>


section \<open>Which events a command can decide\<close>

fun is_result_event :: "ceremony_event \<Rightarrow> bool" where
  "is_result_event (StepCompleted _) = True"
| "is_result_event (StepFailed _) = True"
| "is_result_event (ContextWritten _) = True"
| "is_result_event (StateIterationStarted _) = True"
| "is_result_event (LateStepResultObserved _ _) = True"
| "is_result_event _ = False"

fun emits :: "ceremony_command \<Rightarrow> ceremony_event \<Rightarrow> bool" where
  "emits (RecordHostHandoff _ _) e = (case e of HostHandoffRecorded _ \<Rightarrow> True | _ \<Rightarrow> False)"
| "emits (BindParticipant _ _ _) e = (case e of ParticipantsBound _ \<Rightarrow> True | _ \<Rightarrow> False)"
| "emits (StartStep _) e = (case e of StepStarted _ \<Rightarrow> True | _ \<Rightarrow> False)"
| "emits (RenewStepLease _) e = (case e of StepLeaseRenewed _ \<Rightarrow> True | _ \<Rightarrow> False)"
| "emits (ApplyStepResult _) e = is_result_event e"
| "emits (ApplyExecutionReceiptResult _ _ _ _ _) e =
     (is_result_event e \<or> (case e of ExecutionReceiptLinked _ _ _ \<Rightarrow> True | _ \<Rightarrow> False))"
| "emits (ApplyTransition _ _ _) e =
     (case e of TransitionApplied _ _ \<Rightarrow> True | CeremonyCompleted _ _ \<Rightarrow> True | _ \<Rightarrow> False)"
| "emits (ApproveGuard _ _ _ _) e = (case e of HumanApprovalRecorded _ \<Rightarrow> True | _ \<Rightarrow> False)"
| "emits (DeferGuard _ _ _ _ _) e = (case e of HumanDeferralRecorded _ \<Rightarrow> True | _ \<Rightarrow> False)"
| "emits (RequestInterventionCommand _) e = (case e of InterventionRequested _ \<Rightarrow> True | _ \<Rightarrow> False)"
| "emits (RespondToInterventionCommand _) e =
     (case e of InterventionResponded _ _ \<Rightarrow> True | _ \<Rightarrow> False)"
| "emits (RespondToInterventionWithEvidence _ _ _ _) e =
     (case e of EvidenceCollected _ \<Rightarrow> True | InterventionResponded _ _ \<Rightarrow> True | _ \<Rightarrow> False)"
| "emits (AcknowledgeInterventionDelivery _ _ _) e =
     (case e of InterventionDeliveryAcknowledged _ _ \<Rightarrow> True | _ \<Rightarrow> False)"
| "emits (AssertReason _) e = (case e of ReasonAsserted _ \<Rightarrow> True | _ \<Rightarrow> False)"
| "emits (CloseIntervention _ _ _) e = (case e of InterventionClosed _ _ _ \<Rightarrow> True | _ \<Rightarrow> False)"
| "emits (PlanCeremonyChildren _ _) e = (case e of ChildSpawnPlanned _ _ \<Rightarrow> True | _ \<Rightarrow> False)"
| "emits (PlanSuccessor _) e = (case e of SuccessorPlanned _ \<Rightarrow> True | _ \<Rightarrow> False)"
| "emits (AdoptChildSpawnPlan _ _ _) e =
     (case e of ChildSpawnPlanAdopted _ _ _ \<Rightarrow> True | _ \<Rightarrow> False)"
| "emits (AcceptChildCompletion _ _) e =
     (case e of ChildCompletionAccepted _ _ \<Rightarrow> True | _ \<Rightarrow> False)"
| "emits (PauseCeremony _ _) e = (case e of CeremonyPaused _ _ \<Rightarrow> True | _ \<Rightarrow> False)"
| "emits (ResumeCeremony _) e = (case e of CeremonyResumed _ \<Rightarrow> True | _ \<Rightarrow> False)"
| "emits (CancelCeremony _ _) e = (case e of CeremonyCancelled _ _ \<Rightarrow> True | _ \<Rightarrow> False)"
| "emits (EnforceCeremonyDeadlines _) e =
     (case e of StepDeadlineExceeded _ _ _ \<Rightarrow> True | CeremonyDeadlineExceeded _ _ \<Rightarrow> True
      | StateDeadlineExceeded _ _ \<Rightarrow> True | _ \<Rightarrow> False)"

lemma decide_step_success_emits:
  assumes "decide_step_success i c d step r = Inr es" and "e \<in> set es"
  shows "is_result_event e"
  using assms(1)
proof (cases rule: decide_step_success_shape)
  case (1 nxt finished_by patch j it)
  from 1(4) have "x \<in> set it \<Longrightarrow> is_result_event x" for x
    by (cases rule: decide_state_iteration_shape) auto
  with 1(5) assms(2) show ?thesis by auto
qed

lemma decide_apply_step_result_emits:
  assumes "decide_apply_step_result env i c d = Inr es" and "e \<in> set es"
  shows "is_result_event e"
  using assms(1)
  by (cases rule: decide_apply_step_result_shape)
    (use assms(2) decide_step_success_emits in auto)

lemma decide_receipt_emits:
  assumes "decide_apply_execution_receipt_result env i s f l r now d = Inr es" and "e \<in> set es"
  shows "is_result_event e \<or> e = ExecutionReceiptLinked s l now"
  using assms(1)
  by (cases rule: decide_apply_execution_receipt_result_shape)
    (use assms(2) decide_apply_step_result_emits in auto)

lemma terminal_events_emits:
  "e \<in> set (terminal_events i now) \<Longrightarrow>
     (\<exists>c at. e = CeremonyDeadlineExceeded c at) \<or> (\<exists>s at. e = StateDeadlineExceeded s at)"
  by (auto simp: terminal_events_def split: option.splits if_splits)

lemma decide_emits:
  assumes "decide env i c d = Inr es" and "e \<in> set es"
  shows "emits c e"
proof (cases c)
  case (StartStep x)
  with assms show ?thesis by (auto elim!: decide_start_step_shape)
next
  case (ApplyTransition rid trigger now)
  with assms show ?thesis
    by (auto simp: decide_apply_transition_iff split: if_splits)
next
  case (PlanCeremonyChildren plan now)
  with assms show ?thesis by (auto elim!: decide_plan_children_shape)
next
  case (EnforceCeremonyDeadlines now)
  with assms show ?thesis
    by (auto dest!: decide_enforce_deadlines_shape terminal_events_emits)
qed (use assms in \<open>auto dest!: decide_record_host_handoff_shape decide_bind_participant_shape
    decide_renew_step_lease_shape decide_approve_guard_shape decide_defer_guard_shape
    decide_request_intervention_shape decide_respond_to_intervention_shape
    decide_respond_with_evidence_shape decide_acknowledge_shape decide_assert_reason_shape
    decide_close_intervention_shape decide_plan_successor_shape decide_adopt_child_plan_shape
    decide_accept_child_completion_shape decide_pause_shape decide_resume_shape
    decide_cancel_shape dest: decide_apply_step_result_emits decide_receipt_emits\<close>)

lemma emits_not_import: "emits c e \<Longrightarrow> \<not> is_import e"
  by (cases c; cases e) auto

lemma decided_not_import: "decide env i c d = Inr es \<Longrightarrow> e \<in> set es \<Longrightarrow> \<not> is_import e"
  by (rule emits_not_import) (rule decide_emits)


section \<open>What is decided can be folded\<close>

fun may_panic :: "ceremony_event \<Rightarrow> bool" where
  "may_panic (ContextWritten _) = True"
| "may_panic _ = False"

lemma apply_event_total: "\<not> may_panic e \<Longrightarrow> \<exists>j. apply_event i e = Inr j"
  by (cases e) auto

lemma apply_all_total: "\<forall>e \<in> set es. \<not> may_panic e \<Longrightarrow> \<exists>j. apply_all i es = Inr j"
proof (induction es arbitrary: i)
  case Nil
  then show ?case by (simp add: apply_all_def)
next
  case (Cons e es)
  then obtain j where "apply_event i e = Inr j" using apply_event_total by fastforce
  with Cons show ?case by (simp add: apply_all_def)
qed

lemma apply_all_simps [simp]:
  "apply_all i [] = Inr i"
  "apply_all i (e # es) = and_then (apply_event i e) (\<lambda>j. apply_all j es)"
  by (simp_all add: apply_all_def)

lemma apply_all_append: "apply_all i (es @ es') = and_then (apply_all i es) (\<lambda>j. apply_all j es')"
  by (simp add: apply_all_def try_fold_append)

text \<open>Whether a completion and its context write fold depends on the context alone.\<close>

lemma success_folds_context:
  assumes "apply_all i (StepCompleted sc # map ContextWritten (written_events k c r patch)) = Inr j"
    and "ci_context i' = ci_context i"
  shows "\<exists>j'. apply_all i' (StepCompleted sc # map ContextWritten (written_events k c r patch)) = Inr j'"
  using assms
  by (cases patch) (auto simp: written_events_def apply_context_written_Inr result_simps)

lemma state_iteration_not_may_panic:
  "decide_state_iteration i d now = Inr es \<Longrightarrow> e \<in> set es \<Longrightarrow> \<not> may_panic e"
  by (erule decide_state_iteration_shape) auto

lemma step_success_folds:
  assumes "decide_step_success i c d step r = Inr es" and "ci_context i' = ci_context i"
  shows "\<exists>j. apply_all i' es = Inr j"
  using assms(1)
proof (cases rule: decide_step_success_shape)
  case (1 nxt finished_by patch j it)
  obtain j' where j': "apply_all i' (StepCompleted (completed_event i c r nxt finished_by)
       # map ContextWritten (written_events i c r patch)) = Inr j'"
    using success_folds_context [OF 1(3) assms(2)] by blast
  moreover obtain j'' where "apply_all j' it = Inr j''"
    using apply_all_total state_iteration_not_may_panic 1(4) by meson
  ultimately show ?thesis
    unfolding 1(5) append_Cons [symmetric] apply_all_append by simp
qed

lemma apply_step_result_folds:
  assumes "decide_apply_step_result env i c d = Inr es" and "ci_context i' = ci_context i"
  shows "\<exists>j. apply_all i' es = Inr j"
  using assms(1)
proof (cases rule: decide_apply_step_result_shape)
  case completed
  then show ?thesis using step_success_folds assms(2) by blast
qed (simp_all add: assms)

lemma receipt_result_folds:
  assumes "decide_apply_execution_receipt_result env i s f l r now d = Inr es"
  shows "\<exists>j. apply_all i es = Inr j"
  using assms
proof (cases rule: decide_apply_execution_receipt_result_shape)
  case (2 es')
  from 2(1) show ?thesis using apply_step_result_folds [OF 2(6)] by simp
qed simp

lemma emits_may_panic:
  "emits c e \<Longrightarrow> may_panic e \<Longrightarrow> (\<exists>x. c = ApplyStepResult x) \<or>
     (\<exists>s f l r now. c = ApplyExecutionReceiptResult s f l r now)"
  by (cases c; cases e) auto

lemma decided_folds:
  assumes "decide env i c d = Inr es"
  shows "\<exists>j. apply_all i es = Inr j"
proof (cases "\<exists>e \<in> set es. may_panic e")
  case True
  then obtain e where "emits c e" "may_panic e" using decide_emits assms by blast
  then have "(\<exists>x. c = ApplyStepResult x) \<or>
     (\<exists>s f l r now. c = ApplyExecutionReceiptResult s f l r now)"
    by (rule emits_may_panic)
  then show ?thesis
    using assms apply_step_result_folds receipt_result_folds by force
next
  case False
  then show ?thesis using apply_all_total by blast
qed


section \<open>Journals\<close>

text \<open>An opening batch of the definition \<open>d\<close> and the state it opens.\<close>

definition opens ::
  "platform \<Rightarrow> ceremony_definition \<Rightarrow> ceremony_event list \<Rightarrow> ceremony_instance \<Rightarrow> bool" where
  "opens env d es i =
     (rehydrate es = Inr i \<and>
      ((\<exists>n ctx recollection now bound lin account.
          decide_opening env n d ctx recollection now bound lin account = Inr es) \<or>
       (\<exists>n digest scheme ctx suc plan now.
          decide_start_successor env n
            \<lparr>pub_definition = d, pub_digest = digest, pub_scheme = scheme\<rparr> ctx suc plan now
          = Inr es)))"

abbreviation ceremony_run ::
  "platform \<Rightarrow> ceremony_definition \<Rightarrow> ceremony_event list \<Rightarrow> ceremony_instance \<Rightarrow> bool" where
  "ceremony_run env d \<equiv> journal_of apply_event (\<lambda>i c. decide env i c d) (opens env d)"

lemma rehydrate_step_apply:
  "\<forall>e \<in> set es. \<not> is_import e \<Longrightarrow> try_fold rehydrate_step i es = try_fold apply_event i es"
proof (induction es arbitrary: i)
  case (Cons e es)
  then show ?case by (cases "apply_event i e") (simp_all add: rehydrate_step_def)
qed simp

lemma rehydrate_append:
  assumes "rehydrate es = Inr i" and "\<forall>e \<in> set es'. \<not> is_import e"
  shows "rehydrate (es @ es') = try_fold apply_event i es'"
proof -
  have fold: "try_fold rehydrate_step k (rest @ es') = try_fold apply_event i es'"
    if "try_fold rehydrate_step k rest = Inr i" for k rest
    using that assms(2) by (simp add: try_fold_append rehydrate_step_apply)
  show ?thesis
  proof (cases es)
    case (Cons e rest)
    with assms(1) show ?thesis
      by (cases e) (simp_all add: rehydrate_def fold)
  qed (use assms(1) in \<open>simp add: rehydrate_def\<close>)
qed

interpretation ceremony: event_sourced apply_event "\<lambda>i c. decide env i c d" "opens env d" rehydrate
  for env d
proof unfold_locales
  show "opens env d es s \<Longrightarrow> rehydrate es = Inr s" for es s
    by (simp add: opens_def)
  show "rehydrate es = Inr s \<Longrightarrow> decide env s c d = Inr es' \<Longrightarrow>
      rehydrate (es @ es') = try_fold apply_event s es'" for es s c es'
    using rehydrate_append decided_not_import by metis
  show "decide env s c d = Inr es' \<Longrightarrow> \<exists>s'. try_fold apply_event s es' = Inr s'" for s c es'
    using decided_folds unfolding apply_all_def .
qed

text \<open>One accepted command, seen through the folded events.\<close>

lemma fold_events_induct [consumes 1, case_names none event]:
  assumes "try_fold apply_event i es = Inr j"
    and "P i"
    and step: "\<And>k e k'. P k \<Longrightarrow> e \<in> set es \<Longrightarrow> apply_event k e = Inr k' \<Longrightarrow> P k'"
  shows "P j"
  by (rule try_fold_invariant [where P = P, OF assms(1) assms(2)]) (rule step)

lemma decide_opening_shape:
  "decide_opening env n d ctx recollection now bound lin account = Inr es \<Longrightarrow>
     \<exists>opened. instance_opening env n d ctx now bound lin account = Inr opened
       \<and> es = opening_batch opened recollection now"
  by (auto simp: decide_opening_def result_simps)

lemma decide_start_successor_shape:
  "decide_start_successor env n \<lparr>pub_definition = d, pub_digest = digest, pub_scheme = scheme\<rparr>
       ctx suc plan now = Inr es \<Longrightarrow>
     \<exists>opened. instance_opening env n d ctx now (Some digest) None None = Inr opened
       \<and> (es = [CeremonyInstanceStarted (opened\<lparr>cis_succession := Some suc\<rparr>)]
          \<or> es = [CeremonyInstanceStarted (opened\<lparr>cis_succession := Some suc\<rparr>),
                   SuccessionCarried (splan_carried plan) now])"
  by (auto simp: decide_start_successor_def result_simps split: if_splits)

lemma opens_shape:
  assumes "opens env d es i"
  obtains opened rest where "es = CeremonyInstanceStarted opened # rest"
    "rest = [] \<and> i = from_started opened \<or>
     (\<exists>r now. rest = [MemoryRecalled r now]
        \<and> i = apply_memory_recalled (from_started opened) r now) \<or>
     (\<exists>cs now. rest = [SuccessionCarried cs now]
        \<and> i = apply_succession_carried (from_started opened) cs now)"
    "cis_definition_name opened = def_name d" "cis_definition_version opened = def_version d"
    "initial_state_id d = Inr (cis_initial_state opened)"
    "cis_step_ids opened = bm_keys (def_steps d)"
proof -
  have started: "cis_definition_name opened = def_name d
      \<and> cis_definition_version opened = def_version d
      \<and> initial_state_id d = Inr (cis_initial_state opened)
      \<and> cis_step_ids opened = bm_keys (def_steps d)"
    if "instance_opening env n d ctx now bound lin account = Inr opened"
    for n ctx now bound lin account opened
    using that by (auto simp: instance_opening_def result_simps split: if_splits)
  from assms have re: "rehydrate es = Inr i" by (simp add: opens_def)
  from assms consider
    (plain) n ctx recollection now bound lin account where
      "decide_opening env n d ctx recollection now bound lin account = Inr es"
  | (successor) n digest scheme ctx suc plan now where
      "decide_start_successor env n
         \<lparr>pub_definition = d, pub_digest = digest, pub_scheme = scheme\<rparr> ctx suc plan now = Inr es"
    by (auto simp: opens_def)
  then show thesis
  proof cases
    case plain
    then obtain opened where o: "instance_opening env n d ctx now bound lin account = Inr opened"
      and es: "es = opening_batch opened recollection now"
      by (drule_tac decide_opening_shape) blast
    note facts = started [OF o]
    show thesis
      by (rule that [of opened "tl es"])
        (use facts re es in
          \<open>auto simp: opening_batch_def rehydrate_def rehydrate_step_def split: option.splits if_splits\<close>)
  next
    case successor
    from decide_start_successor_shape [OF successor] obtain opened where
      o: "instance_opening env n d ctx now (Some digest) None None = Inr opened"
      and es: "es = [CeremonyInstanceStarted (opened\<lparr>cis_succession := Some suc\<rparr>)]
       \<or> es = [CeremonyInstanceStarted (opened\<lparr>cis_succession := Some suc\<rparr>),
                SuccessionCarried (splan_carried plan) now]"
      by (elim exE conjE)
    note facts = started [OF o]
    show thesis
      by (rule that [of "opened\<lparr>cis_succession := Some suc\<rparr>" "tl es"])
        (use facts re es in \<open>auto simp: rehydrate_def rehydrate_step_def\<close>)
  qed
qed

end
