(* ===== verification/Definition_Validity.thy ===== *)
theory Definition_Validity
  imports Definition_Analysis
begin

text \<open>
  What the analysis of a definition amounts to.  The searches of \<open>Definition_Analysis\<close> compute
  reachability in the transition graph; the cycle finder finds a component exactly when the graph
  has a cycle; and a definition validates exactly when it satisfies the declarative predicate
  \<open>definition_ok\<close>, one conjunct per collector that can raise a blocking finding.
\<close>


section \<open>Searches compute reachability\<close>

definition graph :: "ceremony_definition \<Rightarrow> (string \<times> string) set" where
  "graph d = set (edges (def_transitions d))"

lemma search_increasing: "reached \<union> set pending \<subseteq> search es reached pending"
  by (induction es reached pending rule: search.induct) auto

lemma search_sound: "search es reached pending \<subseteq> reached \<union> (set es)\<^sup>* `` set pending"
proof (induction es reached pending rule: search.induct)
  case (2 es reached current pending)
  show ?case
  proof (cases "current \<in> reached")
    case True
    then show ?thesis using 2 by auto
  next
    case False
    have "(set es)\<^sup>* `` set (map snd (filter (\<lambda>e. fst e = current) es)) \<subseteq> (set es)\<^sup>* `` {current}"
      by (auto intro: converse_rtrancl_into_rtrancl)
    with 2(2) [OF False] False show ?thesis by (simp add: Image_Un) blast
  qed
qed simp

lemma search_closed:
  assumes "\<And>a b. a \<in> reached \<Longrightarrow> (a, b) \<in> set es \<Longrightarrow> b \<in> reached \<union> set pending"
    and "a \<in> search es reached pending" and "(a, b) \<in> set es"
  shows "b \<in> search es reached pending"
  using assms
proof (induction es reached pending rule: search.induct)
  case (2 es reached current pending)
  show ?case
  proof (cases "current \<in> reached")
    case True
    then have "\<And>a b. a \<in> reached \<Longrightarrow> (a, b) \<in> set es \<Longrightarrow> b \<in> reached \<union> set pending"
      using "2.prems"(1) by fastforce
    then show ?thesis using True 2(1) "2.prems" by simp
  next
    case False
    have "b \<in> insert current reached \<union>
        set (rev (map snd (filter (\<lambda>e. fst e = current) es)) @ pending)"
      if "a \<in> insert current reached" "(a, b) \<in> set es" for a b
      using that "2.prems"(1) by (cases "a = current") force+
    then show ?thesis using False 2(2) "2.prems" by simp
  qed
qed simp

theorem search_reachable: "search es {} [a] = {b. (a, b) \<in> (set es)\<^sup>*}"
proof
  show "search es {} [a] \<subseteq> {b. (a, b) \<in> (set es)\<^sup>*}"
    using search_sound [of es "{}" "[a]"] by auto
  have "b \<in> search es {} [a]" if "(a, b) \<in> (set es)\<^sup>*" for b
    using that
  proof (induction rule: rtrancl_induct)
    case base
    then show ?case using search_increasing [of "{}" "[a]" es] by auto
  next
    case (step y z)
    then show ?case using search_closed [of "{}" es "[a]" y z] by auto
  qed
  then show "{b. (a, b) \<in> (set es)\<^sup>*} \<subseteq> search es {} [a]" by blast
qed

declare search.simps(2) [simp del]

lemma reachable_from_iff: "b \<in> reachable_from a ts \<longleftrightarrow> (a, b) \<in> (set (edges ts))\<^sup>*"
  by (simp add: reachable_from_def search_reachable)

lemma states_reachable_from_iff: "b \<in> states_reachable_from d a \<longleftrightarrow> (a, b) \<in> (graph d)\<^sup>*"
  by (simp add: states_reachable_from_def search_reachable graph_def)

lemma states_leading_to_iff: "a \<in> states_leading_to d b \<longleftrightarrow> (a, b) \<in> (graph d)\<^sup>*"
proof -
  have "set (map (\<lambda>(a, b). (b, a)) (edges (def_transitions d))) = (graph d)\<inverse>"
    by (auto simp: graph_def)
  then show ?thesis
    by (simp add: states_leading_to_def search_reachable rtrancl_converse)
qed

lemma finish_pass_sound:
  "finish_pass es S \<subseteq> {a. \<exists>b \<in> S. (a, b) \<in> (set es)\<^sup>*}"
proof -
  have "fold (\<lambda>(a, b) S. if b \<in> S \<and> a \<notin> S then insert a S else S) xs T
          \<subseteq> {a. \<exists>b \<in> S. (a, b) \<in> (set es)\<^sup>*}"
    if "set xs \<subseteq> set es" "T \<subseteq> {a. \<exists>b \<in> S. (a, b) \<in> (set es)\<^sup>*}" for xs T
    using that
  proof (induction xs arbitrary: T)
    case (Cons x xs)
    obtain a b where x: "x = (a, b)" by (cases x)
    have "(if b \<in> T \<and> a \<notin> T then insert a T else T) \<subseteq> {a. \<exists>b \<in> S. (a, b) \<in> (set es)\<^sup>*}"
      using Cons.prems x by (auto, blast intro: converse_rtrancl_into_rtrancl)
    then show ?case using Cons x by auto
  qed simp
  then show ?thesis by (auto simp: finish_pass_def)
qed

lemma finish_pass_edge:
  assumes "(a, b) \<in> set es" and "b \<in> S"
  shows "a \<in> finish_pass es S"
proof -
  from assms(1) obtain xs ys where es: "es = xs @ (a, b) # ys" by (meson split_list)
  let ?f = "\<lambda>(a, b) S. if b \<in> S \<and> a \<notin> S then insert a S else S"
  have "b \<in> fold ?f xs S" using assms(2) finish_pass_increasing [of S xs]
    by (auto simp: finish_pass_def)
  then have "a \<in> ?f (a, b) (fold ?f xs S)" by simp
  then have "a \<in> fold ?f ys (?f (a, b) (fold ?f xs S))"
    using finish_pass_increasing [of "?f (a, b) (fold ?f xs S)" ys] by (auto simp: finish_pass_def)
  then show ?thesis by (simp add: finish_pass_def es)
qed

declare finish_loop.simps [simp del]

theorem finish_loop_reaches: "finish_loop es S = {a. \<exists>b \<in> S. (a, b) \<in> (set es)\<^sup>*}"
proof (induction es S rule: finish_loop.induct)
  case (1 es S)
  show ?case
  proof (cases "finish_pass es S = S")
    case True
    have "a \<in> S" if "b \<in> S" "(a, b) \<in> (set es)\<^sup>*" for a b
      using that(2,1) by (induction rule: converse_rtrancl_induct)
        (use finish_pass_edge True in fastforce)+
    then show ?thesis using True by (subst finish_loop.simps) auto
  next
    case False
    have "finish_loop es S = finish_loop es (finish_pass es S)"
      using False by (subst finish_loop.simps) (simp add: Let_def)
    also have "\<dots> = {a. \<exists>b \<in> finish_pass es S. (a, b) \<in> (set es)\<^sup>*}"
      using 1 False by simp
    also have "\<dots> = {a. \<exists>b \<in> S. (a, b) \<in> (set es)\<^sup>*}"
      using finish_pass_sound [of es S] finish_pass_increasing [of S es]
      by (blast intro: rtrancl_trans)
    finally show ?thesis .
  qed
qed

lemma states_that_reach_a_terminal_iff:
  "s \<in> states_that_reach_a_terminal d \<longleftrightarrow>
     (\<exists>(i, st) \<in> set (def_states d). state_is_terminal st \<and> (s, i) \<in> (graph d)\<^sup>*)"
  by (auto simp: states_that_reach_a_terminal_def finish_loop_reaches graph_def)


section \<open>Cycles\<close>

lemma cyclic_component_iff:
  "c \<in> cyclic_component s ts \<longleftrightarrow> (s, c) \<in> (set (edges ts))\<^sup>* \<and> (c, s) \<in> (set (edges ts))\<^sup>*"
  by (auto simp: cyclic_component_def reachable_from_iff)

lemma finite_cyclic_component [simp]: "finite (cyclic_component s ts)"
proof -
  have "cyclic_component s ts \<subseteq> insert s (snd ` set (edges ts))"
  proof
    fix c
    assume "c \<in> cyclic_component s ts"
    then have "(s, c) \<in> (set (edges ts))\<^sup>*" by (simp add: cyclic_component_iff)
    then show "c \<in> insert s (snd ` set (edges ts))" by (cases rule: rtranclE) force+
  qed
  then show ?thesis by (rule finite_subset) simp
qed

definition on_cycle :: "ceremony_transition list \<Rightarrow> string \<Rightarrow> bool" where
  "on_cycle ts s = ((s, s) \<in> (set (edges ts))\<^sup>+)"

lemma on_cycle_first_edge:
  assumes "on_cycle ts s"
  obtains c where "(s, c) \<in> set (edges ts)" and "c \<in> cyclic_component s ts"
proof -
  from assms obtain c where "(s, c) \<in> set (edges ts)" "(c, s) \<in> (set (edges ts))\<^sup>*"
    unfolding on_cycle_def by (meson tranclD)
  then show ?thesis by (intro that) (auto simp: cyclic_component_iff intro: r_into_rtrancl)
qed

lemma self_loop_edge: "has_self_loop s ts \<longleftrightarrow> (s, s) \<in> set (edges ts)"
  by (auto simp: has_self_loop_def edges_def list_ex_iff)

lemma cyclic_component_refl: "s \<in> cyclic_component s ts"
  by (simp add: cyclic_component_iff)

lemma cyclic_component_trivial:
  assumes "\<not> (1 < card (cyclic_component s ts) \<or>
              card (cyclic_component s ts) = 1 \<and> has_self_loop s ts)"
  shows "cyclic_component s ts = {s}" and "\<not> on_cycle ts s"
proof -
  have "card (cyclic_component s ts) \<noteq> 0" using cyclic_component_refl [of s ts] by auto
  with assms have card: "card (cyclic_component s ts) = 1" by linarith
  then show eq: "cyclic_component s ts = {s}"
    using cyclic_component_refl [of s ts] by (metis card_1_singletonE singletonD)
  show "\<not> on_cycle ts s"
  proof
    assume "on_cycle ts s"
    then obtain c where c: "(s, c) \<in> set (edges ts)" "c \<in> cyclic_component s ts"
      by (rule on_cycle_first_edge)
    then have "c = s" using eq by blast
    then have "has_self_loop s ts" using c(1) self_loop_edge by blast
    then show False using assms card by blast
  qed
qed

lemma cyclic_component_nontrivial:
  assumes "1 < card (cyclic_component s ts) \<or>
           card (cyclic_component s ts) = 1 \<and> has_self_loop s ts"
  shows "on_cycle ts s"
  using assms
proof
  assume many: "1 < card (cyclic_component s ts)"
  have "cyclic_component s ts \<noteq> {s}"
  proof
    assume "cyclic_component s ts = {s}"
    then have "card (cyclic_component s ts) = card {s}" by (rule arg_cong)
    with many show False by simp
  qed
  then obtain c where "c \<in> cyclic_component s ts" "c \<noteq> s"
    using cyclic_component_refl [of s ts] by blast
  then have "(s, c) \<in> (set (edges ts))\<^sup>+" and "(c, s) \<in> (set (edges ts))\<^sup>*"
    using cyclic_component_iff [of c s ts] rtranclD [of s c "set (edges ts)"] by blast+
  then show ?thesis unfolding on_cycle_def by (rule trancl_rtrancl_trancl)
next
  assume "card (cyclic_component s ts) = 1 \<and> has_self_loop s ts"
  then have "(s, s) \<in> set (edges ts)" using self_loop_edge by blast
  then show ?thesis unfolding on_cycle_def by (rule r_into_trancl)
qed

declare cyclic_components_loop.simps(2) [simp del]

lemma ball_Cons_known:
  "P s \<Longrightarrow> (\<forall>x \<in> set ss. x \<notin> A \<union> {s} \<longrightarrow> P x) \<longleftrightarrow> (\<forall>x \<in> set (s # ss). x \<notin> A \<longrightarrow> P x)"
  by auto

lemma cyclic_components_loop_Nil:
  "cyclic_components_loop A ss ts = [] \<longleftrightarrow> (\<forall>s \<in> set ss. s \<notin> A \<longrightarrow> \<not> on_cycle ts s)"
proof (induction A ss ts rule: cyclic_components_loop.induct)
  case (2 A s ss ts)
  show ?case
  proof (cases "s \<in> A")
    case True
    then have "cyclic_components_loop A (s # ss) ts = cyclic_components_loop A ss ts"
      by (subst cyclic_components_loop.simps) (rule if_P)
    then show ?thesis using 2(1) [OF True] True by auto
  next
    case False
    show ?thesis
    proof (cases "1 < card (cyclic_component s ts) \<or>
                  card (cyclic_component s ts) = 1 \<and> has_self_loop s ts")
      case True
      then have "cyclic_components_loop A (s # ss) ts \<noteq> []"
        by (subst cyclic_components_loop.simps) (simp only: False if_False Let_def if_True, simp)
      then show ?thesis using False cyclic_component_nontrivial [OF True] by auto
    next
      case trivial: False
      then have "cyclic_components_loop A (s # ss) ts
              = cyclic_components_loop (A \<union> cyclic_component s ts) ss ts"
        by (subst cyclic_components_loop.simps) (simp only: False if_False Let_def)
      also have "\<dots> = [] \<longleftrightarrow> (\<forall>x \<in> set ss. x \<notin> A \<union> {s} \<longrightarrow> \<not> on_cycle ts x)"
        using 2(2) [OF False refl] cyclic_component_trivial(1) [OF trivial] by simp
      also have "\<dots> \<longleftrightarrow> (\<forall>x \<in> set (s # ss). x \<notin> A \<longrightarrow> \<not> on_cycle ts x)"
        by (rule ball_Cons_known) (rule cyclic_component_trivial(2) [OF trivial])
      finally show ?thesis .
    qed
  qed
qed simp

theorem cyclic_components_Nil:
  "cyclic_components states ts = [] \<longleftrightarrow> (\<forall>s \<in> set (bm_keys states). \<not> on_cycle ts s)"
  by (simp add: cyclic_components_def cyclic_components_loop_Nil)

lemma acyclic_iff_no_state_cycle:
  assumes "transition_endpoints_resolve d"
  shows "cyclic_components (def_states d) (def_transitions d) = [] \<longleftrightarrow> acyclic (graph d)"
proof -
  have "s \<in> set (bm_keys (def_states d))" if "on_cycle (def_transitions d) s" for s
    using that
  proof (rule on_cycle_first_edge)
    fix c
    assume "(s, c) \<in> set (edges (def_transitions d))"
    then show ?thesis
      using assms by (auto simp: edges_def transition_endpoints_resolve_def list_all_iff
          bm_contains_def set_bm_keys)
  qed
  moreover have "acyclic (graph d) \<longleftrightarrow> (\<forall>s. \<not> on_cycle (def_transitions d) s)"
    unfolding acyclic_def on_cycle_def graph_def by (rule refl)
  ultimately show ?thesis
    using cyclic_components_Nil [of "def_states d" "def_transitions d"] by metis
qed


section \<open>A definition validates exactly when it is well formed\<close>

definition unblocked :: "finding list \<Rightarrow> bool" where
  "unblocked fs = (\<forall>f \<in> set fs. \<not> is_blocking f)"

lemma unblocked_simps [simp]:
  "unblocked []"
  "unblocked (error_finding l e # fs) = False"
  "unblocked (warning_finding l e # fs) = unblocked fs"
  "unblocked (xs @ ys) \<longleftrightarrow> unblocked xs \<and> unblocked ys"
  "unblocked (concat (map g zs)) \<longleftrightarrow> (\<forall>z \<in> set zs. unblocked (g z))"
  by (auto simp: unblocked_def is_blocking_def error_finding_def warning_finding_def)

lemma unblocked_if [simp]:
  "unblocked (if b then [error_finding l e] else []) \<longleftrightarrow> \<not> b"
  "unblocked (if b then [] else [error_finding l e]) \<longleftrightarrow> b"
  "unblocked (if b then [warning_finding l e] else [])"
  "unblocked (if b then [] else [warning_finding l e])"
  by simp_all

lemma validate_unblocked: "validate d = Inr () \<longleftrightarrow> unblocked (analyze d)"
  by (auto simp: validate_def first_error_def unblocked_def find_None_iff find_Some_iff
      split: option.splits)

definition one_initial :: "ceremony_definition \<Rightarrow> bool" where
  "one_initial d = (length (filter state_is_initial (bm_values (def_states d))) = 1)"

definition transition_ok :: "ceremony_definition \<Rightarrow> ceremony_transition \<Rightarrow> bool" where
  "transition_ok d t =
     ((\<exists>s. bm_get (def_states d) (t_from t) = Some s \<and> \<not> state_is_terminal s) \<and>
      bm_contains (def_states d) (t_to t) \<and>
      (\<forall>name \<in> set (t_required_guards t). \<exists>g. bm_get (def_guards d) name = Some g \<and>
         (\<forall>step_id step. guard_condition g = StepRepeatExhausted step_id \<longrightarrow>
            bm_get (def_steps d) step_id = Some step \<longrightarrow> cs_state_id step = t_from t)))"

definition transitions_ok :: "ceremony_definition \<Rightarrow> bool" where
  "transitions_ok d =
     ((\<forall>t \<in> set (def_transitions d). transition_ok d t) \<and>
      distinct (map (\<lambda>t. (t_from t, t_trigger t)) (def_transitions d)))"

definition cycles_budgeted :: "ceremony_definition \<Rightarrow> bool" where
  "cycles_budgeted d =
     (acyclic (graph d) \<or> def_max_transitions d \<noteq> None \<or> def_max_bounces d \<noteq> None)"

definition step_ok :: "ceremony_definition \<Rightarrow> string \<Rightarrow> ceremony_step \<Rightarrow> bool" where
  "step_ok d step_id step =
     ((\<exists>s. bm_get (def_states d) (cs_state_id step) = Some s \<and> \<not> state_is_terminal s) \<and>
      (cs_spawn step \<noteq> None \<longrightarrow> cs_repeat_policy step = None \<and> cs_aggregation step = None) \<and>
      (\<forall>b. cs_dynamic_role_binding step = Some b \<longrightarrow>
         drb_allowed_roles b \<noteq> [] \<and>
         (\<forall>rid \<in> set (drb_allowed_roles b). role_allows d rid (StepAction step_id))))"

definition aggregate_ok :: "ceremony_definition \<Rightarrow> ceremony_step \<Rightarrow> bool" where
  "aggregate_ok d step =
     (\<forall>dest. bm_get (def_states d) (cs_state_id step) = Some dest \<longrightarrow>
        \<not> state_is_initial dest \<and> st_execution dest = Sequential \<and>
        find (\<lambda>c. case bm_get (def_steps d) c of
                    None \<Rightarrow> False | Some x \<Rightarrow> cs_state_id x = cs_state_id step)
          (def_step_order d) = Some (cs_id step) \<and>
        Option.bind (bm_get (cs_handler_config step) ''see_prior'') as_bool = Some True \<and>
        (\<exists>t. filter (\<lambda>t. t_to t = cs_state_id step) (def_transitions d) = [t] \<and>
           t_from t \<noteq> t_to t \<and>
           (\<forall>p. bm_get (def_states d) (t_from t) = Some p \<longrightarrow>
              st_execution p = Concurrent \<and>
              requires_every_sibling d t
                (filter (\<lambda>c. cs_state_id c = st_id p) (bm_values (def_steps d))))))"

definition state_repeat_ok :: "ceremony_definition \<Rightarrow> ceremony_state \<Rightarrow> bool" where
  "state_repeat_ok d state =
     (\<forall>policy. st_repeat state = Some policy \<longrightarrow>
        (\<exists>step. bm_get (def_steps d) (state_repeat_step_id (state_repeat_until_condition policy))
                  = Some step \<and> cs_state_id step = st_id state))"

definition guard_ok :: "ceremony_definition \<Rightarrow> ceremony_guard \<Rightarrow> bool" where
  "guard_ok d g =
     ((\<forall>step_id. referenced_step_id (guard_condition g) = Some step_id \<longrightarrow>
         (\<exists>step. bm_get (def_steps d) step_id = Some step \<and>
            (guard_condition g = StepRepeatExhausted step_id \<longrightarrow> cs_repeat_policy step \<noteq> None) \<and>
            (\<forall>join. guard_condition g = ChildrenCompleted step_id join \<longrightarrow>
               (\<exists>spawn. cs_spawn step = Some spawn \<and>
                  (\<forall>count. join = JoinQuorum count \<longrightarrow>
                     unat count \<le> length (spawn_children spawn)))))) \<and>
      (\<forall>state_id. guard_condition g = StateRepeatExhausted state_id \<longrightarrow>
         (\<exists>s. bm_get (def_states d) state_id = Some s \<and> st_repeat s \<noteq> None)))"

definition exhaustion_routed :: "ceremony_definition \<Rightarrow> ceremony_transition \<Rightarrow> bool" where
  "exhaustion_routed d t =
     (\<forall>name \<in> set (t_required_guards t). \<not> guard_exhausts_other d name (t_from t))"

definition role_ok :: "ceremony_definition \<Rightarrow> ceremony_role \<Rightarrow> bool" where
  "role_ok d r =
     (\<forall>action \<in> set (role_allowed_actions r).
        (\<forall>step_id. action = StepAction step_id \<longrightarrow> bm_contains (def_steps d) step_id) \<and>
        (\<forall>trigger. action = TransitionAction trigger \<longrightarrow>
           (\<exists>t \<in> set (def_transitions d). t_trigger t = trigger)))"

definition concurrent_ok :: "ceremony_definition \<Rightarrow> ceremony_state \<Rightarrow> bool" where
  "concurrent_ok d state =
     (st_execution state = Concurrent \<longrightarrow>
       (let steps = filter (\<lambda>s. cs_state_id s = st_id state) (bm_values (def_steps d));
            outgoing = filter (\<lambda>t. t_from t = st_id state) (def_transitions d)
        in distinct (static_owners d steps) \<and>
           (\<exists>t \<in> set outgoing. transition_has_join d t steps) \<and>
           (\<forall>t \<in> set outgoing. \<forall>g \<in> set (required_guards_of d t). \<forall>count.
              guard_condition g = StepsCompleted count \<longrightarrow> unat count \<le> length steps)))"

definition definition_ok :: "ceremony_definition \<Rightarrow> bool" where
  "definition_ok d =
     (one_initial d \<and> transitions_ok d \<and> cycles_budgeted d \<and>
      (\<forall>(i, s) \<in> set (def_steps d). step_ok d i s) \<and>
      (\<forall>s \<in> set (bm_values (def_steps d)). cs_aggregation s \<noteq> None \<longrightarrow> aggregate_ok d s) \<and>
      (\<forall>s \<in> set (bm_values (def_states d)). state_repeat_ok d s \<and> concurrent_ok d s) \<and>
      (\<forall>g \<in> set (bm_values (def_guards d)). guard_ok d g) \<and>
      (\<forall>t \<in> set (def_transitions d). exhaustion_routed d t) \<and>
      (\<forall>r \<in> set (bm_values (def_roles d)). role_ok d r))"

lemma initial_findings_ok: "unblocked (collect_initial_state_findings d) \<longleftrightarrow> one_initial d"
  by (auto simp: collect_initial_state_findings_def one_initial_def bm_values_def)

lemma transition_guard_finding_ok:
  "unblocked (transition_guard_finding d t name) \<longleftrightarrow>
     (\<exists>g. bm_get (def_guards d) name = Some g \<and>
        (\<forall>step_id step. guard_condition g = StepRepeatExhausted step_id \<longrightarrow>
           bm_get (def_steps d) step_id = Some step \<longrightarrow> cs_state_id step = t_from t))"
  by (auto simp: transition_guard_finding_def split: option.splits guard_condition.splits)

lemma transition_graph_loop_ok:
  "unblocked (transition_graph_loop d seen ts) \<longleftrightarrow>
     (\<forall>t \<in> set ts. transition_ok d t) \<and>
     distinct (map (\<lambda>t. (t_from t, t_trigger t)) ts) \<and>
     (\<lambda>t. (t_from t, t_trigger t)) ` set ts \<inter> seen = {}"
proof (induction ts arbitrary: seen)
  case (Cons t ts)
  show ?case
    by (auto simp: Cons Let_def transition_ok_def transition_guard_finding_ok
        split: option.splits)
qed simp

lemma transition_findings_ok:
  "unblocked (collect_transition_graph_findings d) \<longleftrightarrow> transitions_ok d"
  by (auto simp: collect_transition_graph_findings_def transitions_ok_def transition_graph_loop_ok)

lemma transitions_ok_endpoints: "transitions_ok d \<Longrightarrow> transition_endpoints_resolve d"
  by (auto simp: transitions_ok_def transition_ok_def transition_endpoints_resolve_def
      list_all_iff bm_contains_def)

lemma cycle_findings_ok:
  "transitions_ok d \<Longrightarrow> unblocked (collect_cycle_findings d) \<longleftrightarrow> cycles_budgeted d"
  using acyclic_iff_no_state_cycle [OF transitions_ok_endpoints, of d]
  by (auto simp: collect_cycle_findings_def cycles_budgeted_def transitions_ok_endpoints Let_def)

lemma step_findings_ok: "unblocked (step_findings d i s) \<longleftrightarrow> step_ok d i s"
  by (auto simp: step_findings_def step_ok_def dynamic_role_findings_def role_allows_def
      split: option.splits)

lemma aggregate_predecessor_findings_ok:
  "unblocked (aggregate_predecessor_findings d step) \<longleftrightarrow>
     (\<exists>t. filter (\<lambda>t. t_to t = cs_state_id step) (def_transitions d) = [t] \<and>
        t_from t \<noteq> t_to t \<and>
        (\<forall>p. bm_get (def_states d) (t_from t) = Some p \<longrightarrow>
           st_execution p = Concurrent \<and>
           requires_every_sibling d t
             (filter (\<lambda>c. cs_state_id c = st_id p) (bm_values (def_steps d)))))"
  by (auto simp: aggregate_predecessor_findings_def aggregate_error_def
      split: list.splits option.splits)

lemma aggregation_findings_ok: "unblocked (aggregation_findings d step) \<longleftrightarrow> aggregate_ok d step"
  by (cases "bm_get (def_states d) (cs_state_id step)")
     (auto simp: aggregation_findings_def aggregate_ok_def aggregate_predecessor_findings_ok
        aggregate_error_def state_execution.exhaust)

lemma state_repeat_findings_ok:
  "unblocked (collect_state_repeat_findings d) \<longleftrightarrow>
     (\<forall>s \<in> set (bm_values (def_states d)). state_repeat_ok d s)"
proof -
  have "unblocked (case st_repeat s of None \<Rightarrow> [] | Some policy \<Rightarrow>
      (case bm_get (def_steps d) (state_repeat_step_id (state_repeat_until_condition policy)) of
         None \<Rightarrow> [error_finding (StateLocus (st_id s)) (NotFound e1)]
       | Some step \<Rightarrow> if cs_state_id step \<noteq> st_id s
           then [error_finding (StateLocus (st_id s)) (InvariantViolated e2)] else []))
      \<longleftrightarrow> state_repeat_ok d s" for s e1 e2
    by (cases "st_repeat s") (auto simp: state_repeat_ok_def split: option.splits)
  then show ?thesis by (simp add: collect_state_repeat_findings_def)
qed

lemma bm_values_pairs: "(\<forall>x \<in> set (bm_values m). P x) \<longleftrightarrow> (\<forall>(k, x) \<in> set m. P x)"
  by (auto simp: bm_values_def)

lemma guard_findings_ok:
  "unblocked (guard_findings d n g) \<and> unblocked (exhausted_guard_findings d n g) \<longleftrightarrow> guard_ok d g"
  by (cases "guard_condition g")
     (auto simp: guard_findings_def exhausted_guard_findings_def guard_ok_def
       split: option.splits child_join.splits)

lemma role_findings_ok:
  "unblocked (collect_role_findings d) \<longleftrightarrow> (\<forall>r \<in> set (bm_values (def_roles d)). role_ok d r)"
proof -
  have "unblocked ((case action_step_id a of None \<Rightarrow> [] | Some step_id \<Rightarrow>
            if bm_contains (def_steps d) step_id then []
            else [error_finding (RoleLocus rid) (NotFound e1)])
       @ (case action_transition_trigger a of None \<Rightarrow> [] | Some trigger \<Rightarrow>
              if trigger \<in> set (map t_trigger (def_transitions d)) then []
              else [error_finding (RoleLocus rid) (NotFound e2)]))
    \<longleftrightarrow> (\<forall>step_id. a = StepAction step_id \<longrightarrow> bm_contains (def_steps d) step_id) \<and>
        (\<forall>trigger. a = TransitionAction trigger \<longrightarrow>
           (\<exists>t \<in> set (def_transitions d). t_trigger t = trigger))" for a rid e1 e2
    by (cases a) auto
  then show ?thesis
    unfolding bm_values_pairs collect_role_findings_def role_ok_def unblocked_simps
    by (simp add: case_prod_unfold)
qed

lemma steps_completed_bound:
  "(\<forall>name \<in> set (t_required_guards t).
      unblocked (case bm_get (def_guards d) name of
          None \<Rightarrow> []
        | Some g \<Rightarrow> (case guard_condition g of
            StepsCompleted count \<Rightarrow>
              if n < unat count then [error_finding (l name) (e count)] else []
          | _ \<Rightarrow> [])))
   \<longleftrightarrow> (\<forall>g \<in> set (required_guards_of d t). \<forall>count.
          guard_condition g = StepsCompleted count \<longrightarrow> unat count \<le> n)"
proof -
  have "unblocked (case bm_get (def_guards d) name of
          None \<Rightarrow> []
        | Some g \<Rightarrow> (case guard_condition g of
            StepsCompleted count \<Rightarrow>
              if n < unat count then [error_finding (l name) (e count)] else []
          | _ \<Rightarrow> []))
      \<longleftrightarrow> (\<forall>g. bm_get (def_guards d) name = Some g \<longrightarrow>
            (\<forall>count. guard_condition g = StepsCompleted count \<longrightarrow> unat count \<le> n))" for name
    by (auto split: option.splits guard_condition.splits simp: not_less)
  then show ?thesis
    by (auto simp: required_guards_of_def List.map_filter_def)
qed

lemma concurrent_findings_ok:
  "unblocked (concurrent_state_findings d s) \<longleftrightarrow>
     (st_execution s = Concurrent \<longrightarrow> concurrent_ok d s)" if "st_execution s = Concurrent"
  using that
  by (simp add: concurrent_state_findings_def concurrent_ok_def Let_def steps_completed_bound
      list_ex_iff)

lemma warnings_only:
  "unblocked (collect_reachability_findings d)"
  "unblocked (collect_global_completion_findings d)"
  by (auto simp: collect_reachability_findings_def collect_global_completion_findings_def Let_def
      split: option.splits)

lemma exhaustion_findings_ok:
  "unblocked (collect_guard_findings d) \<and> unblocked (collect_state_repeat_exhaustion_findings d) \<longleftrightarrow>
     (\<forall>g \<in> set (bm_values (def_guards d)). guard_ok d g) \<and>
     (\<forall>t \<in> set (def_transitions d). exhaustion_routed d t)"
proof -
  have "(\<forall>g \<in> set (bm_values (def_guards d)). guard_ok d g) \<longleftrightarrow>
      (\<forall>(n, g) \<in> set (def_guards d). unblocked (guard_findings d n g)) \<and>
      (\<forall>(n, g) \<in> set (def_guards d). unblocked (exhausted_guard_findings d n g))"
    unfolding bm_values_pairs using guard_findings_ok by fast
  then show ?thesis
    by (simp add: collect_guard_findings_def collect_state_repeat_exhaustion_findings_def
        exhaustion_routed_def list_ex_iff case_prod_unfold)
qed

lemma validate_ok: "validate d = Inr () \<longleftrightarrow> definition_ok d"
proof -
  have steps: "unblocked (collect_step_findings d) \<longleftrightarrow> (\<forall>(i, s) \<in> set (def_steps d). step_ok d i s)"
    by (auto simp: collect_step_findings_def step_findings_ok case_prod_unfold)
  have aggregates: "unblocked (collect_aggregation_findings d) \<longleftrightarrow>
      (\<forall>s \<in> set (bm_values (def_steps d)). cs_aggregation s \<noteq> None \<longrightarrow> aggregate_ok d s)"
    by (auto simp: collect_aggregation_findings_def aggregation_findings_ok)
  have concurrent: "unblocked (collect_concurrent_state_findings d) \<longleftrightarrow>
      (\<forall>s \<in> set (bm_values (def_states d)). concurrent_ok d s)"
    by (auto simp: collect_concurrent_state_findings_def concurrent_findings_ok)
       (auto simp: concurrent_ok_def)
  show ?thesis
    unfolding validate_unblocked analyze_def unblocked_simps definition_ok_def
    using initial_findings_ok [of d] transition_findings_ok [of d] cycle_findings_ok [of d]
      state_repeat_findings_ok [of d] exhaustion_findings_ok [of d] role_findings_ok [of d]
      warnings_only [of d] steps aggregates concurrent
    by blast
qed

lemma cyclic_component_eq:
  "x \<in> cyclic_component s ts \<Longrightarrow> cyclic_component x ts = cyclic_component s ts"
  by (auto simp: cyclic_component_iff intro: rtrancl_trans)

lemma nontrivial_component_iff:
  "1 < card (cyclic_component s ts) \<or> card (cyclic_component s ts) = 1 \<and> has_self_loop s ts
     \<longleftrightarrow> on_cycle ts s"
  using cyclic_component_trivial(2) [of s ts] cyclic_component_nontrivial [of s ts] by blast

lemma cyclic_components_loop_exact:
  assumes "\<forall>x \<in> A. cyclic_component x ts \<subseteq> A"
  shows "set (cyclic_components_loop A ss ts)
      = {cyclic_component s ts | s. s \<in> set ss \<and> s \<notin> A \<and> on_cycle ts s}
    \<and> distinct (cyclic_components_loop A ss ts)"
  using assms
proof (induction A ss ts rule: cyclic_components_loop.induct)
  case (2 A s ss ts)
  show ?case
  proof (cases "s \<in> A")
    case True
    then have "cyclic_components_loop A (s # ss) ts = cyclic_components_loop A ss ts"
      by (subst cyclic_components_loop.simps) (rule if_P)
    with 2(1) [OF True "2.prems"] True show ?thesis by auto
  next
    case False
    let ?C = "cyclic_component s ts"
    let ?rest = "cyclic_components_loop (A \<union> ?C) ss ts"
    have loop: "cyclic_components_loop A (s # ss) ts = (if on_cycle ts s then ?C # ?rest else ?rest)"
      using False by (subst cyclic_components_loop.simps)
        (simp only: if_False Let_def nontrivial_component_iff)
    have closed: "\<forall>x \<in> A \<union> ?C. cyclic_component x ts \<subseteq> A \<union> ?C"
      using "2.prems" cyclic_component_eq [of _ s ts] by blast
    note IH = 2(2) [OF False refl closed]
    have alone: "?C = {s}" if "\<not> on_cycle ts s"
      using that cyclic_component_trivial(1) [of s ts] nontrivial_component_iff [of s ts] by blast
    have "?C \<notin> set ?rest" using IH cyclic_component_refl by blast
    moreover have "{cyclic_component x ts | x. x \<in> set (s # ss) \<and> x \<notin> A \<and> on_cycle ts x}
        = (if on_cycle ts s then insert ?C (set ?rest) else set ?rest)"
    proof (cases "on_cycle ts s")
      case True
      have "cyclic_component x ts = ?C" if "x \<in> ?C" for x using that by (rule cyclic_component_eq)
      with IH True False show ?thesis by auto
    next
      case off: False
      with IH alone [OF off] show ?thesis by auto
    qed
    ultimately show ?thesis using IH loop by (simp split: if_splits)
  qed
qed simp

lemma cyclic_components_exact:
  "distinct (cyclic_components states ts)"
  "set (cyclic_components states ts)
     = {cyclic_component s ts | s. s \<in> set (bm_keys states) \<and> on_cycle ts s}"
  using cyclic_components_loop_exact [of "{}" ts "bm_keys states"]
  by (simp_all add: cyclic_components_def)

text \<open>
  C2: the validation of \<open>CeremonyDefinition::new\<close> accepts a definition exactly when it is well
  formed: one initial state, transitions between declared states that leave no terminal state, a
  budget when the graph has a cycle, and steps, aggregations, repeat policies, guards, roles and
  concurrent states that each satisfy their rule.
\<close>

theorem validate_iff_definition_ok: "validate d = Inr () \<longleftrightarrow> definition_ok d"
  by (rule validate_ok)

text \<open>
  C32: the graph searches of the analysis are exact.  The work list of \<open>reachable_from\<close> returns the
  states a state can reach, the passes of \<open>states_that_reach_a_terminal\<close> the states that can reach a
  terminal one, and \<open>cyclic_components\<close> lists each strongly connected component of a declared state
  that lies on a cycle, exactly once.
\<close>

theorem graph_searches_exact:
  "(b \<in> states_reachable_from d a \<longleftrightarrow> (a, b) \<in> (graph d)\<^sup>*)
   \<and> (a \<in> states_that_reach_a_terminal d \<longleftrightarrow>
        (\<exists>(i, st) \<in> set (def_states d). state_is_terminal st \<and> (a, i) \<in> (graph d)\<^sup>*))
   \<and> distinct (cyclic_components (def_states d) (def_transitions d))
   \<and> set (cyclic_components (def_states d) (def_transitions d)) =
       {{x. (s, x) \<in> (graph d)\<^sup>* \<and> (x, s) \<in> (graph d)\<^sup>*} | s.
          s \<in> set (bm_keys (def_states d)) \<and> (s, s) \<in> (graph d)\<^sup>+}"
proof -
  have "cyclic_component s (def_transitions d) = {x. (s, x) \<in> (graph d)\<^sup>* \<and> (x, s) \<in> (graph d)\<^sup>*}" for s
    by (auto simp: cyclic_component_iff graph_def)
  then show ?thesis
    using states_reachable_from_iff states_that_reach_a_terminal_iff
    by (simp add: cyclic_components_exact on_cycle_def graph_def)
qed

end
