(* ===== verification/Run_Invariants.thy ===== *)
theory Run_Invariants
  imports Ceremony_Run Definition_Validity
begin

text \<open>
  Invariants of every journal a ceremony can have, by induction over the accepted commands: the
  recorded transitions form a walk in the definition's graph, the visit counter counts them, the
  budgets of the definition bound them, the idempotency keys of the claims are pairwise distinct,
  and an ended ceremony is frozen.
\<close>


section \<open>Well-formed definitions\<close>

text \<open>What the constructor of a definition guarantees about its maps.\<close>

definition definition_wf :: "ceremony_definition \<Rightarrow> bool" where
  "definition_wf d =
     (bm_wf (def_states d) \<and> (\<forall>(k, s) \<in> set (def_states d). st_id s = k)
      \<and> bm_wf (def_steps d) \<and> (\<forall>(k, s) \<in> set (def_steps d). cs_id s = k)
      \<and> bm_wf (def_guards d) \<and> (\<forall>(k, g) \<in> set (def_guards d). guard_name g = k)
      \<and> bm_wf (def_roles d) \<and> (\<forall>(k, r) \<in> set (def_roles d). role_id r = k)
      \<and> distinct (def_step_order d) \<and> set (bm_keys (def_steps d)) \<subseteq> set (def_step_order d))"

lemma collect_unique_keys:
  assumes "collect_unique what key xs = Inr m"
  shows "bm_wf m \<and> (\<forall>(k, x) \<in> set m. key x = k)"
proof -
  have wf: "bm_wf m" by (rule collect_unique_get(1) [OF assms])
  moreover have "key x = k" if "(k, x) \<in> set m" for k x
    using bm_get_of_member [OF wf that] collect_unique_get(3) [OF assms, of k]
    by (auto simp: find_Some_iff)
  ultimately show ?thesis by auto
qed

lemma definition_new_facts:
  assumes "definition_new name version description inputs outputs states transitions steps guards
    roles max_transitions max_bounces = Inr d"
  shows "definition_wf d" and "validate d = Inr ()"
    and "steps_in_declaration_order d = steps"
proof -
  from assms obtain ins outs sts stps order gs rs where
    "collect_states states = Inr sts" "collect_steps steps = Inr (stps, order)"
    "collect_guards guards = Inr gs" "collect_roles roles = Inr rs"
    and d: "d = \<lparr>def_name = name, def_version = version, def_description = description,
                def_inputs = ins, def_outputs = outs, def_states = sts,
                def_transitions = transitions, def_steps = stps, def_step_order = order,
                def_guards = gs, def_roles = rs, def_max_parallel = MAX_PARALLEL_DEFAULT,
                def_max_transitions = max_transitions, def_max_bounces = max_bounces,
                def_ceremony_timeout = None, def_state_timeout = None\<rparr>"
    and "validate d = Inr ()"
    by (auto simp: definition_new_def result_simps Let_def)
  moreover from this have stps: "collect_unique ''ceremony_step'' cs_id steps = Inr stps"
    "order = map cs_id steps"
    by (auto simp: collect_steps_def result_simps)
  moreover from stps(1) have "distinct (map cs_id steps)" by (rule collect_unique_get(2))
  moreover have "set (bm_keys stps) \<subseteq> set (map cs_id steps)"
    using collect_unique_get(3) [OF stps(1)] by (auto simp: set_bm_keys find_Some_iff)
  ultimately show "definition_wf d" "validate d = Inr ()" "steps_in_declaration_order d = steps"
    using steps_in_declaration_order_collect
    by (auto simp: definition_wf_def collect_states_def collect_guards_def collect_roles_def
        dest!: collect_unique_keys)
qed

lemma initial_not_terminal:
  assumes "definition_wf d" and "initial_state_id d = Inr s"
  shows "\<not> is_terminal_state d s"
proof -
  from assms(2) obtain st where st: "st \<in> set (bm_values (def_states d))" "state_is_initial st"
    "s = st_id st"
    by (auto simp: initial_state_id_def find_Some_iff split: option.splits)
      (metis nth_mem)
  then obtain k where "(k, st) \<in> set (def_states d)" by (auto simp: bm_values_def)
  with assms(1) have "k = st_id st" and "bm_get (def_states d) (st_id st) = Some st"
    by (auto simp: definition_wf_def intro: bm_get_of_member)
  with st show ?thesis
    by (simp add: is_terminal_state_def state_is_initial_def state_is_terminal_def)
qed


section \<open>What one accepted command does to the state machine\<close>

lemma fold_no_transition:
  assumes "try_fold apply_event i es = Inr j"
    and "\<forall>e \<in> set es. \<not> is_import e \<and> transition_of e = None \<and> visit_of e = None
           \<and> (\<forall>x. completed_after e x = x)"
  shows "ci_transitions j = ci_transitions i \<and> ci_current_state j = ci_current_state i
    \<and> ci_current_state_visit j = ci_current_state_visit i
    \<and> ci_completed_at j = ci_completed_at i"
  using assms(1)
  by (induction rule: fold_events_induct)
    (use assms(2) in \<open>auto simp: effect_transitions effect_current_state effect_visit
      effect_completed_at\<close>)

lemma emits_no_transition:
  assumes "emits c e" and "\<forall>rid trigger now. c \<noteq> ApplyTransition rid trigger now"
  shows "\<not> is_import e \<and> transition_of e = None \<and> visit_of e = None
    \<and> (\<forall>x. completed_after e x = x)"
  using assms by (cases c; cases e) auto

lemma apply_transition_event:
  assumes "apply_event i (TransitionApplied t (Some v)) = Inr j"
  shows "ci_transitions j = ci_transitions i @ [t]" "ci_current_state j = tr_to_state t"
    "ci_current_state_visit j = sve_state_visit v" "ci_completed_at j = ci_completed_at i"
    "ci_interventions j = ci_interventions i"
  using assms by (auto simp: apply_transition_applied_def)

lemma command_step:
  assumes "decide env i c d = Inr es" and "try_fold apply_event i es = Inr j"
  obtains (stay) "ci_transitions j = ci_transitions i" "ci_current_state j = ci_current_state i"
      "ci_current_state_visit j = ci_current_state_visit i"
      "ci_completed_at j = ci_completed_at i"
  | (move) rid trigger now t visit deadline where "c = ApplyTransition rid trigger now"
      "transition_admitted env i rid trigger now d t visit deadline"
      "ci_transitions j = ci_transitions i @ [transition_taken i rid t now]"
      "ci_current_state j = t_to t" "ci_current_state_visit j = visit"
      "ci_completed_at j =
         (if is_terminal_state d (t_to t) then Some now else ci_completed_at i)"
      "ci_interventions j = ci_interventions i"
proof (cases "\<exists>rid trigger now. c = ApplyTransition rid trigger now")
  case True
  then obtain rid trigger now where c: "c = ApplyTransition rid trigger now" by blast
  with assms(1) obtain t visit deadline where
    adm: "transition_admitted env i rid trigger now d t visit deadline" and
    es: "es = TransitionApplied (transition_taken i rid t now)
               (Some (visit_entry d (t_to t) visit deadline)) #
             (if is_terminal_state d (t_to t) then [CeremonyCompleted (t_to t) now] else [])"
    by (auto simp: decide_apply_transition_iff)
  show thesis
    by (rule move [OF c adm])
      (use assms(2) es in \<open>auto simp: apply_transition_applied_def apply_ceremony_completed_def
        transition_taken_def visit_entry_def split: if_splits\<close>)
next
  case False
  have "\<forall>e \<in> set es. \<not> is_import e \<and> transition_of e = None \<and> visit_of e = None
           \<and> (\<forall>x. completed_after e x = x)"
    using emits_no_transition decide_emits [OF assms(1)] False by blast
  from fold_no_transition [OF assms(2) this] show thesis
    by (intro stay) simp_all
qed

lemma opens_facts:
  assumes "opens env d es i"
  shows "matches_definition i d" "initial_state_id d = Inr (ci_current_state i)"
    "ci_transitions i = []" "ci_current_state_visit i = FIRST" "ci_completed_at i = None"
    "ci_interventions i = []" "ci_idempotency_keys i = {}" "ci_lifecycle i = lifecycle_default"
    "ci_successor_plan i = None" "ci_guard_approvals i = []"
    "set (List.map_filter started_key es) = {}"
  using assms
  by (auto elim!: opens_shape simp: from_started_def apply_memory_recalled_def
      apply_succession_carried_def matches_definition_def List.map_filter_simps)


section \<open>The walk through the definition\<close>

text \<open>\<open>walk d s ts s'\<close>: the recorded transitions \<open>ts\<close> lead from \<open>s\<close> to \<open>s'\<close> along edges of \<open>d\<close>.\<close>

fun walk :: "ceremony_definition \<Rightarrow> string \<Rightarrow> transition_record list \<Rightarrow> string \<Rightarrow> bool" where
  "walk d s [] s' = (s = s')"
| "walk d s (t # ts) s' =
     (tr_from_state t = s
      \<and> (\<exists>e \<in> set (def_transitions d). t_from e = s \<and> t_trigger e = tr_trigger t
            \<and> t_to e = tr_to_state t)
      \<and> walk d (tr_to_state t) ts s')"

lemma walk_snoc:
  "walk d s ts u \<Longrightarrow> tr_from_state t = u \<Longrightarrow> e \<in> set (def_transitions d) \<Longrightarrow> t_from e = u \<Longrightarrow>
     t_trigger e = tr_trigger t \<Longrightarrow> t_to e = tr_to_state t \<Longrightarrow> walk d s (ts @ [t]) (tr_to_state t)"
  by (induction ts arbitrary: s) auto

lemma transition_admitted_edge:
  assumes "transition_admitted env i rid trigger now d t visit deadline"
  shows "t \<in> set (def_transitions d)" "t_from t = ci_current_state i" "t_trigger t = trigger"
    "require_transition_budget i d t = Inr ()" "\<not> is_terminal i d" "matches_definition i d"
    "unat visit = Suc (unat (ci_current_state_visit i))"
    "require_interventions_resolved_before_entering i d (t_to t) = Inr ()"
  using assms
  by (auto simp: transition_admitted_def transition_is_enabled_at_def transition_is_enabled_def
      transition_requirements_are_satisfied_def state_visit_next_Inr
      dest: transition_for_trigger_Some)

definition edge_count :: "transition_record list \<Rightarrow> string \<times> string \<times> string \<Rightarrow> nat" where
  "edge_count ts = (\<lambda>(a, trigger, b).
     length (filter (\<lambda>t. tr_from_state t = a \<and> tr_trigger t = trigger \<and> tr_to_state t = b) ts))"

definition machine_inv :: "ceremony_definition \<Rightarrow> ceremony_instance \<Rightarrow> bool" where
  "machine_inv d i =
     (matches_definition i d
      \<and> (\<exists>s. initial_state_id d = Inr s \<and> walk d s (ci_transitions i) (ci_current_state i))
      \<and> unat (ci_current_state_visit i) = Suc (length (ci_transitions i))
      \<and> (\<forall>n. def_max_transitions d = Some n \<longrightarrow> length (ci_transitions i) \<le> unat n)
      \<and> (\<forall>n e. def_max_bounces d = Some n \<longrightarrow> edge_count (ci_transitions i) e \<le> unat n))"

lemma machine_invD:
  assumes "machine_inv d i"
  shows "matches_definition i d"
    and "\<exists>s. initial_state_id d = Inr s \<and> walk d s (ci_transitions i) (ci_current_state i)"
    and "unat (ci_current_state_visit i) = Suc (length (ci_transitions i))"
    and "def_max_transitions d = Some n \<Longrightarrow> length (ci_transitions i) \<le> unat n"
    and "def_max_bounces d = Some n \<Longrightarrow> edge_count (ci_transitions i) e \<le> unat n"
  using assms unfolding machine_inv_def by blast+

lemma exact_edge_count_edge_count:
  "exact_edge_count i t = edge_count (ci_transitions i) (t_from t, t_trigger t, t_to t)"
  by (simp add: exact_edge_count_def edge_count_def)

lemma matches_definition_after:
  assumes "try_fold apply_event i es = Inr j" and "\<forall>e \<in> set es. \<not> is_import e"
  shows "matches_definition j d = matches_definition i d" and "ci_id j = ci_id i"
proof -
  have "matches_definition j d = matches_definition i d \<and> ci_id j = ci_id i"
    using assms(1)
    by (induction rule: fold_events_induct)
      (use assms(2) effect_constants in \<open>auto simp: matches_definition_def\<close>)
  then show "matches_definition j d = matches_definition i d" and "ci_id j = ci_id i" by auto
qed

lemma decided_no_imports: "decide env i c d = Inr es \<Longrightarrow> \<forall>e \<in> set es. \<not> is_import e"
  by (blast dest: decided_not_import)

lemma machine_inv_opens:
  assumes "opens env d es i"
  shows "machine_inv d i"
  using opens_facts(1-4) [OF assms]
  by (auto simp: machine_inv_def edge_count_def FIRST_def split: prod.splits)

lemma machine_inv_step:
  assumes inv: "machine_inv d i" and dec: "decide env i c d = Inr es"
    and app: "try_fold apply_event i es = Inr j"
  shows "machine_inv d j"
proof -
  have matches: "matches_definition j d"
    unfolding matches_definition_after(1) [OF app decided_no_imports [OF dec]]
    by (rule machine_invD(1) [OF inv])
  from dec app show ?thesis
  proof (cases rule: command_step)
    case stay
    show ?thesis
      unfolding machine_inv_def stay
      using matches machine_invD(2-) [OF inv] by blast
  next
    case (move rid trigger now t visit deadline)
    note edge = transition_admitted_edge [OF move(2)]
    obtain s where s: "initial_state_id d = Inr s"
      "walk d s (ci_transitions i) (ci_current_state i)"
      using machine_invD(2) [OF inv] by blast
    have "walk d s (ci_transitions i @ [transition_taken i rid t now])
        (tr_to_state (transition_taken i rid t now))"
      by (rule walk_snoc [OF s(2) _ edge(1,2)]) (simp_all add: transition_taken_def)
    then have walk: "walk d s (ci_transitions j) (ci_current_state j)"
      unfolding move(3,4) by (simp add: transition_taken_def)
    have total: "length (ci_transitions j) \<le> unat n" if "def_max_transitions d = Some n" for n
      using edge(4) that move(3)
      by (auto simp: require_transition_budget_def split: if_splits)
    have bounces: "edge_count (ci_transitions j) e \<le> unat n" if "def_max_bounces d = Some n" for n e
    proof (cases "e = (t_from t, t_trigger t, t_to t)")
      case True
      from edge(4) that have "edge_count (ci_transitions i) e < unat n"
        by (auto simp: require_transition_budget_def exact_edge_count_edge_count True
            split: if_splits option.splits)
      moreover have "edge_count (ci_transitions j) e \<le> Suc (edge_count (ci_transitions i) e)"
        unfolding move(3) edge_count_def by (auto split: prod.splits)
      ultimately show ?thesis by simp
    next
      case False
      then have "edge_count (ci_transitions j) e = edge_count (ci_transitions i) e"
        unfolding move(3) edge_count_def using edge(2)
        by (auto simp: transition_taken_def split: prod.splits)
      with machine_invD(5) [OF inv that] show ?thesis by simp
    qed
    have "unat (ci_current_state_visit j) = Suc (length (ci_transitions j))"
      using machine_invD(3) [OF inv] edge(7) move(3,5) by simp
    with matches walk s(1) total bounces show ?thesis unfolding machine_inv_def by blast
  qed
qed

lemma run_machine_inv: "ceremony_run env d es i \<Longrightarrow> machine_inv d i"
  by (erule journal_invariant) (erule machine_inv_opens, erule machine_inv_step)


section \<open>A bound on the number of transitions\<close>

definition transition_bound :: "ceremony_definition \<Rightarrow> nat" where
  "transition_bound d =
     (case def_max_transitions d of
        Some n \<Rightarrow> unat n
      | None \<Rightarrow>
          (case def_max_bounces d of
             Some n \<Rightarrow> unat n * length (def_transitions d)
           | None \<Rightarrow> length (def_states d)))"

lemma walk_reaches: "walk d s ts u \<Longrightarrow> t \<in> set ts \<Longrightarrow> (s, tr_from_state t) \<in> (graph d)\<^sup>*"
proof (induction ts arbitrary: s)
  case (Cons a ts)
  then have edge: "(s, tr_to_state a) \<in> graph d"
    by (force simp: graph_def edges_def)
  show ?case
  proof (cases "t = a")
    case False
    with Cons have "(tr_to_state a, tr_from_state t) \<in> (graph d)\<^sup>*" by simp
    with edge show ?thesis by (rule converse_rtrancl_into_rtrancl)
  qed (use Cons in simp)
qed simp

lemma acyclic_walk_distinct:
  "acyclic (graph d) \<Longrightarrow> walk d s ts u \<Longrightarrow> distinct (map tr_from_state ts)"
proof (induction ts arbitrary: s)
  case (Cons a ts)
  then have edge: "(s, tr_to_state a) \<in> graph d"
    by (force simp: graph_def edges_def)
  have "tr_from_state t \<noteq> s" if "t \<in> set ts" for t
  proof
    assume "tr_from_state t = s"
    with that Cons.prems(2) have "(tr_to_state a, s) \<in> (graph d)\<^sup>*"
      using walk_reaches by fastforce
    with edge have "(s, s) \<in> (graph d)\<^sup>+" by (rule rtrancl_into_trancl2)
    with Cons.prems(1) show False by (simp add: acyclic_def)
  qed
  then have "s \<notin> tr_from_state ` set ts" by blast
  moreover have "distinct (map tr_from_state ts)"
    using Cons.prems by (intro Cons.IH [of "tr_to_state a"]) simp_all
  ultimately show ?case using Cons.prems by simp
qed simp

lemma walk_sources:
  "walk d s ts u \<Longrightarrow> t \<in> set ts \<Longrightarrow>
     \<exists>e \<in> set (def_transitions d). (tr_from_state t, tr_trigger t, tr_to_state t)
        = (t_from e, t_trigger e, t_to e)"
proof (induction ts arbitrary: s)
  case (Cons a ts)
  then show ?case by (cases "t = a") (simp, metis, simp, blast)
qed simp

lemma length_le_counts:
  assumes "finite K" and "\<forall>x \<in> set xs. f x \<in> K" and "\<forall>k \<in> K. length (filter (\<lambda>x. f x = k) xs) \<le> n"
  shows "length xs \<le> n * card K"
proof -
  have "length xs = (\<Sum>k \<in> K. length (filter (\<lambda>x. f x = k) xs))"
    using assms(2)
  proof (induction xs)
    case (Cons x xs)
    have "(\<Sum>k \<in> K. length (filter (\<lambda>y. f y = k) (x # xs)))
        = (\<Sum>k \<in> K. length (filter (\<lambda>y. f y = k) xs) + (if f x = k then 1 else 0))"
      by (rule sum.cong) auto
    also have "\<dots> = (\<Sum>k \<in> K. length (filter (\<lambda>y. f y = k) xs)) + 1"
      using Cons.prems assms(1) by (simp add: sum.distrib)
    finally show ?case using Cons by simp
  qed simp
  also have "\<dots> \<le> (\<Sum>k \<in> K. n)" using assms(3) by (intro sum_mono) auto
  finally show ?thesis by (simp add: mult.commute)
qed

lemma walk_bounces_bound:
  assumes "walk d s ts u" and "\<forall>e. edge_count ts e \<le> n"
  shows "length ts \<le> n * length (def_transitions d)"
proof -
  let ?f = "\<lambda>t. (tr_from_state t, tr_trigger t, tr_to_state t)"
  let ?K = "set (map (\<lambda>e. (t_from e, t_trigger e, t_to e)) (def_transitions d))"
  have "length ts \<le> n * card ?K"
  proof (rule length_le_counts [where f = ?f])
    show "\<forall>t \<in> set ts. ?f t \<in> ?K"
    proof
      fix t assume "t \<in> set ts"
      from walk_sources [OF assms(1) this] show "?f t \<in> ?K" by auto
    qed
    have "length (filter (\<lambda>t. ?f t = k) ts) = edge_count ts k" for k
      by (cases k) (simp add: edge_count_def)
    then show "\<forall>k \<in> ?K. length (filter (\<lambda>t. ?f t = k) ts) \<le> n"
      using assms(2) by simp
  qed simp
  also have "card ?K \<le> length (def_transitions d)"
    using card_length [of "map (\<lambda>e. (t_from e, t_trigger e, t_to e)) (def_transitions d)"] by simp
  then have "n * card ?K \<le> n * length (def_transitions d)" by simp
  finally show ?thesis .
qed

lemma walk_acyclic_bound:
  assumes "acyclic (graph d)" and "transitions_ok d" and "walk d s ts u"
  shows "length ts \<le> length (def_states d)"
proof -
  have "set (map tr_from_state ts) \<subseteq> fst ` set (def_states d)"
  proof
    fix x assume "x \<in> set (map tr_from_state ts)"
    then obtain t where "t \<in> set ts" and t: "x = tr_from_state t" by auto
    from walk_sources [OF assms(3) this(1)] t obtain e where
      "e \<in> set (def_transitions d)" "x = t_from e" by auto
    with assms(2) obtain st where "bm_get (def_states d) x = Some st"
      by (auto simp: transitions_ok_def transition_ok_def)
    then show "x \<in> fst ` set (def_states d)" by (force dest: bm_get_member)
  qed
  then have "card (set (map tr_from_state ts)) \<le> card (fst ` set (def_states d))"
    by (intro card_mono) simp_all
  also have "\<dots> \<le> length (def_states d)"
    using card_length [of "map fst (def_states d)"] by simp
  finally show ?thesis
    using distinct_card [OF acyclic_walk_distinct [OF assms(1,3)]] by simp
qed

lemma run_transition_bound:
  assumes "definition_ok d" and "machine_inv d i"
  shows "length (ci_transitions i) \<le> transition_bound d"
proof -
  obtain s where walk: "walk d s (ci_transitions i) (ci_current_state i)"
    using machine_invD(2) [OF assms(2)] by blast
  show ?thesis
  proof (cases "def_max_transitions d")
    case (Some n)
    with machine_invD(4) [OF assms(2)] show ?thesis by (simp add: transition_bound_def)
  next
    case total: None
    show ?thesis
    proof (cases "def_max_bounces d")
      case (Some n)
      with machine_invD(5) [OF assms(2)] walk_bounces_bound [OF walk] total
      show ?thesis by (simp add: transition_bound_def)
    next
      case None
      with total assms(1) have "acyclic (graph d)" "transitions_ok d"
        by (auto simp: definition_ok_def cycles_budgeted_def)
      with walk_acyclic_bound [OF _ _ walk] total None
      show ?thesis by (simp add: transition_bound_def)
    qed
  qed
qed

end
