(* ===== verification/Run_Safety.thy ===== *)
theory Run_Safety
  imports Run_Invariants "HOL-Library.Sublist"
begin

text \<open>
  What no sequence of commands can do to a ceremony: undo its end, complete it with an open
  intervention, reuse the key of a claim, put a superseded ceremony back to work, or rewrite what
  its trail already records.  Each invariant is proved once for the opening and once for an accepted
  command, through the effects of single events.
\<close>


section \<open>Completion\<close>

definition no_open_intervention :: "ceremony_instance \<Rightarrow> bool" where
  "no_open_intervention i = (\<forall>v \<in> set (ci_interventions i). iv_status v \<noteq> Open)"

definition completion_inv :: "ceremony_definition \<Rightarrow> ceremony_instance \<Rightarrow> bool" where
  "completion_inv d i =
     ((ci_completed_at i \<noteq> None \<longleftrightarrow> is_terminal_state d (ci_current_state i))
      \<and> (is_terminal_state d (ci_current_state i) \<longrightarrow> no_open_intervention i))"

lemma emits_interventions_not_terminal:
  assumes "decide env i c d = Inr es" and "e \<in> set es" and "touches_interventions e"
  shows "\<not> is_terminal i d"
proof -
  have emits: "emits c e" by (rule decide_emits [OF assms(1,2)])
  with assms(3) consider
    (request) q where "c = RequestInterventionCommand q"
  | (respond) q where "c = RespondToInterventionCommand q"
  | (evidence) a b p q where "c = RespondToInterventionWithEvidence a b p q"
  | (ack) a b q where "c = AcknowledgeInterventionDelivery a b q"
  | (close) a b q where "c = CloseIntervention a b q"
    by (cases c; cases e) auto
  then show ?thesis
    using assms(1)
    by cases (auto dest!: decide_request_intervention_shape decide_respond_to_intervention_shape
        decide_respond_with_evidence_shape decide_acknowledge_shape decide_close_intervention_shape)
qed

lemma fold_keeps_interventions:
  assumes "try_fold apply_event i es = Inr j"
    and "\<forall>e \<in> set es. \<not> is_import e \<and> \<not> touches_interventions e"
  shows "ci_interventions j = ci_interventions i"
  using assms(1)
  by (induction rule: fold_events_induct) (use assms(2) effect_interventions in auto)

lemma terminal_keeps_interventions:
  assumes "decide env i c d = Inr es" and "try_fold apply_event i es = Inr j" and "is_terminal i d"
  shows "ci_interventions j = ci_interventions i"
  using fold_keeps_interventions [OF assms(2)] emits_interventions_not_terminal [OF assms(1)]
    decided_not_import [OF assms(1)] assms(3) by blast

lemma completion_inv_step:
  assumes inv: "completion_inv d i" and m: "matches_definition i d"
    and dec: "decide env i c d = Inr es" and app: "try_fold apply_event i es = Inr j"
  shows "completion_inv d j"
  using dec app
proof (cases rule: command_step)
  case stay
  have "no_open_intervention j" if "is_terminal_state d (ci_current_state i)"
  proof -
    from m that have "is_terminal i d" by (simp add: is_terminal_def)
    with that inv terminal_keeps_interventions [OF dec app] show ?thesis
      by (simp add: completion_inv_def no_open_intervention_def)
  qed
  with inv stay show ?thesis by (simp add: completion_inv_def)
next
  case (move rid trigger now t visit deadline)
  note edge = transition_admitted_edge [OF move(2)]
  from inv edge(5,6) have "ci_completed_at i = None"
    by (auto simp: completion_inv_def is_terminal_def)
  moreover have "no_open_intervention j" if "is_terminal_state d (t_to t)"
    using edge(8) that move(7)
    by (auto simp: require_interventions_resolved_before_entering_def no_open_intervention_def
        list_ex_iff split: if_splits)
  ultimately show ?thesis using move(4,6) by (simp add: completion_inv_def)
qed

lemma completion_inv_opens:
  assumes "definition_wf d" and "opens env d es i"
  shows "completion_inv d i"
  using opens_facts(2,5) [OF assms(2)] initial_not_terminal [OF assms(1)]
  by (simp add: completion_inv_def)

lemma run_completion_inv:
  assumes "definition_wf d" and "ceremony_run env d es i"
  shows "completion_inv d i"
proof -
  have "completion_inv d i \<and> matches_definition i d"
    using assms(2)
  proof (rule journal_invariant)
    show "completion_inv d s \<and> matches_definition s d" if "opens env d es s" for es s
      using completion_inv_opens [OF assms(1) that] opens_facts(1) [OF that] by simp
    show "completion_inv d s' \<and> matches_definition s' d"
      if "completion_inv d s \<and> matches_definition s d" "decide env s c d = Inr es'"
        "try_fold apply_event s es' = Inr s'" for s c es' s'
      using completion_inv_step [OF _ _ that(2,3)] that(1)
        matches_definition_after(1) [OF that(3) decided_no_imports [OF that(2)]] by blast
  qed
  then show ?thesis ..
qed


section \<open>The lifecycle\<close>

text \<open>
  A ceremony that left the running phase says when, it has a reason to have ended exactly when it
  ended, and once a successor is planned it never runs again.
\<close>

definition lifecycle_inv :: "ceremony_instance \<Rightarrow> bool" where
  "lifecycle_inv i =
     ((phase (ci_lifecycle i) \<noteq> Running \<longrightarrow> lifecycle_is_explicit (ci_lifecycle i))
      \<and> (phase (ci_lifecycle i) = Ended \<longleftrightarrow> end_reason (ci_lifecycle i) \<noteq> None)
      \<and> (is_superseded i \<longrightarrow> phase (ci_lifecycle i) \<noteq> Running))"

fun changes_lifecycle :: "ceremony_event \<Rightarrow> bool" where
  "changes_lifecycle (CeremonyPaused _ _) = True"
| "changes_lifecycle (CeremonyResumed _) = True"
| "changes_lifecycle (CeremonyCancelled _ _) = True"
| "changes_lifecycle (CeremonyDeadlineExceeded _ _) = True"
| "changes_lifecycle (StateDeadlineExceeded _ _) = True"
| "changes_lifecycle (SuccessorPlanned _) = True"
| "changes_lifecycle _ = False"

lemma keeps_lifecycle:
  "\<not> changes_lifecycle e \<Longrightarrow> lifecycle_after e l = l"
  "\<not> changes_lifecycle e \<Longrightarrow> plan_after e p = p"
  by (cases e; simp)+

lemma lifecycle_inv_opens:
  assumes "opens env d es i"
  shows "lifecycle_inv i"
  using opens_facts(8,9) [OF assms]
  by (simp add: lifecycle_inv_def lifecycle_default_def is_superseded_def)

lemma fold_lifecycle:
  assumes "try_fold apply_event i es = Inr j" and "\<forall>e \<in> set es. \<not> is_import e"
  shows "ci_lifecycle j = fold lifecycle_after es (ci_lifecycle i)
    \<and> ci_successor_plan j = fold plan_after es (ci_successor_plan i)"
  using assms
proof (induction es arbitrary: i)
  case (Cons e es)
  then obtain k where k: "apply_event i e = Inr k" "try_fold apply_event k es = Inr j"
    by (auto simp: and_then_Inr)
  with Cons effect_lifecycle [OF k(1)] effect_successor_plan [OF k(1)] show ?case by simp
qed simp

lemma fold_keeps_lifecycle:
  assumes "\<forall>e \<in> set es. \<not> changes_lifecycle e"
  shows "fold lifecycle_after es l = l" "fold plan_after es p = p"
  using assms by (induction es arbitrary: l p) (simp_all add: keeps_lifecycle)

lemma emits_changes_lifecycle:
  assumes "emits c e" and "changes_lifecycle e"
  shows "(\<exists>r now. c = PauseCeremony r now) \<or> (\<exists>now. c = ResumeCeremony now)
    \<or> (\<exists>r now. c = CancelCeremony r now) \<or> (\<exists>now. c = EnforceCeremonyDeadlines now)
    \<or> (\<exists>q. c = PlanSuccessor q)"
  using assms by (cases c; cases e) auto

lemma terminal_events_lifecycle:
  "fold lifecycle_after (terminal_events i now) l = l
   \<or> (\<exists>r. fold lifecycle_after (terminal_events i now) l = lifecycle_end l r None now)"
  by (auto simp: terminal_events_def split: option.splits)

lemma step_deadlines_keep_lifecycle [simp]:
  "fold lifecycle_after (map (\<lambda>dl. StepDeadlineExceeded dl r now) dls) l = l"
  "fold plan_after (map (\<lambda>dl. StepDeadlineExceeded dl r now) dls) p = p"
  by (rule fold_keeps_lifecycle; simp)+

lemma terminal_events_keep_plan [simp]: "fold plan_after (terminal_events i now) p = p"
  by (auto simp: terminal_events_def split: option.splits)

text \<open>What one accepted command does to the lifecycle and to the successor plan.\<close>

lemma command_lifecycle:
  assumes "decide env i c d = Inr es" and "try_fold apply_event i es = Inr j"
  obtains (keep) "ci_lifecycle j = ci_lifecycle i" "ci_successor_plan j = ci_successor_plan i"
  | (pause) r now where "ci_lifecycle j = lifecycle_pause (ci_lifecycle i) r now"
      "phase (ci_lifecycle i) = Running" "ci_successor_plan j = ci_successor_plan i"
  | (resume) now where "ci_lifecycle j = lifecycle_resume (ci_lifecycle i) now"
      "phase (ci_lifecycle i) = Paused" "ci_successor_plan i = None" "ci_successor_plan j = None"
  | (ended) r why now where "ci_lifecycle j = lifecycle_end (ci_lifecycle i) r why now"
      "\<not> is_ended i" "ci_successor_plan j = ci_successor_plan i"
  | (planned) plan where "ci_lifecycle j = ci_lifecycle i" "phase (ci_lifecycle i) = Paused"
      "ci_successor_plan i = None" "ci_successor_plan j = Some plan"
proof -
  note after = fold_lifecycle [OF assms(2) decided_no_imports [OF assms(1)]]
  consider (none) "\<forall>e \<in> set es. \<not> changes_lifecycle e"
    | (some) e where "e \<in> set es" "changes_lifecycle e" "emits c e"
    using decide_emits [OF assms(1)] by blast
  then show thesis
  proof cases
    case none
    with after show thesis by (intro keep) (simp_all add: fold_keeps_lifecycle)
  next
    case some
    from emits_changes_lifecycle [OF some(3,2)] consider
      (p) r now where "c = PauseCeremony r now" | (r) now where "c = ResumeCeremony now"
    | (k) r now where "c = CancelCeremony r now" | (e) now where "c = EnforceCeremonyDeadlines now"
    | (q) q where "c = PlanSuccessor q"
      by blast
    then show thesis
    proof cases
      case p
      with assms(1) some(1) after show thesis
        by (auto dest!: decide_pause_shape intro: pause)
    next
      case r
      with assms(1) some(1) after show thesis
        by (auto dest!: decide_resume_shape intro: resume simp: is_superseded_def)
    next
      case k
      with assms(1) some(1) after show thesis
        by (auto dest!: decide_cancel_shape intro: ended)
    next
      case e
      with assms(1) some(1) have "\<not> is_ended i" and
        "es = map (\<lambda>dl. StepDeadlineExceeded dl timeout_result now)
           (due_step_deadlines i now (terminal_due i now)) @ terminal_events i now"
        by (auto dest!: decide_enforce_deadlines_shape)
      with after terminal_events_lifecycle [of i now "ci_lifecycle i"] show thesis
        by (auto intro: keep ended)
    next
      case q
      with assms(1) some(1) after show thesis
        by (auto dest!: decide_plan_successor_shape intro: planned)
    qed
  qed
qed

lemma lifecycle_inv_step:
  assumes "lifecycle_inv i" and "decide env i c d = Inr es" and "try_fold apply_event i es = Inr j"
  shows "lifecycle_inv j"
  using assms(2,3)
proof (cases rule: command_lifecycle)
  case keep
  with assms(1) show ?thesis by (simp add: lifecycle_inv_def is_superseded_def)
next
  case pause
  with assms(1) show ?thesis
    by (simp add: lifecycle_inv_def is_superseded_def lifecycle_pause_def lifecycle_is_explicit_def)
next
  case resume
  with assms(1) show ?thesis
    by (simp add: lifecycle_inv_def is_superseded_def lifecycle_resume_def lifecycle_is_explicit_def)
next
  case ended
  with assms(1) show ?thesis
    by (simp add: lifecycle_inv_def is_superseded_def lifecycle_end_def lifecycle_is_explicit_def)
next
  case planned
  with assms(1) show ?thesis by (simp add: lifecycle_inv_def is_superseded_def)
qed

lemma run_lifecycle_inv: "ceremony_run env d es i \<Longrightarrow> lifecycle_inv i"
  by (erule journal_invariant) (erule lifecycle_inv_opens, erule lifecycle_inv_step)


section \<open>The end of a ceremony\<close>

text \<open>A ceremony without its observations, and what an observation may add to.\<close>

definition work_of :: "ceremony_instance \<Rightarrow> ceremony_instance" where
  "work_of i = i\<lparr>ci_host_handoffs := [], ci_reasons := [], ci_updated_at := 0, ci_child_groups := [],
     ci_late_step_results := [], ci_execution_receipt_links := [],
     ci_execution_receipt_adoptions := []\<rparr>"

definition same_work :: "ceremony_instance \<Rightarrow> ceremony_instance \<Rightarrow> bool" where
  "same_work i j = (work_of j = work_of i)"

definition map_kept :: "('k, 'v) bmap \<Rightarrow> ('k, 'v) bmap \<Rightarrow> bool" where
  "map_kept m n = (\<forall>k v. bm_get m k = Some v \<longrightarrow> bm_get n k = Some v)"

definition child_groups_kept :: "(string, child_group) bmap \<Rightarrow> (string, child_group) bmap \<Rightarrow> bool" where
  "child_groups_kept m n =
     (\<forall>k. case bm_get m k of
            None \<Rightarrow> bm_get n k = None
          | Some g \<Rightarrow> \<exists>g'. bm_get n k = Some g' \<and> group_plan g' = group_plan g
                         \<and> map_kept (group_completions g) (group_completions g'))"

definition observations_kept :: "ceremony_instance \<Rightarrow> ceremony_instance \<Rightarrow> bool" where
  "observations_kept i j =
     (map_kept (ci_host_handoffs i) (ci_host_handoffs j)
      \<and> prefix (ci_reasons i) (ci_reasons j)
      \<and> child_groups_kept (ci_child_groups i) (ci_child_groups j)
      \<and> map_kept (ci_late_step_results i) (ci_late_step_results j)
      \<and> map_kept (ci_execution_receipt_links i) (ci_execution_receipt_links j)
      \<and> (\<forall>operation fence l. execution_receipt_adoption i operation fence = Some l \<longrightarrow>
           execution_receipt_adoption j operation fence = Some l))"

lemma map_kept_simps [simp]:
  "map_kept m m" "bm_get m k = None \<Longrightarrow> map_kept m (bm_insert k v m)" "map_kept m (or_insert k v m)"
  by (auto simp: map_kept_def or_insert_def bm_contains_def)

lemma child_groups_kept_refl [simp]: "child_groups_kept m m"
  by (auto simp: child_groups_kept_def split: option.splits)

lemma child_groups_kept_insert:
  "bm_get m k = Some g \<Longrightarrow> group_plan g' = group_plan g \<Longrightarrow>
     map_kept (group_completions g) (group_completions g') \<Longrightarrow> child_groups_kept m (bm_insert k g' m)"
  by (auto simp: child_groups_kept_def split: option.splits)

lemma map_kept_trans: "map_kept m n \<Longrightarrow> map_kept n p \<Longrightarrow> map_kept m p"
  by (simp add: map_kept_def)

lemma child_groups_kept_trans:
  assumes "child_groups_kept m n" and "child_groups_kept n p"
  shows "child_groups_kept m p"
  unfolding child_groups_kept_def
proof
  fix k
  show "case bm_get m k of None \<Rightarrow> bm_get p k = None
      | Some g \<Rightarrow> \<exists>g'. bm_get p k = Some g' \<and> group_plan g' = group_plan g
          \<and> map_kept (group_completions g) (group_completions g')"
    using assms [unfolded child_groups_kept_def, THEN spec, of k] map_kept_trans
    by (auto split: option.splits)
qed

lemma observations_kept_refl [simp]: "observations_kept i i"
  by (simp add: observations_kept_def)

lemma observations_kept_trans: "observations_kept i j \<Longrightarrow> observations_kept j k \<Longrightarrow> observations_kept i k"
  unfolding observations_kept_def
  by (elim conjE, intro conjI; (erule (1) map_kept_trans child_groups_kept_trans prefix_order.trans | simp))

lemma same_work_refl [simp]: "same_work i i"
  by (simp add: same_work_def)

lemma same_work_trans: "same_work i j \<Longrightarrow> same_work j k \<Longrightarrow> same_work i k"
  by (simp add: same_work_def)

lemma same_work_lifecycle:
  assumes "same_work i j"
  shows "instance_lifecycle j = instance_lifecycle i"
proof -
  have "ci_lifecycle j = ci_lifecycle i" "ci_completed_at j = ci_completed_at i"
    using arg_cong [OF assms [unfolded same_work_def], of ci_lifecycle]
      arg_cong [OF assms [unfolded same_work_def], of ci_completed_at]
    by (simp_all add: work_of_def)
  then show ?thesis by (simp only: instance_lifecycle_def)
qed

text \<open>The events an ended ceremony may still record: they overwrite no observation.\<close>

fun adds_observation :: "ceremony_instance \<Rightarrow> ceremony_event \<Rightarrow> bool" where
  "adds_observation i (HostHandoffRecorded h) =
     (bm_get (ci_host_handoffs i) (hhd_id (hhr_declaration h)) = None)"
| "adds_observation i (ReasonAsserted _) = True"
| "adds_observation i (ChildSpawnPlanAdopted _ _ _) = True"
| "adds_observation i (ChildCompletionAccepted c _) =
     (\<forall>g. bm_get (ci_child_groups i) (completion_group_id c) = Some g \<longrightarrow>
        bm_get (group_completions g) (completion_child_id c) = None)"
| "adds_observation i (LateStepResultObserved l _) =
     (bm_get (ci_late_step_results i) (late_claim_fence l) = None)"
| "adds_observation i (ExecutionReceiptLinked _ _ _) = True"
| "adds_observation i _ = False"

lemma receipt_adoption_kept:
  assumes "execution_receipt_adoption i operation fence = Some l"
  shows "execution_receipt_adoption (apply_execution_receipt_linked i x now) operation fence = Some l"
  using assms
  by (auto simp: execution_receipt_adoption_def apply_execution_receipt_linked_def or_insert_def
      bm_contains_def bind_eq_Some_conv)

lemma observation_added:
  assumes "apply_event i e = Inr j" and "adds_observation i e"
  shows "same_work i j" and "observations_kept i j"
proof -
  show "same_work i j"
    using assms by (cases e) (auto simp: same_work_def work_of_def fold_defs split: option.splits)
  show "observations_kept i j"
  proof (cases e)
    case (ExecutionReceiptLinked s l now)
    with assms receipt_adoption_kept [of i _ _ _ l now] show ?thesis
      by (auto simp: observations_kept_def apply_execution_receipt_linked_def)
  next
    case (ChildSpawnPlanAdopted g f now)
    with assms show ?thesis
      by (auto simp: observations_kept_def apply_child_spawn_plan_adopted_def child_group_adopt_def
          execution_receipt_adoption_def child_groups_kept_insert split: option.splits)
  next
    case (ChildCompletionAccepted c now)
    with assms show ?thesis
      by (auto simp: observations_kept_def apply_child_completion_accepted_def child_group_accept_def
          execution_receipt_adoption_def child_groups_kept_insert split: option.splits)
  qed (use assms in \<open>auto simp: observations_kept_def apply_host_handoff_recorded_def
      apply_reason_asserted_def apply_late_step_result_observed_def execution_receipt_adoption_def\<close>)
qed

text \<open>A fold of such events, each of which adds to the state it meets.\<close>

fun adds_observations :: "ceremony_instance \<Rightarrow> ceremony_event list \<Rightarrow> bool" where
  "adds_observations i [] = True"
| "adds_observations i (e # es) =
     (adds_observation i e \<and> (\<forall>k. apply_event i e = Inr k \<longrightarrow> adds_observations k es))"

lemma observations_added:
  assumes "try_fold apply_event i es = Inr j" and "adds_observations i es"
  shows "same_work i j \<and> observations_kept i j"
  using assms
proof (induction es arbitrary: i)
  case (Cons e es)
  then obtain k where k: "apply_event i e = Inr k" "try_fold apply_event k es = Inr j"
    by (auto simp: and_then_Inr)
  with Cons observation_added [OF k(1)] show ?case
    using same_work_trans observations_kept_trans by auto
qed simp

lemma receipt_keeps_late_results:
  "apply_event i (ExecutionReceiptLinked s l now) = Inr k \<Longrightarrow>
     ci_late_step_results k = ci_late_step_results i"
  by (auto simp: apply_execution_receipt_linked_def)

lemma unclaimed_result_adds:
  assumes "decide_apply_step_result env i c d = Inr es" and "\<And>step r. \<not> result_admitted env i c d step r"
    and "ci_late_step_results k = ci_late_step_results i"
  shows "adds_observations k es"
  using assms(1) by (cases rule: decide_apply_step_result_shape) (use assms(2,3) in auto)

lemma unclaimed_receipt_adds:
  assumes "decide_apply_execution_receipt_result env i s f l r now d = Inr es"
    and "\<And>step x. \<not> result_admitted env i \<lparr>ar_step_id = s, ar_claim_fence = f, ar_result = r,
       ar_now = now\<rparr> d step x"
  shows "adds_observations i es"
  using assms(1)
proof (cases rule: decide_apply_execution_receipt_result_shape)
  case (2 es')
  with unclaimed_result_adds [OF 2(6) assms(2)] receipt_keeps_late_results show ?thesis by simp
qed simp

lemma ended_decide_adds:
  assumes "decide env i c d = Inr es" and "is_ended i" and "lifecycle_inv i"
  shows "adds_observations i es"
proof -
  have not_admits: "\<not> admits_new_work i" using assms(2) by (simp add: admits_new_work_def)
  have no_result: "\<not> result_admitted env i x d step r" for x step r
    using assms(2) by (simp add: result_admitted_def)
  have paused: "phase (ci_lifecycle i) \<noteq> Paused"
    using assms(2,3)
    by (auto simp: is_ended_def instance_lifecycle_def lifecycle_inv_def
        lifecycle_completed_def split: option.splits if_splits)
  show ?thesis
  proof (cases c)
    case (StartStep x)
    with assms not_admits show ?thesis
      by (auto elim!: decide_start_step_shape simp: claim_admitted_def)
  next
    case (ApplyTransition rid trigger now)
    with assms not_admits show ?thesis
      by (auto simp: decide_apply_transition_iff transition_admitted_def)
  next
    case (PlanCeremonyChildren plan now)
    with assms not_admits show ?thesis by (auto elim!: decide_plan_children_shape)
  next
    case (ApplyStepResult x)
    with assms(1) no_result show ?thesis by (auto intro: unclaimed_result_adds)
  next
    case (ApplyExecutionReceiptResult s f l r now)
    with assms(1) no_result show ?thesis by (auto intro: unclaimed_receipt_adds)
  next
    case (RenewStepLease x)
    with assms show ?thesis
      by (auto dest!: decide_renew_step_lease_shape simp: renewal_admitted_def)
  qed (use assms paused in \<open>auto dest!: decide_record_host_handoff_shape
    decide_bind_participant_shape decide_approve_guard_shape decide_defer_guard_shape
    decide_request_intervention_shape decide_respond_to_intervention_shape
    decide_respond_with_evidence_shape decide_acknowledge_shape decide_assert_reason_shape
    decide_close_intervention_shape decide_plan_successor_shape decide_adopt_child_plan_shape
    decide_accept_child_completion_shape decide_pause_shape decide_resume_shape
    decide_cancel_shape decide_enforce_deadlines_shape\<close>)
qed

lemma execute_fold:
  "execute env d i c = Inr j \<longleftrightarrow>
     (\<exists>es. decide env i c d = Inr es \<and> try_fold apply_event i es = Inr j)"
  by (simp add: execute_def apply_all_def and_then_Inr)

lemma ended_frozen:
  assumes "is_ended i" and "lifecycle_inv i" and "execute env d i c = Inr j"
  shows "same_work i j \<and> observations_kept i j \<and> is_ended j"
proof -
  from assms(3) obtain es where "decide env i c d = Inr es" "try_fold apply_event i es = Inr j"
    by (auto simp: execute_fold)
  with observations_added ended_decide_adds assms(1,2) have "same_work i j" "observations_kept i j"
    by blast+
  with same_work_lifecycle assms(1) show ?thesis by (simp add: is_ended_def)
qed


section \<open>Claims are made once\<close>

definition keys_inv :: "ceremony_event list \<Rightarrow> ceremony_instance \<Rightarrow> bool" where
  "keys_inv es i =
     (distinct (List.map_filter started_key es)
      \<and> set (List.map_filter started_key es) = ci_idempotency_keys i)"

lemma map_filter_append: "List.map_filter f (xs @ ys) = List.map_filter f xs @ List.map_filter f ys"
  by (simp add: List.map_filter_def)

lemma map_filter_none: "\<forall>e \<in> set es. f e = None \<Longrightarrow> List.map_filter f es = []"
  by (simp add: List.map_filter_def filter_empty_conv)

lemma emits_started_key:
  "emits c e \<Longrightarrow> started_key e = Some k \<Longrightarrow> \<exists>q. c = StartStep q"
  by (cases c; cases e) auto

lemma fold_keys:
  assumes "try_fold apply_event i es = Inr j" and "\<forall>e \<in> set es. \<not> is_import e"
  shows "ci_idempotency_keys j = set (List.map_filter started_key es) \<union> ci_idempotency_keys i"
  using assms
proof (induction es arbitrary: i)
  case (Cons e es)
  then obtain k where k: "apply_event i e = Inr k" "try_fold apply_event k es = Inr j"
    by (auto simp: and_then_Inr)
  with Cons effect_idempotency_keys [OF k(1)] show ?case
    by (cases "started_key e") (auto simp: List.map_filter_simps)
qed (simp add: List.map_filter_simps)

lemma decided_keys:
  assumes "decide env i c d = Inr es"
  shows "List.map_filter started_key es = []
    \<or> (\<exists>k. List.map_filter started_key es = [k] \<and> k \<notin> ci_idempotency_keys i)"
proof (cases "\<exists>q. c = StartStep q")
  case True
  then obtain q where "c = StartStep q" by blast
  with assms show ?thesis
    by (auto elim!: decide_start_step_shape simp: claim_admitted_def claim_event_def
        List.map_filter_simps split: prod.splits)
next
  case False
  then have "\<forall>e \<in> set es. started_key e = None"
    using emits_started_key decide_emits [OF assms] by (metis not_None_eq)
  then show ?thesis by (simp add: map_filter_none)
qed

lemma run_keys_inv: "ceremony_run env d es i \<Longrightarrow> keys_inv es i"
proof (erule journal_invariant2)
  show "keys_inv es s" if "opens env d es s" for es s
  proof -
    have "List.map_filter started_key es = []" using opens_facts(11) [OF that] by simp
    with opens_facts(7) [OF that] show ?thesis by (simp add: keys_inv_def)
  qed
  show "keys_inv (es @ es') s'" if "keys_inv es s" "decide env s c d = Inr es'"
    "try_fold apply_event s es' = Inr s'" for es s c es' s'
    using fold_keys [OF that(3) decided_no_imports [OF that(2)]] decided_keys [OF that(2)] that(1)
    by (auto simp: keys_inv_def map_filter_append)
qed


section \<open>Interventions\<close>

definition interventions_inv :: "ceremony_instance \<Rightarrow> bool" where
  "interventions_inv i =
     (distinct (map iv_id (ci_interventions i)) \<and> (\<forall>v \<in> set (ci_interventions i). intervention_inv v))"

lemma update_first_same_key:
  assumes "find (\<lambda>v. f v = k) xs = Some x" and "f y = f x"
  shows "map f (update_first (\<lambda>v. f v = k) (\<lambda>_. y) xs) = map f xs"
    and "set (update_first (\<lambda>v. f v = k) (\<lambda>_. y) xs) \<subseteq> insert y (set xs)"
  using assms by (induction xs) (auto split: if_splits)

lemma with_intervention_inv:
  assumes "interventions_inv i" and "instance_intervention i k = Some v"
    and "iv_id v' = iv_id v" and "intervention_inv v'"
  shows "interventions_inv (with_intervention i k v')"
  using assms update_first_same_key [of iv_id k "ci_interventions i" v v']
  by (auto simp: interventions_inv_def with_intervention_def instance_intervention_def)

lemma instance_intervention_inv:
  "interventions_inv i \<Longrightarrow> instance_intervention i k = Some v \<Longrightarrow> intervention_inv v"
  by (auto simp: interventions_inv_def instance_intervention_def find_Some_iff)

lemma intervention_ops_keep_id:
  "accept_response v r = Inr v' \<Longrightarrow> iv_id v' = iv_id v"
  "acknowledge_delivery v a = Inr v' \<Longrightarrow> iv_id v' = iv_id v"
  "close_intervention v rid now = Inr v' \<Longrightarrow> iv_id v' = iv_id v"
  by (auto simp: accept_response_def acknowledge_delivery_def close_intervention_def and_then_Inr
      split: option.splits if_splits)

lemma record_that_it_answers_interventions [simp]:
  "ci_interventions (record_that_it_answers i a now) = ci_interventions i"
  by (simp add: record_that_it_answers_def Let_def split: option.splits sum.splits)

lemma interventions_inv_cong:
  "ci_interventions j = ci_interventions i \<Longrightarrow> interventions_inv j = interventions_inv i"
  by (simp add: interventions_inv_def)

lemma interventions_inv_updated [simp]:
  "interventions_inv (i\<lparr>ci_updated_at := at\<rparr>) = interventions_inv i"
  "interventions_inv (record_that_it_answers i a now) = interventions_inv i"
  by (simp_all add: interventions_inv_def)

lemma with_intervention_ops:
  assumes "interventions_inv i" and "instance_intervention i k = Some v"
  shows "accept_response v r = Inr v' \<Longrightarrow> interventions_inv (with_intervention i k v')"
    and "acknowledge_delivery v a = Inr v' \<Longrightarrow> interventions_inv (with_intervention i k v')"
    and "close_intervention v rid now = Inr v' \<Longrightarrow> interventions_inv (with_intervention i k v')"
proof -
  note v = instance_intervention_inv [OF assms]
  show "accept_response v r = Inr v' \<Longrightarrow> interventions_inv (with_intervention i k v')"
    by (rule with_intervention_inv [OF assms intervention_ops_keep_id(1) accept_response_inv [OF v]])
  show "acknowledge_delivery v a = Inr v' \<Longrightarrow> interventions_inv (with_intervention i k v')"
    by (rule with_intervention_inv
        [OF assms intervention_ops_keep_id(2) acknowledge_delivery_inv [OF v]])
  show "close_intervention v rid now = Inr v' \<Longrightarrow> interventions_inv (with_intervention i k v')"
    by (rule with_intervention_inv
        [OF assms intervention_ops_keep_id(3) close_intervention_inv [OF v]])
qed

lemma interventions_inv_event:
  assumes inv: "interventions_inv i" and app: "apply_event i e = Inr j" and "\<not> is_import e"
    and new: "\<And>v. e = InterventionRequested v \<Longrightarrow>
      instance_intervention i (iv_id v) = None \<and> intervention_inv v"
  shows "interventions_inv j"
proof (cases "touches_interventions e")
  case False
  from interventions_inv_cong [OF effect_interventions [OF app assms(3) this]] inv
  show ?thesis by simp
next
  case touches: True
  show ?thesis
  proof (cases e)
    case (InterventionRequested v)
    with new have "iv_id v \<notin> iv_id ` set (ci_interventions i)" "intervention_inv v"
      by (fastforce simp: instance_intervention_def find_None_iff)+
    with inv app InterventionRequested show ?thesis
      by (auto simp: interventions_inv_def apply_intervention_requested_def)
  next
    case (InterventionResponded k r)
    with app have j: "j = apply_intervention_responded i k r" by simp
    show ?thesis
      unfolding j apply_intervention_responded_def
      using inv by (auto split: option.splits sum.splits dest: with_intervention_ops(1))
  next
    case (InterventionClosed k by' at)
    with app have j: "j = apply_intervention_closed i k by' at" by simp
    show ?thesis
      unfolding j apply_intervention_closed_def
      using inv by (auto split: option.splits sum.splits dest: with_intervention_ops(3))
  next
    case (InterventionDeliveryAcknowledged k a)
    with app have j: "j = apply_intervention_delivery_acknowledged i k a" by simp
    show ?thesis
      unfolding j apply_intervention_delivery_acknowledged_def
      using inv by (auto split: option.splits sum.splits dest: with_intervention_ops(2))
  qed (use touches in simp_all)
qed

lemma requested_intervention_inv [simp]:
  "intervention_inv (requested_intervention c)" "iv_id (requested_intervention c) = ri_intervention_id c"
  by (cases "ri_intent c"; cases "ri_delivery c"; cases "ri_supervisor c";
      simp add: requested_intervention_def open_with_provenance_def intervention_inv_def)+

lemma interventions_inv_step:
  assumes inv: "interventions_inv i" and dec: "decide env i c d = Inr es"
    and app: "try_fold apply_event i es = Inr j"
  shows "interventions_inv j"
proof (cases "\<exists>q. c = RequestInterventionCommand q")
  case True
  then obtain q where "c = RequestInterventionCommand q" by blast
  with dec have new: "instance_intervention i (ri_intervention_id q) = None"
    and es: "es = [InterventionRequested (requested_intervention q)]"
    by (auto dest!: decide_request_intervention_shape)
  from app es have "apply_event i (InterventionRequested (requested_intervention q)) = Inr j" by simp
  with inv show ?thesis by (rule interventions_inv_event) (use new in auto)
next
  case False
  then have "e \<noteq> InterventionRequested v" if "e \<in> set es" for e v
    using decide_emits [OF dec that] by (cases c) auto
  note quiet = this
  from app show ?thesis
  proof (induction rule: fold_events_induct)
    case (event k e k')
    show ?case
      by (rule interventions_inv_event [OF event(1,3)])
        (use event(2) quiet decided_not_import [OF dec] in auto)
  qed (rule inv)
qed

lemma run_interventions_inv: "ceremony_run env d es i \<Longrightarrow> interventions_inv i"
proof (erule journal_invariant)
  show "interventions_inv s" if "opens env d es s" for es s
    using opens_facts(6) [OF that] by (simp add: interventions_inv_def)
qed (erule interventions_inv_step)

end
