(* ===== verification/Step_Safety.thy ===== *)
theory Step_Safety
  imports Run_Safety
begin

text \<open>
  The safety of step execution: what a start leaves, how many claims can be live at once, what a
  worker that lost its claim can still do, how a lease is renewed, and how deadlines end the work
  they bound.
\<close>


section \<open>Starting a step\<close>

definition started_record ::
  "start_step \<Rightarrow> step_record \<Rightarrow> u32 \<Rightarrow> string \<times> bool \<Rightarrow> string option \<Rightarrow> step_record" where
  "started_record c r attempt = (\<lambda>(started_by, dynamic) sealed_role.
     with_budget_reservation
       (with_started r (st_cmd_lease c) attempt (if dynamic then Some started_by else sealed_role))
       (st_cmd_budget_reservation_id c))"

text \<open>
  What a started step leaves: a claim for it under its own fence, with the deadline bound to that
  claim.  Nothing else of the ceremony changes.
\<close>

definition claim_made ::
  "platform \<Rightarrow> ceremony_instance \<Rightarrow> start_step \<Rightarrow> step_record \<Rightarrow> u32 \<Rightarrow> string \<times> bool \<Rightarrow>
     string option \<Rightarrow> step_deadline option \<Rightarrow> ceremony_instance \<Rightarrow> bool" where
  "claim_made env i c r attempt role sealed_role deadline j =
     (j = i\<lparr>ci_step_records :=
              bm_insert (st_cmd_step_id c) (started_record c r attempt role sealed_role)
                (ci_step_records i),
            ci_step_deadlines :=
              (case deadline of
                 Some dl \<Rightarrow> bm_insert (st_cmd_step_id c) dl (ci_step_deadlines i)
               | None \<Rightarrow> bm_remove (st_cmd_step_id c) (ci_step_deadlines i)),
            ci_idempotency_keys :=
              insert (lease_idempotency_key (st_cmd_lease c)) (ci_idempotency_keys i),
            ci_updated_at := st_cmd_now c\<rparr>
      \<and> step_claim_fence env j (st_cmd_step_id c) = Inr (new_claim_fence env i c r attempt)
      \<and> (\<forall>dl. deadline = Some dl \<longrightarrow>
           sd_step_id dl = st_cmd_step_id c \<and> sd_attempt dl = attempt
           \<and> sd_state_visit dl = ci_current_state_visit i
           \<and> sd_state_iteration dl = ci_current_state_iteration i
           \<and> sd_step_iteration dl = rec_iteration r
           \<and> sd_claim_fence dl = new_claim_fence env i c r attempt \<and> sd_finished_by dl = fst role))"

lemma claim_made_fields:
  assumes "claim_made env i c r attempt role sealed_role deadline j"
  shows "ci_step_records j = bm_insert (st_cmd_step_id c) (started_record c r attempt role sealed_role)
      (ci_step_records i)"
    and "ci_step_deadlines j = (case deadline of
        Some dl \<Rightarrow> bm_insert (st_cmd_step_id c) dl (ci_step_deadlines i)
      | None \<Rightarrow> bm_remove (st_cmd_step_id c) (ci_step_deadlines i))"
    and "ci_current_state j = ci_current_state i"
  using assms by (simp_all add: claim_made_def)

lemma dynamic_role_has_binding:
  "resolve_step_role i d s q = Inr (role, dynamic) \<Longrightarrow> def_step d s = Some step \<Longrightarrow>
     dynamic = (cs_dynamic_role_binding step \<noteq> None)"
  by (auto simp: resolve_step_role_def result_simps split: option.splits)

lemma apply_claim_event:
  assumes "claim_admitted env i c d step r attempt role sealed_role"
    and "decide_step_deadline env i c r attempt (new_claim_fence env i c r attempt) (fst role)
       (cs_timeout step) = Inr deadline"
  shows "claim_made env i c r attempt role sealed_role deadline
    (apply_step_started i (claim_event i c step r attempt role sealed_role deadline))"
proof -
  obtain started_by dynamic where role: "role = (started_by, dynamic)" by (cases role)
  from assms have r: "bm_get (ci_step_records i) (st_cmd_step_id c) = Some r"
    and "resolve_step_role i d (st_cmd_step_id c) (st_cmd_role_id c) = Inr (started_by, dynamic)"
    and "def_step d (st_cmd_step_id c) = Some step"
    by (auto simp: claim_admitted_def role)
  then have dyn: "dynamic = (cs_dynamic_role_binding step \<noteq> None)"
    by (rule_tac dynamic_role_has_binding)
  have rec: "take_step_record i (st_cmd_step_id c) = r" by (simp add: take_step_record_def r)
  have dl: "deadline = Some dl \<Longrightarrow> sd_step_id dl = st_cmd_step_id c \<and> sd_attempt dl = attempt
      \<and> sd_state_visit dl = ci_current_state_visit i
      \<and> sd_state_iteration dl = ci_current_state_iteration i \<and> sd_step_iteration dl = rec_iteration r
      \<and> sd_claim_fence dl = new_claim_fence env i c r attempt \<and> sd_finished_by dl = started_by" for dl
    using assms(2) by (auto simp: decide_step_deadline_def and_then_Inr role)
  show ?thesis
    using dyn rec dl
    by (cases deadline; cases "cs_dynamic_role_binding step")
      (simp_all add: claim_made_def apply_step_started_def claim_event_def role started_record_def
        step_claim_fence_def claim_fence_with_started new_claim_fence_def)
qed

lemma start_step_claims:
  assumes "execute env d i (StartStep c) = Inr j"
  obtains step r attempt role sealed_role deadline where
    "claim_admitted env i c d step r attempt role sealed_role"
    "decide_step_deadline env i c r attempt (new_claim_fence env i c r attempt) (fst role)
       (cs_timeout step) = Inr deadline"
    "claim_made env i c r attempt role sealed_role deadline j"
proof -
  from assms obtain es where dec: "decide_start_step env i c d = Inr es"
    and app: "try_fold apply_event i es = Inr j" by (auto simp: execute_fold)
  from dec show thesis
  proof (cases rule: decide_start_step_shape)
    case (1 step r attempt role sealed_role deadline)
    with app apply_claim_event [OF 1(1,2)] show thesis
      by (intro that [OF 1(1,2)]) simp
  qed
qed


section \<open>Capacity\<close>

lemma filter_count_one_change:
  assumes "distinct (map f xs)" and "\<And>x. x \<in> set xs \<Longrightarrow> f x \<noteq> k \<Longrightarrow> P x = Q x"
  shows "length (filter P xs) \<le> Suc (length (filter Q xs))"
  using assms
proof (induction xs)
  case (Cons x xs)
  show ?case
  proof (cases "f x = k")
    case True
    have "P y = Q y" if "y \<in> set xs" for y
      using Cons.prems that True by (metis distinct.simps(2) image_eqI list.set_intros(2)
          list.set_map list.simps(9))
    then have "filter P xs = filter Q xs" by (rule filter_cong [OF refl])
    then show ?thesis by simp
  next
    case False
    with Cons.prems(2) [of x] Cons show ?thesis by auto
  qed
qed simp

lemma steps_in_declaration_order_ids:
  assumes "definition_wf d"
  shows "distinct (map cs_id (steps_in_declaration_order d))"
proof -
  have "map cs_id (List.map_filter (bm_get (def_steps d)) ids) =
      filter (bm_contains (def_steps d)) ids" for ids
  proof (induction ids)
    case (Cons x ids)
    have "cs_id s = x" if "bm_get (def_steps d) x = Some s" for s
      using assms bm_get_member [OF that] by (auto simp: definition_wf_def)
    with Cons show ?case
      by (cases "bm_get (def_steps d) x") (auto simp: List.map_filter_simps bm_contains_def)
  qed (simp add: List.map_filter_simps)
  with assms show ?thesis
    by (simp add: steps_in_declaration_order_def definition_wf_def)
qed

lemma steps_for_state_ids:
  "definition_wf d \<Longrightarrow> distinct (map cs_id (steps_for_state d s))"
  by (simp add: steps_for_state_def steps_in_declaration_order_ids distinct_map_filter)

lemma start_step_live_claims:
  assumes "definition_wf d" and "claim_made env i c r attempt role sealed_role deadline j"
  shows "live_claims j d now \<le> Suc (live_claims i d now)"
proof -
  have "record_is_live j now (cs_id s) = record_is_live i now (cs_id s)"
    if "cs_id s \<noteq> st_cmd_step_id c" for s
    using assms(2) that by (simp add: record_is_live_def claim_made_fields(1))
  moreover have "ci_current_state j = ci_current_state i"
    using assms(2) by (rule claim_made_fields(3))
  ultimately show ?thesis
    unfolding live_claims_def
    by (auto intro: filter_count_one_change [OF steps_for_state_ids [OF assms(1)]])
qed

lemma claimable_concurrent_capacity:
  assumes "resolved_step_is_claimable_at i s d now ceiling = Inr True" and "in_concurrent_state i d"
  shows "live_claims i d now < unat (effective_with (def_max_parallel d) ceiling)"
  using assms
  by (auto simp: resolved_step_is_claimable_at_def in_concurrent_state_def Let_def result_simps
      split: option.splits if_splits)

lemma start_step_capacity:
  assumes "definition_wf d" and "execute env d i (StartStep c) = Inr j" and "in_concurrent_state i d"
  shows "live_claims j d (st_cmd_now c)
    \<le> unat (effective_with (def_max_parallel d) (st_cmd_max_parallel_ceiling c))"
  using assms(2)
proof (cases rule: start_step_claims)
  case (1 step r attempt role sealed_role deadline)
  then have "resolved_step_is_claimable_at i (st_cmd_step_id c) d (st_cmd_now c)
      (st_cmd_max_parallel_ceiling c) = Inr True"
    by (auto simp: claim_admitted_def split: prod.splits)
  from claimable_concurrent_capacity [OF this assms(3)]
    start_step_live_claims [OF assms(1) 1(3), of "st_cmd_now c"]
  show ?thesis by simp
qed


section \<open>Lost claims\<close>

lemma stale_result_same_work:
  assumes "decide_apply_step_result env i c d = Inr es" and "try_fold apply_event i es = Inr j"
    and "step_claim_fence env i (ar_step_id c) \<noteq> Inr (ar_claim_fence c)"
  shows "same_work i j \<and> observations_kept i j"
  using unclaimed_result_adds [OF assms(1), of i] assms(3)
  by (intro observations_added [OF assms(2)]) (simp add: result_admitted_def)

lemma stale_receipt_same_work:
  assumes "decide_apply_execution_receipt_result env i s f l r now d = Inr es"
    and "try_fold apply_event i es = Inr j" and "step_claim_fence env i s \<noteq> Inr f"
  shows "same_work i j \<and> observations_kept i j"
  using unclaimed_receipt_adds [OF assms(1)] assms(3)
  by (intro observations_added [OF assms(2)]) (simp add: result_admitted_def)

lemma known_late_result:
  assumes "bm_get (ci_late_step_results i) (ar_claim_fence c) = Some l"
    and "decide_apply_step_result env i c d = Inr es"
  shows "es = []" and "late_step_id l = ar_step_id c" and "late_result l = ar_result c"
proof -
  from assms(2) obtain x where x: "decide_late_step_result env i c d = Inr x"
    and rest: "x \<noteq> None \<Longrightarrow> x = Some es"
    unfolding decide_apply_step_result_def and_then_Inr by (auto split: option.splits)
  from x have "x = Some [] \<and> late_step_id l = ar_step_id c \<and> late_result l = ar_result c"
    by (cases rule: decide_late_step_result_shape) (use assms(1) in auto)
  with rest show "es = []" "late_step_id l = ar_step_id c" "late_result l = ar_result c" by auto
qed


section \<open>Lease renewal\<close>

lemma step_claim_fence_renewed:
  assumes "bm_get (ci_step_records i) s = Some r"
  shows "step_claim_fence env (i\<lparr>ci_step_records :=
      bm_insert s (renew_lease_until r t) (ci_step_records i)\<rparr>) s = step_claim_fence env i s"
  using assms
  by (simp add: step_claim_fence_def claim_fence_for_record_def renew_lease_until_def
      claim_fence_parts_def)

definition lease_extended :: "platform \<Rightarrow> renew_step_lease \<Rightarrow> ceremony_instance \<Rightarrow> ceremony_instance \<Rightarrow> bool" where
  "lease_extended env c i j =
     (\<exists>r. bm_get (ci_step_records i) (rn_step_id c) = Some r
        \<and> ci_step_records j = bm_insert (rn_step_id c) (renew_lease_until r (rn_expires_at c))
             (ci_step_records i)
        \<and> has_live_lease_at r (rn_now c)
        \<and> effective_lease_expires_at r = Some (rn_expected_expires_at c)
        \<and> rn_expected_expires_at c \<le> rn_expires_at c
        \<and> (\<forall>at. absolute_deadline i (rn_step_id c) = Some at \<longrightarrow> rn_expires_at c \<le> at)
        \<and> step_claim_fence env j (rn_step_id c) = step_claim_fence env i (rn_step_id c))"

lemma renewal_extends_or_replays:
  assumes "execute env d i (RenewStepLease c) = Inr j"
  shows "j = i \<or> lease_extended env c i j"
proof -
  from assms obtain es where dec: "decide_renew_step_lease env i c d = Inr es"
    and app: "try_fold apply_event i es = Inr j" by (auto simp: execute_fold)
  from decide_renew_step_lease_shape [OF dec] consider "es = []"
    | r lease where "renewal_admitted env i c d r lease" "es = [StepLeaseRenewed (renewal_event c)]"
    by blast
  then show ?thesis
  proof cases
    case 2
    then have r: "bm_get (ci_step_records i) (rn_step_id c) = Some r"
      by (simp add: renewal_admitted_def)
    from app 2(2) have j: "j = apply_step_lease_renewed i (renewal_event c)" by simp
    have records: "ci_step_records j =
        bm_insert (rn_step_id c) (renew_lease_until r (rn_expires_at c)) (ci_step_records i)"
      by (simp add: j apply_step_lease_renewed_def renewal_event_def r)
    have "ci_id j = ci_id i" by (simp add: j apply_step_lease_renewed_def)
    then have "step_claim_fence env j (rn_step_id c) = step_claim_fence env i (rn_step_id c)"
      using step_claim_fence_renewed [OF r, of env "rn_expires_at c"] records
      by (simp add: step_claim_fence_def)
    with r records 2(1) show ?thesis
      by (auto simp: lease_extended_def renewal_admitted_def)
  qed (use app in simp)
qed


section \<open>Deadlines\<close>

lemma earliest_Some:
  "earliest a b = Some t \<longleftrightarrow>
     (a = Some t \<or> b = Some t) \<and> (\<forall>x. a = Some x \<longrightarrow> t \<le> x) \<and> (\<forall>y. b = Some y \<longrightarrow> t \<le> y)"
  by (auto simp: earliest_def min_def split: option.splits)

lemma earliest_None: "earliest a b = None \<longleftrightarrow> a = None \<and> b = None"
  by (auto simp: earliest_def split: option.splits)

lemma deadline_of_Inr:
  assumes "deadline_of env now timeout field = Inr x" and "checked_add_sound env"
  shows "x = map_option (\<lambda>ms. now + nanos_of_millis (uint ms)) timeout"
  using assms
  by (auto simp: deadline_of_def checked_deadline_def checked_add_sound_def result_simps
      split: option.splits if_splits)

definition deadline_candidates ::
  "ceremony_instance \<Rightarrow> int \<Rightarrow> u64 option \<Rightarrow> int set" where
  "deadline_candidates i now timeout =
     set_option (map_option (\<lambda>ms. now + nanos_of_millis (uint ms)) timeout)
     \<union> set_option (map_option std_at (ci_state_deadline i)) \<union> set_option (ci_ceremony_deadline i)"

lemma step_deadline_is_earliest:
  assumes "decide_step_deadline env i c r attempt fence by' timeout = Inr x"
    and "checked_add_sound env"
  shows "case x of
      None \<Rightarrow> deadline_candidates i (st_cmd_now c) timeout = {}
    | Some dl \<Rightarrow> sd_at dl \<in> deadline_candidates i (st_cmd_now c) timeout
        \<and> (\<forall>t \<in> deadline_candidates i (st_cmd_now c) timeout. sd_at dl \<le> t)
        \<and> sd_claim_fence dl = fence \<and> sd_step_id dl = st_cmd_step_id c"
proof -
  let ?all = "\<lambda>own. earliest (earliest own (map_option std_at (ci_state_deadline i)))
    (ci_ceremony_deadline i)"
  from assms(1) obtain own where own: "deadline_of env (st_cmd_now c) timeout ''step_deadline'' = Inr own"
    and def: "x = map_option
         (\<lambda>at. \<lparr>sd_step_id = st_cmd_step_id c, sd_state_visit = ci_current_state_visit i,
                sd_state_iteration = ci_current_state_iteration i,
                sd_step_iteration = rec_iteration r, sd_attempt = attempt,
                sd_claim_fence = fence, sd_finished_by = by', sd_at = at\<rparr>) (?all own)"
    by (auto simp: decide_step_deadline_def result_simps)
  from def have x: "map_option sd_at x = ?all own"
    by (cases "?all own") simp_all
  from def have ids: "sd_claim_fence dl = fence \<and> sd_step_id dl = st_cmd_step_id c" if "x = Some dl" for dl
    using that by (cases "?all own") auto
  note own = deadline_of_Inr [OF own assms(2)]
  show ?thesis
  proof (cases x)
    case None
    with x own show ?thesis
      by (auto simp: earliest_None deadline_candidates_def dest!: sym [of None])
  next
    case (Some dl)
    with x have "earliest (earliest own (map_option std_at (ci_state_deadline i)))
            (ci_ceremony_deadline i) = Some (sd_at dl)" by simp
    then have "(own = Some (sd_at dl) \<or> map_option std_at (ci_state_deadline i) = Some (sd_at dl)
         \<or> ci_ceremony_deadline i = Some (sd_at dl))
      \<and> (\<forall>t. own = Some t \<longrightarrow> sd_at dl \<le> t)
      \<and> (\<forall>t. map_option std_at (ci_state_deadline i) = Some t \<longrightarrow> sd_at dl \<le> t)
      \<and> (\<forall>t. ci_ceremony_deadline i = Some t \<longrightarrow> sd_at dl \<le> t)"
      by (auto simp: earliest_Some earliest_def split: option.splits if_splits)
    with Some ids own show ?thesis
      by (auto simp: deadline_candidates_def)
  qed
qed


text \<open>The deadline kept for a step is one that step's own claim set.\<close>

definition deadline_map_ok :: "(string, step_deadline) bmap \<Rightarrow> bool" where
  "deadline_map_ok m = (bm_wf m \<and> (\<forall>(k, dl) \<in> set m. sd_step_id dl = k))"

definition deadlines_inv :: "ceremony_instance \<Rightarrow> bool" where
  "deadlines_inv i = deadline_map_ok (ci_step_deadlines i)"

lemma set_bm_insert_subset: "set (bm_insert k v m) \<subseteq> insert (k, v) (set m)"
  by (induction k v m rule: bm_insert.induct) auto

lemma deadline_map_ok_insert:
  "deadline_map_ok m \<Longrightarrow> sd_step_id dl = k \<Longrightarrow> deadline_map_ok (bm_insert k dl m)"
  using set_bm_insert_subset [of k dl m] by (fastforce simp: deadline_map_ok_def)

lemma deadline_map_ok_remove [simp]: "deadline_map_ok m \<Longrightarrow> deadline_map_ok (bm_remove k m)"
  using set_bm_remove [of k m] by (auto simp: deadline_map_ok_def)

lemma deadline_map_ok_Nil [simp]: "deadline_map_ok []"
  by (simp add: deadline_map_ok_def)

lemma deadlines_inv_event:
  assumes inv: "deadlines_inv i" and app: "apply_event i e = Inr j" and "\<not> is_import e"
    and "\<And>s dl. e = StepStarted s \<Longrightarrow> ss_deadline s = Some dl \<Longrightarrow> sd_step_id dl = ss_step_id s"
  shows "deadlines_inv j"
proof (cases "touches_records e")
  case False
  from effect_step_records [OF app assms(3) this] inv show ?thesis by (simp add: deadlines_inv_def)
next
  case touches: True
  note inv' = inv [unfolded deadlines_inv_def]
  note removed = deadline_map_ok_remove [OF inv']
  show ?thesis
  proof (cases e)
    case (StepStarted s)
    with app have j: "ci_step_deadlines j = (case ss_deadline s of
        Some deadline \<Rightarrow> bm_insert (ss_step_id s) deadline (ci_step_deadlines i)
      | None \<Rightarrow> bm_remove (ss_step_id s) (ci_step_deadlines i))"
      by (auto simp: apply_step_started_def)
    show ?thesis
    proof (cases "ss_deadline s")
      case None
      with j removed show ?thesis by (simp add: deadlines_inv_def)
    next
      case (Some dl)
      from deadline_map_ok_insert [OF inv' assms(4) [OF StepStarted this]] j Some
      show ?thesis by (simp add: deadlines_inv_def)
    qed
  next
    case (StepDeadlineExceeded dl r at)
    with app removed show ?thesis
      by (auto simp: deadlines_inv_def apply_step_deadline_exceeded_def)
  next
    case (StepCompleted c)
    with app removed show ?thesis
      by (auto simp: deadlines_inv_def apply_step_completed_def Let_def split: option.splits)
  next
    case (StepFailed f)
    with app removed show ?thesis
      by (auto simp: deadlines_inv_def apply_step_failed_def)
  next
    case (TransitionApplied t v)
    with app inv show ?thesis
      by (cases v) (auto simp: deadlines_inv_def apply_transition_applied_def Let_def)
  qed (use app inv touches in \<open>auto simp: deadlines_inv_def fold_defs\<close>)
qed

lemma decided_start_deadline:
  assumes "decide env i c d = Inr es" and "StepStarted s \<in> set es" and "ss_deadline s = Some dl"
  shows "sd_step_id dl = ss_step_id s"
proof -
  obtain q where c: "c = StartStep q"
    using decide_emits [OF assms(1,2)] by (cases c) auto
  with assms(1) have "decide_start_step env i q d = Inr es" by simp
  then show ?thesis
    by (cases rule: decide_start_step_shape)
      (use assms(2,3) in \<open>auto simp: claim_event_def decide_step_deadline_def result_simps\<close>)
qed

lemma deadlines_inv_step:
  assumes "deadlines_inv i" and "decide env i c d = Inr es" and "try_fold apply_event i es = Inr j"
  shows "deadlines_inv j"
  using assms(3)
proof (induction rule: fold_events_induct)
  case (event k e k')
  show ?case
    by (rule deadlines_inv_event [OF event(1,3)])
      (use event(2) decided_start_deadline [OF assms(2)] decided_not_import [OF assms(2)] in auto)
qed (rule assms(1))

lemma run_deadlines_inv: "ceremony_run env d es i \<Longrightarrow> deadlines_inv i"
proof (erule journal_invariant)
  show "deadlines_inv s" if "opens env d es s" for es s
    using that
    by (auto elim!: opens_shape simp: deadlines_inv_def from_started_def apply_memory_recalled_def
        apply_succession_carried_def)
qed (erule deadlines_inv_step)


lemma fold_step_deadlines_exceeded:
  assumes "try_fold apply_event i (map (\<lambda>dl. StepDeadlineExceeded dl r now) dls) = Inr j"
    and "deadlines_inv i"
  shows "set (bm_values (ci_step_deadlines j))
      \<subseteq> {dl \<in> set (bm_values (ci_step_deadlines i)). sd_step_id dl \<notin> sd_step_id ` set dls}
    \<and> ci_lifecycle j = ci_lifecycle i \<and> ci_completed_at j = ci_completed_at i
    \<and> ci_ceremony_deadline j = ci_ceremony_deadline i \<and> ci_state_deadline j = ci_state_deadline i"
  using assms
proof (induction dls arbitrary: i)
  case (Cons dl dls)
  let ?k = "apply_step_deadline_exceeded i dl r now"
  from Cons.prems(1) have fold: "try_fold apply_event ?k (map (\<lambda>dl. StepDeadlineExceeded dl r now) dls) = Inr j"
    by simp
  have inv: "deadlines_inv ?k"
    by (rule deadlines_inv_event [OF Cons.prems(2), of "StepDeadlineExceeded dl r now"]) simp_all
  have wf: "bm_wf (ci_step_deadlines i)" "\<forall>(k, x) \<in> set (ci_step_deadlines i). sd_step_id x = k"
    using Cons.prems(2) by (auto simp: deadlines_inv_def deadline_map_ok_def)
  have gone: "set (bm_values (bm_remove (sd_step_id dl) (ci_step_deadlines i)))
      \<subseteq> {x \<in> set (bm_values (ci_step_deadlines i)). sd_step_id x \<noteq> sd_step_id dl}"
  proof
    fix x assume "x \<in> set (bm_values (bm_remove (sd_step_id dl) (ci_step_deadlines i)))"
    then obtain k where k: "(k, x) \<in> set (bm_remove (sd_step_id dl) (ci_step_deadlines i))"
      by (auto simp: bm_values_def)
    then have "bm_get (bm_remove (sd_step_id dl) (ci_step_deadlines i)) k = Some x"
      using wf(1) by (intro bm_get_of_member) simp_all
    with wf(1) have "k \<noteq> sd_step_id dl" by auto
    moreover from k have "(k, x) \<in> set (ci_step_deadlines i)" by (rule subsetD [OF set_bm_remove])
    ultimately show "x \<in> {x \<in> set (bm_values (ci_step_deadlines i)). sd_step_id x \<noteq> sd_step_id dl}"
      using wf(2) by (force simp: bm_values_def)
  qed
  have k: "ci_step_deadlines ?k = bm_remove (sd_step_id dl) (ci_step_deadlines i)"
    "ci_lifecycle ?k = ci_lifecycle i" "ci_completed_at ?k = ci_completed_at i"
    "ci_ceremony_deadline ?k = ci_ceremony_deadline i" "ci_state_deadline ?k = ci_state_deadline i"
    by (simp_all add: apply_step_deadline_exceeded_def)
  note IH = Cons.IH [OF fold inv, unfolded k]
  from IH gone have "set (bm_values (ci_step_deadlines j))
      \<subseteq> {x \<in> set (bm_values (ci_step_deadlines i)). sd_step_id x \<notin> sd_step_id ` set (dl # dls)}"
    by auto
  with IH show ?case by blast
qed simp

text \<open>After deadlines are enforced, the ceremony has ended or nothing is overdue.\<close>

definition nothing_overdue :: "ceremony_instance \<Rightarrow> int \<Rightarrow> bool" where
  "nothing_overdue i now =
     ((\<forall>at. ci_ceremony_deadline i = Some at \<longrightarrow> now < at)
      \<and> (\<forall>dl. ci_state_deadline i = Some dl \<longrightarrow> now < std_at dl)
      \<and> (\<forall>dl \<in> set (bm_values (ci_step_deadlines i)). now < sd_at dl))"

lemma terminal_events_cases:
  "terminal_events i now = [] \<and> ceremony_due i now = None \<and> state_due i now = None
   \<or> (\<exists>e. terminal_events i now = [e] \<and>
        ((\<exists>at. e = CeremonyDeadlineExceeded at now) \<or> (\<exists>dl. e = StateDeadlineExceeded dl now)))"
  by (auto simp: terminal_events_def split: option.splits)

lemma enforce_deadlines_effect:
  assumes inv: "deadlines_inv i" and exec: "execute env d i (EnforceCeremonyDeadlines now) = Inr j"
  shows "is_ended j \<or> nothing_overdue j now"
proof -
  from exec obtain es where dec: "decide_enforce_deadlines i now d = Inr es"
    and app: "try_fold apply_event i es = Inr j" by (auto simp: execute_fold)
  show ?thesis
  proof (cases "is_ended i")
    case True
    with dec app show ?thesis by (auto simp: decide_enforce_deadlines_eq and_then_Inr)
  next
    case False
    let ?due = "due_step_deadlines i now (terminal_due i now)"
    from dec False have "es = map (\<lambda>dl. StepDeadlineExceeded dl timeout_result now) ?due
        @ terminal_events i now"
      by (auto simp: decide_enforce_deadlines_eq and_then_Inr)
    with app obtain k where
      k: "try_fold apply_event i (map (\<lambda>dl. StepDeadlineExceeded dl timeout_result now) ?due) = Inr k"
      and j: "try_fold apply_event k (terminal_events i now) = Inr j"
      by (auto simp: try_fold_append and_then_Inr)
    note after = fold_step_deadlines_exceeded [OF k inv]
    from terminal_events_cases [of i now] show ?thesis
    proof (elim disjE conjE exE)
      assume none: "terminal_events i now = []" "ceremony_due i now = None" "state_due i now = None"
      with j have "j = k" by simp
      moreover have "set ?due = {dl \<in> set (bm_values (ci_step_deadlines i)). sd_at dl \<le> now}"
        using none by (auto simp: due_step_deadlines_def terminal_due_def earliest_def)
      ultimately have "nothing_overdue j now"
        using after none
        by (auto simp: nothing_overdue_def ceremony_due_def state_due_def not_le [symmetric]
            split: option.splits if_splits)
      then show ?thesis ..
    qed (use j in \<open>auto simp: is_ended_def instance_lifecycle_def fold_defs lifecycle_end_def
        lifecycle_is_explicit_def split: option.splits\<close>)
  qed
qed

lemma enforce_deadlines_total:
  assumes "matches_definition i d"
  shows "\<exists>j. execute env d i (EnforceCeremonyDeadlines now) = Inr j"
proof -
  obtain es where "decide env i (EnforceCeremonyDeadlines now) d = Inr es"
    using assms by (auto simp: decide_enforce_deadlines_eq require_definition_def require_def)
  with decided_folds [OF this] show ?thesis by (auto simp: execute_def)
qed


section \<open>Claimable steps are the steps that can be started\<close>

text \<open>
  What a start needs beside a claimable step: work is admitted, the key of the lease is new, the
  reservation is the one the ceremony's account asks for, and the step's own deadline is
  representable.
\<close>

definition start_prepared ::
  "platform \<Rightarrow> ceremony_instance \<Rightarrow> start_step \<Rightarrow> ceremony_definition \<Rightarrow> bool" where
  "start_prepared env i c d =
     (admits_new_work i \<and> \<not> is_terminal i d \<and> st_cmd_role_id c = None
      \<and> lease_idempotency_key (st_cmd_lease c) \<notin> ci_idempotency_keys i
      \<and> (case bm_get (ci_step_records i) (st_cmd_step_id c) of
           None \<Rightarrow> True
         | Some r \<Rightarrow> require_budget_reservation env i (st_cmd_step_id c) r
                       (st_cmd_budget_reservation_id c) = Inr ())
      \<and> (case def_step d (st_cmd_step_id c) of
           None \<Rightarrow> True
         | Some step \<Rightarrow> \<not> isl (deadline_of env (st_cmd_now c) (cs_timeout step) ''step_deadline'')))"

lemma try_map_concat_mem:
  assumes "try_map (\<lambda>s. and_then (f s) (\<lambda>b. Inr (if b then [g s] else []))) xs = Inr ys"
  shows "y \<in> set (concat ys) \<longleftrightarrow> (\<exists>s \<in> set xs. f s = Inr True \<and> g s = y)"
  using assms
proof (induction xs arbitrary: ys)
  case (Cons x xs)
  then obtain b bs where "f x = Inr b" "ys = (if b then [g x] else []) # bs"
    "try_map (\<lambda>s. and_then (f s) (\<lambda>b. Inr (if b then [g s] else []))) xs = Inr bs"
    by (auto simp: and_then_Inr)
  with Cons.IH [of bs] show ?case by auto
qed simp

lemma steps_for_state_iff:
  assumes "definition_wf d"
  shows "s \<in> set (steps_for_state d st) \<longleftrightarrow> def_step d (cs_id s) = Some s \<and> cs_state_id s = st"
proof
  assume "s \<in> set (steps_for_state d st)"
  then obtain k where "cs_state_id s = st" "bm_get (def_steps d) k = Some s"
    by (auto dest: steps_for_state_member)
  moreover from this(2) have "cs_id s = k"
    using assms bm_get_member by (fastforce simp: definition_wf_def)
  ultimately show "def_step d (cs_id s) = Some s \<and> cs_state_id s = st" by (simp add: def_step_def)
next
  assume s: "def_step d (cs_id s) = Some s \<and> cs_state_id s = st"
  with assms have "cs_id s \<in> set (def_step_order d)"
    by (auto simp: definition_wf_def def_step_def set_bm_keys)
  with s show "s \<in> set (steps_for_state d st)"
    by (force simp: steps_for_state_def steps_in_declaration_order_def List.map_filter_def
        def_step_def)
qed

text \<open>A listed step is one of the current state whose role resolves and whose slot is free.\<close>

lemma step_is_claimable_True:
  "step_is_claimable_at i s d now = Inr True \<longleftrightarrow>
     (\<exists>p. resolve_step_role i d s None = Inr p) \<and> step_is_ready_without_role_at i s d now = Inr True"
  by (simp add: step_is_claimable_at_def split: sum.splits)

lemma first_unfinished_member: "first_unfinished i steps = Some s \<Longrightarrow> s \<in> set steps"
  by (auto simp: first_unfinished_def find_Some_iff)

lemma claimable_iff:
  assumes wf: "definition_wf d" and ids: "claimable_step_ids_at i d now ceiling = Inr ids"
  shows "s \<in> set ids \<longleftrightarrow>
    (\<exists>step p. def_step d s = Some step \<and> cs_state_id step = ci_current_state i
      \<and> resolve_step_role i d s None = Inr p
      \<and> resolved_step_is_claimable_at i s d now ceiling = Inr True)"
proof -
  let ?steps = "steps_for_state d (ci_current_state i)"
  note member = steps_for_state_iff [OF wf, of _ "ci_current_state i"]
  from ids obtain st where m: "require_definition i d = Inr ()"
    and st: "def_state d (ci_current_state i) = Some st"
    by (cases "require_definition i d"; cases "def_state d (ci_current_state i)")
      (simp_all add: claimable_step_ids_at_def ok_or_def)
  have listed: "(if st_execution st = Sequential
       then (case first_unfinished i ?steps of
               None \<Rightarrow> Inr []
             | Some step \<Rightarrow> and_then (step_is_claimable_at i (cs_id step) d now)
                 (\<lambda>b. Inr (if b then [cs_id step] else [])))
       else if unat (effective_with (def_max_parallel d) ceiling) \<le> live_claims i d now then Inr []
       else and_then (try_map (\<lambda>s. and_then (step_is_claimable_at i (cs_id s) d now)
              (\<lambda>b. Inr (if b then [cs_id s] else []))) ?steps) (\<lambda>idss. Inr (concat idss))) = Inr ids"
    unfolding ids [symmetric] by (simp add: claimable_step_ids_at_def m st Let_def)
  have resolved: "resolved_step_is_claimable_at i s d now ceiling =
      (if st_execution st = Sequential
       then (case first_unfinished i ?steps of
               None \<Rightarrow> Inr False
             | Some first \<Rightarrow> if cs_id first \<noteq> s then Inr False
                 else step_is_ready_without_role_at i s d now)
       else if unat (effective_with (def_max_parallel d) ceiling) \<le> live_claims i d now
       then Inr False
       else step_is_ready_without_role_at i s d now)"
    by (simp add: resolved_step_is_claimable_at_def m st Let_def)
  have id: "def_step d s = Some step \<Longrightarrow> cs_id step = s" for step
    using wf bm_get_member by (fastforce simp: definition_wf_def def_step_def)
  show ?thesis
  proof (cases "st_execution st = Sequential")
    case True
    show ?thesis
    proof (cases "first_unfinished i ?steps")
      case None
      with True listed resolved show ?thesis by simp
    next
      case (Some f)
      then have f: "def_step d (cs_id f) = Some f" "cs_state_id f = ci_current_state i"
        using member [of f] first_unfinished_member by auto
      from True Some listed have "s \<in> set ids \<longleftrightarrow>
          s = cs_id f \<and> step_is_claimable_at i (cs_id f) d now = Inr True"
        by (auto simp: result_simps split: if_splits)
      with True Some resolved f show ?thesis
        by (auto simp: step_is_claimable_True)
    qed
  next
    case False
    show ?thesis
    proof (cases "unat (effective_with (def_max_parallel d) ceiling) \<le> live_claims i d now")
      case True
      with False listed resolved show ?thesis by simp
    next
      case free: False
      with False listed obtain idss where
        "try_map (\<lambda>s. and_then (step_is_claimable_at i (cs_id s) d now)
           (\<lambda>b. Inr (if b then [cs_id s] else []))) ?steps = Inr idss" "ids = concat idss"
        by (auto simp: result_simps)
      then have "s \<in> set ids \<longleftrightarrow>
          (\<exists>step \<in> set ?steps. step_is_claimable_at i (cs_id step) d now = Inr True \<and> cs_id step = s)"
        by (simp only: try_map_concat_mem)
      also have "\<dots> \<longleftrightarrow> (\<exists>step. def_step d s = Some step \<and> cs_state_id step = ci_current_state i
          \<and> step_is_claimable_at i s d now = Inr True)"
        unfolding Bex_def member using id by blast
      finally show ?thesis
        using False free resolved by (simp add: step_is_claimable_True)
    qed
  qed
qed

lemma ready_True:
  "step_is_ready_without_role_at i s d now = Inr True \<longleftrightarrow>
     (\<exists>step r attempt. def_step d s = Some step \<and> bm_get (ci_step_records i) s = Some r
        \<and> can_be_started_at r now \<and> next_start_attempt r = Inr attempt
        \<and> allows_attempt (cs_retry_policy step) attempt)"
  by (auto simp: step_is_ready_without_role_at_def result_simps split: if_splits)

lemma resolved_claimable_ready:
  "resolved_step_is_claimable_at i s d now ceiling = Inr True \<Longrightarrow>
     step_is_ready_without_role_at i s d now = Inr True"
  by (auto simp: resolved_step_is_claimable_at_def result_simps Let_def
      split: if_splits option.splits)

lemma sealed_role_resolves:
  assumes "resolve_step_role i d s None = Inr (role, dynamic)"
  shows "\<exists>sealed. sealed_role_for i d s role dynamic = Inr sealed"
  using assms
  by (auto simp: resolve_step_role_def sealed_role_for_def result_simps split: option.splits)

lemma step_deadline_representable:
  "\<not> isl (deadline_of env (st_cmd_now c) timeout ''step_deadline'') \<Longrightarrow>
     \<exists>x. decide_step_deadline env i c r attempt fence by' timeout = Inr x"
  by (cases "deadline_of env (st_cmd_now c) timeout ''step_deadline''")
    (simp_all add: decide_step_deadline_def)

lemma claim_admitted_starts:
  assumes "claim_admitted env i c d step r attempt role sealed_role"
    and "\<not> isl (deadline_of env (st_cmd_now c) (cs_timeout step) ''step_deadline'')"
  shows "\<exists>es. decide_start_step env i c d = Inr es"
proof -
  obtain started_by dynamic where role: "role = (started_by, dynamic)" by (cases role)
  obtain dl where "decide_step_deadline env i c r attempt (new_claim_fence env i c r attempt)
      started_by (cs_timeout step) = Inr dl"
    using step_deadline_representable [OF assms(2)] by blast
  with assms(1) show ?thesis
    by (auto simp: role decide_start_step_def claim_admitted_def result_simps admits_new_work_def
        require_definition_def require_admits_new_work_def claim_fence_with_started
        new_claim_fence_def require_def)
qed

lemma claimable_iff_startable:
  assumes wf: "definition_wf d" and prep: "start_prepared env i c d"
    and ids: "claimable_step_ids_at i d (st_cmd_now c) (st_cmd_max_parallel_ceiling c) = Inr ids"
  shows "(\<exists>es. decide env i (StartStep c) d = Inr es) \<longleftrightarrow> st_cmd_step_id c \<in> set ids"
proof
  assume "\<exists>es. decide env i (StartStep c) d = Inr es"
  then obtain es where "decide_start_step env i c d = Inr es" by auto
  then show "st_cmd_step_id c \<in> set ids"
    by (cases rule: decide_start_step_shape)
      (use prep claimable_iff [OF wf ids] in
        \<open>auto simp: claim_admitted_def start_prepared_def split: prod.splits\<close>)
next
  assume "st_cmd_step_id c \<in> set ids"
  then obtain step role dynamic where step: "def_step d (st_cmd_step_id c) = Some step"
    "cs_state_id step = ci_current_state i"
    and role: "resolve_step_role i d (st_cmd_step_id c) None = Inr (role, dynamic)"
    and claimable: "resolved_step_is_claimable_at i (st_cmd_step_id c) d (st_cmd_now c)
      (st_cmd_max_parallel_ceiling c) = Inr True"
    using claimable_iff [OF wf ids] by auto
  from resolved_claimable_ready [OF claimable] step obtain r attempt where
    r: "bm_get (ci_step_records i) (st_cmd_step_id c) = Some r" "can_be_started_at r (st_cmd_now c)"
    "next_start_attempt r = Inr attempt" "allows_attempt (cs_retry_policy step) attempt"
    by (auto simp: ready_True)
  from sealed_role_resolves [OF role] obtain sealed where
    sealed: "sealed_role_for i d (st_cmd_step_id c) role dynamic = Inr sealed" ..
  from claimable have "matches_definition i d"
    by (auto simp: resolved_step_is_claimable_at_def require_definition_def result_simps)
  with step role claimable r sealed prep
  have "claim_admitted env i c d step r attempt (role, dynamic) sealed"
    by (simp add: claim_admitted_def start_prepared_def)
  moreover from prep step
  have "\<not> isl (deadline_of env (st_cmd_now c) (cs_timeout step) ''step_deadline'')"
    by (simp add: start_prepared_def)
  ultimately show "\<exists>es. decide env i (StartStep c) d = Inr es"
    using claim_admitted_starts by simp
qed

end
