(* ===== verification/Human_Approval.thy ===== *)
theory Human_Approval
  imports Run_Safety
begin

text \<open>
  Where the approval of a human guard can come from.  The context holds the approval under the name
  of the guard, so the guard is only as safe as that key: if neither the opening context nor a
  context write of a step sets it, an approved guard has a recorded approval.
\<close>


section \<open>Who writes the key of a guard\<close>

definition writes_key :: "ceremony_definition \<Rightarrow> string \<Rightarrow> bool" where
  "writes_key d k = list_ex (\<lambda>(_, s). bm_contains (cs_context_writes s) k) (def_steps d)"

fun opening_context :: "ceremony_event list \<Rightarrow> ceremony_context" where
  "opening_context (CeremonyInstanceStarted opened # _) = cis_context opened"
| "opening_context _ = []"

lemma resolve_fold_other:
  assumes "try_fold (\<lambda>patch (destination, source).
      and_then (ok_or (bm_get output source) e) (\<lambda>v. Inr (bm_insert destination v patch))) p ws = Inr q"
    and "k \<notin> fst ` set ws"
  shows "bm_get q k = bm_get p k"
  using assms
proof (induction ws arbitrary: p)
  case (Cons w ws)
  obtain a b where w: "w = (a, b)" by (cases w)
  with Cons.prems obtain v where "bm_get output b = Some v"
    and rest: "try_fold (\<lambda>patch (destination, source).
        and_then (ok_or (bm_get output source) e) (\<lambda>v. Inr (bm_insert destination v patch)))
        (bm_insert a v p) ws = Inr q"
    by (auto simp: and_then_Inr)
  from Cons.IH [OF rest] Cons.prems(2) w show ?case by auto
qed simp

lemma context_writes_resolve_other:
  assumes "context_writes_resolve ws output = Inr (Some p)" and "\<not> bm_contains ws k"
  shows "bm_get p k = None"
proof -
  from assms(1) have "try_fold (\<lambda>patch (destination, source).
      and_then (ok_or (bm_get output source) (NotFound ''ceremony_step.context_write.output_field''))
        (\<lambda>v. Inr (bm_insert destination v patch))) [] ws = Inr p"
    by (auto simp: context_writes_resolve_def context_patch_new_def result_simps split: if_splits)
  from resolve_fold_other [OF this, of k] assms(2) show ?thesis
    by (simp add: bm_contains_def bm_get_None_iff bm_keys_def)
qed

lemma with_patch_other:
  assumes "with_patch ctx p = Inr ctx'" and "bm_get p k = None"
  shows "bm_get ctx' k = bm_get ctx k"
  using assms
  by (auto simp: with_patch_def attributes_new_Inr bm_get_extend bm_get_None_iff bm_keys_def
      map_of_eq_None_iff split: option.splits dest!: map_of_SomeD) force

lemma with_guard_approval_other:
  "with_guard_approval ctx g = Inr ctx' \<Longrightarrow> k \<noteq> g \<Longrightarrow> bm_get ctx' k = bm_get ctx k"
  by (auto simp: with_guard_approval_def attributes_new_Inr)

lemma decided_writes:
  assumes "decide env i c d = Inr es" and "ContextWritten w \<in> set es"
  shows "\<exists>s step output. (s, step) \<in> set (def_steps d)
    \<and> context_writes_resolve (cs_context_writes step) output = Inr (Some (cw_patch w))"
proof -
  have success: "\<exists>output. context_writes_resolve (cs_context_writes step) output = Inr (Some (cw_patch w))"
    if "decide_step_success i x d step r = Inr xs" "ContextWritten w \<in> set xs" for x step r xs
    using that(1)
  proof (cases rule: decide_step_success_shape)
    case (1 nxt finished_by patch j it)
    from 1(4) have "ContextWritten w \<notin> set it"
      by (cases rule: decide_state_iteration_shape) auto
    with that(2) 1(2,5) show ?thesis
      by (auto simp: written_events_def split: option.splits)
  qed
  have result: ?thesis if "decide_apply_step_result env i x d = Inr xs" "ContextWritten w \<in> set xs" for x xs
    using that(1)
  proof (cases rule: decide_apply_step_result_shape)
    case (completed step r)
    from completed(1) have "(ar_step_id x, step) \<in> set (def_steps d)"
      by (auto simp: result_admitted_def def_step_def dest: bm_get_member)
    with success [OF completed(3) that(2)] show ?thesis by blast
  qed (use that(2) in simp_all)
  from decide_emits [OF assms] consider x where "c = ApplyStepResult x"
    | s f l r now where "c = ApplyExecutionReceiptResult s f l r now"
    by (cases c) auto
  then show ?thesis
  proof cases
    case 1
    with assms result show ?thesis by simp
  next
    case 2
    with assms(1) have "decide_apply_execution_receipt_result env i s f l r now d = Inr es" by simp
    then show ?thesis
      by (cases rule: decide_apply_execution_receipt_result_shape)
        (use assms(2) result in auto)
  qed
qed


section \<open>Approvals are recorded\<close>

definition approvals_inv :: "string \<Rightarrow> ceremony_event list \<Rightarrow> ceremony_instance \<Rightarrow> bool" where
  "approvals_inv g es i =
     (ci_guard_approvals i = concat (map approval_of es)
      \<and> (is_guard_approved (ci_context i) g \<longrightarrow>
           g \<in> approval_guard_name ` set (ci_guard_approvals i)))"

lemma approvals_inv_event:
  assumes inv: "approvals_inv g es i" and app: "apply_event i e = Inr j" and "\<not> is_import e"
    and key: "\<And>w. e = ContextWritten w \<Longrightarrow> bm_get (cw_patch w) g = None"
  shows "approvals_inv g (es @ [e]) j"
proof -
  note approvals = effect_guard_approvals [OF app assms(3)]
  have "g \<in> approval_guard_name ` set (ci_guard_approvals j)" if "is_guard_approved (ci_context j) g"
  proof (cases "writes_context e")
    case False
    from effect_context [OF app assms(3) this] that inv approvals show ?thesis
      by (auto simp: approvals_inv_def)
  next
    case writes: True
    show ?thesis
    proof (cases e)
      case (ContextWritten w)
      with app obtain ctx where "with_patch (ci_context i) (cw_patch w) = Inr ctx" "ci_context j = ctx"
        by (auto simp: apply_context_written_Inr)
      with with_patch_other key [OF ContextWritten] that
      have "is_guard_approved (ci_context i) g" by (simp add: is_guard_approved_def)
      with inv approvals show ?thesis by (auto simp: approvals_inv_def)
    next
      case (HumanApprovalRecorded a)
      show ?thesis
      proof (cases "approval_guard_name a = g")
        case True
        with approvals HumanApprovalRecorded show ?thesis by auto
      next
        case False
        have "bm_get (ci_context j) g = bm_get (ci_context i) g"
          using app HumanApprovalRecorded False with_guard_approval_other
          by (auto simp: apply_human_approval_recorded_def split: sum.splits)
        with that have "is_guard_approved (ci_context i) g" by (simp add: is_guard_approved_def)
        with inv approvals show ?thesis by (auto simp: approvals_inv_def)
      qed
    qed (use writes in simp_all)
  qed
  with inv approvals show ?thesis by (simp add: approvals_inv_def)
qed

lemma approvals_inv_fold:
  assumes "approvals_inv g es i" and "try_fold apply_event i es' = Inr j"
    and "\<And>e. e \<in> set es' \<Longrightarrow> \<not> is_import e"
    and "\<And>w. ContextWritten w \<in> set es' \<Longrightarrow> bm_get (cw_patch w) g = None"
  shows "approvals_inv g (es @ es') j"
  using assms
proof (induction es' arbitrary: es i)
  case (Cons e es')
  then obtain k where k: "apply_event i e = Inr k" "try_fold apply_event k es' = Inr j"
    by (auto simp: and_then_Inr)
  have "approvals_inv g (es @ [e]) k"
    by (rule approvals_inv_event [OF Cons.prems(1) k(1)]) (use Cons.prems(3,4) in auto)
  from Cons.IH [OF this k(2)] Cons.prems(3,4) show ?case by simp
qed simp

lemma run_opening_context:
  assumes "ceremony_run env d es i"
  shows "\<exists>opened rest. es = CeremonyInstanceStarted opened # rest"
  using assms by (induction rule: journal_of.induct) (auto elim!: opens_shape)

lemma opens_approvals_inv:
  assumes "opens env d es i" and "\<not> is_guard_approved (opening_context es) g"
  shows "approvals_inv g es i"
  using assms
  by (auto elim!: opens_shape simp: approvals_inv_def from_started_def apply_memory_recalled_def
      apply_succession_carried_def)

lemma run_approvals_inv:
  assumes "ceremony_run env d es i" and "\<not> writes_key d g"
    and "\<not> is_guard_approved (opening_context es) g"
  shows "approvals_inv g es i"
  using assms(1,3)
proof (induction rule: journal_of.induct)
  case (opened es s)
  then show ?case by (rule opens_approvals_inv)
next
  case (decided es s c es' s')
  have "opening_context (es @ es') = opening_context es"
    using run_opening_context [OF decided.hyps(1)] by auto
  with decided.IH decided.prems have inv: "approvals_inv g es s" by simp
  have key: "bm_get (cw_patch w) g = None" if "ContextWritten w \<in> set es'" for w
    using decided_writes [OF decided.hyps(2) that] context_writes_resolve_other assms(2)
    by (fastforce simp: writes_key_def list_ex_iff)
  show ?case
    by (rule approvals_inv_fold [OF inv decided.hyps(3)])
      (use decided_not_import [OF decided.hyps(2)] key in auto)
qed

lemma human_guard_on_transition:
  assumes "transition_admitted env i rid trigger now d t visit deadline"
    and "g \<in> set (t_required_guards t)" and "bm_get (def_guards d) g = Some guard"
    and "guard_condition guard = HumanApproval" and "guard_name guard = g"
  shows "is_guard_approved (ci_context i) g"
  using assms
  by (auto simp: transition_admitted_def transition_is_enabled_at_def transition_is_enabled_def
      transition_requirements_are_satisfied_def guards_are_satisfied_def list_all_iff
      guard_is_satisfied_for_transition_def human_approval_satisfied)

lemma approval_recorded:
  assumes "definition_wf d" and run: "ceremony_run env d es i" and "\<not> writes_key d g"
    and "\<not> is_guard_approved (opening_context es) g"
    and dec: "decide env i (ApplyTransition rid trigger now) d = Inr es'"
    and t: "transition_for_trigger d (ci_current_state i) trigger = Some t"
    and g: "g \<in> set (t_required_guards t)" "bm_get (def_guards d) g = Some guard"
      "guard_condition guard = HumanApproval"
  shows "\<exists>a. HumanApprovalRecorded a \<in> set es \<and> approval_guard_name a = g"
proof -
  from dec t obtain visit deadline where
    "transition_admitted env i rid trigger now d t visit deadline"
    by (auto simp: decide_apply_transition_iff transition_admitted_def)
  moreover have "guard_name guard = g"
    using assms(1) bm_get_member [OF g(2)] by (auto simp: definition_wf_def)
  ultimately have "is_guard_approved (ci_context i) g"
    using human_guard_on_transition g by blast
  with run_approvals_inv [OF run assms(3,4)] have "g \<in> approval_guard_name ` set (concat (map approval_of es))"
    by (auto simp: approvals_inv_def)
  moreover have "a \<in> set (approval_of e) \<Longrightarrow> e = HumanApprovalRecorded a" for a e
    by (cases e) auto
  ultimately show ?thesis by auto
qed

end
