(* ===== verification/Ceremony_Example.thy ===== *)
theory Ceremony_Example
  imports Step_Safety Human_Approval
begin

text \<open>
  A concrete ceremony, run from its opening to its end: a definition with a working state and a
  terminal one, a step with a retry policy and a timeout, a human guard, and a platform whose digest
  is a fixed hexadecimal string.  The properties of the development are applied to it.
\<close>

definition run_command ::
  "platform \<Rightarrow> ceremony_definition \<Rightarrow> ceremony_event list \<times> ceremony_instance \<Rightarrow>
     ceremony_command \<Rightarrow> (ceremony_event list \<times> ceremony_instance) result" where
  "run_command env d p c =
     and_then (decide env (snd p) c d) (\<lambda>es.
     and_then (apply_all (snd p) es) (\<lambda>j. Inr (fst p @ es, j)))"

definition run_ceremony ::
  "platform \<Rightarrow> ceremony_definition \<Rightarrow> string \<Rightarrow> ceremony_context \<Rightarrow> int \<Rightarrow> ceremony_command list \<Rightarrow>
     (ceremony_event list \<times> ceremony_instance) result" where
  "run_ceremony env d n ctx now cs =
     and_then (decide_opening env n d ctx None now None None None) (\<lambda>es.
     and_then (rehydrate es) (\<lambda>i. try_fold (run_command env d) (es, i) cs))"

lemma run_commands_run:
  assumes "try_fold (run_command env d) p cs = Inr (es, i)" and "ceremony_run env d (fst p) (snd p)"
  shows "ceremony_run env d es i"
  using assms
proof (induction cs arbitrary: p)
  case (Cons c cs)
  then obtain q where q: "run_command env d p c = Inr q" "try_fold (run_command env d) q cs = Inr (es, i)"
    by (auto simp: and_then_Inr)
  from q(1) obtain new j where new: "decide env (snd p) c d = Inr new"
    "try_fold apply_event (snd p) new = Inr j" "q = (fst p @ new, j)"
    by (auto simp: run_command_def and_then_Inr apply_all_def)
  from journal_of.decided [OF Cons.prems(2) new(1,2)] new(3)
  have "ceremony_run env d (fst q) (snd q)" by simp
  with q(2) show ?case by (rule Cons.IH)
qed simp

lemma run_ceremony_run:
  assumes "run_ceremony env d n ctx now cs = Inr (es, i)"
  shows "ceremony_run env d es i"
proof -
  from assms obtain start s where start: "decide_opening env n d ctx None now None None None = Inr start"
    "rehydrate start = Inr s" "try_fold (run_command env d) (start, s) cs = Inr (es, i)"
    by (auto simp: run_ceremony_def and_then_Inr)
  then have "opens env d start s" unfolding opens_def by blast
  then have "ceremony_run env d start s" by (rule journal_of.opened)
  with start(3) show ?thesis using run_commands_run [of env d "(start, s)"] by simp
qed

definition sample_env :: platform where
  "sample_env = \<lparr>sha256_hex = (\<lambda>_. replicate 64 CHR ''a''),
     datetime_checked_add = (\<lambda>t d. Some (t + d)), evidence_pack_to_value = (\<lambda>_. None)\<rparr>"

definition sample_draft :: ceremony_state where
  "sample_draft = \<lparr>st_id = ''draft'', st_kind = Initial, st_execution = Concurrent,
     st_repeat = None, st_annotations = []\<rparr>"

definition sample_done :: ceremony_state where
  "sample_done = \<lparr>st_id = ''end'', st_kind = Terminal, st_execution = Sequential,
     st_repeat = None, st_annotations = []\<rparr>"

definition sample_step :: ceremony_step where
  "sample_step = \<lparr>cs_id = ''write'', cs_state_id = ''draft'', cs_handler_kind = ''agent'',
     cs_handler_config = [], cs_retry_policy = \<lparr>max_attempts = 3, backoff = 0\<rparr>,
     cs_timeout = Some 5, cs_repeat_policy = None, cs_dynamic_role_binding = None,
     cs_context_writes = [], cs_spawn = None, cs_aggregation = None\<rparr>"

definition sample_transition :: ceremony_transition where
  "sample_transition = \<lparr>t_from = ''draft'', t_to = ''end'', t_trigger = ''finish'',
     t_required_guards = [''go'', ''ok'']\<rparr>"

definition sample_role :: ceremony_role where
  "sample_role = \<lparr>role_id = ''lead'',
     role_allowed_actions = [StepAction ''write'', TransitionAction ''finish'', RequestIntervention,
       RespondToIntervention]\<rparr>"

definition sample_definition :: ceremony_definition where
  "sample_definition = \<lparr>def_name = ''review'', def_version = ''1'', def_description = None,
     def_inputs = [], def_outputs = [], def_states = [(''draft'', sample_draft), (''end'', sample_done)],
     def_transitions = [sample_transition], def_steps = [(''write'', sample_step)],
     def_step_order = [''write''],
     def_guards = [(''go'', \<lparr>guard_name = ''go'', guard_condition = HumanApproval\<rparr>),
                   (''ok'', \<lparr>guard_name = ''ok'', guard_condition = AllStepsCompleted\<rparr>)],
     def_roles = [(''lead'', sample_role)], def_max_parallel = MAX_PARALLEL_DEFAULT,
     def_max_transitions = Some 4, def_max_bounces = None, def_ceremony_timeout = None,
     def_state_timeout = None\<rparr>"

definition sample_lease :: step_lease where
  "sample_lease = \<lparr>lease_owner_id = ''worker'', lease_idempotency_key = ''key-1'',
     lease_acquired_at = 10, lease_expires_at = 90, lease_execution_profile = None\<rparr>"

definition sample_start :: start_step where
  "sample_start = \<lparr>st_cmd_role_id = Some ''lead'', st_cmd_step_id = ''write'',
     st_cmd_lease = sample_lease, st_cmd_now = 10, st_cmd_max_parallel_ceiling = 4,
     st_cmd_budget_reservation_id = None\<rparr>"

definition sample_fence :: string where
  "sample_fence = replicate 64 CHR ''a''"

definition sample_success :: step_result where
  "sample_success = \<lparr>res_status = Completed, res_output = [], res_error_message = None,
     res_failure_kind = None\<rparr>"

definition sample_result :: apply_step_result where
  "sample_result = \<lparr>ar_step_id = ''write'', ar_claim_fence = sample_fence,
     ar_result = sample_success, ar_now = 20\<rparr>"

definition sample_commands :: "ceremony_command list" where
  "sample_commands = [StartStep sample_start, ApplyStepResult sample_result,
     ApproveGuard ''go'' ''lead'' HumanActor 30, ApplyTransition (Some ''lead'') ''finish'' 40]"

lemma sample_definition_new:
  "definition_new ''review'' ''1'' None [] [] [sample_draft, sample_done] [sample_transition]
     [sample_step]
     [\<lparr>guard_name = ''ok'', guard_condition = AllStepsCompleted\<rparr>,
      \<lparr>guard_name = ''go'', guard_condition = HumanApproval\<rparr>]
     [sample_role] (Some 4) None = Inr sample_definition"
  by code_simp

lemma sample_wf_ok: "definition_wf sample_definition" "definition_ok sample_definition"
  using definition_new_facts [OF sample_definition_new] by (simp_all add: validate_ok)

text \<open>What a run leaves, and what one more command then does, as executable checks.\<close>

definition example_leaves ::
  "ceremony_definition \<Rightarrow> ceremony_command list \<Rightarrow> (ceremony_instance \<Rightarrow> bool) \<Rightarrow> bool" where
  "example_leaves d cs P =
     (case run_ceremony sample_env d ''c1'' [] 0 cs of Inl _ \<Rightarrow> False | Inr p \<Rightarrow> P (snd p))"

definition example_before ::
  "ceremony_definition \<Rightarrow> ceremony_command list \<Rightarrow> ceremony_command \<Rightarrow>
     (ceremony_instance \<Rightarrow> ceremony_instance \<Rightarrow> bool) \<Rightarrow> bool" where
  "example_before d cs c P =
     example_leaves d cs (\<lambda>i. case execute sample_env d i c of Inl _ \<Rightarrow> False | Inr j \<Rightarrow> P i j)"

lemma example_leaves_run:
  assumes "example_leaves d cs P"
  obtains es i where "ceremony_run sample_env d es i" and "P i"
  using assms run_ceremony_run
  by (auto simp: example_leaves_def split: sum.splits) blast

lemma example_before_run:
  assumes "example_before d cs c P"
  obtains es i j where "ceremony_run sample_env d es i" and "execute sample_env d i c = Inr j"
    and "P i j"
proof -
  obtain es i where "ceremony_run sample_env d es i"
    and "case execute sample_env d i c of Inl _ \<Rightarrow> False | Inr j \<Rightarrow> P i j"
    using example_leaves_run [OF assms [unfolded example_before_def]] .
  with that show thesis by (auto split: sum.splits)
qed

text \<open>The same with the journal of the run.\<close>

definition example_journal ::
  "ceremony_definition \<Rightarrow> ceremony_command list \<Rightarrow>
     (ceremony_event list \<Rightarrow> ceremony_instance \<Rightarrow> bool) \<Rightarrow> bool" where
  "example_journal d cs P =
     (case run_ceremony sample_env d ''c1'' [] 0 cs of Inl _ \<Rightarrow> False | Inr p \<Rightarrow> P (fst p) (snd p))"

lemma example_journal_run:
  assumes "example_journal d cs P"
  obtains es i where "ceremony_run sample_env d es i" and "P es i"
  using assms run_ceremony_run
  by (auto simp: example_journal_def split: sum.splits) blast


section \<open>The sample runs\<close>

abbreviation sample_start_unnamed :: start_step where
  "sample_start_unnamed \<equiv> sample_start\<lparr>st_cmd_role_id := None\<rparr>"

abbreviation sample_enforce :: ceremony_command where
  "sample_enforce \<equiv> EnforceCeremonyDeadlines 6000000"

abbreviation sample_again :: start_step where
  "sample_again \<equiv> sample_start\<lparr>st_cmd_lease := sample_lease\<lparr>lease_idempotency_key := ''key-2'',
     lease_acquired_at := 6000010, lease_expires_at := 6000090\<rparr>, st_cmd_now := 6000010\<rparr>"

abbreviation sample_claimed :: step_record where
  "sample_claimed \<equiv> record_pending\<lparr>rec_lease := Some sample_lease\<rparr>"

abbreviation sample_renewal :: renew_step_lease where
  "sample_renewal \<equiv> \<lparr>rn_request = None, rn_step_id = ''write'', rn_claim_fence = sample_fence,
     rn_lease_owner_id = ''worker'', rn_expected_expires_at = 90, rn_expires_at = 95, rn_now = 12\<rparr>"

abbreviation sample_request :: request_intervention where
  "sample_request \<equiv> \<lparr>ri_intervention_id = ''q1'', ri_role_id = ''lead'', ri_kind = Opinion,
     ri_target = Table, ri_content = \<lparr>content_message = ''why'', content_details = []\<rparr>,
     ri_provenance = None, ri_intent = None, ri_delivery = None, ri_supervisor = None, ri_now = 5\<rparr>"

lemma sample_runs:
  shows sample_completes:
    "example_leaves sample_definition sample_commands
       (\<lambda>i. ci_completed_at i = Some 40 \<and> ci_current_state i = ''end''
          \<and> ci_idempotency_keys i = {''key-1''} \<and> length (ci_transitions i) = 1)"
    and sample_starts:
    "example_before sample_definition [] (StartStep sample_start_unnamed)
       (\<lambda>i j. in_concurrent_state i sample_definition
          \<and> claimable_step_ids_at i sample_definition 10 4 = Inr [''write'']
          \<and> start_prepared sample_env i sample_start_unnamed sample_definition
          \<and> live_claims j sample_definition 10 = 1
          \<and> \<not> Option.is_none (bm_get (ci_step_deadlines j) ''write''))"
    and sample_renews:
    "example_before sample_definition [StartStep sample_start] (RenewStepLease sample_renewal)
       (\<lambda>i j. ci_updated_at i \<noteq> ci_updated_at j)"
    and sample_enforces:
    "example_before sample_definition [StartStep sample_start] sample_enforce
       (\<lambda>i j. length (ci_step_deadlines i) = 1 \<and> ci_step_deadlines j = [])"
    and sample_late:
    "example_before sample_definition [StartStep sample_start, sample_enforce]
       (ApplyStepResult sample_result)
       (\<lambda>i j. isl (step_claim_fence sample_env i ''write'') \<and> length (ci_late_step_results j) = 1)"
    and sample_late_again:
    "example_before sample_definition
       [StartStep sample_start, sample_enforce, ApplyStepResult sample_result]
       (ApplyStepResult sample_result)
       (\<lambda>i j. \<not> Option.is_none (bm_get (ci_late_step_results i) sample_fence))"
    and sample_cancelled:
    "example_before sample_definition [StartStep sample_start, CancelCeremony ''stop'' 15]
       (ApplyStepResult sample_result) (\<lambda>i j. is_ended i)"
    and sample_pauses:
    "example_leaves sample_definition [PauseCeremony ''wait'' 5]
       (\<lambda>i. phase (ci_lifecycle i) = Paused)"
    and sample_asks:
    "example_leaves sample_definition [RequestInterventionCommand sample_request]
       (\<lambda>i. length (ci_interventions i) = 1)"
    and sample_approved:
    "example_journal sample_definition (butlast sample_commands)
       (\<lambda>es i. \<not> is_guard_approved (opening_context es) ''go'' \<and> ci_current_state i = ''draft''
          \<and> \<not> isl (decide sample_env i (ApplyTransition (Some ''lead'') ''finish'' 40) sample_definition))"
    and sample_retries:
    "example_leaves sample_definition [StartStep sample_start, sample_enforce, StartStep sample_again]
       (\<lambda>i. map_option rec_attempt (bm_get (ci_step_records i) ''write'') = Some 2)"
    and sample_parts_short:
    "list_all (\<lambda>p. length p < 100)
       (claim_fence_parts ''c1'' ''write'' sample_claimed sample_lease
        @ claim_fence_parts ''c1'' ''write'' (sample_claimed\<lparr>rec_attempt := 2\<rparr>) sample_lease)"
  by code_simp+

end
