(* ===== verification/Diff_Safety.thy ===== *)
theory Diff_Safety
  imports Definition_Diff Ceremony_Example
begin

text \<open>
  What the comparison of two versions of a definition means for a session that is running: when it
  reports no change that strands sessions, a move the session could make under the old version can
  still be made under the new one.  The last section is the case in which it cannot.
\<close>


section \<open>What a session reads of a definition\<close>

definition repeat_policies_kept :: "ceremony_definition \<Rightarrow> ceremony_definition \<Rightarrow> bool" where
  "repeat_policies_kept before after =
     (\<forall>k old now. bm_get (def_steps before) k = Some old \<longrightarrow> bm_get (def_steps after) k = Some now \<longrightarrow>
        cs_repeat_policy now = cs_repeat_policy old)"

fun routes_exhaustion :: "guard_condition \<Rightarrow> bool" where
  "routes_exhaustion (StepRepeatExhausted _) = True"
| "routes_exhaustion (StateRepeatExhausted _) = True"
| "routes_exhaustion _ = False"

definition guards_only_dropped ::
  "ceremony_definition \<Rightarrow> ceremony_transition \<Rightarrow> ceremony_transition \<Rightarrow> bool" where
  "guards_only_dropped before old now =
     (set (t_required_guards now) \<subseteq> set (t_required_guards old)
      \<and> (\<forall>name g. name \<in> set (t_required_guards old) - set (t_required_guards now) \<longrightarrow>
           bm_get (def_guards before) name = Some g \<longrightarrow> \<not> routes_exhaustion (guard_condition g)))"

text \<open>What the moves of a session read of the steps: their state and their repeat policy.\<close>

definition steps_agree :: "ceremony_definition \<Rightarrow> ceremony_definition \<Rightarrow> bool" where
  "steps_agree b a =
     (\<forall>k. map_option (\<lambda>s. (cs_state_id s, cs_repeat_policy s)) (bm_get (def_steps a) k)
        = map_option (\<lambda>s. (cs_state_id s, cs_repeat_policy s)) (bm_get (def_steps b) k))"

lemma carried_steps_agree:
  assumes "\<not> strands_running_sessions (between b a)" and "repeat_policies_kept b a"
  shows "steps_agree b a"
  unfolding steps_agree_def
proof
  fix k
  from assms(1) have carried: "list_all (step_carried a) (def_steps b)"
    and keys: "set (bm_keys (def_steps a)) \<subseteq> set (bm_keys (def_steps b))"
    by (simp_all add: strands_iff_not_carried carried_over_def)
  show "map_option (\<lambda>s. (cs_state_id s, cs_repeat_policy s)) (bm_get (def_steps a) k)
      = map_option (\<lambda>s. (cs_state_id s, cs_repeat_policy s)) (bm_get (def_steps b) k)"
  proof (cases "bm_get (def_steps b) k")
    case None
    with keys show ?thesis by (auto simp: set_bm_keys)
  next
    case (Some old)
    with carried bm_get_member [OF Some] have "step_carried a (k, old)" by (auto simp: list_all_iff)
    then obtain now where now: "bm_get (def_steps a) k = Some now" "cs_state_id now = cs_state_id old"
      by (auto simp: step_carried_def split: option.splits)
    moreover have "cs_repeat_policy now = cs_repeat_policy old"
      using assms(2) Some now(1) unfolding repeat_policies_kept_def by blast
    ultimately show ?thesis using Some by simp
  qed
qed

lemma steps_for_state_set:
  assumes "definition_wf d"
  shows "cs_id ` set (steps_for_state d s)
    = {k. \<exists>st. bm_get (def_steps d) k = Some st \<and> cs_state_id st = s}"
proof -
  have keyed: "cs_id st = k" and ordered: "k \<in> set (def_step_order d)"
    if "bm_get (def_steps d) k = Some st" for k st
    using assms bm_get_member [OF that] by (auto simp: definition_wf_def bm_keys_def)
  have "st \<in> set (steps_for_state d s)" if "bm_get (def_steps d) k = Some st"
    "cs_state_id st = s" for k st
    using that ordered [OF that(1)]
    by (auto simp: steps_for_state_def steps_in_declaration_order_def List.map_filter_def
        intro!: image_eqI [where x = k])
  then have "{k. \<exists>st. bm_get (def_steps d) k = Some st \<and> cs_state_id st = s}
      \<subseteq> cs_id ` set (steps_for_state d s)" using keyed by blast
  moreover have "cs_id ` set (steps_for_state d s)
      \<subseteq> {k. \<exists>st. bm_get (def_steps d) k = Some st \<and> cs_state_id st = s}"
    using keyed steps_for_state_member [of _ d s] by blast
  ultimately show ?thesis by blast
qed

lemma steps_for_state_agree:
  assumes "definition_wf b" and "definition_wf a" and "steps_agree b a"
  shows "list_all (\<lambda>x. P (cs_id x)) (steps_for_state a s) = list_all (\<lambda>x. P (cs_id x))
    (steps_for_state b s)"
    and "list_ex (\<lambda>x. P (cs_id x)) (steps_for_state a s) = list_ex (\<lambda>x. P (cs_id x))
      (steps_for_state b s)"
    and "length (filter (\<lambda>x. P (cs_id x)) (steps_for_state a s))
      = length (filter (\<lambda>x. P (cs_id x)) (steps_for_state b s))"
proof -
  have "(\<exists>st. bm_get (def_steps a) k = Some st \<and> cs_state_id st = s) \<longleftrightarrow>
      (\<exists>st. bm_get (def_steps b) k = Some st \<and> cs_state_id st = s)" for k
    using assms(3) [unfolded steps_agree_def, THEN spec, of k]
    by (cases "bm_get (def_steps a) k"; cases "bm_get (def_steps b) k") auto
  then have ids: "cs_id ` set (steps_for_state a s) = cs_id ` set (steps_for_state b s)"
    using assms(1,2) by (simp add: steps_for_state_set)
  have every: "list_all (\<lambda>x. P (cs_id x)) xs = (\<forall>k \<in> cs_id ` set xs. P k)"
    and some: "list_ex (\<lambda>x. P (cs_id x)) xs = (\<exists>k \<in> cs_id ` set xs. P k)" for xs
    by (simp_all add: list_all_iff list_ex_iff)
  show "list_all (\<lambda>x. P (cs_id x)) (steps_for_state a s) = list_all (\<lambda>x. P (cs_id x))
    (steps_for_state b s)"
    "list_ex (\<lambda>x. P (cs_id x)) (steps_for_state a s) = list_ex (\<lambda>x. P (cs_id x)) (steps_for_state b s)"
    by (simp_all only: every some ids)
  have count: "length (filter (\<lambda>x. P (cs_id x)) (steps_for_state d s))
      = card {k \<in> cs_id ` set (steps_for_state d s). P k}" if "definition_wf d" for d
  proof -
    have "distinct (map cs_id (filter (\<lambda>x. P (cs_id x)) (steps_for_state d s)))"
      using steps_for_state_ids [OF that] by (rule distinct_map_filter)
    then have "length (map cs_id (filter (\<lambda>x. P (cs_id x)) (steps_for_state d s)))
        = card (set (map cs_id (filter (\<lambda>x. P (cs_id x)) (steps_for_state d s))))"
      by (simp only: distinct_card)
    moreover have "set (map cs_id (filter (\<lambda>x. P (cs_id x)) (steps_for_state d s)))
        = {k \<in> cs_id ` set (steps_for_state d s). P k}" by auto
    ultimately show ?thesis by simp
  qed
  show "length (filter (\<lambda>x. P (cs_id x)) (steps_for_state a s))
      = length (filter (\<lambda>x. P (cs_id x)) (steps_for_state b s))"
    using count [OF assms(1)] count [OF assms(2)] ids by simp
qed

lemma repeat_requirement_agree:
  assumes "steps_agree b a"
  shows "repeat_requirement_is_satisfied a k records = repeat_requirement_is_satisfied b k records"
    and "t_from t' = t_from t \<Longrightarrow> step_repeat_is_exhausted_on_transition a t' k records
      = step_repeat_is_exhausted_on_transition b t k records"
    and "(case def_step a k of None \<Rightarrow> False | Some step \<Rightarrow> cs_state_id step = s)
      = (case def_step b k of None \<Rightarrow> False | Some step \<Rightarrow> cs_state_id step = s)"
proof -
  note k = assms [unfolded steps_agree_def, THEN spec, of k]
  show "repeat_requirement_is_satisfied a k records = repeat_requirement_is_satisfied b k records"
    using k by (cases "bm_get (def_steps a) k"; cases "bm_get (def_steps b) k")
      (simp_all add: repeat_requirement_is_satisfied_def def_step_def)
  show "step_repeat_is_exhausted_on_transition a t' k records
      = step_repeat_is_exhausted_on_transition b t k records" if "t_from t' = t_from t"
    using k that by (cases "bm_get (def_steps a) k"; cases "bm_get (def_steps b) k")
      (simp_all add: step_repeat_is_exhausted_on_transition_def def_step_def)
  show "(case def_step a k of None \<Rightarrow> False | Some step \<Rightarrow> cs_state_id step = s)
      = (case def_step b k of None \<Rightarrow> False | Some step \<Rightarrow> cs_state_id step = s)"
    using k by (cases "bm_get (def_steps a) k"; cases "bm_get (def_steps b) k")
      (simp_all add: def_step_def)
qed

text \<open>A definition and its successor, and a transition of each that leads from the same state.\<close>

definition carried_move ::
  "ceremony_definition \<Rightarrow> ceremony_definition \<Rightarrow> ceremony_transition \<Rightarrow> ceremony_transition \<Rightarrow> bool" where
  "carried_move b a t t' =
     (definition_wf b \<and> definition_wf a \<and> steps_agree b a \<and> t_from t' = t_from t
      \<and> (\<forall>name g. name \<in> set (t_required_guards t') \<longrightarrow> bm_get (def_guards b) name = Some g \<longrightarrow>
           bm_get (def_guards a) name = Some g)
      \<and> guards_only_dropped b t t')"

lemma carried_moveD:
  assumes "carried_move b a t t'"
  shows "definition_wf b" "definition_wf a" "steps_agree b a" "t_from t' = t_from t"
    "guards_only_dropped b t t'"
    "name \<in> set (t_required_guards t') \<Longrightarrow> bm_get (def_guards b) name = Some g \<Longrightarrow>
      bm_get (def_guards a) name = Some g"
  using assms by (simp_all add: carried_move_def)

lemma waiver_kept:
  assumes move: "carried_move b a t t'" and "transition_waives_exhausted_repeat b t k records"
  shows "transition_waives_exhausted_repeat a t' k records"
proof -
  note steps = carried_moveD(3) [OF move] and from_kept = carried_moveD(4) [OF move]
    and guards_dropped = carried_moveD(5) [OF move] and guards_kept = carried_moveD(6) [OF move]
    and wf = carried_moveD(1,2) [OF move]
  from assms(2) obtain name g where g0: "name \<in> set (t_required_guards t)"
    "bm_get (def_guards b) name = Some g"
    "case guard_condition g of
       StepRepeatExhausted s \<Rightarrow> s = k \<and> step_repeat_is_exhausted_on_transition b t k records | _ \<Rightarrow> False"
    by (auto simp: transition_waives_exhausted_repeat_def list_ex_iff split: option.splits)
  then have g: "name \<in> set (t_required_guards t)" "bm_get (def_guards b) name = Some g"
    "guard_condition g = StepRepeatExhausted k" "step_repeat_is_exhausted_on_transition b t k records"
    by (cases "guard_condition g"; simp)+
  then have "name \<in> set (t_required_guards t')"
    using guards_dropped unfolding guards_only_dropped_def
    by (metis DiffI routes_exhaustion.simps(1))
  with guards_kept [OF this g(2)] g(3,4) repeat_requirement_agree(2) [OF steps from_kept, of k records]
  show ?thesis by (auto simp: transition_waives_exhausted_repeat_def list_ex_iff intro!: bexI [of _
    name])
qed

lemma requirement_kept:
  "carried_move b a t t' \<Longrightarrow> repeat_requirement_is_satisfied_or_waived b t k records \<Longrightarrow>
     repeat_requirement_is_satisfied_or_waived a t' k records"
  using waiver_kept repeat_requirement_agree(1) [OF carried_moveD(3)]
  by (auto simp: repeat_requirement_is_satisfied_or_waived_def)

lemma requirements_kept:
  assumes move: "carried_move b a t t'" and "repeat_requirements_are_satisfied_for_transition b t
    records"
  shows "repeat_requirements_are_satisfied_for_transition a t' records"
proof -
  note steps = carried_moveD(3) [OF move] and from_kept = carried_moveD(4) [OF move]
    and guards_dropped = carried_moveD(5) [OF move] and guards_kept = carried_moveD(6) [OF move]
    and wf = carried_moveD(1,2) [OF move]
  have "list_all (\<lambda>s. repeat_requirement_is_satisfied_or_waived a t' (cs_id s) records)
      (steps_for_state b (t_from t))"
    using assms requirement_kept [OF move]
    by (auto simp: repeat_requirements_are_satisfied_for_transition_def list_all_iff)
  with steps_for_state_agree(1) [OF wf steps, of "\<lambda>k. repeat_requirement_is_satisfied_or_waived a t'
    k records"]
  show ?thesis by (simp add: repeat_requirements_are_satisfied_for_transition_def from_kept)
qed

lemma step_keys_kept: "steps_agree b a \<Longrightarrow> set (bm_keys (def_steps a)) = set (bm_keys (def_steps b))"
proof -
  assume steps: "steps_agree b a"
  have "bm_get (def_steps a) k = None \<longleftrightarrow> bm_get (def_steps b) k = None" for k
    using steps [unfolded steps_agree_def, THEN spec, of k]
    by (cases "bm_get (def_steps a) k"; cases "bm_get (def_steps b) k") simp_all
  then show ?thesis by (auto simp: set_bm_keys)
qed

lemma guard_kept:
  assumes move: "carried_move b a t t'" and "guard_is_satisfied_for_transition env i b t g"
    and limit: "state_repeat_limit_reached i a = state_repeat_limit_reached i b"
  shows "guard_is_satisfied_for_transition env i a t' g"
proof -
  note steps = carried_moveD(3) [OF move] and from_kept = carried_moveD(4) [OF move]
    and guards_dropped = carried_moveD(5) [OF move] and guards_kept = carried_moveD(6) [OF move]
    and wf = carried_moveD(1,2) [OF move]
  show ?thesis
  proof (cases "guard_condition g")
    case AllStepsCompleted
    with assms(2) step_keys_kept [OF steps] requirement_kept [OF move] show ?thesis
      by (auto simp: guard_is_satisfied_for_transition_def def_guard_is_satisfied_for_transition_def
          list_all_iff)
  next
    case AnyStepCompleted
    with assms(2) show ?thesis
      by (simp add: guard_is_satisfied_for_transition_def def_guard_is_satisfied_for_transition_def
          from_kept steps_for_state_agree(2) [OF wf steps])
  next
    case (StepsCompleted n)
    with assms(2) show ?thesis
      by (simp add: guard_is_satisfied_for_transition_def def_guard_is_satisfied_for_transition_def
          from_kept steps_for_state_agree(3) [OF wf steps])
  next
    case (StepStatusIs k status)
    with assms(2) requirement_kept [OF move] show ?thesis
      by (auto simp: guard_is_satisfied_for_transition_def def_guard_is_satisfied_for_transition_def
          split: if_splits)
  next
    case (StepRepeatExhausted k)
    with assms(2) repeat_requirement_agree(2) [OF steps from_kept] show ?thesis
      by (simp add: guard_is_satisfied_for_transition_def def_guard_is_satisfied_for_transition_def)
  next
    case (ChildrenCompleted k join)
    with assms(2) show ?thesis
      by (simp add: guard_is_satisfied_for_transition_def)
        (simp only: from_kept repeat_requirement_agree(3) [OF steps])
  next
    case (StateRepeatExhausted k)
    with assms(2) limit show ?thesis
      by (simp add: guard_is_satisfied_for_transition_def from_kept)
  qed (use assms(2) in \<open>simp_all add: guard_is_satisfied_for_transition_def
        def_guard_is_satisfied_for_transition_def\<close>)
qed

lemma guards_still_satisfied:
  assumes move: "carried_move b a t t'" and "guards_are_satisfied env i b t"
    and limit: "state_repeat_limit_reached i a = state_repeat_limit_reached i b"
  shows "guards_are_satisfied env i a t'"
proof -
  note steps = carried_moveD(3) [OF move] and from_kept = carried_moveD(4) [OF move]
    and guards_dropped = carried_moveD(5) [OF move] and guards_kept = carried_moveD(6) [OF move]
    and wf = carried_moveD(1,2) [OF move]
  have "\<exists>g. bm_get (def_guards a) name = Some g \<and> guard_is_satisfied_for_transition env i a t' g"
    if name: "name \<in> set (t_required_guards t')" for name
  proof -
    from name guards_dropped have "name \<in> set (t_required_guards t)"
      by (auto simp: guards_only_dropped_def)
    with assms(2) obtain g where "bm_get (def_guards b) name = Some g"
      "guard_is_satisfied_for_transition env i b t g"
      by (auto simp: guards_are_satisfied_def list_all_iff split: option.splits)
    with guards_kept [OF name] guard_kept [OF move _ limit] show ?thesis by blast
  qed
  with assms(2) requirements_kept [OF move] show ?thesis
    by (fastforce simp: guards_are_satisfied_def list_all_iff)
qed

lemma exhaustion_still_routed:
  assumes move: "carried_move b a t t'" and "transition_routes_state_repeat_exhaustion b t"
  shows "transition_routes_state_repeat_exhaustion a t'"
proof -
  note steps = carried_moveD(3) [OF move] and from_kept = carried_moveD(4) [OF move]
    and guards_dropped = carried_moveD(5) [OF move] and guards_kept = carried_moveD(6) [OF move]
    and wf = carried_moveD(1,2) [OF move]
  from assms(2) obtain name g where g0: "name \<in> set (t_required_guards t)"
    "bm_get (def_guards b) name = Some g"
    "case guard_condition g of StateRepeatExhausted s \<Rightarrow> s = t_from t | _ \<Rightarrow> False"
    by (auto simp: transition_routes_state_repeat_exhaustion_def list_ex_iff split: option.splits)
  then have g: "name \<in> set (t_required_guards t)" "bm_get (def_guards b) name = Some g"
    "guard_condition g = StateRepeatExhausted (t_from t)"
    by (cases "guard_condition g"; simp)+
  then have "name \<in> set (t_required_guards t')"
    using guards_dropped unfolding guards_only_dropped_def
    by (metis DiffI routes_exhaustion.simps(2))
  with guards_kept [OF this g(2)] g(3) show ?thesis
    by (auto simp: transition_routes_state_repeat_exhaustion_def list_ex_iff from_kept
        intro!: bexI [of _ name])
qed


lemma guard_found:
  assumes "definition_wf b" and "definition_wf a" and "definition_ok a"
    and "\<not> strands_running_sessions (between b a)" and "t' \<in> set (def_transitions a)"
    and "name \<in> set (t_required_guards t')" and g: "bm_get (def_guards b) name = Some g"
  shows "bm_get (def_guards a) name = Some g"
proof -
  from assms(3,5) have "transition_ok a t'" by (simp add: definition_ok_def transitions_ok_def)
  with assms(6) obtain g' where g': "bm_get (def_guards a) name = Some g'"
    unfolding transition_ok_def by blast
  from assms(4) bm_get_member [OF g] have "guard_carried a (name, g)"
    by (auto simp: strands_iff_not_carried carried_over_def list_all_iff)
  with g' have "guard_condition g' = guard_condition g" by (simp add: guard_carried_def)
  moreover from assms(1,2) bm_get_member [OF g] bm_get_member [OF g']
  have "guard_name g = name" "guard_name g' = name" by (auto simp: definition_wf_def)
  ultimately have "g' = g" by simp
  with g' show ?thesis by simp
qed

lemma carried_transition:
  assumes "\<not> strands_running_sessions (between b a)"
    and "transition_for_trigger b s trigger = Some t"
  obtains t' where "transition_for_trigger a s trigger = Some t'" "t' \<in> set (def_transitions a)"
    "t_to t' = t_to t" "t_from t' = t_from t" "t_trigger t' = t_trigger t"
proof -
  from transition_for_trigger_Some [OF assms(2)]
  have t: "t \<in> set (def_transitions b)" "t_from t = s" "t_trigger t = trigger" by simp_all
  with assms(1) have "transition_carried a t"
    by (auto simp: strands_iff_not_carried carried_over_def list_all_iff)
  then obtain t' where "find (\<lambda>c. transition_key c = transition_key t) (def_transitions a) = Some t'"
    "t_to t' = t_to t"
    by (auto simp: transition_carried_def split: option.splits)
  with t have t': "transition_for_trigger a s trigger = Some t'" "t_to t' = t_to t"
    by (simp_all add: transition_for_trigger_def transition_key_def)
  with that transition_for_trigger_Some [OF t'(1)] t show thesis by simp
qed

lemma carried_state:
  assumes "\<not> strands_running_sessions (between b a)" and "bm_get (def_states b) s = Some x"
  obtains y where "bm_get (def_states a) s = Some y" "st_kind y = st_kind x" "st_repeat y = st_repeat x"
proof -
  from assms(1) bm_get_member [OF assms(2)] have "state_carried a (s, x)"
    by (auto simp: strands_iff_not_carried carried_over_def list_all_iff)
  with that show thesis by (auto simp: state_carried_def split: option.splits)
qed

lemma carried_repeat_state:
  assumes "definition_wf b" and "definition_wf a" and "steps_agree b a"
    and "current_repeat_policy i a = current_repeat_policy i b"
  shows "state_repeat_limit_reached i a = state_repeat_limit_reached i b"
    and "state_repeat_permits_transition i a = state_repeat_permits_transition i b"
proof -
  have work: "state_work_is_complete i a = state_work_is_complete i b"
    using steps_for_state_agree(1) [OF assms(1-3), of "record_succeeded (ci_step_records i)"
      "ci_current_state i"]
      steps_for_state_agree(1) [OF assms(1-3), of "\<lambda>k. repeat_requirement_is_satisfied b k
        (ci_step_records i)"
        "ci_current_state i"]
    by (simp add: state_work_is_complete_def repeat_requirements_are_satisfied_def
        repeat_requirement_agree(1) [OF assms(3)])
  have met: "state_repeat_condition_is_satisfied i a = state_repeat_condition_is_satisfied i b"
    by (simp add: state_repeat_condition_is_satisfied_def assms(4))
  show "state_repeat_limit_reached i a = state_repeat_limit_reached i b"
    "state_repeat_permits_transition i a = state_repeat_permits_transition i b"
    by (simp_all only: state_repeat_limit_reached_def state_repeat_permits_transition_def assms(4)
      work met)
qed

lemma carried_budget:
  assumes "\<not> strands_running_sessions (between b a)" and "require_transition_budget i b t = Inr ()"
    and "t_from t' = t_from t" "t_trigger t' = t_trigger t" "t_to t' = t_to t"
  shows "require_transition_budget i a t' = Inr ()"
proof -
  from assms(1) have "budget_carried (def_max_transitions b) (def_max_transitions a)"
    "budget_carried (def_max_bounces b) (def_max_bounces a)"
    by (simp_all add: strands_iff_not_carried carried_over_def)
  with assms(2-5) show ?thesis
    by (auto simp: require_transition_budget_def budget_carried_def exact_edge_count_def
        word_le_nat_alt split: option.splits if_splits)
qed

lemma session_keeps_move:
  assumes wf: "definition_wf b" "definition_wf a" and ok: "definition_ok b" "definition_ok a"
    and carries: "\<not> strands_running_sessions (between b a)" and repeats: "repeat_policies_kept b a"
    and t: "transition_for_trigger b (ci_current_state i) trigger = Some t"
    and enabled: "transition_is_enabled_at env i b t now"
    and dropped: "\<And>t'. transition_for_trigger a (ci_current_state i) trigger = Some t' \<Longrightarrow>
      guards_only_dropped b t t'"
  shows "\<exists>t'. transition_for_trigger a (ci_current_state i) trigger = Some t' \<and> t_to t' = t_to t
    \<and> transition_is_enabled_at env i a t' now"
proof -
  obtain t' where t': "transition_for_trigger a (ci_current_state i) trigger = Some t'"
    "t' \<in> set (def_transitions a)" "t_to t' = t_to t" "t_from t' = t_from t"
      "t_trigger t' = t_trigger t"
    using carried_transition [OF carries t] .
  note agree = carried_steps_agree [OF carries repeats]
  have move: "carried_move b a t t'"
    unfolding carried_move_def using wf agree t'(4) dropped [OF t'(1)]
      guard_found [OF wf ok(2) carries t'(2)] by blast
  from transition_for_trigger_Some [OF t] ok(1) obtain x y where
    x: "bm_get (def_states b) (ci_current_state i) = Some x" and y: "bm_get (def_states b) (t_to
      t) = Some y"
    by (auto simp: definition_ok_def transitions_ok_def transition_ok_def bm_contains_def)
  obtain x' where x': "bm_get (def_states a) (ci_current_state i) = Some x'"
    "st_repeat x' = st_repeat x"
    using carried_state [OF carries x] .
  obtain y' where y': "bm_get (def_states a) (t_to t) = Some y'" "st_kind y' = st_kind y"
    using carried_state [OF carries y] .
  have policy: "current_repeat_policy i a = current_repeat_policy i b"
    using x x' by (simp add: current_repeat_policy_def def_state_def)
  note repeat = carried_repeat_state [OF wf agree policy]
  have "is_terminal_state a (t_to t') = is_terminal_state b (t_to t)"
    using y y' t'(3) by (simp add: is_terminal_state_def state_is_terminal_def)
  then have "require_interventions_resolved_before_entering i a (t_to t')
      = require_interventions_resolved_before_entering i b (t_to t)"
    by (simp add: require_interventions_resolved_before_entering_def)
  moreover have "state_repeat_permits i b t \<Longrightarrow> state_repeat_permits i a t'"
    using exhaustion_still_routed [OF move] by (auto simp: state_repeat_permits_def repeat)
  moreover have "has_live_step_leases_at i a now = has_live_step_leases_at i b now"
    using steps_for_state_agree(2) [OF wf agree, of "record_is_live i now"]
    by (simp add: has_live_step_leases_at_def)
  ultimately show ?thesis
    using enabled t'(1,3) guards_still_satisfied [OF move _ repeat(1)]
      carried_budget [OF carries _ t'(4,5,3)]
    by (auto simp: transition_is_enabled_at_def transition_is_enabled_def
        transition_requirements_are_satisfied_def)
qed

lemma role_still_allowed:
  assumes "\<not> strands_running_sessions (between b a)" and "role_allows b rid action"
  shows "role_allows a rid action"
proof -
  from assms(2) obtain r where r: "bm_get (def_roles b) rid = Some r" "allows r action"
    by (auto simp: role_allows_def split: option.splits)
  with assms(1) bm_get_member [OF r(1)] have "role_carried a (rid, r)"
    by (auto simp: strands_iff_not_carried carried_over_def list_all_iff)
  with r show ?thesis by (auto simp: role_carried_def role_allows_def allows_def split: option.splits)
qed


section \<open>A definition that only drops a guard\<close>

text \<open>The sample ceremony with the guards of its transition replaced.\<close>

definition guarded_by :: "string list \<Rightarrow> ceremony_definition" where
  "guarded_by gs = sample_definition\<lparr>def_transitions := [sample_transition\<lparr>t_required_guards := gs\<rparr>]\<rparr>"

lemma carried_definitions:
  shows dropped_guard_new:
    "definition_new ''review'' ''1'' None [] [] [sample_draft, sample_done]
       [sample_transition\<lparr>t_required_guards := [''ok'']\<rparr>] [sample_step]
       [\<lparr>guard_name = ''ok'', guard_condition = AllStepsCompleted\<rparr>,
        \<lparr>guard_name = ''go'', guard_condition = HumanApproval\<rparr>]
       [sample_role] (Some 4) None = Inr (guarded_by [''ok''])"
    and dropped_guard_carries:
    "\<not> strands_running_sessions (between sample_definition (guarded_by [''ok'']))"
    and approved_move:
    "example_leaves sample_definition (butlast sample_commands)
       (\<lambda>i. ci_current_state i = ''draft'' \<and> transition_is_enabled_at sample_env i sample_definition
         sample_transition 40)"
  by code_simp+

lemma dropped_guard_ok: "definition_wf (guarded_by [''ok''])" "definition_ok (guarded_by [''ok''])"
  using definition_new_facts [OF dropped_guard_new] by (simp_all add: validate_ok)

text \<open>
  C33: a comparison that reports nothing stranding carries running sessions.  If the differences
  between two valid versions strand no session and no repeat policy changed, then a transition that
  is enabled for a session in some state and that a role may take is there in the new version, leads
  to the same state, and is enabled for the session and open to the role.  This holds for each
  transition that keeps its guards or drops some that do not route exhausted repeats.
\<close>

theorem carried_session_keeps_its_moves:
  assumes "definition_wf before" and "definition_ok before" and "definition_wf after" and
    "definition_ok after"
    and "\<not> strands_running_sessions (between before after)" and "repeat_policies_kept before after"
    and "transition_for_trigger before (ci_current_state i) trigger = Some t"
    and "transition_is_enabled_at env i before t now" and "role_allows before rid (TransitionAction
      trigger)"
    and "\<forall>t'. transition_for_trigger after (ci_current_state i) trigger = Some t' \<longrightarrow>
      guards_only_dropped before t t'"
  shows "\<exists>t'. transition_for_trigger after (ci_current_state i) trigger = Some t' \<and> t_to t' = t_to t
    \<and> transition_is_enabled_at env i after t' now \<and> role_allows after rid (TransitionAction trigger)"
  using session_keeps_move [OF assms(1,3,2,4-8)] role_still_allowed [OF assms(5,9)] assms(10) by blast

theorem carried_session_keeps_its_moves_witness:
  "\<exists>i t'. transition_is_enabled_at sample_env i sample_definition sample_transition 40
     \<and> transition_for_trigger (guarded_by [''ok'']) (ci_current_state i) ''finish'' = Some t'
     \<and> t_to t' = ''end'' \<and> transition_is_enabled_at sample_env i (guarded_by [''ok'']) t' 40"
proof -
  obtain es i where "ceremony_run sample_env sample_definition es i"
    and i: "ci_current_state i = ''draft'' \<and> transition_is_enabled_at sample_env i sample_definition
      sample_transition 40"
    using example_leaves_run [OF approved_move] .
  have "repeat_policies_kept sample_definition (guarded_by [''ok''])"
    by (auto simp: repeat_policies_kept_def guarded_by_def)
  moreover have "transition_for_trigger sample_definition (ci_current_state i) ''finish'' = Some
    sample_transition"
    "role_allows sample_definition ''lead'' (TransitionAction ''finish'')"
    using i by (simp_all add: transition_for_trigger_def sample_definition_def sample_transition_def
        role_allows_def sample_role_def allows_def)
  moreover have "\<forall>t'. transition_for_trigger (guarded_by [''ok'']) (ci_current_state i) ''finish'' =
    Some t' \<longrightarrow>
      guards_only_dropped sample_definition sample_transition t'"
    using i by (auto simp: transition_for_trigger_def guarded_by_def sample_definition_def
        sample_transition_def guards_only_dropped_def)
  ultimately obtain t' where "transition_for_trigger (guarded_by [''ok'']) (ci_current_state i)
    ''finish'' = Some t'"
    "t_to t' = t_to sample_transition" "transition_is_enabled_at sample_env i (guarded_by [''ok''])
      t' 40"
    using carried_session_keeps_its_moves [OF sample_wf_ok dropped_guard_ok dropped_guard_carries] i
      by blast
  with i show ?thesis by (intro exI [of _ i] exI [of _ t']) (simp add: sample_transition_def)
qed


section \<open>Replaced guards\<close>

definition with_guards :: "ceremony_definition \<Rightarrow> ceremony_transition \<Rightarrow> string list \<Rightarrow>
  ceremony_definition" where
  "with_guards d t gs = d\<lparr>def_transitions :=
     map (\<lambda>x. if x = t then t\<lparr>t_required_guards := gs\<rparr> else x) (def_transitions d)\<rparr>"

lemma with_guards_find:
  assumes "distinct (map transition_key ts)" and "x \<in> set ts"
  shows "find (\<lambda>c. transition_key c = transition_key x)
      (map (\<lambda>x. if x = t then t\<lparr>t_required_guards := gs\<rparr> else x) ts)
    = Some (if x = t then t\<lparr>t_required_guards := gs\<rparr> else x)"
  using assms by (induction ts) (auto simp: transition_key_def)

lemma replaced_guard_carries:
  assumes "definition_wf d" and "definition_ok d" and "bm_wf (def_inputs d)"
    and "t \<in> set (def_transitions d)" and "\<not> set (t_required_guards t) \<subseteq> set gs"
  shows "\<not> strands_running_sessions (between d (with_guards d t gs))"
proof -
  have keys: "distinct (map transition_key (def_transitions d))"
    using assms(2) by (simp add: definition_ok_def transitions_ok_def transition_key_def [abs_def])
  have "transition_carried (with_guards d t gs) x" if "x \<in> set (def_transitions d)" for x
    using with_guards_find [OF keys that, of t gs] assms(5)
    by (simp add: transition_carried_def with_guards_def)
  moreover have "bm_wf (def_states d)" "bm_wf (def_steps d)" "bm_wf (def_guards d)"
    "bm_wf (def_roles d)"
    using assms(1) by (simp_all add: definition_wf_def)
  ultimately show ?thesis
    using assms(3)
    by (auto simp: strands_iff_not_carried carried_over_def list_all_iff state_carried_def
        step_carried_def guard_carried_def role_carried_def input_carried_def budget_carried_def
        with_guards_def bm_get_of_member split: option.splits)
qed

lemma replaced_guard_blocks:
  assumes "definition_wf d" and "definition_ok d" and "t \<in> set (def_transitions d)"
    and "g \<in> set gs" and "bm_get (def_guards d) g = Some guard"
    and "guard_condition guard = HumanApproval" and "\<not> is_guard_approved (ci_context i) g"
  shows "transition_for_trigger (with_guards d t gs) (t_from t) (t_trigger t)
      = Some (t\<lparr>t_required_guards := gs\<rparr>)"
    and "\<not> transition_is_enabled_at env i (with_guards d t gs) (t\<lparr>t_required_guards := gs\<rparr>) now"
proof -
  have keys: "distinct (map transition_key (def_transitions d))"
    using assms(2) by (simp add: definition_ok_def transitions_ok_def transition_key_def [abs_def])
  from with_guards_find [OF keys assms(3), of t gs]
  show "transition_for_trigger (with_guards d t gs) (t_from t) (t_trigger t)
      = Some (t\<lparr>t_required_guards := gs\<rparr>)"
    by (simp add: transition_for_trigger_def with_guards_def transition_key_def)
  have "guard_name guard = g" using assms(1) bm_get_member [OF assms(5)]
    by (auto simp: definition_wf_def)
  with assms(4-7)
  show "\<not> transition_is_enabled_at env i (with_guards d t gs) (t\<lparr>t_required_guards := gs\<rparr>) now"
    by (auto simp: transition_is_enabled_at_def transition_is_enabled_def with_guards_def
        transition_requirements_are_satisfied_def guards_are_satisfied_def list_all_iff
        guard_is_satisfied_for_transition_def human_approval_satisfied intro!: bexI [of _ g])
qed

end
