(* ===== verification/Deviations.thy ===== *)
theory Deviations
  imports Diff_Safety
begin

text \<open>
  Behaviours of the code that differ from what its own comments and types promise, each shown on the
  model: completing a ceremony that was paused before, deadlines that outlive the visit they were
  set for, a human guard opened by the output of a step, a context at its size limit, and the
  comparison of two definitions when one guard replaces another.
\<close>


section \<open>Runs\<close>

text \<open>The sample ceremony, paused and resumed before its last transition.\<close>

abbreviation resumed_commands :: "ceremony_command list" where
  "resumed_commands \<equiv> [StartStep sample_start, ApplyStepResult sample_result,
     ApproveGuard ''go'' ''lead'' HumanActor 30, PauseCeremony ''wait'' 32, ResumeCeremony 34]"

text \<open>A definition that can return to a state whose step has a timeout, and a run about to do so.\<close>

definition loop_draft :: ceremony_state where
  "loop_draft = sample_draft\<lparr>st_execution := Sequential\<rparr>"

definition loop_review :: ceremony_state where
  "loop_review = loop_draft\<lparr>st_id := ''review'', st_kind := Intermediate\<rparr>"

definition loop_transition :: "string \<Rightarrow> string \<Rightarrow> string \<Rightarrow> ceremony_transition" where
  "loop_transition a trigger b =
     \<lparr>t_from = a, t_to = b, t_trigger = trigger, t_required_guards = []\<rparr>"

definition loop_role :: ceremony_role where
  "loop_role = \<lparr>role_id = ''lead'',
     role_allowed_actions = [StepAction ''write'', TransitionAction ''back'',
       TransitionAction ''finish'', TransitionAction ''send'']\<rparr>"

definition loop_definition :: ceremony_definition where
  "loop_definition = sample_definition\<lparr>
     def_states := [(''draft'', loop_draft), (''end'', sample_done), (''review'', loop_review)],
     def_transitions := [loop_transition ''draft'' ''send'' ''review'',
       loop_transition ''review'' ''back'' ''draft'',
       loop_transition ''review'' ''finish'' ''end''],
     def_guards := [], def_roles := [(''lead'', loop_role)]\<rparr>"

abbreviation loop_commands :: "ceremony_command list" where
  "loop_commands \<equiv> [StartStep sample_start, ApplyTransition (Some ''lead'') ''send'' 100]"

text \<open>A definition whose step writes its output under the name of the human guard.\<close>

definition forging_step :: ceremony_step where
  "forging_step = sample_step\<lparr>cs_context_writes := [(''go'', ''answer'')]\<rparr>"

definition forging_definition :: ceremony_definition where
  "forging_definition = sample_definition\<lparr>def_steps := [(''write'', forging_step)]\<rparr>"

abbreviation forging_result :: apply_step_result where
  "forging_result \<equiv> sample_result\<lparr>ar_result := sample_success\<lparr>res_output := [(''answer'', JBool
    True)]\<rparr>\<rparr>"

abbreviation write_record :: "ceremony_instance \<Rightarrow> step_record" where
  "write_record i \<equiv> take_step_record i ''write''"

lemma deviation_runs:
  shows loop_definition_new:
    "definition_new ''review'' ''1'' None [] [] [loop_draft, sample_done, loop_review]
       [loop_transition ''draft'' ''send'' ''review'', loop_transition ''review'' ''back'' ''draft'',
        loop_transition ''review'' ''finish'' ''end'']
       [sample_step] [] [loop_role] (Some 4) None = Inr loop_definition"
    and forging_definition_new:
    "definition_new ''review'' ''1'' None [] [] [sample_draft, sample_done] [sample_transition]
       [forging_step]
       [\<lparr>guard_name = ''ok'', guard_condition = AllStepsCompleted\<rparr>,
        \<lparr>guard_name = ''go'', guard_condition = HumanApproval\<rparr>]
       [sample_role] (Some 4) None = Inr forging_definition"
    and unapproved_move:
    "example_leaves (guarded_by [''ok'']) [StartStep sample_start, ApplyStepResult sample_result]
       (\<lambda>i. ci_current_state i = ''draft'' \<and> \<not> is_guard_approved (ci_context i) ''go''
         \<and> transition_is_enabled_at sample_env i (guarded_by [''ok''])
           (sample_transition\<lparr>t_required_guards := [''ok'']\<rparr>) 40)"
    and paused_before:
    "example_journal sample_definition resumed_commands
       (\<lambda>es i. CeremonyResumed 34 \<in> set es \<and>
          (case execute sample_env sample_definition i (ApplyTransition (Some ''lead'') ''finish''
            40) of
             Inl _ \<Rightarrow> False | Inr j \<Rightarrow> is_terminal_state sample_definition (ci_current_state j)))"
    and left_deadline:
    "example_before loop_definition loop_commands (ApplyTransition (Some ''lead'') ''back'' 110)
       (\<lambda>i j. map_option sd_at (bm_get (ci_step_deadlines i) ''write'') = Some 5000010
          \<and> ci_current_state j = ''draft'' \<and> \<not> is_ended j
          \<and> Option.is_none (ci_ceremony_deadline j) \<and> Option.is_none (ci_state_deadline j))"
    and forging_completes:
    "example_before forging_definition [StartStep sample_start]
       (ApplyStepResult forging_result)
       (\<lambda>i j. case decide sample_env i (ApplyStepResult forging_result) forging_definition of
          Inr (StepCompleted sc # _) \<Rightarrow> ci_guard_approvals i = [] | _ \<Rightarrow> False)"
  by code_simp+


section \<open>A step that opens a human guard\<close>

lemma with_patch_get:
  assumes "with_patch ctx p = Inr ctx'" and "bm_wf p" and "bm_get p k = Some v"
  shows "bm_get ctx' k = Some v"
proof -
  have "map_of (rev p) k = Some v"
    using assms(2,3) bm_wf_distinct [OF assms(2)] bm_get_member [OF assms(3)]
    by (intro map_of_is_SomeI) (simp_all add: rev_map [symmetric])
  with assms(1) show ?thesis by (auto simp: with_patch_def attributes_new_Inr bm_get_extend)
qed

lemma context_writes_resolve_wf:
  assumes "context_writes_resolve ws output = Inr (Some p)"
  shows "bm_wf p"
proof -
  from assms have "try_fold (\<lambda>patch (destination, source).
      and_then (ok_or (bm_get output source) (NotFound ''ceremony_step.context_write.output_field''))
        (\<lambda>v. Inr (bm_insert destination v patch))) [] ws = Inr p"
    by (auto simp: context_writes_resolve_def context_patch_new_def result_simps split: if_splits)
  then show ?thesis by (rule try_fold_invariant) (auto simp: and_then_Inr)
qed

lemma context_writes_resolve_not_None:
  assumes "context_writes_resolve ws output = Inr patch" and "bm_get ws k = Some f"
  shows "\<exists>p. patch = Some p"
  using assms by (auto simp: context_writes_resolve_def result_simps split: if_splits)

lemma written_output_approves:
  assumes dec: "decide env i (ApplyStepResult c) d = Inr (StepCompleted sc # es)"
    and step: "def_step d (ar_step_id c) = Some step" "bm_wf (cs_context_writes step)"
    and key: "bm_get (cs_context_writes step) g = Some field"
    and out: "bm_get (res_output (ar_result c)) field = Some (JBool True)"
    and exec: "execute env d i (ApplyStepResult c) = Inr j"
  shows "is_guard_approved (ci_context j) g" and "ci_guard_approvals j = ci_guard_approvals i"
proof -
  from dec have "decide_apply_step_result env i c d = Inr (StepCompleted sc # es)" by simp
  then obtain r where "decide_step_success i c d step r = Inr (StepCompleted sc # es)"
    by (cases rule: decide_apply_step_result_shape) (use step(1) in \<open>auto simp: result_admitted_def\<close>)
  then obtain p it k where p: "context_writes_resolve (cs_context_writes step) (res_output
    (ar_result c)) = Inr p"
    and k: "apply_all i (StepCompleted sc # map ContextWritten (written_events i c r p)) = Inr k"
    and it: "decide_state_iteration k d (ar_now c) = Inr it"
    and es: "es = map ContextWritten (written_events i c r p) @ it"
    by (cases rule: decide_step_success_shape) auto
  from context_writes_resolve_not_None [OF p key] obtain q where q: "p = Some q" ..
  from p q context_writes_resolve_get [of "cs_context_writes step" _ q g] step(2) key out
  have get: "bm_get q g = Some (JBool True)" by simp
  have wf: "bm_wf q" using context_writes_resolve_wf p q by blast
  have first: "ci_context (apply_step_completed i sc) = ci_context i"
    "ci_guard_approvals (apply_step_completed i sc) = ci_guard_approvals i"
    using effect_context [of i "StepCompleted sc"] effect_guard_approvals [of i "StepCompleted sc"]
      by simp_all
  from k q obtain ctx where ctx: "with_patch (ci_context i) q = Inr ctx" "ci_context k = ctx"
    "ci_guard_approvals k = ci_guard_approvals i"
    by (auto simp: apply_all_def written_events_def apply_context_written_Inr first and_then_Inr)
  have approved: "is_guard_approved (ci_context k) g"
    using with_patch_get [OF ctx(1) wf get] ctx(2) by (simp add: is_guard_approved_def)
  from exec dec es have "try_fold apply_event i ((StepCompleted sc # map ContextWritten
    (written_events i c r p)) @ it) = Inr j"
    by (auto simp: execute_fold)
  with k have "try_fold apply_event k it = Inr j"
    unfolding try_fold_append apply_all_def by simp
  then have "ci_context j = ci_context k \<and> ci_guard_approvals j = ci_guard_approvals k"
    using it by (auto elim!: decide_state_iteration_shape simp: apply_state_iteration_started_def)
  with approved ctx(3) show "is_guard_approved (ci_context j) g"
    "ci_guard_approvals j = ci_guard_approvals i"
    by simp_all
qed

text \<open>
  C35: a step can open a human guard.  When a step completes that writes a field of its output under
  the name of a human guard, and the field is true, the guard is satisfied for every transition,
  although no approval was recorded.
\<close>

theorem step_output_opens_human_guard:
  assumes "definition_wf d" and "decide env i (ApplyStepResult c) d = Inr (StepCompleted sc # es)"
    and "execute env d i (ApplyStepResult c) = Inr j"
    and "def_step d (ar_step_id c) = Some step" and "bm_wf (cs_context_writes step)"
    and "bm_get (cs_context_writes step) g = Some field"
    and "bm_get (res_output (ar_result c)) field = Some (JBool True)"
    and "bm_get (def_guards d) g = Some guard" and "guard_condition guard = HumanApproval"
  shows "guard_is_satisfied_for_transition env j d t guard \<and> ci_guard_approvals j =
    ci_guard_approvals i"
proof -
  have "guard_name guard = g" using assms(1) bm_get_member [OF assms(8)]
    by (auto simp: definition_wf_def)
  with written_output_approves [OF assms(2,4-7,3)] assms(9) show ?thesis
    by (simp add: guard_is_satisfied_for_transition_def human_approval_satisfied)
qed

theorem step_output_opens_human_guard_witness:
  "\<exists>es i. ceremony_run sample_env forging_definition es i \<and> ci_guard_approvals i = []
     \<and> guard_is_satisfied_for_transition sample_env i forging_definition sample_transition
          \<lparr>guard_name = ''go'', guard_condition = HumanApproval\<rparr>"
proof -
  obtain es i j where run: "ceremony_run sample_env forging_definition es i"
    and exec: "execute sample_env forging_definition i (ApplyStepResult forging_result) = Inr j"
    and "case decide sample_env i (ApplyStepResult forging_result) forging_definition of
          Inr (StepCompleted sc # _) \<Rightarrow> ci_guard_approvals i = [] | _ \<Rightarrow> False"
    using example_before_run [OF forging_completes] .
  then obtain sc es' where dec: "decide sample_env i (ApplyStepResult forging_result)
    forging_definition = Inr (StepCompleted sc # es')"
    and "ci_guard_approvals i = []"
    by (auto split: sum.splits list.splits ceremony_event.splits)
  moreover have "ceremony_run sample_env forging_definition (es @ StepCompleted sc # es') j"
    using run dec exec by (auto simp: execute_fold intro: journal_of.decided simp del: decide.simps
      try_fold.simps)
  moreover note step_output_opens_human_guard [OF definition_new_facts(1) [OF
    forging_definition_new] dec exec,
      of forging_step "''go''" "''answer''" "\<lparr>guard_name = ''go'', guard_condition = HumanApproval\<rparr>"
        sample_transition]
  ultimately show ?thesis
    by (intro exI [of _ "es @ StepCompleted sc # es'"] exI [of _ j])
      (simp add: forging_definition_def forging_step_def sample_definition_def sample_result_def
        def_step_def bm_wf_def)
qed


section \<open>A deadline that outlives its visit\<close>

lemma enter_steps_record:
  "bm_get (ci_step_records (fold (enter_step v) ids i)) s =
     (if s \<in> set ids then Some (with_state_visit record_pending v) else bm_get (ci_step_records i) s)"
  by (induction ids arbitrary: i) (auto simp: enter_step_def)

lemma fold_deadlines_fail:
  assumes "try_fold apply_event i (map (\<lambda>dl. StepDeadlineExceeded dl timeout_result now) dls) = Inr j"
    and "bm_get (ci_step_records i) s = Some r"
    and "rec_status r = Failed \<or> s \<in> sd_step_id ` set dls"
  shows "\<exists>r'. bm_get (ci_step_records j) s = Some r' \<and> rec_status r' = Failed
    \<and> rec_state_visit r' = rec_state_visit r"
  using assms
proof (induction dls arbitrary: i r)
  case (Cons dl dls)
  let ?k = "apply_step_deadline_exceeded i dl timeout_result now"
  let ?r = "if sd_step_id dl = s then with_result r timeout_result else r"
  have "bm_get (ci_step_records ?k) s = Some ?r"
    using Cons.prems(2) by (auto simp: apply_step_deadline_exceeded_def split: option.splits)
  moreover have "rec_status ?r = Failed \<or> s \<in> sd_step_id ` set dls"
    using Cons.prems(3) by (auto simp: with_result_def timeout_result_def)
  ultimately have "\<exists>r'. bm_get (ci_step_records j) s = Some r' \<and> rec_status r' = Failed
    \<and> rec_state_visit r' = rec_state_visit ?r"
    using Cons.prems(1) by (intro Cons.IH) simp_all
  then show ?case by (simp add: with_result_def split: if_splits)
qed auto

lemma terminal_events_keep_records:
  assumes "try_fold apply_event i (terminal_events k now) = Inr j"
  shows "ci_step_records j = ci_step_records i"
  using assms terminal_events_cases [of k now] by (auto simp: fold_defs)

lemma entered_steps_pending:
  assumes wf: "definition_wf d" and exec: "execute env d i (ApplyTransition rid trigger now) = Inr j"
    and step: "def_step d s = Some step" "cs_state_id step = ci_current_state j"
  shows "bm_get (ci_step_records j) s = Some (with_state_visit record_pending
    (ci_current_state_visit j))"
    and "ci_step_deadlines j = ci_step_deadlines i" and "matches_definition j d"
proof -
  from exec obtain t visit deadline where adm: "transition_admitted env i rid trigger now d t visit
    deadline"
    and fold: "try_fold apply_event i (TransitionApplied (transition_taken i rid t now)
               (Some (visit_entry d (t_to t) visit deadline)) #
             (if is_terminal_state d (t_to t) then [CeremonyCompleted (t_to t) now] else [])) = Inr j"
    by (auto simp: execute_fold decide_apply_transition_iff)
  let ?k = "apply_transition_applied i (transition_taken i rid t now) (Some (visit_entry d (t_to t)
    visit deadline))"
  have k: "ci_step_records ?k = ci_step_records (fold (enter_step visit) (map cs_id (steps_for_state
    d (t_to t)))
       (i\<lparr>ci_current_state_visit := visit,
          ci_state_deadline := sve_deadline (visit_entry d (t_to t) visit deadline)\<rparr>))"
    "ci_step_deadlines ?k = ci_step_deadlines i" "ci_current_state ?k = t_to t"
    "ci_current_state_visit ?k = visit" "ci_definition_name ?k = ci_definition_name i"
    "ci_definition_version ?k = ci_definition_version i"
    by (simp_all add: apply_transition_applied_def visit_entry_def transition_taken_def Let_def)
  have j: "ci_step_records j = ci_step_records ?k" "ci_step_deadlines j = ci_step_deadlines ?k"
    "ci_current_state j = ci_current_state ?k" "ci_current_state_visit j = ci_current_state_visit ?k"
    "ci_definition_name j = ci_definition_name ?k" "ci_definition_version j = ci_definition_version ?k"
    using fold by (auto simp: apply_ceremony_completed_def split: if_splits)
  have "s \<in> cs_id ` set (steps_for_state d (t_to t))"
  proof -
    have "cs_id step = s" "s \<in> set (def_step_order d)"
      using wf bm_get_member [of "def_steps d" s step] step(1)
      by (auto simp: definition_wf_def bm_keys_def def_step_def)
    moreover from this have "step \<in> set (steps_for_state d (t_to t))"
      using step j(3) k(3)
      by (auto simp: steps_for_state_def steps_in_declaration_order_def List.map_filter_def def_step_def
          intro!: image_eqI [where x = s])
    ultimately show ?thesis by blast
  qed
  then show "bm_get (ci_step_records j) s = Some (with_state_visit record_pending
    (ci_current_state_visit j))"
    by (simp add: j k enter_steps_record)
  show "ci_step_deadlines j = ci_step_deadlines i" by (simp add: j k)
  show "matches_definition j d"
    using adm by (simp add: transition_admitted_def matches_definition_def j k)
qed

lemma enforced_deadline_fails:
  assumes "matches_definition j d" and "\<not> is_ended j" and inv: "deadlines_inv j"
    and dl: "bm_get (ci_step_deadlines j) s = Some dl" "sd_at dl \<le> now"
    and "\<forall>at. ci_ceremony_deadline j = Some at \<longrightarrow> sd_at dl < at"
    and "\<forall>x. ci_state_deadline j = Some x \<longrightarrow> sd_at dl < std_at x"
    and r: "bm_get (ci_step_records j) s = Some r"
  shows "\<exists>k r'. execute env d j (EnforceCeremonyDeadlines now) = Inr k
    \<and> bm_get (ci_step_records k) s = Some r' \<and> rec_status r' = Failed
    \<and> rec_state_visit r' = rec_state_visit r"
proof -
  let ?due = "due_step_deadlines j now (terminal_due j now)"
  from enforce_deadlines_total [OF assms(1), of env now] obtain k where
    k: "execute env d j (EnforceCeremonyDeadlines now) = Inr k" ..
  with assms(2) have fold: "try_fold apply_event j (map (\<lambda>dl. StepDeadlineExceeded dl timeout_result
    now) ?due
      @ terminal_events j now) = Inr k"
    by (auto simp: execute_fold decide_enforce_deadlines_eq and_then_Inr)
  have "sd_step_id dl = s" "dl \<in> set (bm_values (ci_step_deadlines j))"
    using inv bm_get_member [OF dl(1)] by (force simp: deadlines_inv_def deadline_map_ok_def
      bm_values_def)+
  moreover have "case terminal_due j now of None \<Rightarrow> True | Some at \<Rightarrow> sd_at dl < at"
    using assms(6,7)
    by (auto simp: terminal_due_def earliest_def ceremony_due_def state_due_def split: option.splits
      if_splits)
  ultimately have "s \<in> sd_step_id ` set ?due"
    using dl(2) by (auto simp: due_step_deadlines_def)
  moreover obtain m where m: "try_fold apply_event j (map (\<lambda>dl. StepDeadlineExceeded dl
    timeout_result now) ?due) = Inr m"
    "try_fold apply_event m (terminal_events j now) = Inr k"
    using fold by (auto simp: try_fold_append and_then_Inr)
  ultimately show ?thesis
    using fold_deadlines_fail [OF m(1) r] terminal_events_keep_records [OF m(2)] k by auto
qed

text \<open>
  C36: the deadline of a claim outlives the visit it was set for.  When a transition enters the state
  of a step that still has a deadline from an earlier claim, the step has a fresh record for the new
  visit that nobody has claimed; unless the ceremony or the state is due first, enforcing deadlines
  after that time fails this record.
\<close>

theorem deadline_outlives_its_visit:
  assumes "definition_wf d" and "ceremony_run env d es i"
    and "execute env d i (ApplyTransition rid trigger now) = Inr j"
    and "bm_get (ci_step_deadlines i) s = Some dl"
    and "def_step d s = Some step" and "cs_state_id step = ci_current_state j" and "\<not> is_ended j"
    and "sd_at dl \<le> later"
    and "\<forall>at. ci_ceremony_deadline j = Some at \<longrightarrow> sd_at dl < at"
    and "\<forall>x. ci_state_deadline j = Some x \<longrightarrow> sd_at dl < std_at x"
  shows "\<exists>r k r'. bm_get (ci_step_records j) s = Some r \<and> rec_status r = Pending \<and> rec_lease r = None
    \<and> rec_state_visit r = ci_current_state_visit j
    \<and> execute env d j (EnforceCeremonyDeadlines later) = Inr k
    \<and> bm_get (ci_step_records k) s = Some r' \<and> rec_status r' = Failed
    \<and> rec_state_visit r' = ci_current_state_visit j"
proof -
  note entered = entered_steps_pending [OF assms(1,3,5,6)]
  have "deadlines_inv j"
    using run_deadlines_inv [OF assms(2)] entered(2) by (simp add: deadlines_inv_def)
  with enforced_deadline_fails [OF entered(3) assms(7) _ _ assms(8-10) entered(1), of env]
    entered(1,2) assms(4)
  show ?thesis by (auto simp: with_state_visit_def record_pending_def)
qed

theorem deadline_outlives_its_visit_witness:
  "\<exists>es j k. ceremony_run sample_env loop_definition es j
     \<and> rec_status (write_record j) = Pending \<and> rec_lease (write_record j) = None
     \<and> execute sample_env loop_definition j sample_enforce = Inr k
     \<and> rec_status (write_record k) = Failed
     \<and> rec_state_visit (write_record k) = ci_current_state_visit j"
proof -
  obtain es i j where run: "ceremony_run sample_env loop_definition es i"
    and exec: "execute sample_env loop_definition i (ApplyTransition (Some ''lead'') ''back'' 110) =
      Inr j"
    and f: "map_option sd_at (bm_get (ci_step_deadlines i) ''write'') = Some 5000010
      \<and> ci_current_state j = ''draft'' \<and> \<not> is_ended j
      \<and> Option.is_none (ci_ceremony_deadline j) \<and> Option.is_none (ci_state_deadline j)"
    using example_before_run [OF left_deadline] .
  from f obtain dl where dl: "bm_get (ci_step_deadlines i) ''write'' = Some dl" "sd_at dl = 5000010"
    by auto
  have step: "def_step loop_definition ''write'' = Some sample_step" "cs_state_id sample_step =
    ci_current_state j"
    using f by (simp_all add: def_step_def loop_definition_def sample_definition_def sample_step_def)
  obtain r k r' where "bm_get (ci_step_records j) ''write'' = Some r" "rec_status r = Pending"
    "rec_lease r = None"
    "execute sample_env loop_definition j sample_enforce = Inr k"
    "bm_get (ci_step_records k) ''write'' = Some r'" "rec_status r' = Failed"
    "rec_state_visit r' = ci_current_state_visit j"
    using deadline_outlives_its_visit [OF definition_new_facts(1) [OF loop_definition_new] run exec
      dl(1) step,
        of 6000000] f dl(2) by (auto simp: Option.is_none_def)
  moreover obtain es' where "decide sample_env i (ApplyTransition (Some ''lead'') ''back'' 110)
    loop_definition = Inr es'"
    "try_fold apply_event i es' = Inr j" using exec by (auto simp: execute_fold)
  with run have "ceremony_run sample_env loop_definition (es @ es') j" by (rule journal_of.decided)
  ultimately show ?thesis
    by (intro exI [of _ "es @ es'"] exI [of _ j] exI [of _ k]) (simp add: take_step_record_def)
qed


section \<open>A completion that does not end the ceremony\<close>

lemma fold_explicit:
  assumes "lifecycle_is_explicit l \<or> (\<exists>t. CeremonyResumed t \<in> set es)"
  shows "lifecycle_is_explicit (fold lifecycle_after es l)"
  using assms
proof (induction es arbitrary: l)
  case (Cons e es)
  have "lifecycle_is_explicit l \<or> (\<exists>t. e = CeremonyResumed t) \<Longrightarrow>
    lifecycle_is_explicit (lifecycle_after e l)"
    by (cases e) (auto simp: lifecycle_is_explicit_def lifecycle_pause_def lifecycle_resume_def
      lifecycle_end_def)
  with Cons show ?case by auto
qed simp

lemma resumed_is_explicit:
  assumes "ceremony_run env d es i" and "CeremonyResumed t \<in> set es"
  shows "lifecycle_is_explicit (ci_lifecycle i)"
proof -
  have "(\<exists>t. CeremonyResumed t \<in> set es) \<longrightarrow> lifecycle_is_explicit (ci_lifecycle i)"
    using assms(1)
  proof (rule journal_invariant2)
    show "(\<exists>t. CeremonyResumed t \<in> set es) \<longrightarrow> lifecycle_is_explicit (ci_lifecycle s)"
      if "opens env d es s" for es s
      using that by (auto elim!: opens_shape)
    show "(\<exists>t. CeremonyResumed t \<in> set (es @ es')) \<longrightarrow> lifecycle_is_explicit (ci_lifecycle s')"
      if "(\<exists>t. CeremonyResumed t \<in> set es) \<longrightarrow> lifecycle_is_explicit (ci_lifecycle s)"
        "decide env s c d = Inr es'" "try_fold apply_event s es' = Inr s'" for es s c es' s'
      using that(1) fold_explicit fold_lifecycle [OF that(3) decided_no_imports [OF that(2)]] by auto
  qed
  with assms(2) show ?thesis by blast
qed

lemma completes_without_end:
  assumes run: "ceremony_run env d es i" and "CeremonyResumed t \<in> set es"
    and exec: "execute env d i (ApplyTransition rid trigger now) = Inr j"
    and "is_terminal_state d (ci_current_state j)"
  shows "ci_completed_at j = Some now" and "is_terminal j d" and "\<not> is_ended j"
    and "\<exists>k. execute env d j (CancelCeremony reason at) = Inr k
      \<and> end_reason (ci_lifecycle k) = Some EndCancelled"
proof -
  from exec obtain es' where es': "decide env i (ApplyTransition rid trigger now) d = Inr es'"
    "try_fold apply_event i es' = Inr j" by (auto simp: execute_fold)
  then obtain u visit deadline where adm: "transition_admitted env i rid trigger now d u visit deadline"
    and shape: "es' = TransitionApplied (transition_taken i rid u now) (Some (visit_entry d (t_to u)
      visit deadline)) #
             (if is_terminal_state d (t_to u) then [CeremonyCompleted (t_to u) now] else [])"
    by (auto simp: decide_apply_transition_iff)
  from es'(2) shape have life: "ci_lifecycle j = ci_lifecycle i" and
    "ci_completed_at j = (if is_terminal_state d (ci_current_state j) then Some now else
      ci_completed_at i)"
    by (auto simp: apply_transition_applied_def apply_ceremony_completed_def transition_taken_def
      Let_def
        visit_entry_def split: if_splits)
  with assms(4) show "ci_completed_at j = Some now" by simp
  have "phase (ci_lifecycle i) = Running"
    using adm admits_new_work_running by (auto simp: transition_admitted_def)
  moreover have "lifecycle_is_explicit (ci_lifecycle j)" using resumed_is_explicit [OF run assms(2)]
    life by simp
  ultimately show open': "\<not> is_ended j"
    by (auto simp: is_ended_def instance_lifecycle_def life split: option.splits)
  have match: "matches_definition j d"
    using matches_definition_after(1) [OF es'(2) decided_no_imports [OF es'(1)]] adm
    by (simp add: transition_admitted_def)
  then show "is_terminal j d" using assms(4) by (simp add: is_terminal_def)
  show "\<exists>k. execute env d j (CancelCeremony reason at) = Inr k
      \<and> end_reason (ci_lifecycle k) = Some EndCancelled"
    using match open' by (auto simp: execute_fold decide_cancel_def require_definition_def require_def
        apply_ceremony_cancelled_def lifecycle_end_def)
qed

text \<open>
  C37: a ceremony that was ever resumed and then completes is not ended.  The transition into a
  terminal state records its completion, but the explicit phase of the lifecycle stays running, so
  the completed ceremony can still be cancelled.
\<close>

theorem completed_ceremony_can_be_cancelled:
  assumes "ceremony_run env d es i" and "CeremonyResumed t \<in> set es"
    and "execute env d i (ApplyTransition rid trigger now) = Inr j"
    and "is_terminal_state d (ci_current_state j)"
  shows "ci_completed_at j = Some now \<and> is_terminal j d \<and> \<not> is_ended j
    \<and> (\<exists>k. execute env d j (CancelCeremony reason at) = Inr k \<and> end_reason (ci_lifecycle k) = Some
      EndCancelled)"
  using completes_without_end [OF assms] by blast

theorem completed_ceremony_can_be_cancelled_witness:
  "\<exists>i j k. execute sample_env sample_definition i (ApplyTransition (Some ''lead'') ''finish'' 40) =
    Inr j
     \<and> ci_completed_at j = Some 40 \<and> \<not> is_ended j
     \<and> execute sample_env sample_definition j (CancelCeremony ''stop'' 50) = Inr k
     \<and> end_reason (ci_lifecycle k) = Some EndCancelled"
proof -
  obtain es i where run: "ceremony_run sample_env sample_definition es i"
    and f: "CeremonyResumed 34 \<in> set es \<and>
          (case execute sample_env sample_definition i (ApplyTransition (Some ''lead'') ''finish''
            40) of
             Inl _ \<Rightarrow> False | Inr j \<Rightarrow> is_terminal_state sample_definition (ci_current_state j))"
    using example_journal_run [OF paused_before] .
  from f obtain j where "execute sample_env sample_definition i (ApplyTransition (Some ''lead'')
    ''finish'' 40) = Inr j"
    "is_terminal_state sample_definition (ci_current_state j)" by (auto split: sum.splits)
  with completed_ceremony_can_be_cancelled [OF run, of 34 "Some ''lead''" "''finish''" 40 j
    "''stop''" 50] f
  show ?thesis by blast
qed


section \<open>A guard replaced by another\<close>

text \<open>
  C39: replacing a guard of a transition counts as a change that carries running sessions.  Whenever
  the new guards leave one of the old ones out, the comparison strands no session, even if they ask
  for a human approval that was not asked for before and that the session does not have; the
  transition is then not enabled for it.
\<close>

theorem guard_replacement_is_said_to_carry:
  assumes "definition_wf d" and "definition_ok d" and "bm_wf (def_inputs d)"
    and "t \<in> set (def_transitions d)" and "\<not> set (t_required_guards t) \<subseteq> set gs"
    and "g \<in> set gs" and "bm_get (def_guards d) g = Some guard"
    and "guard_condition guard = HumanApproval" and "\<not> is_guard_approved (ci_context i) g"
  shows "\<not> strands_running_sessions (between d (with_guards d t gs))
    \<and> transition_for_trigger (with_guards d t gs) (t_from t) (t_trigger t) = Some
      (t\<lparr>t_required_guards := gs\<rparr>)
    \<and> \<not> transition_is_enabled_at env i (with_guards d t gs) (t\<lparr>t_required_guards := gs\<rparr>) now"
  using replaced_guard_carries [OF assms(1-5)] replaced_guard_blocks [OF assms(1,2,4,6-9)] by blast

theorem guard_replacement_is_said_to_carry_witness:
  "\<exists>i. ci_current_state i = ''draft''
     \<and> transition_is_enabled_at sample_env i (guarded_by [''ok''])
       (sample_transition\<lparr>t_required_guards := [''ok'']\<rparr>) 40
     \<and> \<not> strands_running_sessions (between (guarded_by [''ok'']) (guarded_by [''go'']))
     \<and> \<not> transition_is_enabled_at sample_env i (guarded_by [''go''])
       (sample_transition\<lparr>t_required_guards := [''go'']\<rparr>) 40"
proof -
  let ?t = "sample_transition\<lparr>t_required_guards := [''ok'']\<rparr>"
  obtain es i where "ceremony_run sample_env (guarded_by [''ok'']) es i" and i:
    "ci_current_state i = ''draft'' \<and> \<not> is_guard_approved (ci_context i) ''go''
      \<and> transition_is_enabled_at sample_env i (guarded_by [''ok'']) ?t 40"
    using example_leaves_run [OF unapproved_move] .
  have "with_guards (guarded_by [''ok'']) ?t [''go''] = guarded_by [''go'']"
    by (simp add: with_guards_def guarded_by_def)
  with guard_replacement_is_said_to_carry [OF dropped_guard_ok, of ?t "[''go'']" "''go''"
      "\<lparr>guard_name = ''go'', guard_condition = HumanApproval\<rparr>" i sample_env 40] i
  show ?thesis
    by (intro exI [of _ i]) (simp add: guarded_by_def sample_definition_def sample_transition_def)
qed


section \<open>A context at its limit\<close>

lemma length_bm_insert:
  "bm_wf m \<Longrightarrow> length (bm_insert k v m) = (if bm_get m k = None then Suc (length m) else length m)"
proof (induction k v m rule: bm_insert.induct)
  case (2 k v k' v' m)
  have "bm_get m k = None" if "k < k'"
    using that 2(2) by (auto simp: bm_get_None_iff bm_keys_def)
  with 2 show ?case by auto
qed simp

lemma bm_extend_simps [simp]:
  "bm_extend m [] = m"
  "bm_extend m (x # xs) = bm_extend (bm_insert (fst x) (snd x) m) xs"
  by (simp_all add: bm_extend_def case_prod_unfold)

lemma length_bm_extend_mono: "bm_wf m \<Longrightarrow> length m \<le> length (bm_extend m xs)"
proof (induction xs arbitrary: m)
  case (Cons x xs)
  have "length m \<le> length (bm_insert (fst x) (snd x) m)" using Cons.prems
    by (simp add: length_bm_insert)
  also have "\<dots> \<le> length (bm_extend (bm_insert (fst x) (snd x) m) xs)"
    using Cons.prems by (intro Cons.IH) simp
  finally show ?case by simp
qed simp

lemma length_bm_extend_new:
  assumes "bm_wf m" and "(k, v) \<in> set xs" and "bm_get m k = None"
  shows "length m < length (bm_extend m xs)"
  using assms
proof (induction xs arbitrary: m)
  case (Cons x xs)
  let ?m = "bm_insert (fst x) (snd x) m"
  have le: "length m \<le> length ?m" and wf: "bm_wf ?m"
    using Cons.prems(1) by (simp_all add: length_bm_insert)
  show ?case
  proof (cases "fst x = k")
    case True
    with Cons.prems have "length ?m = Suc (length m)" by (simp add: length_bm_insert)
    with length_bm_extend_mono [OF wf, of xs] show ?thesis by simp
  next
    case False
    with Cons.prems have "length ?m < length (bm_extend ?m xs)"
      by (intro Cons.IH [OF wf]) auto
    with le show ?thesis by simp
  qed
qed simp

lemma full_context_refuses:
  assumes "bm_wf ctx" and "length ctx = MAX_ATTRIBUTES_KEYS" and "(k, v) \<in> set p"
    and "bm_get ctx k = None"
  shows "isl (with_patch ctx p)"
  using length_bm_extend_new [OF assms(1,3,4)] assms(2)
  by (simp add: with_patch_def attributes_new_def)

text \<open>
  C38: a step that completes while the context holds as many keys as it may, and that writes a new
  key, makes the decision panic instead of refusing the result: the projection of the decided events
  expects every context patch to stay valid.
\<close>

theorem full_context_panics:
  assumes "bm_wf (ci_context i)" and "length (ci_context i) = MAX_ATTRIBUTES_KEYS"
    and "next_iteration_of step (rec_iteration r) (res_output (ar_result c)) = Inr nxt"
    and "finished_by_of d (ar_step_id c) r = Inr finished_by"
    and "context_writes_resolve (cs_context_writes step) (res_output (ar_result c)) = Inr (Some p)"
    and "(k, v) \<in> set p" and "bm_get (ci_context i) k = None"
  shows "decide_step_success i c d step r = Inl (Panic ''a sealed context patch must remain valid'')"
proof -
  from full_context_refuses [OF assms(1,2,6,7)] obtain e where
    e: "with_patch (ci_context i) p = Inl e" by (auto simp: isl_def)
  have context_kept: "ci_context (apply_step_completed i sc) = ci_context i" for sc
    using effect_context [of i "StepCompleted sc" "apply_step_completed i sc"] by simp
  show ?thesis
    using assms(3-5) by (simp add: decide_step_success_def Let_def apply_context_written_def
        context_kept e)
qed

definition full_context :: ceremony_context where
  "full_context = map (\<lambda>n. (replicate (Suc n) CHR ''b'', JNull)) [0..<MAX_ATTRIBUTES_KEYS]"

lemma replicate_less: "m < n \<Longrightarrow> replicate m c < replicate n (c :: char)"
proof -
  assume "m < n"
  then have "replicate n c = replicate m c @ replicate (Suc (n - Suc m)) c"
    by (simp only: replicate_add [symmetric]) simp
  then have "replicate n c = replicate m c @ c # replicate (n - Suc m) c" by (simp only: replicate_Suc)
  then show ?thesis unfolding list_less_def by (simp only:) (blast intro: lexord_append_rightI)
qed

lemma full_context_facts:
  "bm_wf full_context" "length full_context = MAX_ATTRIBUTES_KEYS" "bm_get full_context ''go'' = None"
proof -
  show "bm_wf full_context"
    unfolding bm_wf_def full_context_def
    by (simp add: comp_def sorted_wrt_map sorted_wrt_iff_nth_less replicate_less del: replicate_Suc)
  show "bm_get full_context ''go'' = None"
    by (auto simp: bm_get_None_iff bm_keys_def full_context_def)
qed (simp add: full_context_def)

theorem full_context_panics_witness:
  "\<exists>i. ci_context i = full_context \<and>
     decide_step_success i
       forging_result
       forging_definition forging_step (record_pending\<lparr>rec_claimed_role := Some ''lead''\<rparr>)
     = Inl (Panic ''a sealed context patch must remain valid'')"
proof -
  obtain es i0 where "ceremony_run sample_env sample_definition es i0"
    using example_leaves_run [OF sample_completes] by blast
  let ?i = "i0\<lparr>ci_context := full_context\<rparr>"
  have "decide_step_success ?i
       forging_result
       forging_definition forging_step (record_pending\<lparr>rec_claimed_role := Some ''lead''\<rparr>)
     = Inl (Panic ''a sealed context patch must remain valid'')"
    by (rule full_context_panics [where p = "[(''go'', JBool True)]" and k = "''go''"
        and v = "JBool True" and nxt = None and finished_by = "''lead''"])
      (simp_all add: full_context_facts next_iteration_of_def finished_by_of_def forging_step_def
        sample_step_def context_writes_resolve_def context_patch_new_def)
  then show ?thesis by (intro exI [of _ ?i]) simp
qed

end
