(* ===== verification/Workflow_Refinement.thy ===== *)
theory Workflow_Refinement
  imports Run_Safety
begin

text \<open>
  What a ceremony promises as a workflow, without leases, records or journals: a current state, the
  edges taken so far, a lifecycle phase, and whether the workflow is complete.  Every command the
  ceremony accepts refines at most one abstract step, so every journal refines an abstract run, and
  what the abstract machine keeps holds of the ceremony.
\<close>


section \<open>The abstract workflow\<close>

type_synonym edge = "string \<times> string \<times> string"

record workflow =
  wf_state :: string
  wf_trail :: "edge list"
  wf_phase :: lifecycle_phase
  wf_complete :: bool

definition within_budgets :: "ceremony_definition \<Rightarrow> edge list \<Rightarrow> bool" where
  "within_budgets d trail =
     ((case def_max_transitions d of None \<Rightarrow> True | Some n \<Rightarrow> length trail \<le> unat n)
      \<and> (case def_max_bounces d of
           None \<Rightarrow> True | Some n \<Rightarrow> list_all (\<lambda>e. count_list trail e \<le> unat n) trail))"

inductive workflow_step :: "ceremony_definition \<Rightarrow> workflow \<Rightarrow> workflow \<Rightarrow> bool" for d where
  advance: "wf_phase w = Running \<Longrightarrow> \<not> wf_complete w \<Longrightarrow> t \<in> set (def_transitions d) \<Longrightarrow>
     t_from t = wf_state w \<Longrightarrow> within_budgets d (wf_trail w @ [(t_from t, t_trigger t, t_to t)]) \<Longrightarrow>
     workflow_step d w (w\<lparr>wf_state := t_to t,
       wf_trail := wf_trail w @ [(t_from t, t_trigger t, t_to t)],
       wf_complete := is_terminal_state d (t_to t)\<rparr>)"
| pause: "wf_phase w = Running \<Longrightarrow> workflow_step d w (w\<lparr>wf_phase := Paused\<rparr>)"
| resume: "wf_phase w = Paused \<Longrightarrow> workflow_step d w (w\<lparr>wf_phase := Running\<rparr>)"
| finish: "wf_phase w \<noteq> Ended \<Longrightarrow> workflow_step d w (w\<lparr>wf_phase := Ended\<rparr>)"

definition workflow_starts :: "ceremony_definition \<Rightarrow> workflow \<Rightarrow> bool" where
  "workflow_starts d w =
     (initial_state_id d = Inr (wf_state w) \<and> wf_trail w = [] \<and> wf_phase w = Running
      \<and> \<not> wf_complete w)"

definition workflow_reaches :: "ceremony_definition \<Rightarrow> workflow \<Rightarrow> bool" where
  "workflow_reaches d w = (\<exists>w0. workflow_starts d w0 \<and> (workflow_step d)\<^sup>*\<^sup>* w0 w)"

lemma workflow_step_ended: "workflow_step d w w' \<Longrightarrow> wf_phase w \<noteq> Ended"
  by (erule workflow_step.cases) simp_all

lemma workflow_step_trail: "workflow_step d w w' \<Longrightarrow> prefix (wf_trail w) (wf_trail w')"
  by (erule workflow_step.cases) simp_all

lemma workflow_steps_ended: "(workflow_step d)\<^sup>*\<^sup>* w w' \<Longrightarrow> wf_phase w = Ended \<Longrightarrow> w' = w"
  by (induction rule: converse_rtranclp_induct) (auto dest: workflow_step_ended)

lemma workflow_steps_trail: "(workflow_step d)\<^sup>*\<^sup>* w w' \<Longrightarrow> prefix (wf_trail w) (wf_trail w')"
  by (induction rule: rtranclp_induct) (auto dest: workflow_step_trail intro: prefix_order.trans)


section \<open>The ceremony refines it\<close>

definition edge_of :: "transition_record \<Rightarrow> edge" where
  "edge_of t = (tr_from_state t, tr_trigger t, tr_to_state t)"

definition workflow_of :: "ceremony_instance \<Rightarrow> workflow" where
  "workflow_of i = \<lparr>wf_state = ci_current_state i, wf_trail = map edge_of (ci_transitions i),
     wf_phase = phase (ci_lifecycle i), wf_complete = (ci_completed_at i \<noteq> None)\<rparr>"

definition refinable :: "ceremony_definition \<Rightarrow> ceremony_instance \<Rightarrow> bool" where
  "refinable d i = (machine_inv d i \<and> completion_inv d i \<and> lifecycle_inv i)"

lemma opens_refines:
  assumes "opens env d es i"
  shows "workflow_starts d (workflow_of i)"
  using opens_facts(2,3,5,8) [OF assms]
  by (simp add: workflow_starts_def workflow_of_def lifecycle_default_def)

lemma count_edge_of: "count_list (map edge_of ts) e = edge_count ts e"
proof (induction ts)
  case (Cons t ts)
  then show ?case by (cases e) (auto simp: edge_count_def edge_of_def)
qed (simp add: edge_count_def split: prod.splits)

lemma machine_inv_within_budgets:
  assumes "machine_inv d i"
  shows "within_budgets d (map edge_of (ci_transitions i))"
  using machine_invD(4,5) [OF assms]
  by (auto simp: within_budgets_def list_all_iff count_edge_of split: option.splits)

lemma ended_phase:
  assumes "lifecycle_inv i" and "phase (ci_lifecycle i) = Ended"
  shows "is_ended i"
  using assms by (simp add: lifecycle_inv_def is_ended_def instance_lifecycle_def split: option.split)

lemma transition_keeps_lifecycle:
  assumes "decide env i (ApplyTransition rid trigger now) d = Inr es"
    and "try_fold apply_event i es = Inr j"
  shows "ci_lifecycle j = ci_lifecycle i"
proof -
  have "\<forall>e \<in> set es. \<not> changes_lifecycle e"
    using emits_changes_lifecycle decide_emits [OF assms(1)] by blast
  then show ?thesis
    using fold_lifecycle [OF assms(2) decided_no_imports [OF assms(1)]]
    by (simp add: fold_keeps_lifecycle)
qed

lemma command_refines:
  assumes inv: "refinable d i" and inv': "refinable d j"
    and dec: "decide env i c d = Inr es" and app: "try_fold apply_event i es = Inr j"
  shows "workflow_of j = workflow_of i \<or> workflow_step d (workflow_of i) (workflow_of j)"
  using dec app
proof (cases rule: command_step)
  case (move rid trigger now t visit deadline)
  note edge = transition_admitted_edge [OF move(2)]
  have life: "ci_lifecycle j = ci_lifecycle i"
    using transition_keeps_lifecycle dec app move(1) by blast
  have run: "wf_phase (workflow_of i) = Running"
    using move(2) by (auto simp: transition_admitted_def admits_new_work_def
        lifecycle_admits_new_work_def workflow_of_def)
  have open': "ci_completed_at i = None"
    using inv edge(5,6) by (auto simp: refinable_def completion_inv_def is_terminal_def)
  let ?e = "(t_from t, t_trigger t, t_to t)"
  have e: "edge_of (transition_taken i rid t now) = ?e"
    using edge(2) by (simp add: edge_of_def transition_taken_def)
  have budgets: "within_budgets d (wf_trail (workflow_of i) @ [?e])"
    using machine_inv_within_budgets [of d j] inv' move(3) e
    by (simp add: refinable_def workflow_of_def)
  have j: "workflow_of j = (workflow_of i)\<lparr>wf_state := t_to t,
      wf_trail := wf_trail (workflow_of i) @ [?e], wf_complete := is_terminal_state d (t_to t)\<rparr>"
    using move(3,4,6) e life open' by (simp add: workflow_of_def)
  have "workflow_step d (workflow_of i) (workflow_of j)"
    unfolding j
    by (rule workflow_step.advance [OF run _ edge(1)])
      (use open' edge(2) budgets in \<open>simp_all add: workflow_of_def\<close>)
  then show ?thesis ..
next
  case stay
  have j: "workflow_of j = (workflow_of i)\<lparr>wf_phase := phase (ci_lifecycle j)\<rparr>"
    using stay by (simp add: workflow_of_def)
  have i: "wf_phase (workflow_of i) = phase (ci_lifecycle i)" by (simp add: workflow_of_def)
  from dec app show ?thesis
  proof (cases rule: command_lifecycle)
    case pause
    then show ?thesis
      using workflow_step.pause [of "workflow_of i" d] i j by (simp add: lifecycle_pause_def)
  next
    case resume
    then show ?thesis
      using workflow_step.resume [of "workflow_of i" d] i j by (simp add: lifecycle_resume_def)
  next
    case ended
    then have "phase (ci_lifecycle i) \<noteq> Ended" using ended_phase inv by (auto simp: refinable_def)
    with ended show ?thesis
      using workflow_step.finish [of "workflow_of i" d] i j by (simp add: lifecycle_end_def)
  qed (use i j in simp_all)
qed

lemma run_refinable:
  assumes "definition_wf d" and "ceremony_run env d es i"
  shows "refinable d i"
  using run_machine_inv [OF assms(2)] run_completion_inv [OF assms] run_lifecycle_inv [OF assms(2)]
  by (simp add: refinable_def)

lemma run_refines:
  assumes "definition_wf d" and "ceremony_run env d es i"
  shows "workflow_reaches d (workflow_of i)"
  using assms(2)
proof (induction rule: journal_of.induct)
  case (opened es s)
  then show ?case using opens_refines unfolding workflow_reaches_def by blast
next
  case (decided es s c es' s')
  from journal_of.decided [OF decided.hyps]
  have run': "ceremony_run env d (es @ es') s'" .
  from command_refines [OF run_refinable [OF assms(1) decided.hyps(1)]
      run_refinable [OF assms(1) run'] decided.hyps(2,3)] decided.IH
  show ?case unfolding workflow_reaches_def by (metis rtranclp.rtrancl_into_rtrancl)
qed

end
