(* ===== verification/Step_Effort.thy ===== *)
theory Step_Effort
  imports Run_Safety "HOL-Library.Sublist"
begin

text \<open>
  How much work a ceremony can cost, and what of its record is never taken back.  A step record
  carries the attempt it is on and the iteration it is on; both are bounded by the policies its
  step declares, in every reachable state.  The trail of transitions, the approvals given and the
  idempotency keys used only ever grow, and what a ceremony was opened with never changes.
\<close>


section \<open>How often a step is tried and repeated\<close>

text \<open>The effort a definition allows a step: the first try and the first iteration always, later
  tries within its retry policy, later iterations within its repeat policy.\<close>

definition attempt_allowed :: "ceremony_definition \<Rightarrow> string \<Rightarrow> u32 \<Rightarrow> bool" where
  "attempt_allowed d s a =
     (a = FIRST \<or> (\<exists>step. def_step d s = Some step \<and> allows_attempt (cs_retry_policy step) a))"

definition iteration_allowed :: "ceremony_definition \<Rightarrow> string \<Rightarrow> u32 \<Rightarrow> bool" where
  "iteration_allowed d s n =
     (n = FIRST \<or> (\<exists>step p. def_step d s = Some step \<and> cs_repeat_policy step = Some p
        \<and> n \<le> step_max_iterations p \<and> n \<le> MAX_STEP_ITERATIONS))"

definition effort_allowed :: "ceremony_definition \<Rightarrow> string \<Rightarrow> step_record \<Rightarrow> bool" where
  "effort_allowed d s r =
     (attempt_allowed d s (rec_attempt r) \<and> iteration_allowed d s (rec_iteration r))"

definition effort_inv :: "ceremony_definition \<Rightarrow> ceremony_instance \<Rightarrow> bool" where
  "effort_inv d i = (\<forall>s r. bm_get (ci_step_records i) s = Some r \<longrightarrow> effort_allowed d s r)"

named_theorems effort_simps

lemma record_attempts [effort_simps]:
  "rec_attempt record_pending = FIRST" "rec_iteration record_pending = FIRST"
  "rec_attempt (pending_state_iteration n) = FIRST" "rec_iteration (pending_state_iteration n) = FIRST"
  "rec_attempt (pending_coordinates n m) = FIRST" "rec_iteration (pending_coordinates n m) = m"
  "rec_attempt (carried out src n m) = FIRST" "rec_iteration (carried out src n m) = FIRST"
  "rec_attempt (with_state_visit r v) = rec_attempt r"
  "rec_iteration (with_state_visit r v) = rec_iteration r"
  "rec_attempt (with_result r res) = rec_attempt r"
  "rec_iteration (with_result r res) = rec_iteration r"
  "rec_attempt (renew_lease_until r t) = rec_attempt r"
  "rec_iteration (renew_lease_until r t) = rec_iteration r"
  "rec_attempt (with_budget_reservation r b) = rec_attempt r"
  "rec_iteration (with_budget_reservation r b) = rec_iteration r"
  "rec_attempt (with_started r l a role) = a"
  "rec_iteration (with_started r l a role) = rec_iteration r"
  by (simp_all add: record_pending_def pending_state_iteration_def pending_coordinates_def
      carried_def with_state_visit_def with_result_def renew_lease_until_def
      with_budget_reservation_def with_started_def)

lemma first_effort_allowed [effort_simps]: "attempt_allowed d s FIRST" "iteration_allowed d s FIRST"
  by (simp_all add: attempt_allowed_def iteration_allowed_def)

lemma effort_inv_insert:
  "effort_inv d i \<Longrightarrow> effort_allowed d s r \<Longrightarrow> ci_step_records j = bm_insert s r (ci_step_records i) \<Longrightarrow>
     effort_inv d j"
  by (simp add: effort_inv_def)

lemma effort_inv_same: "effort_inv d i \<Longrightarrow> ci_step_records j = ci_step_records i \<Longrightarrow> effort_inv d j"
  by (simp add: effort_inv_def)

lemma effort_inv_take: "effort_inv d i \<Longrightarrow> effort_allowed d s (take_step_record i s)"
  by (auto simp: effort_inv_def take_step_record_def effort_allowed_def effort_simps
      split: option.splits)

lemma effort_inv_fold:
  assumes "effort_inv d i" and "\<And>x k. effort_inv d k \<Longrightarrow> effort_inv d (f x k)"
  shows "effort_inv d (fold f xs i)"
  using assms(1) by (induction xs arbitrary: i) (simp_all add: assms(2))

lemma effort_inv_restart: "effort_inv d i \<Longrightarrow> effort_inv d (restart_step n v s i)"
  by (erule effort_inv_insert) (simp_all add: restart_step_def effort_allowed_def effort_simps)

lemma effort_inv_enter: "effort_inv d i \<Longrightarrow> effort_inv d (enter_step v s i)"
  by (erule effort_inv_insert) (simp_all add: enter_step_def effort_allowed_def effort_simps)

lemma effort_inv_carry: "effort_inv d i \<Longrightarrow> effort_inv d (carry_step e i)"
  unfolding carry_step_def if_distrib [of "effort_inv d"]
  by (auto intro!: effort_inv_insert [of d i] simp: effort_allowed_def effort_simps)

lemma effort_inv_event:
  assumes inv: "effort_inv d i" and app: "apply_event i e = Inr j" and "\<not> is_import e"
    and started: "\<And>s. e = StepStarted s \<Longrightarrow> attempt_allowed d (ss_step_id s) (ss_attempt s)"
    and repeated: "\<And>c n. e = StepCompleted c \<Longrightarrow> sc_next_iteration c = Some n \<Longrightarrow>
      iteration_allowed d (sc_step_id c) n"
  shows "effort_inv d j"
proof (cases "touches_records e")
  case False
  from effect_step_records [OF app assms(3) this] inv show ?thesis by (auto intro: effort_inv_same)
next
  case touches: True
  note ins = effort_inv_insert [OF inv]
  have replaced: "effort_inv d j"
    if "bm_get (ci_step_records i) s = Some a" "rec_attempt r = rec_attempt a"
      "rec_iteration r = rec_iteration a" "ci_step_records j = bm_insert s r (ci_step_records i)" for s a r
    using inv that by (intro ins [of s r]) (auto simp: effort_inv_def effort_allowed_def)
  note take = effort_inv_take [OF inv, unfolded effort_allowed_def]
  note [simp] = effort_allowed_def effort_simps
  show ?thesis
  proof (cases e)
    case (StepStarted s)
    with app have "j = apply_step_started i s" by simp
    with started [OF StepStarted] take show ?thesis by (auto simp: apply_step_started_def intro!: ins)
  next
    case (StepLeaseRenewed r)
    with app have j: "j = apply_step_lease_renewed i r" by simp
    show ?thesis
    proof (cases "bm_get (ci_step_records i) (slr_step_id r)")
      case None
      with j show ?thesis by (intro effort_inv_same [OF inv]) (simp add: apply_step_lease_renewed_def)
    next
      case (Some a)
      from replaced [OF Some, of "renew_lease_until a (slr_expires_at r)"] j Some show ?thesis
        by (simp add: apply_step_lease_renewed_def)
    qed
  next
    case (StepCompleted c)
    with app take repeated [OF StepCompleted] show ?thesis
      by (cases "sc_next_iteration c")
        (auto simp: apply_step_completed_def Let_def take_step_record_def intro!: ins)
  next
    case (StepFailed f)
    with app take show ?thesis by (auto simp: apply_step_failed_def intro!: ins)
  next
    case (StateIterationStarted s)
    let ?i = "i\<lparr>ci_current_state_iteration := sis_state_iteration s\<rparr>"
    have "effort_inv d ?i" by (rule effort_inv_same [OF inv]) simp
    then have "effort_inv d (fold (restart_step n v) ss ?i)" for n v ss
      by (rule effort_inv_fold) (rule effort_inv_restart)
    from effort_inv_same [OF this] StateIterationStarted app show ?thesis
      by (auto simp: apply_state_iteration_started_def)
  next
    case (TransitionApplied t v)
    have fold: "effort_inv d (fold (enter_step n) ss k)"
      if "ci_step_records k = ci_step_records i" for n ss k
      by (rule effort_inv_fold [OF effort_inv_same [OF inv that]]) (rule effort_inv_enter)
    from TransitionApplied app have j: "j = apply_transition_applied i t v" by simp
    show ?thesis
    proof (cases v)
      case None
      with j show ?thesis by (intro effort_inv_same [OF inv]) (simp add: apply_transition_applied_def)
    next
      case (Some a)
      from fold [of "i\<lparr>ci_current_state_visit := sve_state_visit a, ci_state_deadline := sve_deadline a\<rparr>"]
      have "effort_inv d (fold (enter_step (sve_state_visit a)) (sve_step_ids a)
          (i\<lparr>ci_current_state_visit := sve_state_visit a, ci_state_deadline := sve_deadline a\<rparr>))"
        by simp
      from effort_inv_same [OF this] j Some show ?thesis
        by (simp add: apply_transition_applied_def Let_def)
    qed
  next
    case (StepDeadlineExceeded dl r at)
    with app have j: "j = apply_step_deadline_exceeded i dl r at" by simp
    show ?thesis
    proof (cases "bm_get (ci_step_records i) (sd_step_id dl)")
      case None
      with j show ?thesis by (intro effort_inv_same [OF inv]) (simp add: apply_step_deadline_exceeded_def)
    next
      case (Some a)
      from replaced [OF Some, of "with_result a r"] j Some show ?thesis
        by (simp add: apply_step_deadline_exceeded_def)
    qed
  next
    case (SuccessionCarried cs at)
    have "effort_inv d (fold carry_step cs i)" by (rule effort_inv_fold [OF inv effort_inv_carry])
    from effort_inv_same [OF this] SuccessionCarried app show ?thesis
      by (auto simp: apply_succession_carried_def)
  qed (use touches in simp_all)
qed

lemma decided_start_attempt:
  assumes "decide env i c d = Inr es" and "StepStarted s \<in> set es"
  shows "attempt_allowed d (ss_step_id s) (ss_attempt s)"
proof -
  obtain q where c: "c = StartStep q"
    using decide_emits [OF assms] by (cases c) auto
  with assms(1) have "decide_start_step env i q d = Inr es" by simp
  then show ?thesis
    by (cases rule: decide_start_step_shape)
      (use assms(2) in \<open>auto simp: claim_event_def claim_admitted_def attempt_allowed_def
        split: prod.splits\<close>)
qed

lemma next_iteration_allowed:
  assumes "next_iteration_of step n out = Inr (Some m)" and "def_step d s = Some step"
  shows "iteration_allowed d s m"
proof -
  from assms(1) obtain p where p: "cs_repeat_policy step = Some p" "n < step_max_iterations p"
    and m: "step_iteration_next n = Inr m"
    by (auto simp: next_iteration_of_def step_repeat_permits_another_def result_simps
        split: option.splits if_splits)
  from step_iteration_next_Inr [OF m] p(2) have "m \<le> step_max_iterations p" "m \<le> MAX_STEP_ITERATIONS"
    by (auto simp: word_less_nat_alt word_le_nat_alt)
  with p(1) assms(2) show ?thesis by (auto simp: iteration_allowed_def)
qed

lemma result_iteration_allowed:
  assumes "decide_apply_step_result env i c d = Inr es" and "StepCompleted x \<in> set es"
    and "sc_next_iteration x = Some n"
  shows "iteration_allowed d (sc_step_id x) n"
  using assms(1)
proof (cases rule: decide_apply_step_result_shape)
  case (completed step r)
  from completed(3) show ?thesis
  proof (cases rule: decide_step_success_shape)
    case (1 nxt finished_by patch j it)
    from 1(4) have "StepCompleted x \<notin> set it" by (cases rule: decide_state_iteration_shape) auto
    with assms(2) 1(5) have "x = completed_event i c r nxt finished_by" by auto
    with 1(1) assms(3) completed(1) show ?thesis
      by (auto simp: completed_event_def result_admitted_def intro: next_iteration_allowed)
  qed
qed (use assms(2) in auto)

lemma decided_iteration:
  assumes "decide env i c d = Inr es" and x: "StepCompleted x \<in> set es"
    and n: "sc_next_iteration x = Some n"
  shows "iteration_allowed d (sc_step_id x) n"
  using decide_emits [OF assms(1,2)]
proof (cases c)
  case (ApplyStepResult q)
  with assms(1) have "decide_apply_step_result env i q d = Inr es" by simp
  from result_iteration_allowed [OF this x n] show ?thesis .
next
  case (ApplyExecutionReceiptResult step_id fence l result now)
  with assms(1) have "decide_apply_execution_receipt_result env i step_id fence l result now d = Inr es"
    by simp
  then show ?thesis
    by (cases rule: decide_apply_execution_receipt_result_shape)
      (use x n in \<open>auto intro: result_iteration_allowed\<close>)
qed auto

lemma effort_inv_step:
  assumes "effort_inv d i" and "decide env i c d = Inr es" and "try_fold apply_event i es = Inr j"
  shows "effort_inv d j"
  using assms(3)
proof (induction rule: fold_events_induct)
  case (event k e k')
  show ?case
    by (rule effort_inv_event [OF event(1,3)])
      (use event(2) decided_start_attempt [OF assms(2)] decided_iteration [OF assms(2)]
        decided_not_import [OF assms(2)] in auto)
qed (rule assms(1))

lemma bm_get_pending:
  "bm_get (bm_of_list (map (\<lambda>s. (s, record_pending)) ss)) s = Some r \<Longrightarrow> r = record_pending"
proof -
  have "bm_get (fold (\<lambda>(k, v) m. bm_insert k v m) (map (\<lambda>s. (s, record_pending)) ss) m) s = Some r \<Longrightarrow>
      bm_get m s = Some r \<or> r = record_pending" for m
  proof (induction ss arbitrary: m)
    case (Cons a ss)
    from Cons.IH [of "bm_insert a record_pending m"] Cons.prems show ?case
      by (auto split: if_splits)
  qed simp
  from this [of "[]"] show "bm_get (bm_of_list (map (\<lambda>s. (s, record_pending)) ss)) s = Some r \<Longrightarrow>
      r = record_pending"
    by (simp add: bm_of_list_def)
qed

lemma run_effort_inv: "ceremony_run env d es i \<Longrightarrow> effort_inv d i"
proof (erule journal_invariant)
  fix es s
  assume "opens env d es s"
  have started: "effort_inv d (from_started opened)" for opened
    by (auto simp: effort_inv_def from_started_def effort_allowed_def effort_simps
        dest!: bm_get_pending)
  have carried: "effort_inv d (fold carry_step cs (from_started opened))" for cs opened
    by (rule effort_inv_fold [OF started effort_inv_carry])
  from \<open>opens env d es s\<close> show "effort_inv d s"
    by (rule opens_shape)
      (auto simp: started apply_memory_recalled_def apply_succession_carried_def
        intro: effort_inv_same [OF started] effort_inv_same [OF carried])
qed (erule effort_inv_step)


section \<open>What is never taken back\<close>

definition extends_record :: "ceremony_instance \<Rightarrow> ceremony_instance \<Rightarrow> bool" where
  "extends_record i j =
     (prefix (ci_transitions i) (ci_transitions j)
      \<and> prefix (ci_guard_approvals i) (ci_guard_approvals j)
      \<and> ci_idempotency_keys i \<subseteq> ci_idempotency_keys j
      \<and> ci_id j = ci_id i \<and> ci_definition_name j = ci_definition_name i
      \<and> ci_definition_version j = ci_definition_version i \<and> ci_created_at j = ci_created_at i
      \<and> ci_bound_definition j = ci_bound_definition i \<and> ci_lineage j = ci_lineage i
      \<and> ci_budget_account_id j = ci_budget_account_id i
      \<and> ci_ceremony_deadline j = ci_ceremony_deadline i \<and> ci_succession j = ci_succession i)"

lemma extends_record_refl: "extends_record i i"
  by (simp add: extends_record_def)

lemma extends_record_trans: "extends_record i j \<Longrightarrow> extends_record j k \<Longrightarrow> extends_record i k"
  by (auto simp: extends_record_def intro: prefix_order.trans)

lemma extends_record_event:
  assumes "apply_event i e = Inr j" and "\<not> is_import e"
  shows "extends_record i j"
  using effect_constants [OF assms] effect_transitions [OF assms] effect_guard_approvals [OF assms]
    effect_idempotency_keys [OF assms]
  by (auto simp: extends_record_def)

lemma execute_extends_record:
  assumes "execute env d i c = Inr j"
  shows "extends_record i j"
proof -
  from assms obtain es where es: "decide env i c d = Inr es" "try_fold apply_event i es = Inr j"
    by (auto simp: execute_def apply_all_def result_simps)
  from es(2) show ?thesis
  proof (induction rule: fold_events_induct)
    case (event k e k')
    from extends_record_event [OF event(3)] decided_not_import [OF es(1) event(2)] event(1)
    show ?case by (auto intro: extends_record_trans)
  qed (rule extends_record_refl)
qed

end
