(* ===== verification/Budget_Ledger.thy ===== *)
theory Budget_Ledger
  imports Ceremony_Decide
begin

text \<open>
  The budget ledger of an account (\<open>entities/budget_ledger.rs\<close> and \<open>value_objects/budget\<close>): limits in
  four dimensions, reservations made before a step runs, and reconciliations with what the step
  consumed.  Like the ceremony it is event sourced: decisions return at most one event, and applying
  the event checks it again.  Arrays \<open>[u64; 4]\<close> are lists of length four, with the overflow checks of
  the code.
\<close>


section \<open>Values\<close>

datatype budget_dimension = DurationBudget | TokensBudget | CostBudget | ToolCallsBudget

record budget_quantities =
  bq_duration :: u64
  bq_tokens :: u64
  bq_cost :: u64
  bq_tool_calls :: u64

definition quantities_is_zero :: "budget_quantities \<Rightarrow> bool" where
  "quantities_is_zero q =
     (bq_duration q = 0 \<and> bq_tokens q = 0 \<and> bq_cost q = 0 \<and> bq_tool_calls q = 0)"

definition currency_code_new :: "string \<Rightarrow> string result" where
  "currency_code_new code =
     (if length code \<noteq> 3 \<or> \<not> list_all (\<lambda>c. 65 \<le> byte c \<and> byte c \<le> 90) code
      then Inl (InvalidCharacters ''currency_code'') else Inr code)"

record budget_limits =
  bl_duration :: "u64 option"
  bl_tokens :: "u64 option"
  bl_cost :: "u64 option"
  bl_tool_calls :: "u64 option"
  bl_currency :: "string option"

definition then_some :: "u64 \<Rightarrow> u64 option" where
  "then_some n = (if 0 < n then Some n else None)"

definition limits_new :: "budget_quantities \<Rightarrow> string option \<Rightarrow> budget_limits result" where
  "limits_new maximum currency =
     (if quantities_is_zero maximum then Inl (EmptyCollection ''budget_limits'')
      else if (0 < bq_cost maximum) \<noteq> (currency \<noteq> None)
      then Inl (InvariantViolated ''a cost budget and its currency must be declared together'')
      else Inr \<lparr>bl_duration = then_some (bq_duration maximum),
                bl_tokens = then_some (bq_tokens maximum), bl_cost = then_some (bq_cost maximum),
                bl_tool_calls = then_some (bq_tool_calls maximum), bl_currency = currency\<rparr>)"

definition limits_from_optional ::
  "u64 option \<Rightarrow> u64 option \<Rightarrow> u64 option \<Rightarrow> u64 option \<Rightarrow> string option \<Rightarrow> budget_limits result" where
  "limits_from_optional duration tokens cost tool_calls currency =
     (case find (\<lambda>(field, amount). amount = Some 0)
             [(''budget_limits.duration_micros'', duration), (''budget_limits.tokens'', tokens),
              (''budget_limits.cost_micros'', cost), (''budget_limits.tool_calls'', tool_calls)] of
        Some (field, _) \<Rightarrow> Inl (MustBeNonZero field)
      | None \<Rightarrow>
          limits_new
            \<lparr>bq_duration = case_option 0 id duration, bq_tokens = case_option 0 id tokens,
             bq_cost = case_option 0 id cost, bq_tool_calls = case_option 0 id tool_calls\<rparr>
            currency)"

datatype budget_measurement = ObservedAmount u64 | EstimatedAmount u64 | UnknownAmount

record measured_quantities =
  mq_duration :: budget_measurement
  mq_tokens :: budget_measurement
  mq_cost :: budget_measurement
  mq_tool_calls :: budget_measurement

fun quality :: "budget_measurement \<Rightarrow> nat" where
  "quality UnknownAmount = 0"
| "quality (EstimatedAmount _) = 1"
| "quality (ObservedAmount _) = 2"

definition advances :: "measured_quantities \<Rightarrow> measured_quantities \<Rightarrow> bool" where
  "advances new previous =
     (let comparisons =
            [(quality (mq_duration new), quality (mq_duration previous)),
             (quality (mq_tokens new), quality (mq_tokens previous)),
             (quality (mq_cost new), quality (mq_cost previous)),
             (quality (mq_tool_calls new), quality (mq_tool_calls previous))]
      in list_all (\<lambda>(a, b). \<not> a < b) comparisons \<and> list_ex (\<lambda>(a, b). b < a) comparisons)"

record reservation_estimate =
  re_duration :: budget_measurement
  re_tokens :: budget_measurement
  re_cost :: budget_measurement
  re_tool_calls :: budget_measurement

datatype budget_error =
    Exhausted string budget_dimension
  | LedgerNotOpen
  | ReservationNotFound string
  | ReservationConflict string
  | ReconciliationConflict string
  | MissingReservationEstimate budget_dimension
  | Persistence domain_error

text \<open>One of the four functions that turn an estimate into the amount reserved.\<close>

definition reserved_amount ::
  "budget_dimension \<Rightarrow> budget_measurement \<Rightarrow> bool \<Rightarrow> budget_error + u64" where
  "reserved_amount dimension m limited =
     (case m of
        ObservedAmount v \<Rightarrow> Inr v
      | EstimatedAmount v \<Rightarrow> Inr v
      | UnknownAmount \<Rightarrow> if \<not> limited then Inr 0 else Inl (MissingReservationEstimate dimension))"

definition estimate_quantities ::
  "reservation_estimate \<Rightarrow> budget_limits \<Rightarrow> budget_error + budget_quantities" where
  "estimate_quantities e limits =
     and_then (reserved_amount DurationBudget (re_duration e) (bl_duration limits \<noteq> None)) (\<lambda>duration.
     and_then (reserved_amount TokensBudget (re_tokens e) (bl_tokens limits \<noteq> None)) (\<lambda>tokens.
     and_then (reserved_amount CostBudget (re_cost e) (bl_cost limits \<noteq> None)) (\<lambda>cost.
     and_then (reserved_amount ToolCallsBudget (re_tool_calls e) (bl_tool_calls limits \<noteq> None))
       (\<lambda>tool_calls.
       Inr \<lparr>bq_duration = duration, bq_tokens = tokens, bq_cost = cost,
            bq_tool_calls = tool_calls\<rparr>))))"

record reservation_policy =
  rp_version :: u64
  rp_ceilings :: budget_quantities

definition policy_estimate ::
  "reservation_policy \<Rightarrow> u64 \<Rightarrow> budget_quantities \<Rightarrow> reservation_estimate result" where
  "policy_estimate policy version q =
     and_then (require (version = rp_version policy) (Conflict ''worker_budget_policy_version'')) (\<lambda>_.
     case find (\<lambda>(field, v, maximum). maximum < v)
            [(''estimated_duration_micros'', bq_duration q, bq_duration (rp_ceilings policy)),
             (''estimated_tokens'', bq_tokens q, bq_tokens (rp_ceilings policy)),
             (''estimated_cost_micros'', bq_cost q, bq_cost (rp_ceilings policy)),
             (''estimated_tool_calls'', bq_tool_calls q, bq_tool_calls (rp_ceilings policy))] of
       Some (field, v, maximum) \<Rightarrow> Inl (OutOfRange field (uint v) 0 (uint maximum))
     | None \<Rightarrow>
         Inr \<lparr>re_duration = EstimatedAmount (bq_duration q), re_tokens = EstimatedAmount (bq_tokens q),
              re_cost = EstimatedAmount (bq_cost q),
              re_tool_calls = EstimatedAmount (bq_tool_calls q)\<rparr>)"

record budget_reservation =
  rsv_id :: string
  rsv_operation_id :: string
  rsv_quantities :: budget_quantities
  rsv_estimate :: reservation_estimate
  rsv_reserved_at :: int
  rsv_reconciliation :: "(string \<times> measured_quantities) option"

definition reservation_new ::
  "string \<Rightarrow> string \<Rightarrow> budget_quantities \<Rightarrow> reservation_estimate \<Rightarrow> int \<Rightarrow> budget_reservation" where
  "reservation_new i operation q e at =
     \<lparr>rsv_id = i, rsv_operation_id = operation, rsv_quantities = q, rsv_estimate = e,
      rsv_reserved_at = at, rsv_reconciliation = None\<rparr>"

definition reconcile :: "budget_reservation \<Rightarrow> string \<Rightarrow> measured_quantities \<Rightarrow> budget_reservation" where
  "reconcile r i measured = r\<lparr>rsv_reconciliation := Some (i, measured)\<rparr>"


section \<open>The ledger\<close>

datatype ledger_event =
    LedgerOpened (event_account_id: string) budget_limits int
  | LedgerReserved (event_account_id: string) string string budget_quantities reservation_estimate int
  | LedgerReconciled (event_account_id: string) string string measured_quantities int

record budget_ledger =
  lg_account_id :: "string option"
  lg_limits :: "budget_limits option"
  lg_version :: u64
  lg_reservations :: "(string, budget_reservation) bmap"

definition ledger_empty :: budget_ledger where
  "ledger_empty = \<lparr>lg_account_id = None, lg_limits = None, lg_version = 0, lg_reservations = []\<rparr>"

type_synonym amounts = "u64 list"

definition quantity_values :: "budget_quantities \<Rightarrow> amounts" where
  "quantity_values q = [bq_duration q, bq_tokens q, bq_cost q, bq_tool_calls q]"

definition limit_values :: "budget_limits \<Rightarrow> amounts" where
  "limit_values limits =
     [case_option (- 1) id (bl_duration limits), case_option (- 1) id (bl_tokens limits),
      case_option (- 1) id (bl_cost limits), case_option (- 1) id (bl_tool_calls limits)]"

definition quantities_of :: "amounts \<Rightarrow> budget_quantities" where
  "quantities_of v = \<lparr>bq_duration = v ! 0, bq_tokens = v ! 1, bq_cost = v ! 2, bq_tool_calls = v ! 3\<rparr>"

definition total_overflow :: budget_error where
  "total_overflow = Persistence (InvariantViolated ''budget total overflow'')"

definition checked_add :: "u64 \<Rightarrow> u64 \<Rightarrow> u64 option" where
  "checked_add a b = (if uint a + uint b < 2 ^ 64 then Some (a + b) else None)"

definition saturating_sub :: "u64 \<Rightarrow> u64 \<Rightarrow> u64" where
  "saturating_sub a b = (if b \<le> a then a - b else 0)"

definition add_amounts :: "amounts \<Rightarrow> amounts \<Rightarrow> budget_error + amounts" where
  "add_amounts target v = try_map (\<lambda>(x, y). ok_or (checked_add x y) total_overflow) (zip target v)"

definition sums :: "amounts list \<Rightarrow> budget_error + amounts" where
  "sums vs = try_fold add_amounts [0, 0, 0, 0] vs"

definition zip_amounts :: "(u64 \<Rightarrow> u64 \<Rightarrow> u64) \<Rightarrow> amounts \<Rightarrow> amounts \<Rightarrow> amounts" where
  "zip_amounts f l r = [f (l ! 0) (r ! 0), f (l ! 1) (r ! 1), f (l ! 2) (r ! 2), f (l ! 3) (r ! 3)]"

definition add_at :: "amounts \<Rightarrow> nat \<Rightarrow> u64 \<Rightarrow> budget_error + amounts" where
  "add_at target k v =
     and_then (ok_or (checked_add (target ! k) v) total_overflow) (\<lambda>x. Inr (target[k := x]))"

definition classify_one ::
  "amounts \<times> amounts \<times> amounts \<Rightarrow> nat \<Rightarrow> u64 \<Rightarrow> budget_measurement \<Rightarrow>
     budget_error + amounts \<times> amounts \<times> amounts" where
  "classify_one = (\<lambda>(observed, estimated, unknown) k requested m.
     case m of
       ObservedAmount v \<Rightarrow> and_then (add_at observed k v) (\<lambda>x. Inr (x, estimated, unknown))
     | EstimatedAmount v \<Rightarrow> and_then (add_at estimated k v) (\<lambda>x. Inr (observed, x, unknown))
     | UnknownAmount \<Rightarrow> and_then (add_at unknown k requested) (\<lambda>x. Inr (observed, estimated, x)))"

definition classify ::
  "amounts \<times> amounts \<times> amounts \<Rightarrow> amounts \<Rightarrow> measured_quantities \<Rightarrow>
     budget_error + amounts \<times> amounts \<times> amounts" where
  "classify totals requested m =
     and_then (classify_one totals 0 (requested ! 0) (mq_duration m)) (\<lambda>t.
     and_then (classify_one t 1 (requested ! 1) (mq_tokens m)) (\<lambda>t.
     and_then (classify_one t 2 (requested ! 2) (mq_cost m)) (\<lambda>t.
       classify_one t 3 (requested ! 3) (mq_tool_calls m))))"

record budget_balance =
  bal_limits :: budget_limits
  bal_reserved :: budget_quantities
  bal_observed :: budget_quantities
  bal_estimated :: budget_quantities
  bal_unconfirmed :: budget_quantities
  bal_overrun :: budget_quantities
  bal_available :: budget_quantities

text \<open>The body of the loop over the reservations.\<close>

definition balance_step ::
  "amounts \<times> amounts \<times> amounts \<times> amounts \<Rightarrow> string \<times> budget_reservation \<Rightarrow>
     budget_error + amounts \<times> amounts \<times> amounts \<times> amounts" where
  "balance_step = (\<lambda>(reserved, totals) (_, r).
     let requested = quantity_values (rsv_quantities r) in
     case rsv_reconciliation r of
       None \<Rightarrow> and_then (add_amounts reserved requested) (\<lambda>x. Inr (x, totals))
     | Some (_, measured) \<Rightarrow> and_then (classify totals requested measured) (\<lambda>t. Inr (reserved, t)))"

definition balance :: "budget_ledger \<Rightarrow> budget_error + budget_balance" where
  "balance l =
     and_then (ok_or (lg_limits l) LedgerNotOpen) (\<lambda>limits.
     let zero = [0, 0, 0, 0] in
     and_then (try_fold balance_step (zero, zero, zero, zero) (lg_reservations l))
       (\<lambda>(reserved, observed, estimated, unconfirmed).
     let maximum = limit_values limits in
     and_then (sums [reserved, observed, estimated, unconfirmed]) (\<lambda>charged.
       Inr \<lparr>bal_limits = limits, bal_reserved = quantities_of reserved,
            bal_observed = quantities_of observed, bal_estimated = quantities_of estimated,
            bal_unconfirmed = quantities_of unconfirmed,
            bal_overrun = quantities_of (zip_amounts saturating_sub charged maximum),
            bal_available = quantities_of (zip_amounts saturating_sub maximum charged)\<rparr>)))"

definition budget_dimensions :: "budget_dimension list" where
  "budget_dimensions = [DurationBudget, TokensBudget, CostBudget, ToolCallsBudget]"

definition ensure_capacity :: "budget_ledger \<Rightarrow> budget_quantities \<Rightarrow> budget_error + unit" where
  "ensure_capacity l request =
     and_then (ok_or (lg_account_id l) LedgerNotOpen) (\<lambda>account_id.
     and_then (balance l) (\<lambda>b.
     case find (\<lambda>(_, v). 0 < v) (zip budget_dimensions (quantity_values (bal_overrun b))) of
       Some (dimension, _) \<Rightarrow> Inl (Exhausted account_id dimension)
     | None \<Rightarrow>
         (case find (\<lambda>(_, wanted, available). available < wanted)
                 (zip budget_dimensions
                    (zip (quantity_values request) (quantity_values (bal_available b)))) of
            Some (dimension, _) \<Rightarrow> Inl (Exhausted account_id dimension)
          | None \<Rightarrow> Inr ())))"

definition decide_open ::
  "budget_ledger \<Rightarrow> string \<Rightarrow> budget_limits \<Rightarrow> int \<Rightarrow> budget_error + ledger_event option" where
  "decide_open l account_id limits opened_at =
     (case (lg_account_id l, lg_limits l) of
        (None, None) \<Rightarrow> Inr (Some (LedgerOpened account_id limits opened_at))
      | (Some stored_id, Some stored_limits) \<Rightarrow>
          if stored_id = account_id \<and> stored_limits = limits then Inr None
          else Inl (Persistence (Conflict ''budget_ledger''))
      | _ \<Rightarrow> Inl (Persistence (Conflict ''budget_ledger'')))"

definition decide_reserve ::
  "platform \<Rightarrow> budget_ledger \<Rightarrow> string \<Rightarrow> reservation_estimate \<Rightarrow> int \<Rightarrow>
     budget_error + ledger_event option" where
  "decide_reserve env l operation_id e reserved_at =
     and_then (ok_or (lg_account_id l) LedgerNotOpen) (\<lambda>account_id.
     let reservation_id = budget_reservation_id_for_operation env account_id operation_id in
     and_then (ok_or (lg_limits l) LedgerNotOpen) (\<lambda>limits.
     and_then (estimate_quantities e limits) (\<lambda>q.
     case bm_get (lg_reservations l) reservation_id of
       Some existing \<Rightarrow>
         if rsv_operation_id existing = operation_id \<and> rsv_quantities existing = q
            \<and> rsv_estimate existing = e
         then Inr None else Inl (ReservationConflict reservation_id)
     | None \<Rightarrow>
         and_then (ensure_capacity l q) (\<lambda>_.
           Inr (Some (LedgerReserved account_id reservation_id operation_id q e reserved_at))))))"

definition decide_reconcile ::
  "budget_ledger \<Rightarrow> string \<Rightarrow> string \<Rightarrow> measured_quantities \<Rightarrow> int \<Rightarrow>
     budget_error + ledger_event option" where
  "decide_reconcile l reservation_id reconciliation_id measured reconciled_at =
     and_then (ok_or (lg_account_id l) LedgerNotOpen) (\<lambda>account_id.
     and_then (ok_or (bm_get (lg_reservations l) reservation_id)
       (ReservationNotFound reservation_id)) (\<lambda>reservation.
     let event = LedgerReconciled account_id reservation_id reconciliation_id measured reconciled_at in
     case rsv_reconciliation reservation of
       None \<Rightarrow> Inr (Some event)
     | Some (stored_id, stored) \<Rightarrow>
         if stored_id \<noteq> reconciliation_id then Inl (ReconciliationConflict reconciliation_id)
         else if stored = measured then Inr None
         else if \<not> advances measured stored then Inl (ReconciliationConflict reconciliation_id)
         else Inr (Some event)))"

text \<open>
  The version is incremented with \<open>+\<close>; a journal of \<open>2^64\<close> events, where the checked build would
  panic, is out of reach.
\<close>

definition next_version :: "budget_ledger \<Rightarrow> budget_ledger" where
  "next_version l = l\<lparr>lg_version := lg_version l + 1\<rparr>"

definition ledger_apply :: "platform \<Rightarrow> budget_ledger \<Rightarrow> ledger_event \<Rightarrow> budget_error + budget_ledger" where
  "ledger_apply env l e =
     and_then (require (case lg_account_id l of
                          None \<Rightarrow> True | Some account_id \<Rightarrow> event_account_id e = account_id)
       (Persistence (InvariantViolated ''budget event belongs to another account''))) (\<lambda>_.
     case e of
       LedgerOpened account_id limits _ \<Rightarrow>
         and_then (require (lg_account_id l = None) (Persistence (AlreadyExists ''budget_ledger''))) (\<lambda>_.
           Inr (next_version (l\<lparr>lg_account_id := Some account_id, lg_limits := Some limits\<rparr>)))
     | LedgerReserved _ reservation_id operation_id q est reserved_at \<Rightarrow>
         and_then (ok_or (lg_account_id l) LedgerNotOpen) (\<lambda>account_id.
         and_then (require (reservation_id = budget_reservation_id_for_operation env account_id operation_id)
           (ReservationConflict reservation_id)) (\<lambda>_.
         and_then (require (\<not> bm_contains (lg_reservations l) reservation_id)
           (Persistence (AlreadyExists ''budget_reservation''))) (\<lambda>_.
         and_then (ensure_capacity l q) (\<lambda>_.
         and_then (ok_or (lg_limits l) LedgerNotOpen) (\<lambda>limits.
         and_then (estimate_quantities est limits) (\<lambda>expected.
         and_then (require (q = expected) (ReservationConflict reservation_id)) (\<lambda>_.
           Inr (next_version (l\<lparr>lg_reservations :=
             bm_insert reservation_id
               (reservation_new reservation_id operation_id q est reserved_at)
               (lg_reservations l)\<rparr>)))))))))
     | LedgerReconciled _ reservation_id reconciliation_id measured _ \<Rightarrow>
         and_then (ok_or (bm_get (lg_reservations l) reservation_id)
           (ReservationNotFound reservation_id)) (\<lambda>reservation.
         and_then (require (case rsv_reconciliation reservation of
                              None \<Rightarrow> True
                            | Some (stored_id, stored) \<Rightarrow>
                                stored_id = reconciliation_id \<and> advances measured stored)
           (ReconciliationConflict reconciliation_id)) (\<lambda>_.
           Inr (next_version (l\<lparr>lg_reservations :=
             bm_insert reservation_id (reconcile reservation reconciliation_id measured)
               (lg_reservations l)\<rparr>)))))"

definition ledger_rehydrate :: "platform \<Rightarrow> ledger_event list \<Rightarrow> budget_error + budget_ledger" where
  "ledger_rehydrate env events = try_fold (ledger_apply env) ledger_empty events"

end
