(* ===== verification/Budget_Safety.thy ===== *)
theory Budget_Safety
  imports Budget_Ledger
begin

text \<open>
  The correctness of the budget ledger: what its balance adds up to, when a reservation is accepted,
  and what a journal of it replays to.
\<close>


section \<open>Checked sums\<close>

lemma unat_u64 [simp]: "unat (x :: u64) < 18446744073709551616"
  using unsigned_less [of x, where 'a = nat] by simp

lemma checked_add_Some:
  "checked_add a b = Some c \<longleftrightarrow> unat a + unat b < 2 ^ 64 \<and> c = a + b"
proof -
  have "uint a + uint b = int (unat a + unat b)" by (simp only: uint_nat of_nat_add)
  then have "uint a + uint b < 2 ^ 64 \<longleftrightarrow> unat a + unat b < 2 ^ 64"
    by (simp only: of_nat_less_iff [symmetric, where 'a = int] of_nat_power of_nat_numeral)
  then show ?thesis by (auto simp: checked_add_def)
qed

lemma checked_add_unat: "checked_add a b = Some c \<Longrightarrow> unat c = unat a + unat b"
  using unat_add_lem [of a b] by (simp add: checked_add_Some)

lemma checked_add_fits: "unat a + unat b < 2 ^ 64 \<Longrightarrow> \<exists>c. checked_add a b = Some c"
  by (simp add: checked_add_Some)

lemma add_amounts_Inr:
  assumes "length t = length v" and "add_amounts t v = Inr r"
  shows "length r = length t" and "k < length t \<Longrightarrow> unat (r ! k) = unat (t ! k) + unat (v ! k)"
proof -
  have "length r = length t \<and> (\<forall>k < length t. unat (r ! k) = unat (t ! k) + unat (v ! k))"
    using assms
  proof (induction t v arbitrary: r rule: list_induct2)
    case (Cons x xs y ys)
    then obtain z zs where z: "checked_add x y = Some z" and zs: "add_amounts xs ys = Inr zs"
      and r: "r = z # zs"
      by (auto simp: add_amounts_def result_simps)
    from Cons.IH [OF zs] checked_add_unat [OF z] r show ?case
      by (auto simp: nth_Cons split: nat.split)
  qed (simp add: add_amounts_def)
  then show "length r = length t" "k < length t \<Longrightarrow> unat (r ! k) = unat (t ! k) + unat (v ! k)"
    by auto
qed

lemma add_amounts_fits:
  assumes "length t = length v" and "\<And>k. k < length t \<Longrightarrow> unat (t ! k) + unat (v ! k) < 2 ^ 64"
  shows "\<exists>r. add_amounts t v = Inr r"
  using assms
proof (induction t v rule: list_induct2)
  case (Cons x xs y ys)
  obtain z where "checked_add x y = Some z" using Cons.prems [of 0] checked_add_fits by auto
  moreover obtain zs where "add_amounts xs ys = Inr zs" using Cons.IH Cons.prems [of "Suc _"] by auto
  ultimately show ?case by (simp add: add_amounts_def)
qed (simp add: add_amounts_def)

lemma add_at_Inr:
  assumes "add_at t i v = Inr r" and "i < length t"
  shows "length r = length t"
    and "k < length t \<Longrightarrow> unat (r ! k) = unat (t ! k) + (if k = i then unat v else 0)"
  using assms checked_add_unat by (auto simp: add_at_def result_simps nth_list_update)

lemma add_at_fits: "unat (t ! i) + unat v < 2 ^ 64 \<Longrightarrow> \<exists>r. add_at t i v = Inr r"
  using checked_add_fits [of "t ! i" v] by (auto simp: add_at_def)


section \<open>What a reservation charges\<close>

definition amount :: "budget_measurement \<Rightarrow> u64 \<Rightarrow> nat" where
  "amount m requested =
     (case m of ObservedAmount v \<Rightarrow> unat v | EstimatedAmount v \<Rightarrow> unat v
      | UnknownAmount \<Rightarrow> unat requested)"

definition measurements :: "measured_quantities \<Rightarrow> budget_measurement list" where
  "measurements m = [mq_duration m, mq_tokens m, mq_cost m, mq_tool_calls m]"

definition charge :: "budget_reservation \<Rightarrow> nat \<Rightarrow> nat" where
  "charge r k =
     (case rsv_reconciliation r of
        None \<Rightarrow> unat (quantity_values (rsv_quantities r) ! k)
      | Some (_, m) \<Rightarrow> amount (measurements m ! k) (quantity_values (rsv_quantities r) ! k))"

definition charged :: "budget_ledger \<Rightarrow> nat \<Rightarrow> nat" where
  "charged l k = sum_list (map (\<lambda>(_, r). charge r k) (lg_reservations l))"

text \<open>The four running totals of the balance and what they add up to in a dimension.\<close>

type_synonym running = "amounts \<times> amounts \<times> amounts \<times> amounts"

fun running_ok :: "running \<Rightarrow> bool" where
  "running_ok (a, b, c, d) = (length a = 4 \<and> length b = 4 \<and> length c = 4 \<and> length d = 4)"

fun running_total :: "running \<Rightarrow> nat \<Rightarrow> nat" where
  "running_total (a, b, c, d) k = unat (a ! k) + unat (b ! k) + unat (c ! k) + unat (d ! k)"

lemma classify_one_Inr:
  assumes "classify_one t i requested m = Inr t'" and "running_ok (a, t)" and "i < 4"
  shows "running_ok (a, t')"
    and "k < 4 \<Longrightarrow> running_total (a, t') k =
      running_total (a, t) k + (if k = i then amount m requested else 0)"
proof -
  obtain b c d where t: "t = (b, c, d)" by (cases t)
  have "running_ok (a, t') \<and> (k < 4 \<longrightarrow> running_total (a, t') k =
      running_total (a, t) k + (if k = i then amount m requested else 0))"
  proof (cases m)
    case (ObservedAmount v)
    with assms t show ?thesis
      by (auto simp: classify_one_def result_simps amount_def add_at_Inr)
  next
    case (EstimatedAmount v)
    with assms t show ?thesis
      by (auto simp: classify_one_def result_simps amount_def add_at_Inr)
  next
    case UnknownAmount
    with assms t show ?thesis
      by (auto simp: classify_one_def result_simps amount_def add_at_Inr)
  qed
  then show "running_ok (a, t')" "k < 4 \<Longrightarrow> running_total (a, t') k =
      running_total (a, t) k + (if k = i then amount m requested else 0)" by auto
qed

lemma classify_one_fits:
  assumes "running_total (a, t) i + amount m requested < 2 ^ 64"
  shows "\<exists>t'. classify_one t i requested m = Inr t'"
proof -
  obtain b c d where t: "t = (b, c, d)" by (cases t)
  show ?thesis
  proof (cases m)
    case (ObservedAmount v)
    then show ?thesis
      using assms add_at_fits [of b i v] by (auto simp: t classify_one_def amount_def)
  next
    case (EstimatedAmount v)
    then show ?thesis
      using assms add_at_fits [of c i v] by (auto simp: t classify_one_def amount_def)
  next
    case UnknownAmount
    then show ?thesis
      using assms add_at_fits [of d i requested] by (auto simp: t classify_one_def amount_def)
  qed
qed

lemma less_4_cases: "k < (4 :: nat) \<Longrightarrow> k = 0 \<or> k = 1 \<or> k = 2 \<or> k = 3"
  by auto

lemma classify_Inr:
  assumes "classify t requested m = Inr t'" and "running_ok (a, t)"
  shows "running_ok (a, t')"
    and "k < 4 \<Longrightarrow> running_total (a, t') k =
      running_total (a, t) k + amount (measurements m ! k) (requested ! k)"
proof -
  from assms(1) obtain t1 t2 t3 where
    s: "classify_one t 0 (requested ! 0) (mq_duration m) = Inr t1"
    "classify_one t1 1 (requested ! 1) (mq_tokens m) = Inr t2"
    "classify_one t2 2 (requested ! 2) (mq_cost m) = Inr t3"
    "classify_one t3 3 (requested ! 3) (mq_tool_calls m) = Inr t'"
    by (auto simp: classify_def result_simps)
  note ok1 = classify_one_Inr(1) [OF s(1) assms(2)]
  note ok2 = classify_one_Inr(1) [OF s(2) ok1]
  note ok3 = classify_one_Inr(1) [OF s(3) ok2]
  show "running_ok (a, t')" by (rule classify_one_Inr(1) [OF s(4) ok3]) simp_all
  show "running_total (a, t') k = running_total (a, t) k + amount (measurements m ! k) (requested ! k)"
    if "k < 4"
    using classify_one_Inr(2) [OF s(1) assms(2), of k] classify_one_Inr(2) [OF s(2) ok1, of k]
      classify_one_Inr(2) [OF s(3) ok2, of k] classify_one_Inr(2) [OF s(4) ok3, of k]
      less_4_cases [OF that]
    by (auto simp: measurements_def)
qed

lemma classify_fits:
  assumes "running_ok (a, t)"
    and "\<And>k. k < 4 \<Longrightarrow> running_total (a, t) k + amount (measurements m ! k) (requested ! k) < 2 ^ 64"
  shows "\<exists>t'. classify t requested m = Inr t'"
proof -
  obtain t1 where s1: "classify_one t 0 (requested ! 0) (mq_duration m) = Inr t1"
    using classify_one_fits [of a t 0 "mq_duration m" "requested ! 0"] assms(2) [of 0] by (auto simp: measurements_def)
  note ok1 = classify_one_Inr(1) [OF s1 assms(1)]
  obtain t2 where s2: "classify_one t1 1 (requested ! 1) (mq_tokens m) = Inr t2"
    using classify_one_fits [of a t1 1 "mq_tokens m" "requested ! 1"] assms(2) [of 1] classify_one_Inr(2) [OF s1 assms(1), of 1]
    by (auto simp: measurements_def)
  note ok2 = classify_one_Inr(1) [OF s2 ok1]
  obtain t3 where s3: "classify_one t2 2 (requested ! 2) (mq_cost m) = Inr t3"
    using classify_one_fits [of a t2 2 "mq_cost m" "requested ! 2"] assms(2) [of 2] classify_one_Inr(2) [OF s1 assms(1), of 2]
      classify_one_Inr(2) [OF s2 ok1, of 2]
    by (auto simp: measurements_def)
  note ok3 = classify_one_Inr(1) [OF s3 ok2]
  obtain t4 where "classify_one t3 3 (requested ! 3) (mq_tool_calls m) = Inr t4"
    using classify_one_fits [of a t3 3 "mq_tool_calls m" "requested ! 3"] assms(2) [of 3] classify_one_Inr(2) [OF s1 assms(1), of 3]
      classify_one_Inr(2) [OF s2 ok1, of 3] classify_one_Inr(2) [OF s3 ok2, of 3]
    by (auto simp: measurements_def)
  with s1 s2 s3 have "classify t requested m = Inr t4" by (simp add: classify_def)
  then show ?thesis by blast
qed

lemma quantity_values_length [simp]: "length (quantity_values q) = 4"
  by (simp add: quantity_values_def)

lemma balance_step_Inr:
  assumes "balance_step s (i, r) = Inr s'" and "running_ok s"
  shows "running_ok s'" and "k < 4 \<Longrightarrow> running_total s' k = running_total s k + charge r k"
proof -
  obtain a t where s: "s = (a, t)" by (cases s)
  have "running_ok s' \<and> (k < 4 \<longrightarrow> running_total s' k = running_total s k + charge r k)"
  proof (cases "rsv_reconciliation r")
    case None
    with assms(1) s obtain x where x: "add_amounts a (quantity_values (rsv_quantities r)) = Inr x"
      and s': "s' = (x, t)"
      by (auto simp: balance_step_def result_simps)
    have "length a = 4" using assms(2) s by (cases t) simp
    then show ?thesis
      using add_amounts_Inr [OF _ x] assms(2) None s s' by (cases t) (auto simp: charge_def)
  next
    case (Some p)
    then obtain j m where p: "rsv_reconciliation r = Some (j, m)" by (cases p) simp
    with assms(1) s obtain t' where
      t': "classify t (quantity_values (rsv_quantities r)) m = Inr t'" and s': "s' = (a, t')"
      by (auto simp: balance_step_def result_simps)
    show ?thesis
      using classify_Inr [OF t', of a] assms(2) s s' p by (auto simp: charge_def)
  qed
  then show "running_ok s'" "k < 4 \<Longrightarrow> running_total s' k = running_total s k + charge r k" by auto
qed

lemma balance_step_fits:
  assumes "running_ok s" and "\<And>k. k < 4 \<Longrightarrow> running_total s k + charge r k < 2 ^ 64"
  shows "\<exists>s'. balance_step s (i, r) = Inr s'"
proof -
  obtain a t where s: "s = (a, t)" by (cases s)
  show ?thesis
  proof (cases "rsv_reconciliation r")
    case None
    have "length a = 4" using assms(1) s by (cases t) simp
    moreover have "unat (a ! k) + unat (quantity_values (rsv_quantities r) ! k) < 2 ^ 64" if "k < 4" for k
      using assms(2) [OF that] s None by (cases t) (simp add: charge_def)
    ultimately obtain x where "add_amounts a (quantity_values (rsv_quantities r)) = Inr x"
      using add_amounts_fits [of a "quantity_values (rsv_quantities r)"] by auto
    with None s show ?thesis by (cases t) (simp add: balance_step_def)
  next
    case (Some p)
    then obtain j m where p: "rsv_reconciliation r = Some (j, m)" by (cases p) simp
    obtain t' where "classify t (quantity_values (rsv_quantities r)) m = Inr t'"
      using classify_fits [of a t m "quantity_values (rsv_quantities r)"] assms s p
      by (auto simp: charge_def)
    with p s show ?thesis by (cases t') (simp add: balance_step_def)
  qed
qed

lemma balance_fold_Inr:
  assumes "try_fold balance_step s rs = Inr s'" and "running_ok s"
  shows "running_ok s'"
    and "k < 4 \<Longrightarrow> running_total s' k = running_total s k + sum_list (map (\<lambda>(_, r). charge r k) rs)"
proof -
  have "running_ok s' \<and> (k < 4 \<longrightarrow> running_total s' k =
      running_total s k + sum_list (map (\<lambda>(_, r). charge r k) rs))"
    using assms
  proof (induction rs arbitrary: s)
    case (Cons p rs)
    obtain i r where p: "p = (i, r)" by (cases p)
    from Cons.prems(1) p obtain s1 where s1: "balance_step s (i, r) = Inr s1"
      and rest: "try_fold balance_step s1 rs = Inr s'" by (auto simp: and_then_Inr)
    from Cons.IH [OF rest balance_step_Inr(1) [OF s1 Cons.prems(2)]]
      balance_step_Inr(2) [OF s1 Cons.prems(2), of k]
    show ?case by (auto simp: p)
  qed simp
  then show "running_ok s'"
    "k < 4 \<Longrightarrow> running_total s' k = running_total s k + sum_list (map (\<lambda>(_, r). charge r k) rs)"
    by auto
qed

lemma balance_fold_fits:
  assumes "running_ok s"
    and "\<And>k. k < 4 \<Longrightarrow> running_total s k + sum_list (map (\<lambda>(_, r). charge r k) rs) < 2 ^ 64"
  shows "\<exists>s'. try_fold balance_step s rs = Inr s'"
  using assms
proof (induction rs arbitrary: s)
  case (Cons p rs)
  obtain i r where p: "p = (i, r)" by (cases p)
  obtain s1 where s1: "balance_step s (i, r) = Inr s1"
    using balance_step_fits [OF Cons.prems(1), of r i] Cons.prems(2) by (fastforce simp: p)
  have "\<exists>s'. try_fold balance_step s1 rs = Inr s'"
    by (rule Cons.IH [OF balance_step_Inr(1) [OF s1 Cons.prems(1)]])
      (use Cons.prems(2) balance_step_Inr(2) [OF s1 Cons.prems(1)] in \<open>fastforce simp: p\<close>)
  with s1 show ?case by (simp add: p)
next
  case Nil
  show ?case by (intro exI [of _ s]) simp
qed

lemma sums_Inr:
  assumes "running_ok (a, b, c, d)" and "sums [a, b, c, d] = Inr r"
  shows "length r = 4" and "k < 4 \<Longrightarrow> unat (r ! k) = running_total (a, b, c, d) k"
proof -
  from assms(2) obtain r1 r2 r3 where
    r: "add_amounts [0, 0, 0, 0] a = Inr r1" "add_amounts r1 b = Inr r2" "add_amounts r2 c = Inr r3"
    "add_amounts r3 d = Inr r"
    by (auto simp: sums_def and_then_Inr)
  have l: "length a = 4" "length b = 4" "length c = 4" "length d = 4" using assms(1) by simp_all
  have l1: "length r1 = 4" using add_amounts_Inr(1) [OF _ r(1)] l by simp
  have l2: "length r2 = 4" using add_amounts_Inr(1) [OF _ r(2)] l l1 by simp
  have l3: "length r3 = 4" using add_amounts_Inr(1) [OF _ r(3)] l l2 by simp
  show "length r = 4" using add_amounts_Inr(1) [OF _ r(4)] l l3 by simp
  show "unat (r ! k) = running_total (a, b, c, d) k" if "k < 4"
    using add_amounts_Inr(2) [OF _ r(1), of k] add_amounts_Inr(2) [OF _ r(2), of k]
      add_amounts_Inr(2) [OF _ r(3), of k] add_amounts_Inr(2) [OF _ r(4), of k] l l1 l2 l3 that
      less_4_cases [OF that]
    by auto
qed

lemma sums_fits:
  assumes "running_ok (a, b, c, d)" and "\<And>k. k < 4 \<Longrightarrow> running_total (a, b, c, d) k < 2 ^ 64"
  shows "\<exists>r. sums [a, b, c, d] = Inr r"
proof -
  have l: "length a = 4" "length b = 4" "length c = 4" "length d = 4" using assms(1) by simp_all
  have zero: "[0, 0, 0, 0 :: u64] ! k = 0" if "k < 4" for k using less_4_cases [OF that] by auto
  obtain r1 where r1: "add_amounts [0, 0, 0, 0] a = Inr r1"
    using add_amounts_fits [of "[0, 0, 0, 0]" a] l zero by fastforce
  have s1: "length r1 = 4" "k < 4 \<Longrightarrow> unat (r1 ! k) = unat (a ! k)" for k
    using add_amounts_Inr [OF _ r1] l zero by auto
  obtain r2 where r2: "add_amounts r1 b = Inr r2"
    using add_amounts_fits [of r1 b] l s1 assms(2) by fastforce
  have s2: "length r2 = 4" "k < 4 \<Longrightarrow> unat (r2 ! k) = unat (a ! k) + unat (b ! k)" for k
    using add_amounts_Inr [OF _ r2] l s1 by auto
  obtain r3 where r3: "add_amounts r2 c = Inr r3"
    using add_amounts_fits [of r2 c] l s2 assms(2) by fastforce
  have s3: "length r3 = 4" "k < 4 \<Longrightarrow> unat (r3 ! k) = unat (a ! k) + unat (b ! k) + unat (c ! k)" for k
    using add_amounts_Inr [OF _ r3] l s2 by auto
  obtain r4 where "add_amounts r3 d = Inr r4"
    using add_amounts_fits [of r3 d] l s3 assms(2) by fastforce
  with r1 r2 r3 show ?thesis by (simp add: sums_def)
qed


section \<open>The balance\<close>

definition limit :: "budget_ledger \<Rightarrow> nat \<Rightarrow> nat" where
  "limit l k = (case lg_limits l of None \<Rightarrow> 0 | Some limits \<Rightarrow> unat (limit_values limits ! k))"

lemma saturating_sub_unat: "unat (saturating_sub a b) = unat a - unat b"
  by (simp add: saturating_sub_def unat_sub word_le_nat_alt)

lemma quantity_values_of: "k < 4 \<Longrightarrow> quantity_values (quantities_of v) ! k = v ! k"
  by (auto simp: quantity_values_def quantities_of_def dest!: less_4_cases)

lemma zip_amounts_nth: "k < 4 \<Longrightarrow> zip_amounts f l r ! k = f (l ! k) (r ! k)"
  by (auto simp: zip_amounts_def dest!: less_4_cases)

abbreviation zero_running :: running where
  "zero_running \<equiv> ([0, 0, 0, 0], [0, 0, 0, 0], [0, 0, 0, 0], [0, 0, 0, 0])"

lemma zero_running [simp]: "running_ok zero_running" "k < 4 \<Longrightarrow> running_total zero_running k = 0"
  by (auto dest!: less_4_cases)

lemma balance_Inr:
  assumes "balance l = Inr b"
  shows "lg_limits l \<noteq> None"
    and "k < 4 \<Longrightarrow> charged l k < 2 ^ 64"
    and "k < 4 \<Longrightarrow> unat (quantity_values (bal_overrun b) ! k) = charged l k - limit l k"
    and "k < 4 \<Longrightarrow> unat (quantity_values (bal_available b) ! k) = limit l k - charged l k"
proof -
  from assms obtain limits s sum' where lim: "lg_limits l = Some limits"
    and s: "try_fold balance_step zero_running (lg_reservations l) = Inr s"
    and sum': "sums [fst s, fst (snd s), fst (snd (snd s)), snd (snd (snd s))] = Inr sum'"
    and b: "bal_overrun b = quantities_of (zip_amounts saturating_sub sum' (limit_values limits))"
      "bal_available b = quantities_of (zip_amounts saturating_sub (limit_values limits) sum')"
    by (auto simp: balance_def and_then_Inr Let_def split: prod.splits)
  obtain a1 a2 a3 a4 where s4: "s = (a1, a2, a3, a4)" by (cases s)
  have total: "unat (sum' ! k) = charged l k" if "k < 4" for k
    using sums_Inr(2) [of a1 a2 a3 a4 sum' k] balance_fold_Inr(1) [OF s] balance_fold_Inr(2) [OF s, of k]
      zero_running(2) [OF that] sum' that
    by (simp add: s4 charged_def del: running_total.simps)
  show "lg_limits l \<noteq> None" using lim by simp
  show "charged l k < 2 ^ 64" if "k < 4"
    using total [OF that] unat_u64 [of "sum' ! k"] by simp
  show "unat (quantity_values (bal_overrun b) ! k) = charged l k - limit l k" if "k < 4"
    using total [OF that] lim that
    by (simp add: b quantity_values_of zip_amounts_nth saturating_sub_unat limit_def)
  show "unat (quantity_values (bal_available b) ! k) = limit l k - charged l k" if "k < 4"
    using total [OF that] lim that
    by (simp add: b quantity_values_of zip_amounts_nth saturating_sub_unat limit_def)
qed

lemma balance_fits:
  assumes "lg_limits l \<noteq> None" and "\<And>k. k < 4 \<Longrightarrow> charged l k < 2 ^ 64"
  shows "\<exists>b. balance l = Inr b"
proof -
  obtain limits where lim: "lg_limits l = Some limits" using assms(1) by blast
  have "\<exists>s. try_fold balance_step zero_running (lg_reservations l) = Inr s"
  proof (rule balance_fold_fits)
    show "running_total zero_running k + sum_list (map (\<lambda>(_, r). charge r k) (lg_reservations l)) < 2 ^ 64"
      if "k < 4" for k
      using assms(2) [OF that] zero_running(2) [OF that]
      by (simp add: charged_def del: running_total.simps)
  qed simp
  then obtain s where s: "try_fold balance_step zero_running (lg_reservations l) = Inr s" by blast
  obtain a b c d where s4: "s = (a, b, c, d)" by (cases s)
  have "running_total (a, b, c, d) k < 2 ^ 64" if "k < 4" for k
    using balance_fold_Inr(2) [OF s, of k] assms(2) [OF that] zero_running(2) [OF that] that
    by (simp add: s4 charged_def del: running_total.simps)
  then have "\<exists>r. sums [a, b, c, d] = Inr r"
    by (intro sums_fits) (use balance_fold_Inr(1) [OF s] s4 in simp_all)
  with lim s s4 show ?thesis by (auto simp: balance_def Let_def)
qed


section \<open>Capacity\<close>

definition fits :: "budget_ledger \<Rightarrow> budget_quantities \<Rightarrow> bool" where
  "fits l q =
     list_all (\<lambda>k. charged l k + unat (quantity_values q ! k) \<le> limit l k) [0, 1, 2, 3]"

lemma fits_iff: "fits l q \<longleftrightarrow> (\<forall>k < 4. charged l k + unat (quantity_values q ! k) \<le> limit l k)"
  by (auto simp: fits_def dest!: less_4_cases)

lemma length_budget_dimensions [simp]: "length budget_dimensions = 4"
  by (simp add: budget_dimensions_def)

lemma find_zip_None:
  assumes "length ds = 4" and "length xs = 4"
  shows "find P (zip ds xs) = None \<longleftrightarrow> (\<forall>k < 4. \<not> P (ds ! k, xs ! k))"
  using assms by (auto simp: find_None_iff in_set_zip)

lemma ensure_capacity_iff:
  assumes "lg_account_id l \<noteq> None" and "lg_limits l \<noteq> None"
  shows "ensure_capacity l q = Inr () \<longleftrightarrow> fits l q"
proof
  assume "ensure_capacity l q = Inr ()"
  then obtain b where b: "balance l = Inr b"
    and none: "find (\<lambda>(_, v). 0 < v) (zip budget_dimensions (quantity_values (bal_overrun b))) = None"
      "find (\<lambda>(_, wanted, available). available < wanted)
         (zip budget_dimensions (zip (quantity_values q) (quantity_values (bal_available b)))) = None"
    by (cases "lg_account_id l"; cases "balance l") (auto simp: ensure_capacity_def split: option.splits)
  have "charged l k + unat (quantity_values q ! k) \<le> limit l k" if "k < 4" for k
  proof -
    have "quantity_values (bal_overrun b) ! k = 0"
      using none(1) that by (simp add: find_zip_None word_gt_0)
    moreover have "quantity_values q ! k \<le> quantity_values (bal_available b) ! k"
      using none(2) that by (simp add: find_zip_None not_less)
    ultimately show ?thesis
      using balance_Inr(3,4) [OF b that] by (simp add: word_le_nat_alt)
  qed
  then show "fits l q" by (simp add: fits_iff)
next
  assume f: "fits l q"
  have bound: "limit l k < 2 ^ 64" for k
    by (auto simp: limit_def split: option.split)
  obtain b where b: "balance l = Inr b"
    using balance_fits [OF assms(2)] f bound by (metis fits_iff add_leD1 le_less_trans)
  obtain account where "lg_account_id l = Some account" using assms(1) by blast
  moreover have over: "quantity_values (bal_overrun b) ! k = 0" if "k < 4" for k
  proof -
    have "charged l k \<le> limit l k" using f that add_leD1 by (auto simp: fits_iff)
    with balance_Inr(3) [OF b that] have "unat (quantity_values (bal_overrun b) ! k) = 0" by simp
    then show ?thesis by (simp only: unat_eq_0)
  qed
  moreover have room: "quantity_values q ! k \<le> quantity_values (bal_available b) ! k" if "k < 4" for k
  proof -
    have "charged l k + unat (quantity_values q ! k) \<le> limit l k" using f that by (simp add: fits_iff)
    with balance_Inr(4) [OF b that] show ?thesis by (simp add: word_le_nat_alt)
  qed
  moreover have "find (\<lambda>(_, v). 0 < v) (zip budget_dimensions (quantity_values (bal_overrun b))) = None"
    using over by (simp add: find_zip_None)
  moreover have "find (\<lambda>(_, wanted, available). available < wanted)
      (zip budget_dimensions (zip (quantity_values q) (quantity_values (bal_available b)))) = None"
    using room by (simp add: find_zip_None not_less)
  ultimately show "ensure_capacity l q = Inr ()" using b by (simp add: ensure_capacity_def)
qed



section \<open>Journals\<close>

text \<open>The three decisions of the ledger as one, and the ledger as an event-sourced component.\<close>

datatype ledger_command =
    OpenLedger string budget_limits int
  | Reserve string reservation_estimate int
  | Reconcile string string measured_quantities int

definition ledger_decide ::
  "platform \<Rightarrow> budget_ledger \<Rightarrow> ledger_command \<Rightarrow> budget_error + ledger_event list" where
  "ledger_decide env l c =
     and_then (case c of
                 OpenLedger account limits at \<Rightarrow> decide_open l account limits at
               | Reserve operation e at \<Rightarrow> decide_reserve env l operation e at
               | Reconcile reservation i measured at \<Rightarrow> decide_reconcile l reservation i measured at)
       (\<lambda>e. Inr (case e of None \<Rightarrow> [] | Some e \<Rightarrow> [e]))"

lemma decide_open_Some:
  "decide_open l account limits at = Inr (Some e) \<longleftrightarrow>
     lg_account_id l = None \<and> lg_limits l = None \<and> e = LedgerOpened account limits at"
  by (auto simp: decide_open_def split: option.splits)

lemma decide_reserve_Some:
  "decide_reserve env l operation est at = Inr (Some e) \<longleftrightarrow>
     (\<exists>account limits q. lg_account_id l = Some account \<and> lg_limits l = Some limits
        \<and> estimate_quantities est limits = Inr q
        \<and> bm_get (lg_reservations l) (budget_reservation_id_for_operation env account operation) = None
        \<and> ensure_capacity l q = Inr ()
        \<and> e = LedgerReserved account (budget_reservation_id_for_operation env account operation)
             operation q est at)"
  by (cases "lg_account_id l"; cases "lg_limits l"; cases "bm_get (lg_reservations l)
      (budget_reservation_id_for_operation env (the (lg_account_id l)) operation)")
    (auto simp: decide_reserve_def Let_def and_then_Inr)

lemma decide_reconcile_Some:
  "decide_reconcile l rid i measured at = Inr (Some e) \<longleftrightarrow>
     (\<exists>account r. lg_account_id l = Some account \<and> bm_get (lg_reservations l) rid = Some r
        \<and> (rsv_reconciliation r = None
           \<or> (\<exists>stored. rsv_reconciliation r = Some (i, stored) \<and> stored \<noteq> measured
                \<and> advances measured stored))
        \<and> e = LedgerReconciled account rid i measured at)"
  by (cases "lg_account_id l"; cases "bm_get (lg_reservations l) rid";
      cases "rsv_reconciliation (the (bm_get (lg_reservations l) rid))")
    (auto simp: decide_reconcile_def Let_def split: if_splits)

lemma ledger_apply_opened:
  "ledger_apply env l (LedgerOpened account limits at) = Inr l' \<longleftrightarrow>
     lg_account_id l = None
     \<and> l' = next_version (l\<lparr>lg_account_id := Some account, lg_limits := Some limits\<rparr>)"
  by (cases "lg_account_id l") (auto simp: ledger_apply_def and_then_Inr)

lemma ledger_apply_reserved:
  "ledger_apply env l (LedgerReserved account rid operation q est at) = Inr l' \<longleftrightarrow>
     (\<exists>limits. lg_account_id l = Some account \<and> lg_limits l = Some limits
        \<and> rid = budget_reservation_id_for_operation env account operation
        \<and> bm_get (lg_reservations l) rid = None \<and> ensure_capacity l q = Inr ()
        \<and> estimate_quantities est limits = Inr q
        \<and> l' = next_version (l\<lparr>lg_reservations :=
              bm_insert rid (reservation_new rid operation q est at) (lg_reservations l)\<rparr>))"
  by (cases "lg_account_id l"; cases "lg_limits l")
    (auto simp: ledger_apply_def and_then_Inr bm_contains_def)

lemma ledger_apply_reconciled:
  "ledger_apply env l (LedgerReconciled account rid i measured at) = Inr l' \<longleftrightarrow>
     (\<exists>r. (lg_account_id l = None \<or> lg_account_id l = Some account)
        \<and> bm_get (lg_reservations l) rid = Some r
        \<and> (rsv_reconciliation r = None
           \<or> (\<exists>stored. rsv_reconciliation r = Some (i, stored) \<and> advances measured stored))
        \<and> l' = next_version (l\<lparr>lg_reservations :=
              bm_insert rid (reconcile r i measured) (lg_reservations l)\<rparr>))"
  by (cases "lg_account_id l"; cases "bm_get (lg_reservations l) rid")
    (auto simp: ledger_apply_def and_then_Inr split: option.splits)

lemmas ledger_apply_iffs = ledger_apply_opened ledger_apply_reserved ledger_apply_reconciled

lemma next_version_fields [simp]:
  "lg_account_id (next_version l) = lg_account_id l" "lg_limits (next_version l) = lg_limits l"
  "lg_reservations (next_version l) = lg_reservations l"
  by (simp_all add: next_version_def)

lemma decided_event_applies:
  assumes "ledger_decide env l c = Inr es"
  shows "\<exists>l'. try_fold (ledger_apply env) l es = Inr l'"
proof (cases es)
  case (Cons e rest)
  with assms have rest: "rest = []" and "(case c of
        OpenLedger account limits at \<Rightarrow> decide_open l account limits at
      | Reserve operation e at \<Rightarrow> decide_reserve env l operation e at
      | Reconcile reservation i measured at \<Rightarrow> decide_reconcile l reservation i measured at)
      = Inr (Some e)"
    by (auto simp: ledger_decide_def and_then_Inr split: option.splits)
  then have "\<exists>l'. ledger_apply env l e = Inr l'"
    by (cases c)
      (auto simp: decide_open_Some decide_reserve_Some decide_reconcile_Some ledger_apply_iffs)
  with Cons rest show ?thesis by auto
qed simp

abbreviation ledger_run :: "platform \<Rightarrow> ledger_event list \<Rightarrow> budget_ledger \<Rightarrow> bool" where
  "ledger_run env \<equiv>
     journal_of (ledger_apply env) (ledger_decide env) (\<lambda>es l. es = [] \<and> l = ledger_empty)"

interpretation ledger: event_sourced "ledger_apply env" "ledger_decide env"
  "\<lambda>es l. es = [] \<and> l = ledger_empty" "ledger_rehydrate env" for env
proof unfold_locales
  show "ledger_rehydrate env (es @ es') = try_fold (ledger_apply env) s es'"
    if "ledger_rehydrate env es = Inr s" for es s es'
    using that by (simp add: ledger_rehydrate_def try_fold_append)
qed (auto simp: ledger_rehydrate_def intro: decided_event_applies)


section \<open>Reservations\<close>

lemma sum_list_bm_insert_new:
  "bm_wf m \<Longrightarrow> bm_get m k = None \<Longrightarrow>
     sum_list (map f (bm_insert k v m)) = f (k, v) + sum_list (map f m)" for f :: "'a::linorder \<times> 'b \<Rightarrow> nat"
  by (induction k v m rule: bm_insert.induct) (auto split: if_splits)

definition ledger_inv :: "budget_ledger \<Rightarrow> bool" where
  "ledger_inv l =
     (bm_wf (lg_reservations l)
      \<and> (lg_account_id l = None \<longleftrightarrow> lg_limits l = None)
      \<and> (lg_account_id l = None \<longrightarrow> lg_reservations l = []))"

lemma ledger_inv_apply:
  assumes "ledger_inv l" and "ledger_apply env l e = Inr l'"
  shows "ledger_inv l'"
  using assms by (cases e) (auto simp: ledger_inv_def ledger_apply_iffs)

lemma run_ledger_inv: "ledger_run env es l \<Longrightarrow> ledger_inv l"
proof (erule journal_invariant)
  show "ledger_inv s'" if "ledger_inv s" "try_fold (ledger_apply env) s es' = Inr s'" for s es' s'
    using that(2) by (rule try_fold_invariant) (use that(1) ledger_inv_apply in auto)
qed (simp add: ledger_inv_def ledger_empty_def)

lemma reserve_effect:
  assumes inv: "ledger_inv l" and dec: "decide_reserve env l operation est at = Inr (Some e)"
    and app: "ledger_apply env l e = Inr l'"
  shows "\<exists>q limits. lg_limits l = Some limits \<and> estimate_quantities est limits = Inr q
    \<and> lg_limits l' = Some limits
    \<and> (\<forall>k < 4. charged l' k = charged l k + unat (quantity_values q ! k)
         \<and> charged l' k \<le> limit l' k)"
proof -
  from dec obtain account limits q where
    r: "lg_account_id l = Some account" "lg_limits l = Some limits"
    "estimate_quantities est limits = Inr q"
    "bm_get (lg_reservations l) (budget_reservation_id_for_operation env account operation) = None"
    "ensure_capacity l q = Inr ()"
    "e = LedgerReserved account (budget_reservation_id_for_operation env account operation)
       operation q est at"
    by (auto simp: decide_reserve_Some)
  from r(5) r(1,2) have f: "fits l q" by (simp add: ensure_capacity_iff)
  from app r have l': "lg_limits l' = Some limits" "lg_reservations l' =
      bm_insert (budget_reservation_id_for_operation env account operation)
        (reservation_new (budget_reservation_id_for_operation env account operation) operation q est at)
        (lg_reservations l)"
    by (auto simp: ledger_apply_reserved)
  have "charged l' k = charged l k + unat (quantity_values q ! k)" for k
    using inv r(4) l'(2)
    by (simp add: charged_def sum_list_bm_insert_new ledger_inv_def charge_def reservation_new_def)
  moreover have "limit l' k = limit l k" for k using l'(1) r(2) by (simp add: limit_def)
  ultimately show ?thesis using f r(2,3) l'(1) by (auto simp: fits_iff)
qed

fun retimed :: "ledger_command \<Rightarrow> int \<Rightarrow> ledger_command" where
  "retimed (OpenLedger account limits _) at = OpenLedger account limits at"
| "retimed (Reserve operation e _) at = Reserve operation e at"
| "retimed (Reconcile rid i measured _) at = Reconcile rid i measured at"

lemma decide_open_replays:
  assumes "decide_open l account limits at = Inr x"
    and "(case x of None \<Rightarrow> Inr l | Some e \<Rightarrow> ledger_apply env l e) = Inr l'"
  shows "decide_open l' account limits at' = Inr None"
  using assms
  by (cases "lg_account_id l"; cases "lg_limits l")
    (auto simp: decide_open_def ledger_apply_opened split: if_splits)

lemma decide_reserve_replays:
  assumes "decide_reserve env l operation est at = Inr x"
    and "(case x of None \<Rightarrow> Inr l | Some e \<Rightarrow> ledger_apply env l e) = Inr l'"
  shows "decide_reserve env l' operation est at' = Inr None"
proof (cases x)
  case None
  with assms show ?thesis
    by (cases "lg_account_id l"; cases "lg_limits l"; cases "bm_get (lg_reservations l)
        (budget_reservation_id_for_operation env (the (lg_account_id l)) operation)")
      (auto simp: decide_reserve_def and_then_Inr split: if_splits)
next
  case (Some e)
  with assms have "decide_reserve env l operation est at = Inr (Some e)" "ledger_apply env l e = Inr l'"
    by simp_all
  from this(1) [unfolded decide_reserve_Some] this(2) show ?thesis
    by (auto simp: ledger_apply_reserved decide_reserve_def Let_def reservation_new_def)
qed

lemma decide_reconcile_replays:
  assumes "decide_reconcile l rid i measured at = Inr x"
    and "(case x of None \<Rightarrow> Inr l | Some e \<Rightarrow> ledger_apply env l e) = Inr l'"
  shows "decide_reconcile l' rid i measured at' = Inr None"
proof (cases x)
  case None
  with assms show ?thesis
    by (cases "lg_account_id l"; cases "bm_get (lg_reservations l) rid";
        cases "rsv_reconciliation (the (bm_get (lg_reservations l) rid))")
      (auto simp: decide_reconcile_def split: if_splits)
next
  case (Some e)
  with assms have "decide_reconcile l rid i measured at = Inr (Some e)" "ledger_apply env l e = Inr l'"
    by simp_all
  from this(1) [unfolded decide_reconcile_Some] this(2) show ?thesis
    by (auto simp: ledger_apply_reconciled decide_reconcile_def Let_def reconcile_def)
qed

lemma ledger_command_replays:
  assumes "ledger_decide env l c = Inr es" and "try_fold (ledger_apply env) l es = Inr l'"
  shows "ledger_decide env l' (retimed c at) = Inr []"
proof -
  from assms obtain x where x: "(case c of
        OpenLedger account limits at \<Rightarrow> decide_open l account limits at
      | Reserve operation e at \<Rightarrow> decide_reserve env l operation e at
      | Reconcile reservation i measured at \<Rightarrow> decide_reconcile l reservation i measured at) = Inr x"
    and l': "(case x of None \<Rightarrow> Inr l | Some e \<Rightarrow> ledger_apply env l e) = Inr l'"
    by (auto simp: ledger_decide_def and_then_Inr split: option.splits)
  show ?thesis
    using x decide_open_replays [OF _ l'] decide_reserve_replays [OF _ l']
      decide_reconcile_replays [OF _ l']
    by (cases c) (auto simp: ledger_decide_def)
qed

text \<open>What an accepted request leaves in the ledger, and that no later event takes it away.\<close>

lemma advances_trans: "advances c b \<Longrightarrow> advances b a \<Longrightarrow> advances c a"
  by (auto simp: advances_def Let_def)

lemma advances_asym: "advances b a \<Longrightarrow> \<not> advances a b"
  by (auto simp: advances_def Let_def)

fun remembers :: "platform \<Rightarrow> ledger_command \<Rightarrow> budget_ledger \<Rightarrow> bool" where
  "remembers env (OpenLedger account limits _) l =
     (lg_account_id l = Some account \<and> lg_limits l = Some limits)"
| "remembers env (Reserve operation est _) l =
     (\<exists>account limits q r. lg_account_id l = Some account \<and> lg_limits l = Some limits
        \<and> estimate_quantities est limits = Inr q
        \<and> bm_get (lg_reservations l) (budget_reservation_id_for_operation env account operation) = Some r
        \<and> rsv_operation_id r = operation \<and> rsv_quantities r = q \<and> rsv_estimate r = est)"
| "remembers env (Reconcile rid i measured _) l =
     (\<exists>r stored. lg_account_id l \<noteq> None \<and> bm_get (lg_reservations l) rid = Some r
        \<and> rsv_reconciliation r = Some (i, stored) \<and> (stored = measured \<or> advances stored measured))"

lemma accepted_is_remembered:
  assumes "ledger_decide env l c = Inr es" and "try_fold (ledger_apply env) l es = Inr l'"
  shows "remembers env c l'"
proof -
  from assms obtain x where x: "(case c of
        OpenLedger account limits at \<Rightarrow> decide_open l account limits at
      | Reserve operation e at \<Rightarrow> decide_reserve env l operation e at
      | Reconcile reservation i measured at \<Rightarrow> decide_reconcile l reservation i measured at) = Inr x"
    and l': "(case x of None \<Rightarrow> Inr l | Some e \<Rightarrow> ledger_apply env l e) = Inr l'"
    by (auto simp: ledger_decide_def and_then_Inr split: option.splits)
  show ?thesis
  proof (cases c)
    case (OpenLedger account limits at)
    with x l' show ?thesis
      by (cases "lg_account_id l"; cases "lg_limits l")
        (auto simp: decide_open_def ledger_apply_opened split: if_splits)
  next
    case (Reserve operation est at)
    show ?thesis
    proof (cases x)
      case None
      with Reserve x l' show ?thesis
        by (cases "lg_account_id l"; cases "lg_limits l"; cases "bm_get (lg_reservations l)
            (budget_reservation_id_for_operation env (the (lg_account_id l)) operation)")
          (auto simp: decide_reserve_def and_then_Inr split: if_splits)
    next
      case (Some e)
      with Reserve x l' show ?thesis
        by (auto simp: decide_reserve_Some ledger_apply_reserved reservation_new_def)
    qed
  next
    case (Reconcile rid i measured at)
    show ?thesis
    proof (cases x)
      case None
      with Reconcile x l' show ?thesis
        by (cases "lg_account_id l"; cases "bm_get (lg_reservations l) rid";
            cases "rsv_reconciliation (the (bm_get (lg_reservations l) rid))")
          (auto simp: decide_reconcile_def split: if_splits)
    next
      case (Some e)
      with Reconcile x l' show ?thesis
        by (auto simp: decide_reconcile_Some ledger_apply_reconciled reconcile_def)
    qed
  qed
qed

lemma remembers_apply:
  assumes "remembers env c l" and "ledger_apply env l e = Inr l'"
  shows "remembers env c l'"
proof (cases c)
  case (OpenLedger account limits at)
  with assms show ?thesis by (cases e) (auto simp: ledger_apply_iffs)
next
  case (Reserve operation est at)
  with assms show ?thesis
    by (cases e) (auto simp: ledger_apply_iffs reconcile_def)
next
  case (Reconcile rid i measured at)
  with assms show ?thesis
    by (cases e) (auto simp: ledger_apply_iffs reconcile_def, (metis advances_trans)+)
qed

lemma remembered_answer:
  assumes "remembers env c l"
  shows "ledger_decide env l (retimed c at) = Inr [] \<or>
    (\<exists>rid i measured t r stored. c = Reconcile rid i measured t
       \<and> bm_get (lg_reservations l) rid = Some r \<and> rsv_reconciliation r = Some (i, stored)
       \<and> advances stored measured
       \<and> ledger_decide env l (retimed c at) = Inl (ReconciliationConflict i))"
proof (cases c)
  case (Reconcile rid i measured t)
  with assms obtain a r stored where r: "lg_account_id l = Some a" "bm_get (lg_reservations l) rid = Some r"
    "rsv_reconciliation r = Some (i, stored)" "stored = measured \<or> advances stored measured"
    by auto
  show ?thesis
  proof (cases "stored = measured")
    case False
    with r(4) advances_asym have "advances stored measured" "\<not> advances measured stored" by blast+
    with Reconcile r False show ?thesis
      by (auto simp: ledger_decide_def decide_reconcile_def)
  qed (use Reconcile r in \<open>simp add: ledger_decide_def decide_reconcile_def\<close>)
qed (use assms in \<open>auto simp: ledger_decide_def decide_open_def decide_reserve_def\<close>)

lemma repeated_request:
  assumes "ledger_decide env l c = Inr es" and "try_fold (ledger_apply env) l es = Inr k"
    and "try_fold (ledger_apply env) k es' = Inr l'"
  shows "ledger_decide env l' (retimed c at) = Inr [] \<or>
    (\<exists>rid i measured t r stored. c = Reconcile rid i measured t
       \<and> bm_get (lg_reservations l') rid = Some r \<and> rsv_reconciliation r = Some (i, stored)
       \<and> advances stored measured
       \<and> ledger_decide env l' (retimed c at) = Inl (ReconciliationConflict i))"
proof (rule remembered_answer)
  show "remembers env c l'"
    using assms(3) by (rule try_fold_invariant)
      (use accepted_is_remembered [OF assms(1,2)] remembers_apply in blast)+
qed


section \<open>Properties\<close>

text \<open>A sample account with a ceiling on tokens, a reservation and its reconciliation.\<close>

definition sample_platform :: platform where
  "sample_platform = \<lparr>sha256_hex = (\<lambda>s. s), datetime_checked_add = (\<lambda>t d. Some (t + d)),
     evidence_pack_to_value = (\<lambda>_. None)\<rparr>"

definition sample_limits :: budget_limits where
  "sample_limits = \<lparr>bl_duration = None, bl_tokens = Some 100, bl_cost = None, bl_tool_calls = None,
     bl_currency = None\<rparr>"

definition sample_estimate :: "u64 \<Rightarrow> reservation_estimate" where
  "sample_estimate n = \<lparr>re_duration = UnknownAmount, re_tokens = EstimatedAmount n,
     re_cost = UnknownAmount, re_tool_calls = UnknownAmount\<rparr>"

definition sample_measured :: "u64 \<Rightarrow> measured_quantities" where
  "sample_measured n = \<lparr>mq_duration = UnknownAmount, mq_tokens = ObservedAmount n,
     mq_cost = UnknownAmount, mq_tool_calls = UnknownAmount\<rparr>"

definition ledger_step ::
  "platform \<Rightarrow> ledger_event list \<times> budget_ledger \<Rightarrow> ledger_command \<Rightarrow>
     budget_error + ledger_event list \<times> budget_ledger" where
  "ledger_step env p c =
     and_then (ledger_decide env (snd p) c) (\<lambda>es.
     and_then (try_fold (ledger_apply env) (snd p) es) (\<lambda>l. Inr (fst p @ es, l)))"

lemma ledger_steps_run:
  assumes "try_fold (ledger_step env) p cs = Inr q" and "ledger_run env (fst p) (snd p)"
  shows "ledger_run env (fst q) (snd q)"
  using assms
proof (induction cs arbitrary: p)
  case (Cons c cs)
  then obtain r where r: "ledger_step env p c = Inr r" "try_fold (ledger_step env) r cs = Inr q"
    by (auto simp: and_then_Inr)
  from r(1) obtain es l where "ledger_decide env (snd p) c = Inr es"
    "try_fold (ledger_apply env) (snd p) es = Inr l" "r = (fst p @ es, l)"
    by (auto simp: ledger_step_def and_then_Inr)
  with Cons.prems(2) have "ledger_run env (fst r) (snd r)"
    using journal_of.decided by (metis fst_conv snd_conv)
  with r(2) show ?case by (rule Cons.IH)
qed simp

definition sample_ledger_leaves :: "ledger_command list \<Rightarrow> (budget_ledger \<Rightarrow> bool) \<Rightarrow> bool" where
  "sample_ledger_leaves cs P =
     (case try_fold (ledger_step sample_platform) ([], ledger_empty) cs of
        Inl _ \<Rightarrow> False | Inr p \<Rightarrow> P (snd p))"

lemma sample_ledger_run:
  assumes "sample_ledger_leaves cs P"
  obtains es l where "ledger_run sample_platform es l" and "P l"
proof -
  obtain q where q: "try_fold (ledger_step sample_platform) ([], ledger_empty) cs = Inr q" "P (snd q)"
    using assms by (auto simp: sample_ledger_leaves_def split: sum.splits)
  have "ledger_run sample_platform (fst ([] :: ledger_event list, ledger_empty))
      (snd ([] :: ledger_event list, ledger_empty))"
    by (simp add: journal_of.opened)
  from ledger_steps_run [OF q(1) this] q(2) that show thesis by blast
qed

abbreviation sample_ledger_commands :: "ledger_command list" where
  "sample_ledger_commands \<equiv> [OpenLedger ''acct'' sample_limits 0, Reserve ''op-1'' (sample_estimate 60) 1]"

lemma sample_ledgers:
  shows sample_reserved: "sample_ledger_leaves sample_ledger_commands
      (\<lambda>l. charged l 1 = 60 \<and> lg_account_id l = Some ''acct'' \<and> lg_limits l = Some sample_limits
         \<and> Option.is_none (bm_get (lg_reservations l)
              (budget_reservation_id_for_operation sample_platform ''acct'' ''op-2''))
         \<and> \<not> isl (decide_reserve sample_platform l ''op-2'' (sample_estimate 40) 2)
         \<and> isl (decide_reserve sample_platform l ''op-2'' (sample_estimate 41) 2))"
  by code_simp+

lemma sample_second_reservation:
  obtains es l e l' where "ledger_run sample_platform es l" "charged l 1 = 60"
    "lg_account_id l = Some ''acct''" "lg_limits l = Some sample_limits"
    "bm_get (lg_reservations l) (budget_reservation_id_for_operation sample_platform ''acct'' ''op-2'') = None"
    "decide_reserve sample_platform l ''op-2'' (sample_estimate 40) 2 = Inr (Some e)"
    "ledger_apply sample_platform l e = Inr l'"
proof -
  obtain es l where l: "ledger_run sample_platform es l" "charged l 1 = 60"
    "lg_account_id l = Some ''acct''" "lg_limits l = Some sample_limits"
    "bm_get (lg_reservations l) (budget_reservation_id_for_operation sample_platform ''acct'' ''op-2'') = None"
    and ok: "\<not> isl (decide_reserve sample_platform l ''op-2'' (sample_estimate 40) 2)"
    by (rule sample_ledger_run [OF sample_reserved]) (auto simp: Option.is_none_def)
  have "decide_reserve sample_platform l ''op-2'' (sample_estimate 40) 2 \<noteq> Inr None"
    using l by (auto simp: decide_reserve_def and_then_Inr)
  with ok obtain e where e: "decide_reserve sample_platform l ''op-2'' (sample_estimate 40) 2 = Inr (Some e)"
    by (cases "decide_reserve sample_platform l ''op-2'' (sample_estimate 40) 2") auto
  then obtain l' where "ledger_apply sample_platform l e = Inr l'"
    using decided_event_applies [of sample_platform l "Reserve ''op-2'' (sample_estimate 40) 2" "[e]"]
    by (auto simp: ledger_decide_def and_then_Inr)
  with that l e show thesis by blast
qed

text \<open>
  C30: a new reservation is accepted exactly when it fits.  On an open ledger, an operation without a
  reservation gets one if and only if in every dimension what is already charged plus what the
  estimate asks for stays within the limit; an overflow of the running totals cannot refuse one that
  fits.
\<close>

theorem reservation_accepted_iff_it_fits:
  assumes "lg_account_id l = Some account" and "lg_limits l = Some limits"
    and "estimate_quantities est limits = Inr q"
    and "bm_get (lg_reservations l) (budget_reservation_id_for_operation env account operation) = None"
  shows "(\<exists>e. decide_reserve env l operation est at = Inr (Some e)) \<longleftrightarrow> fits l q"
  using assms ensure_capacity_iff [of l q] by (simp add: decide_reserve_Some)

theorem reservation_accepted_iff_it_fits_witness:
  "\<exists>l. charged l 1 = 60 \<and> fits l \<lparr>bq_duration = 0, bq_tokens = 40, bq_cost = 0, bq_tool_calls = 0\<rparr>
     \<and> (\<exists>e. decide_reserve sample_platform l ''op-2'' (sample_estimate 40) 2 = Inr (Some e))"
proof -
  obtain l e where l: "charged l 1 = 60" "lg_account_id l = Some ''acct''"
    "lg_limits l = Some sample_limits"
    "bm_get (lg_reservations l) (budget_reservation_id_for_operation sample_platform ''acct'' ''op-2'') = None"
    "decide_reserve sample_platform l ''op-2'' (sample_estimate 40) 2 = Inr (Some e)"
    by (rule sample_second_reservation)
  have q: "estimate_quantities (sample_estimate 40) sample_limits =
      Inr \<lparr>bq_duration = 0, bq_tokens = 40, bq_cost = 0, bq_tool_calls = 0\<rparr>"
    by (simp add: estimate_quantities_def reserved_amount_def sample_estimate_def sample_limits_def)
  from reservation_accepted_iff_it_fits [OF l(2,3) q l(4)] l(1,5) show ?thesis by blast
qed

text \<open>
  C12: an accepted reservation never over-commits the account.  In any ledger reached through its own
  decisions, applying a new reservation charges exactly what was estimated and leaves every dimension
  within its limit.
\<close>

theorem reservation_never_overcommits:
  assumes "ledger_run env es l" and "decide_reserve env l operation est at = Inr (Some e)"
    and "ledger_apply env l e = Inr l'"
  shows "\<exists>q limits. lg_limits l = Some limits \<and> estimate_quantities est limits = Inr q
    \<and> lg_limits l' = Some limits
    \<and> (\<forall>k < 4. charged l' k = charged l k + unat (quantity_values q ! k)
         \<and> charged l' k \<le> limit l' k)"
  using run_ledger_inv [OF assms(1)] assms(2,3) by (rule reserve_effect)

theorem reservation_never_overcommits_witness:
  "\<exists>l l' e. charged l 1 = 60 \<and> ledger_apply sample_platform l e = Inr l' \<and> charged l' 1 \<le> limit l' 1"
proof -
  obtain es l e l' where l: "ledger_run sample_platform es l" "charged l 1 = 60"
    "decide_reserve sample_platform l ''op-2'' (sample_estimate 40) 2 = Inr (Some e)"
    "ledger_apply sample_platform l e = Inr l'"
    by (rule sample_second_reservation)
  from reservation_never_overcommits [OF l(1,3,4)] have "1 < (4 :: nat) \<longrightarrow> charged l' 1 \<le> limit l' 1"
    by blast
  then have "charged l' 1 \<le> limit l' 1" by simp
  with l(2,4) show ?thesis by blast
qed

text \<open>
  Replaying the journal of a ledger gives the ledger its writer holds.
\<close>

theorem ledger_journal_replays:
  assumes "ledger_run env es l"
  shows "ledger_rehydrate env es = Inr l"
  using assms by (rule ledger.replay_journal)

theorem ledger_journal_replays_witness:
  "\<exists>es l. ledger_rehydrate sample_platform es = Inr l \<and> charged l 1 = 60"
proof -
  obtain es l where "ledger_run sample_platform es l" "charged l 1 = 60"
    by (rule sample_ledger_run [OF sample_reserved]) blast
  with ledger_journal_replays show ?thesis by blast
qed

definition sample_repeats :: bool where
  "sample_repeats =
     (let c = Reserve ''op-1'' (sample_estimate 60) 1;
          later = Reconcile (budget_reservation_id_for_operation sample_platform ''acct'' ''op-1'')
                    ''rec'' (sample_measured 10) 3 in
      case and_then (ledger_step sample_platform ([], ledger_empty) (OpenLedger ''acct'' sample_limits 0)) (\<lambda>p.
           and_then (ledger_decide sample_platform (snd p) c) (\<lambda>es.
           and_then (try_fold (ledger_apply sample_platform) (snd p) es) (\<lambda>k.
           and_then (ledger_decide sample_platform k later) (\<lambda>es'.
           and_then (try_fold (ledger_apply sample_platform) k es') (\<lambda>l'.
             Inr (es, es', l')))))) of
        Inl _ \<Rightarrow> False | Inr (es, es', l') \<Rightarrow> 0 < length es \<and> 0 < length es')"

lemma sample_repeats_holds: sample_repeats
  by code_simp

text \<open>
  C34: repeating a budget request charges nothing twice.  Once an opening, a reservation or a
  reconciliation was accepted, the same request decides no event at once, and none after any further
  events either, whatever its time.  The one exception is a reconciliation that a later measurement
  has overtaken since: repeating the old measurement is refused as a conflict.
\<close>

theorem repeated_budget_request_decides_nothing:
  assumes "ledger_decide env l c = Inr es" and "try_fold (ledger_apply env) l es = Inr k"
    and "try_fold (ledger_apply env) k es' = Inr l'"
  shows "ledger_decide env k (retimed c at) = Inr []
    \<and> (ledger_decide env l' (retimed c at) = Inr [] \<or>
       (\<exists>rid i measured t r stored. c = Reconcile rid i measured t
          \<and> bm_get (lg_reservations l') rid = Some r \<and> rsv_reconciliation r = Some (i, stored)
          \<and> advances stored measured
          \<and> ledger_decide env l' (retimed c at) = Inl (ReconciliationConflict i)))"
  using ledger_command_replays [OF assms(1,2)] repeated_request [OF assms] by blast

theorem repeated_budget_request_decides_nothing_witness:
  "\<exists>l es k es' l'. ledger_decide sample_platform l (Reserve ''op-1'' (sample_estimate 60) 1) = Inr es
     \<and> es \<noteq> [] \<and> try_fold (ledger_apply sample_platform) l es = Inr k
     \<and> es' \<noteq> [] \<and> try_fold (ledger_apply sample_platform) k es' = Inr l'
     \<and> ledger_decide sample_platform l' (Reserve ''op-1'' (sample_estimate 60) 9) = Inr []"
proof -
  obtain l es k es' l' where
    s: "ledger_decide sample_platform l (Reserve ''op-1'' (sample_estimate 60) 1) = Inr es"
    "try_fold (ledger_apply sample_platform) l es = Inr k" "es \<noteq> []"
    "try_fold (ledger_apply sample_platform) k es' = Inr l'" "es' \<noteq> []"
    using sample_repeats_holds
    by (auto simp: sample_repeats_def Let_def and_then_Inr split: sum.splits)
  from repeated_budget_request_decides_nothing [OF s(1,2,4), of 9]
  have "ledger_decide sample_platform l' (Reserve ''op-1'' (sample_estimate 60) 9) = Inr []" by auto
  with s show ?thesis
    by (intro exI [of _ l] exI [of _ es] exI [of _ k] exI [of _ es'] exI [of _ l']) simp
qed

end
