(* ===== verification/Authorization_Policy.thy ===== *)
theory Authorization_Policy
  imports Step_Records
begin

text \<open>
  The authorization policy of a deployment (\<open>entities/authorization_policy.rs\<close>, its submodules and
  helpers, and \<open>value_objects/authorization\<close>): who may do what where.  A trusted host owns the
  policy and issues grants; a grantee may pass on part of a grant; actions under a separation rule
  need a prior approval by someone else; every answer is recorded.  The policy is event sourced, and
  applying an event checks it again.

  An action is its serialised name.  The rendering of a decision as JSON, whose digest is the
  identifier of the decision, is third-party code: it is the field \<open>decision_to_json\<close> of the platform.
  The search along the parents of a grant is a recursion the code does not bound; it runs here on
  fuel, 256 steps, and returns \<open>None\<close> when that is used up.  \<open>Authorization_Safety\<close> shows that in no
  reachable policy it is.
\<close>


section \<open>Principals, scopes and grants\<close>

datatype principal_kind = HumanPrincipal | ServicePrincipal | WorkerPrincipal | TrustedHost

datatype authentication_method = MutualTls | TrustedTransportMetadata | LocalHostPolicy

record authenticated_principal =
  pr_id :: string
  pr_kind :: principal_kind
  pr_method :: authentication_method

definition principal_validate :: "authenticated_principal \<Rightarrow> unit result" where
  "principal_validate pr =
     require (\<not> (pr_method pr = LocalHostPolicy \<and> pr_kind pr \<noteq> TrustedHost))
       (InvariantViolated ''local host policy authenticates only trusted-host principals'')"

type_synonym authorization_action = string

datatype authorization_scope =
    GlobalScope
  | CeremonyScope string
  | CeremonyTreeScope string
  | ResolvedCeremonyScope string string
  | DefinitionScope string "string option"
  | ArtifactScope string
  | CouncilScope string
  | BudgetScope string

fun covers :: "authorization_scope \<Rightarrow> authorization_scope \<Rightarrow> bool" where
  "covers GlobalScope _ = True"
| "covers (CeremonyScope left) (CeremonyScope right) = (left = right)"
| "covers (CeremonyTreeScope left) (CeremonyTreeScope right) = (left = right)"
| "covers (CeremonyTreeScope root_id) (CeremonyScope ceremony_id) = (root_id = ceremony_id)"
| "covers (CeremonyScope granted) (ResolvedCeremonyScope ceremony_id _) = (granted = ceremony_id)"
| "covers (CeremonyTreeScope granted) (ResolvedCeremonyScope _ root_id) = (granted = root_id)"
| "covers (DefinitionScope left_name left_version) (DefinitionScope right_name right_version) =
     (left_name = right_name \<and> (left_version = None \<or> left_version = right_version))"
| "covers (ArtifactScope left) (ArtifactScope right) = (left = right)"
| "covers (CouncilScope left) (CouncilScope right) = (left = right)"
| "covers (BudgetScope left) (BudgetScope right) = (left = right)"
| "covers _ _ = False"

fun is_resolved_request_scope :: "authorization_scope \<Rightarrow> bool" where
  "is_resolved_request_scope (ResolvedCeremonyScope _ _) = True"
| "is_resolved_request_scope _ = False"

record authorization_grant =
  gr_id :: string
  gr_grantee :: string
  gr_actions :: "authorization_action set"
  gr_scope :: authorization_scope
  gr_valid_from :: int
  gr_valid_until :: "int option"
  gr_delegation_depth :: "8 word"
  gr_issued_by :: authenticated_principal
  gr_parent_grant_id :: "string option"

definition grant_is_active_at :: "authorization_grant \<Rightarrow> int \<Rightarrow> bool" where
  "grant_is_active_at g now =
     (gr_valid_from g \<le> now \<and> (case gr_valid_until g of None \<Rightarrow> True | Some until \<Rightarrow> now < until))"

definition grant_permits ::
  "authorization_grant \<Rightarrow> authorization_action \<Rightarrow> authorization_scope \<Rightarrow> int \<Rightarrow> bool" where
  "grant_permits g action scope now =
     (grant_is_active_at g now \<and> action \<in> gr_actions g \<and> covers (gr_scope g) scope)"

definition grant_validate :: "authorization_grant \<Rightarrow> unit result" where
  "grant_validate g =
     and_then (principal_validate (gr_issued_by g)) (\<lambda>_.
     and_then (require (\<not> is_resolved_request_scope (gr_scope g)) (InvariantViolated
       ''resolved ceremony lineage is an authorization request scope, not a grant scope'')) (\<lambda>_.
     and_then (require (gr_actions g \<noteq> {}) (EmptyCollection ''authorization_grant.actions'')) (\<lambda>_.
       require (case gr_valid_until g of None \<Rightarrow> True | Some until \<Rightarrow> gr_valid_from g < until)
         (InvariantViolated ''authorization grant expiry must follow its validity start''))))"

record separation_rule =
  approval_action :: authorization_action
  execution_action :: authorization_action

definition separation_rule_new ::
  "authorization_action \<Rightarrow> authorization_action \<Rightarrow> separation_rule result" where
  "separation_rule_new approval execution =
     (if approval = execution
      then Inl (InvariantViolated ''authorization separation actions must differ'')
      else Inr \<lparr>approval_action = approval, execution_action = execution\<rparr>)"


section \<open>Requests and decisions\<close>

record authorization_request =
  req_id :: string
  req_principal :: authenticated_principal
  req_action :: authorization_action
  req_scope :: authorization_scope
  req_target_digest :: string
  req_approval_decision_id :: "string option"
  req_accepted_work_decision_id :: "string option"
  req_approved_action :: "authorization_action option"

datatype decision_kind = Allow | Deny

datatype denial_reason =
    NoMatchingGrant | ApprovalRequired | ApprovalInvalid | ApprovalIntentInvalid

record authorization_decision =
  dec_id :: string
  dec_request :: authorization_request
  dec_policy_version :: u64
  dec_kind :: decision_kind
  dec_grant_id :: "string option"
  dec_denial_reason :: "denial_reason option"
  dec_decided_at :: int
  dec_valid_until :: int

record authorization_platform = platform +
  decision_to_json :: "authorization_request \<times> u64 \<times> decision_kind \<times> string option
    \<times> denial_reason option \<times> int \<times> int \<Rightarrow> string option"

definition decision_build ::
  "authorization_platform \<Rightarrow> authorization_request \<Rightarrow> u64 \<Rightarrow> decision_kind \<Rightarrow> string option \<Rightarrow>
     denial_reason option \<Rightarrow> int \<Rightarrow> int \<Rightarrow> authorization_decision result" where
  "decision_build env request version kind grant_id denial decided_at valid_until =
     and_then (require
       (case kind of Allow \<Rightarrow> denial = None | Deny \<Rightarrow> grant_id = None \<and> denial \<noteq> None)
       (InvariantViolated ''authorization decision fields contradict its outcome'')) (\<lambda>_.
     and_then (require (decided_at < valid_until)
       (InvariantViolated ''authorization decision expiry must follow admission'')) (\<lambda>_.
     and_then (ok_or
       (decision_to_json env (request, version, kind, grant_id, denial, decided_at, valid_until))
       (InvariantViolated ''authorization decision cannot be canonicalized'')) (\<lambda>canonical.
       Inr \<lparr>dec_id = sha256_hex env canonical, dec_request = request, dec_policy_version = version,
            dec_kind = kind, dec_grant_id = grant_id, dec_denial_reason = denial,
            dec_decided_at = decided_at, dec_valid_until = valid_until\<rparr>)))"

definition decision_is_live_at :: "authorization_decision \<Rightarrow> int \<Rightarrow> bool" where
  "decision_is_live_at dec now = (now < dec_valid_until dec)"

definition decision_validate ::
  "authorization_platform \<Rightarrow> authorization_decision \<Rightarrow> unit result" where
  "decision_validate env dec =
     and_then (principal_validate (req_principal (dec_request dec))) (\<lambda>_.
     and_then (decision_build env (dec_request dec) (dec_policy_version dec) (dec_kind dec)
       (dec_grant_id dec) (dec_denial_reason dec) (dec_decided_at dec) (dec_valid_until dec))
       (\<lambda>rebuilt.
       require (dec_id rebuilt = dec_id dec)
         (InvariantViolated ''authorization decision id does not seal its contents'')))"

record authorization_evidence =
  ae_decision_id :: string
  ae_request_id :: string
  ae_principal_id :: string
  ae_action :: authorization_action
  ae_scope :: authorization_scope
  ae_target_digest :: string
  ae_policy_version :: u64
  ae_admitted_at :: int
  ae_valid_until :: int

definition decision_evidence :: "authorization_decision \<Rightarrow> int \<Rightarrow> authorization_evidence result" where
  "decision_evidence dec now =
     and_then (require (dec_kind dec = Allow)
       (InvariantViolated ''denied authorization decision has no admission evidence'')) (\<lambda>_.
     and_then (require (decision_is_live_at dec now)
       (InvariantViolated ''authorization admission evidence has expired'')) (\<lambda>_.
       Inr \<lparr>ae_decision_id = dec_id dec, ae_request_id = req_id (dec_request dec),
            ae_principal_id = pr_id (req_principal (dec_request dec)),
            ae_action = req_action (dec_request dec), ae_scope = req_scope (dec_request dec),
            ae_target_digest = req_target_digest (dec_request dec),
            ae_policy_version = dec_policy_version dec, ae_admitted_at = dec_decided_at dec,
            ae_valid_until = dec_valid_until dec\<rparr>))"

record authorization_revocation =
  rev_grant_id :: string
  rev_revoked_by :: authenticated_principal
  rev_reason :: string
  rev_revoked_at :: int

datatype policy_event =
    PolicyOpened string authenticated_principal "separation_rule list" int
  | GrantIssued string authorization_grant int
  | GrantRevoked string authorization_revocation
  | DecisionRecorded string authorization_decision

fun event_policy_id :: "policy_event \<Rightarrow> string" where
  "event_policy_id (PolicyOpened policy_id _ _ _) = policy_id"
| "event_policy_id (GrantIssued policy_id _ _) = policy_id"
| "event_policy_id (GrantRevoked policy_id _) = policy_id"
| "event_policy_id (DecisionRecorded policy_id _) = policy_id"


section \<open>The policy and what it permits\<close>

record authorization_policy =
  ap_id :: "string option"
  ap_owner :: "authenticated_principal option"
  ap_version :: u64
  ap_grants :: "(string, authorization_grant) bmap"
  ap_revoked :: "string set"
  ap_separation_rules :: "(authorization_action, separation_rule) bmap"
  ap_decisions_by_request :: "(string, authorization_decision) bmap"
  ap_decisions_by_id :: "(string, authorization_decision) bmap"

definition policy_empty :: authorization_policy where
  "policy_empty = \<lparr>ap_id = None, ap_owner = None, ap_version = 0, ap_grants = [], ap_revoked = {},
     ap_separation_rules = [], ap_decisions_by_request = [], ap_decisions_by_id = []\<rparr>"

definition validity_contains :: "int option \<Rightarrow> int option \<Rightarrow> bool" where
  "validity_contains parent child =
     (case (parent, child) of
        (None, _) \<Rightarrow> True | (Some _, None) \<Rightarrow> False | (Some p, Some c) \<Rightarrow> c \<le> p)"

definition owner_permits :: "authorization_action \<Rightarrow> bool" where
  "owner_permits action =
     (action \<in> {''read_authorization_policy'', ''issue_authorization_grant'',
        ''revoke_authorization_grant'', ''read_authorization_decisions''})"

definition separation_rule_map ::
  "separation_rule list \<Rightarrow> (authorization_action, separation_rule) bmap result" where
  "separation_rule_map rules =
     (let mapped = bm_of_list (map (\<lambda>rule. (execution_action rule, rule)) rules) in
      if length mapped \<noteq> length rules then Inl (Conflict ''authorization_separation_rule'')
      else Inr mapped)"

definition is_owner :: "authorization_policy \<Rightarrow> authenticated_principal \<Rightarrow> bool" where
  "is_owner p pr = (ap_owner p = Some pr)"

fun grant_chain :: "nat \<Rightarrow> authorization_policy \<Rightarrow> authorization_grant \<Rightarrow> int \<Rightarrow> bool option" where
  "grant_chain 0 p g now = None"
| "grant_chain (Suc fuel) p g now =
     (if gr_id g \<in> ap_revoked p \<or> \<not> grant_is_active_at g now then Some False
      else case gr_parent_grant_id g of
        None \<Rightarrow> Some (is_owner p (gr_issued_by g))
      | Some parent_id \<Rightarrow>
          (case bm_get (ap_grants p) parent_id of
             None \<Rightarrow> Some False
           | Some parent \<Rightarrow>
               if gr_grantee parent = pr_id (gr_issued_by g) then grant_chain fuel p parent now
               else Some False))"

definition grant_chain_is_live ::
  "authorization_policy \<Rightarrow> authorization_grant \<Rightarrow> int \<Rightarrow> bool" where
  "grant_chain_is_live p g now = (grant_chain 256 p g now = Some True)"

definition policy_permits ::
  "authorization_policy \<Rightarrow> authenticated_principal \<Rightarrow> authorization_action \<Rightarrow>
     authorization_scope \<Rightarrow> int \<Rightarrow> bool" where
  "policy_permits p pr action scope now =
     (is_owner p pr \<and> owner_permits action \<or>
      list_ex (\<lambda>g. gr_grantee g = pr_id pr \<and> grant_permits g action scope now
                    \<and> grant_chain_is_live p g now) (bm_values (ap_grants p)))"

definition matching_grant ::
  "authorization_policy \<Rightarrow> authorization_request \<Rightarrow> int \<Rightarrow> authorization_grant option" where
  "matching_grant p request now =
     find (\<lambda>g. gr_grantee g = pr_id (req_principal request)
                \<and> grant_permits g (req_action request) (req_scope request) now
                \<and> grant_chain_is_live p g now) (bm_values (ap_grants p))"

definition may_delegate ::
  "authorization_policy \<Rightarrow> authenticated_principal \<Rightarrow> authorization_grant \<Rightarrow> int \<Rightarrow> bool" where
  "may_delegate p issuer child now =
     (case gr_parent_grant_id child of
        None \<Rightarrow> False
      | Some parent_id \<Rightarrow>
          (case bm_get (ap_grants p) parent_id of
             None \<Rightarrow> False
           | Some parent \<Rightarrow>
               gr_grantee parent = pr_id issuer
               \<and> grant_chain_is_live p parent now
               \<and> ''issue_authorization_grant'' \<in> gr_actions parent
               \<and> gr_actions child \<subseteq> gr_actions parent
               \<and> covers (gr_scope parent) (gr_scope child)
               \<and> gr_valid_from parent \<le> gr_valid_from child
               \<and> validity_contains (gr_valid_until parent) (gr_valid_until child)
               \<and> gr_delegation_depth child < gr_delegation_depth parent))"

definition decision_grant_is_live ::
  "authorization_policy \<Rightarrow> authorization_decision \<Rightarrow> int \<Rightarrow> bool" where
  "decision_grant_is_live p dec now =
     (case dec_grant_id dec of
        Some grant_id \<Rightarrow>
          (case bm_get (ap_grants p) grant_id of
             None \<Rightarrow> False | Some g \<Rightarrow> grant_chain_is_live p g now)
      | None \<Rightarrow> is_owner p (req_principal (dec_request dec))
                \<and> owner_permits (req_action (dec_request dec)))"


section \<open>Separation of duties\<close>

definition approval_suffices ::
  "authorization_policy \<Rightarrow> separation_rule \<Rightarrow> authorization_request \<Rightarrow> authorization_decision \<Rightarrow>
     int \<Rightarrow> bool" where
  "approval_suffices p rule request approval now =
     (dec_kind approval = Allow
      \<and> decision_is_live_at approval now
      \<and> decision_grant_is_live p approval now
      \<and> req_action (dec_request approval) = approval_action rule
      \<and> req_approved_action (dec_request approval) = Some (req_action request)
      \<and> pr_id (req_principal (dec_request approval)) \<noteq> pr_id (req_principal request)
      \<and> covers (req_scope (dec_request approval)) (req_scope request)
      \<and> req_target_digest (dec_request approval) = req_target_digest request)"

definition separation_denial ::
  "authorization_policy \<Rightarrow> authorization_request \<Rightarrow> authorization_decision option \<Rightarrow> int \<Rightarrow>
     denial_reason option" where
  "separation_denial p request approval now =
     (case bm_get (ap_separation_rules p) (req_action request) of
        None \<Rightarrow> None
      | Some rule \<Rightarrow>
          (case req_approval_decision_id request of
             None \<Rightarrow> Some ApprovalRequired
           | Some approval_id \<Rightarrow>
               if (case approval of
                     None \<Rightarrow> False
                   | Some a \<Rightarrow> dec_id a = approval_id \<and> approval_suffices p rule request a now)
               then None else Some ApprovalInvalid))"

definition approval_intent_denial ::
  "authorization_policy \<Rightarrow> authorization_request \<Rightarrow> denial_reason option" where
  "approval_intent_denial p request =
     (case req_approved_action request of
        None \<Rightarrow> None
      | Some action \<Rightarrow>
          if (case bm_get (ap_separation_rules p) action of
                None \<Rightarrow> False | Some rule \<Rightarrow> approval_action rule = req_action request)
          then None else Some ApprovalIntentInvalid)"

definition duty_denial ::
  "authorization_policy \<Rightarrow> authorization_request \<Rightarrow> authorization_decision option \<Rightarrow> int \<Rightarrow>
     denial_reason option" where
  "duty_denial p request approval now =
     (case approval_intent_denial p request of
        Some reason \<Rightarrow> Some reason
      | None \<Rightarrow> separation_denial p request approval now)"

definition accepted_authority_is_valid ::
  "authorization_request \<Rightarrow> authorization_decision \<Rightarrow> bool" where
  "accepted_authority_is_valid request accepted =
     (let before = req_action (dec_request accepted); after = req_action request in
      req_accepted_work_decision_id request = Some (dec_id accepted)
      \<and> dec_kind accepted = Allow
      \<and> req_principal (dec_request accepted) = req_principal request
      \<and> req_scope (dec_request accepted) = req_scope request
      \<and> (if after = ''recover_ceremony_children''
         then before \<in> {''run_ceremony'', ''run_ceremony_step'', ''prepare_ceremony_children'',
                ''apply_ceremony_transition'', ''recover_ceremony_children''}
         else if after = ''complete_ceremony_step'' \<or> after = ''renew_ceremony_step_lease''
         then before \<in> {''claim_ceremony_step'', ''run_ceremony_step'', ''run_ceremony''}
         else False))"


section \<open>Decisions\<close>

definition decide_open_policy ::
  "authorization_policy \<Rightarrow> string \<Rightarrow> authenticated_principal \<Rightarrow> separation_rule list \<Rightarrow> int \<Rightarrow>
     policy_event option result" where
  "decide_open_policy p policy_id owner rules opened_at =
     and_then (principal_validate owner) (\<lambda>_.
     and_then (require (pr_kind owner = TrustedHost) (InvariantViolated
       ''authorization policy owner must be an explicit trusted host'')) (\<lambda>_.
     and_then (separation_rule_map rules) (\<lambda>proposed.
     case (ap_id p, ap_owner p) of
       (None, None) \<Rightarrow> Inr (Some (PolicyOpened policy_id owner rules opened_at))
     | (Some i, Some stored) \<Rightarrow>
         if i = policy_id \<and> stored = owner \<and> ap_separation_rules p = proposed then Inr None
         else Inl (Conflict ''authorization_policy'')
     | _ \<Rightarrow> Inl (Conflict ''authorization_policy''))))"

definition nanos_of_seconds :: "int \<Rightarrow> int" where
  "nanos_of_seconds s = s * 1000000000"

definition decision_ttl_from_seconds :: "u32 \<Rightarrow> u32 result" where
  "decision_ttl_from_seconds seconds =
     (if seconds = 0 \<or> 300 < seconds
      then Inl (OutOfRange ''authorization_decision_ttl_seconds'' (uint seconds) 1 300)
      else Inr seconds)"

type_synonym decision_plan = "authorization_decision \<times> policy_event option"

definition decide_authorize_with_decisions ::
  "authorization_platform \<Rightarrow> authorization_policy \<Rightarrow> authorization_request \<Rightarrow>
     authorization_decision option \<Rightarrow> authorization_decision option \<Rightarrow> int \<Rightarrow> u32 \<Rightarrow>
     decision_plan result" where
  "decide_authorize_with_decisions env p request existing approval now ttl =
     and_then (ok_or (ap_id p) (NotFound ''authorization_policy'')) (\<lambda>policy_id.
     case existing of
       Some e \<Rightarrow>
         if dec_request e = request then Inr (e, None) else Inl (Conflict ''authorization_request'')
     | None \<Rightarrow>
         (let g = matching_grant p request now;
              owner = (is_owner p (req_principal request) \<and> owner_permits (req_action request));
              denial = (if \<not> owner \<and> g = None then Some NoMatchingGrant
                        else duty_denial p request approval now)
          in and_then (ok_or (datetime_checked_add env now (nanos_of_seconds (uint ttl)))
               (InvariantViolated
                  ''authorization decision expiry exceeds supported time range'')) (\<lambda>requested_until.
             let valid_until = (case g of
                   None \<Rightarrow> requested_until
                 | Some grant \<Rightarrow> (case gr_valid_until grant of
                       None \<Rightarrow> requested_until
                     | Some grant_until \<Rightarrow> min grant_until requested_until))
             in and_then (case denial of
                   Some reason \<Rightarrow> decision_build env request (saturating_inc (ap_version p)) Deny
                     None (Some reason) now requested_until
                 | None \<Rightarrow> decision_build env request (saturating_inc (ap_version p)) Allow
                     (map_option gr_id g) None now valid_until) (\<lambda>decision.
                Inr (decision, Some (DecisionRecorded policy_id decision))))))"

definition decide_authorize ::
  "authorization_platform \<Rightarrow> authorization_policy \<Rightarrow> authorization_request \<Rightarrow> int \<Rightarrow> u32 \<Rightarrow>
     decision_plan result" where
  "decide_authorize env p request now ttl =
     decide_authorize_with_decisions env p request
       (bm_get (ap_decisions_by_request p) (req_id request))
       (Option.bind (req_approval_decision_id request) (bm_get (ap_decisions_by_id p))) now ttl"

definition decide_accepted_work ::
  "authorization_platform \<Rightarrow> authorization_policy \<Rightarrow> authorization_request \<Rightarrow>
     authorization_decision option \<Rightarrow> authorization_decision \<Rightarrow> int \<Rightarrow> u32 \<Rightarrow> decision_plan result" where
  "decide_accepted_work env p request existing accepted now ttl =
     and_then (ok_or (ap_id p) (NotFound ''authorization_policy'')) (\<lambda>policy_id.
     case existing of
       Some e \<Rightarrow>
         if dec_request e = request then Inr (e, None) else Inl (Conflict ''authorization_request'')
     | None \<Rightarrow>
         and_then (require (accepted_authority_is_valid request accepted) (InvariantViolated
           ''accepted-work authorization does not match its sealed admission'')) (\<lambda>_.
         and_then (ok_or (datetime_checked_add env now (nanos_of_seconds (uint ttl)))
           (InvariantViolated ''authorization decision expiry exceeds supported time range''))
           (\<lambda>valid_until.
         and_then (decision_build env request (saturating_inc (ap_version p)) Allow None None now
           valid_until) (\<lambda>decision.
           Inr (decision, Some (DecisionRecorded policy_id decision))))))"

definition grant_authority_is_valid ::
  "authorization_policy \<Rightarrow> authenticated_principal \<Rightarrow> authorization_grant \<Rightarrow> int \<Rightarrow> bool" where
  "grant_authority_is_valid p issuer g now =
     (if is_owner p issuer then gr_parent_grant_id g = None else may_delegate p issuer g now)"

definition decide_issue ::
  "authorization_policy \<Rightarrow> authenticated_principal \<Rightarrow> authorization_grant \<Rightarrow> int \<Rightarrow>
     policy_event option result" where
  "decide_issue p issuer g now =
     and_then (grant_validate g) (\<lambda>_.
     and_then (ok_or (ap_id p) (NotFound ''authorization_policy'')) (\<lambda>policy_id.
     and_then (principal_validate issuer) (\<lambda>_.
     and_then (require (gr_issued_by g = issuer) (InvariantViolated
       ''authorization grant issuer must be the authenticated principal'')) (\<lambda>_.
     case bm_get (ap_grants p) (gr_id g) of
       Some existing \<Rightarrow>
         if existing = g then Inr None else Inl (Conflict ''authorization_grant'')
     | None \<Rightarrow>
         and_then (require (grant_authority_is_valid p issuer g now) (InvariantViolated
           ''principal cannot delegate the requested authorization grant'')) (\<lambda>_.
           Inr (Some (GrantIssued policy_id g now)))))))"

definition revocation_is_allowed ::
  "authorization_policy \<Rightarrow> authenticated_principal \<Rightarrow> authorization_grant \<Rightarrow> int \<Rightarrow> bool" where
  "revocation_is_allowed p issuer g now =
     (is_owner p issuer \<or> gr_issued_by g = issuer
      \<or> policy_permits p issuer ''revoke_authorization_grant'' (gr_scope g) now)"

definition decide_revoke ::
  "authorization_policy \<Rightarrow> authenticated_principal \<Rightarrow> string \<Rightarrow> string \<Rightarrow> int \<Rightarrow>
     policy_event option result" where
  "decide_revoke p issuer grant_id reason now =
     and_then (ok_or (ap_id p) (NotFound ''authorization_policy'')) (\<lambda>policy_id.
     and_then (ok_or (bm_get (ap_grants p) grant_id) (NotFound ''authorization_grant'')) (\<lambda>g.
     if grant_id \<in> ap_revoked p then Inr None
     else
       and_then (principal_validate issuer) (\<lambda>_.
       and_then (require (revocation_is_allowed p issuer g now)
         (InvariantViolated ''principal cannot revoke the authorization grant'')) (\<lambda>_.
         Inr (Some (GrantRevoked policy_id \<lparr>rev_grant_id = grant_id, rev_revoked_by = issuer,
           rev_reason = reason, rev_revoked_at = now\<rparr>))))))"


section \<open>Applying events\<close>

definition apply_grant ::
  "authorization_policy \<Rightarrow> authorization_grant \<Rightarrow> int \<Rightarrow> authorization_policy result" where
  "apply_grant p g issued_at =
     and_then (require (ap_id p \<noteq> None) (NotFound ''authorization_policy'')) (\<lambda>_.
     and_then (require (\<not> bm_contains (ap_grants p) (gr_id g))
       (AlreadyExists ''authorization_grant'')) (\<lambda>_.
     and_then (grant_validate g) (\<lambda>_.
     and_then (require (grant_authority_is_valid p (gr_issued_by g) g issued_at) (InvariantViolated
       ''stored authorization grant has invalid delegation authority'')) (\<lambda>_.
       Inr (p\<lparr>ap_grants := bm_insert (gr_id g) g (ap_grants p)\<rparr>)))))"

definition apply_revocation ::
  "authorization_policy \<Rightarrow> authorization_revocation \<Rightarrow> authorization_policy result" where
  "apply_revocation p r =
     and_then (principal_validate (rev_revoked_by r)) (\<lambda>_.
     and_then (ok_or (bm_get (ap_grants p) (rev_grant_id r)) (NotFound ''authorization_grant'')) (\<lambda>g.
     and_then (require (rev_grant_id r \<notin> ap_revoked p)
       (AlreadyExists ''authorization_revocation'')) (\<lambda>_.
     and_then (require (revocation_is_allowed p (rev_revoked_by r) g (rev_revoked_at r))
       (InvariantViolated ''stored authorization revocation has invalid authority'')) (\<lambda>_.
       Inr (p\<lparr>ap_revoked := insert (rev_grant_id r) (ap_revoked p)\<rparr>)))))"

definition decision_authority_is_valid_with_authorities ::
  "authorization_policy \<Rightarrow> authorization_decision \<Rightarrow> authorization_decision option \<Rightarrow>
     authorization_decision option \<Rightarrow> bool" where
  "decision_authority_is_valid_with_authorities p dec approval accepted =
     (let request = dec_request dec; now = dec_decided_at dec in
      if nanos_of_seconds 300 < dec_valid_until dec - now then False
      else
        let continuation = (case accepted of
              None \<Rightarrow> False | Some a \<Rightarrow> accepted_authority_is_valid request a);
            owner = (is_owner p (req_principal request) \<and> owner_permits (req_action request));
            g = Option.bind (dec_grant_id dec) (bm_get (ap_grants p));
            granted = (owner \<and> dec_grant_id dec = None \<or>
              (case g of
                 None \<Rightarrow> False
               | Some grant \<Rightarrow>
                   gr_grantee grant = pr_id (req_principal request)
                   \<and> grant_permits grant (req_action request) (req_scope request) now
                   \<and> grant_chain_is_live p grant now
                   \<and> (case gr_valid_until grant of
                        None \<Rightarrow> True | Some until \<Rightarrow> dec_valid_until dec \<le> until)));
            denial = duty_denial p request approval now
        in case dec_kind dec of
             Allow \<Rightarrow> continuation \<or> granted \<and> denial = None
           | Deny \<Rightarrow>
               dec_grant_id dec = None
               \<and> dec_denial_reason dec =
                   (if \<not> owner \<and> matching_grant p request now = None then Some NoMatchingGrant
                    else denial))"

definition decision_authority_is_valid ::
  "authorization_policy \<Rightarrow> authorization_decision \<Rightarrow> bool" where
  "decision_authority_is_valid p dec =
     decision_authority_is_valid_with_authorities p dec
       (Option.bind (req_approval_decision_id (dec_request dec)) (bm_get (ap_decisions_by_id p)))
       (Option.bind (req_accepted_work_decision_id (dec_request dec))
          (bm_get (ap_decisions_by_id p)))"

definition apply_decision ::
  "authorization_platform \<Rightarrow> authorization_policy \<Rightarrow> authorization_decision \<Rightarrow>
     authorization_policy result" where
  "apply_decision env p dec =
     and_then (decision_validate env dec) (\<lambda>_.
     and_then (require (dec_policy_version dec = saturating_inc (ap_version p)) (InvariantViolated
       ''authorization decision carries the wrong policy version'')) (\<lambda>_.
     and_then (require
       (\<not> bm_contains (ap_decisions_by_request p) (req_id (dec_request dec))
        \<and> \<not> bm_contains (ap_decisions_by_id p) (dec_id dec))
       (AlreadyExists ''authorization_decision'')) (\<lambda>_.
     and_then (require (decision_authority_is_valid p dec) (InvariantViolated
       ''stored authorization decision contradicts the active policy'')) (\<lambda>_.
       Inr (p\<lparr>ap_decisions_by_request :=
                bm_insert (req_id (dec_request dec)) dec (ap_decisions_by_request p),
              ap_decisions_by_id := bm_insert (dec_id dec) dec (ap_decisions_by_id p)\<rparr>)))))"

definition policy_apply ::
  "authorization_platform \<Rightarrow> authorization_policy \<Rightarrow> policy_event \<Rightarrow> authorization_policy result" where
  "policy_apply env p event =
     and_then (require (case ap_id p of None \<Rightarrow> True | Some i \<Rightarrow> event_policy_id event = i)
       (InvariantViolated ''authorization event belongs to another policy'')) (\<lambda>_.
     and_then (case event of
         PolicyOpened policy_id owner rules _ \<Rightarrow>
           and_then (require (ap_id p = None) (AlreadyExists ''authorization_policy'')) (\<lambda>_.
           and_then (principal_validate owner) (\<lambda>_.
           and_then (require (pr_kind owner = TrustedHost) (InvariantViolated
             ''authorization policy owner must be an explicit trusted host'')) (\<lambda>_.
           and_then (separation_rule_map rules) (\<lambda>mapped.
             Inr (p\<lparr>ap_id := Some policy_id, ap_owner := Some owner,
                    ap_separation_rules := mapped\<rparr>)))))
       | GrantIssued _ g issued_at \<Rightarrow> apply_grant p g issued_at
       | GrantRevoked _ r \<Rightarrow> apply_revocation p r
       | DecisionRecorded _ dec \<Rightarrow> apply_decision env p dec) (\<lambda>q.
       Inr (q\<lparr>ap_version := saturating_inc (ap_version q)\<rparr>)))"

definition policy_rehydrate ::
  "authorization_platform \<Rightarrow> policy_event list \<Rightarrow> authorization_policy result" where
  "policy_rehydrate env events = try_fold (policy_apply env) policy_empty events"

text \<open>Applying an event to a projection, which keeps no decisions and is given the ones it needs.\<close>

definition apply_projected_with_authorities ::
  "authorization_platform \<Rightarrow> authorization_policy \<Rightarrow> policy_event \<Rightarrow>
     authorization_decision option \<Rightarrow> authorization_decision option \<Rightarrow>
     authorization_policy result" where
  "apply_projected_with_authorities env p event approval accepted =
     (case event of
        DecisionRecorded policy_id dec \<Rightarrow>
          and_then (require (ap_id p = Some policy_id) (InvariantViolated
            ''authorization event belongs to another policy'')) (\<lambda>_.
          and_then (decision_validate env dec) (\<lambda>_.
          and_then (require (dec_policy_version dec = saturating_inc (ap_version p))
            (InvariantViolated ''authorization decision carries the wrong policy version'')) (\<lambda>_.
          and_then (require (decision_authority_is_valid_with_authorities p dec approval accepted)
            (InvariantViolated
               ''stored authorization decision contradicts the active policy'')) (\<lambda>_.
            Inr (p\<lparr>ap_version := saturating_inc (ap_version p)\<rparr>)))))
      | _ \<Rightarrow> policy_apply env p event)"

definition restore_version ::
  "authorization_policy \<Rightarrow> u64 \<Rightarrow> authorization_policy result" where
  "restore_version p version =
     (if version < ap_version p
      then Inl (InvariantViolated ''authorization projection version precedes its state'')
      else Inr (p\<lparr>ap_version := version\<rparr>))"

end
