(* ===== verification/Authorization_Safety.thy ===== *)
theory Authorization_Safety
  imports Authorization_Policy
begin

text \<open>
  The correctness of the authorization policy, for every policy a journal rehydrates to.  The
  invariant of the policy says where each grant and each recorded decision got its authority from;
  the rest follows: the search along the parents of a grant ends, whatever is permitted is permitted
  by the owner, actions under a separation rule were approved by someone else, and every answer the
  policy gives can be recorded.
\<close>

named_theorems policy_defs

lemmas policy_apply_defs [policy_defs] =
  policy_apply_def apply_grant_def apply_revocation_def apply_decision_def

lemma rehydrate_invariant:
  assumes "policy_rehydrate env es = Inr p" and "P policy_empty"
    and "\<And>p e q. P p \<Longrightarrow> policy_apply env p e = Inr q \<Longrightarrow> P q"
  shows "P p"
  using assms(1) [unfolded policy_rehydrate_def]
  by (rule try_fold_invariant) (use assms(2,3) in blast)+

text \<open>The four ways an event is applied.\<close>

lemma policy_apply_cases:
  assumes "policy_apply env p e = Inr q"
  obtains
    (opened) policy_id owner rules at mapped where "e = PolicyOpened policy_id owner rules at"
      "ap_id p = None" "separation_rule_map rules = Inr mapped" "pr_kind owner = TrustedHost"
      "q = p\<lparr>ap_id := Some policy_id, ap_owner := Some owner, ap_separation_rules := mapped,
             ap_version := saturating_inc (ap_version p)\<rparr>"
  | (issued) policy_id g at where "e = GrantIssued policy_id g at" "ap_id p \<noteq> None"
      "bm_get (ap_grants p) (gr_id g) = None" "grant_validate g = Inr ()"
      "grant_authority_is_valid p (gr_issued_by g) g at"
      "q = p\<lparr>ap_grants := bm_insert (gr_id g) g (ap_grants p),
             ap_version := saturating_inc (ap_version p)\<rparr>"
  | (revoked) policy_id r g where "e = GrantRevoked policy_id r"
      "bm_get (ap_grants p) (rev_grant_id r) = Some g"
      "q = p\<lparr>ap_revoked := insert (rev_grant_id r) (ap_revoked p),
             ap_version := saturating_inc (ap_version p)\<rparr>"
  | (recorded) policy_id dec where "e = DecisionRecorded policy_id dec"
      "bm_get (ap_decisions_by_request p) (req_id (dec_request dec)) = None"
      "bm_get (ap_decisions_by_id p) (dec_id dec) = None" "decision_authority_is_valid p dec"
      "q = p\<lparr>ap_decisions_by_request :=
               bm_insert (req_id (dec_request dec)) dec (ap_decisions_by_request p),
             ap_decisions_by_id := bm_insert (dec_id dec) dec (ap_decisions_by_id p),
             ap_version := saturating_inc (ap_version p)\<rparr>"
proof (cases e)
  case (PolicyOpened i owner rules at)
  with assms show thesis
    by (auto simp: policy_apply_def result_simps intro: opened)
next
  case (GrantIssued i g at)
  with assms show thesis
    by (auto simp: policy_apply_def apply_grant_def bm_contains_def result_simps intro: issued)
next
  case (GrantRevoked i r)
  with assms show thesis
    by (auto simp: policy_apply_def apply_revocation_def result_simps intro: revoked)
next
  case (DecisionRecorded i dec)
  with assms show thesis
    by (auto simp: policy_apply_def apply_decision_def bm_contains_def result_simps intro: recorded)
qed


section \<open>Where grants come from\<close>

text \<open>A grant is contained in another: it was cut from it by its holder.\<close>

definition contained_in :: "authorization_grant \<Rightarrow> authorization_grant \<Rightarrow> bool" where
  "contained_in child parent =
     (gr_actions child \<subseteq> gr_actions parent \<and> covers (gr_scope parent) (gr_scope child)
      \<and> gr_valid_from parent \<le> gr_valid_from child
      \<and> validity_contains (gr_valid_until parent) (gr_valid_until child)
      \<and> gr_delegation_depth child < gr_delegation_depth parent
      \<and> gr_grantee parent = pr_id (gr_issued_by child))"

definition grants_inv :: "authorization_policy \<Rightarrow> bool" where
  "grants_inv p =
     ((ap_id p = None \<longrightarrow> ap_grants p = []) \<and>
      (\<forall>k g. bm_get (ap_grants p) k = Some g \<longrightarrow>
         gr_id g = k \<and> \<not> is_resolved_request_scope (gr_scope g) \<and>
         (case gr_parent_grant_id g of
            None \<Rightarrow> is_owner p (gr_issued_by g)
          | Some parent_id \<Rightarrow>
              \<exists>parent. bm_get (ap_grants p) parent_id = Some parent \<and> contained_in g parent)))"

lemma may_delegate_contained:
  "may_delegate p (gr_issued_by g) g now \<Longrightarrow>
     \<exists>parent_id parent. gr_parent_grant_id g = Some parent_id
       \<and> bm_get (ap_grants p) parent_id = Some parent \<and> contained_in g parent"
  by (auto simp: may_delegate_def contained_in_def split: option.splits)

lemma grants_inv_apply:
  assumes inv: "grants_inv p" and "policy_apply env p e = Inr q"
  shows "grants_inv q"
  using assms(2)
proof (cases rule: policy_apply_cases)
  case (opened policy_id owner rules at mapped)
  with inv show ?thesis by (simp add: grants_inv_def)
next
  case (issued policy_id g at)
  have new: "case gr_parent_grant_id g of
      None \<Rightarrow> is_owner p (gr_issued_by g)
    | Some parent_id \<Rightarrow> \<exists>parent. bm_get (ap_grants p) parent_id = Some parent \<and> contained_in g parent"
    using issued(5) may_delegate_contained [of p g at]
    by (auto simp: grant_authority_is_valid_def split: if_splits option.splits)
  have scope: "\<not> is_resolved_request_scope (gr_scope g)"
    using issued(4) by (auto simp: grant_validate_def result_simps)
  show ?thesis
    unfolding grants_inv_def
  proof (intro conjI allI impI)
    fix k x
    assume get: "bm_get (ap_grants q) k = Some x"
    show "gr_id x = k"
      using get inv issued(6) by (auto simp: grants_inv_def split: if_splits)
    show "\<not> is_resolved_request_scope (gr_scope x)"
      using get inv issued(6) scope by (auto simp: grants_inv_def split: if_splits)
    have "case gr_parent_grant_id x of
        None \<Rightarrow> is_owner p (gr_issued_by x)
      | Some parent_id \<Rightarrow>
          \<exists>parent. bm_get (ap_grants p) parent_id = Some parent \<and> contained_in x parent"
      using get inv issued(6) new by (auto simp: grants_inv_def split: if_splits)
    then show "case gr_parent_grant_id x of
        None \<Rightarrow> is_owner q (gr_issued_by x)
      | Some parent_id \<Rightarrow>
          \<exists>parent. bm_get (ap_grants q) parent_id = Some parent \<and> contained_in x parent"
      using issued(3,6) by (auto simp: is_owner_def split: option.splits)
  qed (use issued(2,6) in simp)
next
  case (revoked policy_id r g)
  with inv show ?thesis by (simp add: grants_inv_def is_owner_def cong: option.case_cong)
next
  case (recorded policy_id dec)
  with inv show ?thesis by (simp add: grants_inv_def is_owner_def cong: option.case_cong)
qed

lemma rehydrated_grants_inv: "policy_rehydrate env es = Inr p \<Longrightarrow> grants_inv p"
  by (erule rehydrate_invariant)
    (simp add: grants_inv_def policy_empty_def, erule grants_inv_apply)

text \<open>The grants a grant descends from, itself first.\<close>

inductive descends :: "authorization_policy \<Rightarrow> authorization_grant \<Rightarrow> authorization_grant \<Rightarrow> bool"
  for p where
  self: "descends p g g"
| parent: "gr_parent_grant_id g = Some parent_id \<Longrightarrow> bm_get (ap_grants p) parent_id = Some parent \<Longrightarrow>
    descends p parent a \<Longrightarrow> descends p g a"


section \<open>The search along parents\<close>

lemma grant_chain_ends:
  assumes "grants_inv p" and "bm_get (ap_grants p) k = Some g"
    and "256 \<le> n + unat (gr_delegation_depth g)"
  shows "grant_chain n p g now \<noteq> None"
  using assms(2,3)
proof (induction n arbitrary: k g)
  case 0
  moreover have "unat (gr_delegation_depth g) < 256"
    using unsigned_less [of "gr_delegation_depth g", where 'a = nat] by simp
  ultimately show ?case by simp
next
  case (Suc n)
  show ?case
  proof (cases "gr_parent_grant_id g")
    case (Some parent_id)
    with assms(1) Suc.prems(1) obtain parent where
      get: "bm_get (ap_grants p) parent_id = Some parent" and "contained_in g parent"
      by (fastforce simp: grants_inv_def)
    then have "unat (gr_delegation_depth g) < unat (gr_delegation_depth parent)"
      by (simp add: contained_in_def word_less_nat_alt)
    with Suc.prems(2) have "grant_chain n p parent now \<noteq> None" by (intro Suc.IH [OF get]) simp
    with Some get show ?thesis by (simp del: not_None_eq)
  qed (simp del: not_None_eq)
qed

lemma grant_chain_more_fuel:
  "grant_chain n p g now \<noteq> None \<Longrightarrow> grant_chain (n + m) p g now = grant_chain n p g now"
proof (induction n arbitrary: g)
  case (Suc n)
  show ?case
  proof (cases "gr_parent_grant_id g")
    case (Some parent_id)
    with Suc show ?thesis by (cases "bm_get (ap_grants p) parent_id") auto
  qed simp
qed simp

text \<open>
  On a policy a journal rehydrates to, the bounded search is the one of the code: it satisfies the
  recursion equation of the source.
\<close>

lemma grant_chain_is_live_unfold:
  assumes inv: "grants_inv p" and g: "bm_get (ap_grants p) k = Some g"
  shows "grant_chain_is_live p g now \<longleftrightarrow>
    gr_id g \<notin> ap_revoked p \<and> grant_is_active_at g now \<and>
    (case gr_parent_grant_id g of
       None \<Rightarrow> is_owner p (gr_issued_by g)
     | Some parent_id \<Rightarrow> \<exists>parent. bm_get (ap_grants p) parent_id = Some parent
         \<and> gr_grantee parent = pr_id (gr_issued_by g) \<and> grant_chain_is_live p parent now)"
proof -
  have enough: "grant_chain (Suc 256) p x now = grant_chain 256 p x now"
    if "bm_get (ap_grants p) j = Some x" for j x
    using grant_chain_more_fuel [of 256 p x now 1] grant_chain_ends [OF inv that, of 256] by simp
  have "grant_chain_is_live p g now \<longleftrightarrow> grant_chain (Suc 256) p g now = Some True"
    by (simp only: grant_chain_is_live_def enough [OF g])
  also have "\<dots> \<longleftrightarrow> gr_id g \<notin> ap_revoked p \<and> grant_is_active_at g now \<and>
    (case gr_parent_grant_id g of
       None \<Rightarrow> is_owner p (gr_issued_by g)
     | Some parent_id \<Rightarrow> \<exists>parent. bm_get (ap_grants p) parent_id = Some parent
         \<and> gr_grantee parent = pr_id (gr_issued_by g) \<and> grant_chain 256 p parent now = Some True)"
    unfolding grant_chain.simps(2) by (auto split: option.splits if_splits)
  finally show ?thesis by (simp only: grant_chain_is_live_def)
qed

definition sound_link :: "authorization_policy \<Rightarrow> int \<Rightarrow> authorization_grant \<Rightarrow> bool" where
  "sound_link p now a = (gr_id a \<notin> ap_revoked p \<and> grant_is_active_at a now
     \<and> (\<exists>k. bm_get (ap_grants p) k = Some a))"

lemma live_chain:
  assumes "bm_get (ap_grants p) k = Some g" and "grant_chain n p g now = Some True"
  shows "\<exists>root. descends p g root \<and> gr_parent_grant_id root = None
      \<and> is_owner p (gr_issued_by root) \<and> (\<forall>a. descends p g a \<longrightarrow> sound_link p now a)"
  using assms
proof (induction n arbitrary: k g)
  case (Suc n)
  then have g: "gr_id g \<notin> ap_revoked p" "grant_is_active_at g now" "sound_link p now g"
    by (auto simp: sound_link_def split: if_splits)
  show ?case
  proof (cases "gr_parent_grant_id g")
    case None
    have "sound_link p now a" if "descends p g a" for a
      using that None g(3) by (cases rule: descends.cases) simp_all
    moreover have "is_owner p (gr_issued_by g)" using Suc.prems(2) None g by simp
    ultimately show ?thesis using None descends.self [of p g] by (intro exI [of _ g]) simp
  next
    case (Some parent_id)
    with Suc.prems(2) g obtain parent where get: "bm_get (ap_grants p) parent_id = Some parent"
      and chain: "grant_chain n p parent now = Some True"
      by (auto split: option.splits if_splits)
    from Suc.IH [OF get chain] obtain root where root: "descends p parent root"
      "gr_parent_grant_id root = None" "is_owner p (gr_issued_by root)"
      and all: "\<forall>a. descends p parent a \<longrightarrow> sound_link p now a"
      by (elim exE conjE)
    have "sound_link p now a" if "descends p g a" for a
      using that by (cases rule: descends.cases) (use Some get g all in simp_all)
    with root descends.parent [OF Some get root(1)] show ?thesis by (intro exI [of _ root]) simp
  qed
qed simp


section \<open>What a chain of grants passes on\<close>

lemma covers_trans:
  "covers a b \<Longrightarrow> covers b c \<Longrightarrow> \<not> is_resolved_request_scope c \<Longrightarrow> covers a c"
  by (cases a; cases b; cases c) auto

lemma descends_contains:
  assumes "descends p g a" and "grants_inv p" and "\<exists>k. bm_get (ap_grants p) k = Some g"
    and "action \<in> gr_actions g" and "covers (gr_scope g) scope" and "\<not> is_resolved_request_scope scope"
  shows "action \<in> gr_actions a \<and> covers (gr_scope a) scope"
  using assms
proof (induction rule: descends.induct)
  case (parent g parent_id x a)
  from parent.prems(2) obtain k where "bm_get (ap_grants p) k = Some g" ..
  with parent.prems(1) parent.hyps(1,2) have "contained_in g x"
    by (fastforce simp: grants_inv_def)
  with parent.prems(3,4,5) have "action \<in> gr_actions x" "covers (gr_scope x) scope"
    using covers_trans by (auto simp: contained_in_def)
  with parent.IH parent.prems(1,5) parent.hyps(2) show ?case by blast
qed simp

text \<open>A grant permits an action by itself and by every grant it descends from.\<close>

definition chain_permits ::
  "authorization_policy \<Rightarrow> authorization_grant \<Rightarrow> authorization_action \<Rightarrow> authorization_scope \<Rightarrow>
     int \<Rightarrow> bool" where
  "chain_permits p g action scope now =
     ((\<exists>root. descends p g root \<and> gr_parent_grant_id root = None \<and> is_owner p (gr_issued_by root)) \<and>
      (\<forall>a. descends p g a \<longrightarrow> gr_id a \<notin> ap_revoked p \<and> grant_permits a action scope now))"

lemma live_grant_chain_permits:
  assumes "grants_inv p" and "bm_get (ap_grants p) k = Some g" and "grant_chain_is_live p g now"
    and "grant_permits g action scope now" and "\<not> is_resolved_request_scope scope"
  shows "chain_permits p g action scope now"
proof -
  from assms(3) have "grant_chain 256 p g now = Some True" by (simp add: grant_chain_is_live_def)
  from live_chain [OF assms(2) this] obtain root where root: "descends p g root"
    "gr_parent_grant_id root = None" "is_owner p (gr_issued_by root)"
    and all: "\<forall>a. descends p g a \<longrightarrow> sound_link p now a"
    by (elim exE conjE)
  have "grant_permits a action scope now" if "descends p g a" for a
    using descends_contains [OF that assms(1) _ _ _ assms(5), of action] all that assms(2,4)
    by (auto simp: grant_permits_def sound_link_def)
  with root all show ?thesis unfolding chain_permits_def sound_link_def by metis
qed

text \<open>The values of the grant map are the grants a lookup finds.\<close>

lemma grants_wf_apply: "bm_wf (ap_grants p) \<Longrightarrow> policy_apply env p e = Inr q \<Longrightarrow> bm_wf (ap_grants q)"
  by (erule policy_apply_cases) auto

lemma rehydrated_grant:
  assumes "policy_rehydrate env es = Inr p" and "g \<in> set (bm_values (ap_grants p))"
  shows "\<exists>k. bm_get (ap_grants p) k = Some g"
proof -
  have "bm_wf (ap_grants p)"
    using assms(1) by (rule rehydrate_invariant) (auto simp: policy_empty_def grants_wf_apply)
  moreover from assms(2) obtain k where "(k, g) \<in> set (ap_grants p)" by (auto simp: bm_values_def)
  ultimately have "bm_get (ap_grants p) k = Some g" by (rule bm_get_of_member)
  then show ?thesis ..
qed

lemma permitted_chain:
  assumes es: "policy_rehydrate env es = Inr p" and "policy_permits p pr action scope now"
    and "\<not> is_resolved_request_scope scope"
  shows "is_owner p pr \<and> owner_permits action \<or>
    (\<exists>k g. bm_get (ap_grants p) k = Some g \<and> gr_grantee g = pr_id pr
       \<and> chain_permits p g action scope now)"
proof -
  have "\<exists>k g. bm_get (ap_grants p) k = Some g \<and> gr_grantee g = pr_id pr
       \<and> chain_permits p g action scope now"
    if g: "g \<in> set (bm_values (ap_grants p))" "gr_grantee g = pr_id pr"
      "grant_permits g action scope now" "grant_chain_is_live p g now" for g
  proof -
    from rehydrated_grant [OF es g(1)] obtain k where k: "bm_get (ap_grants p) k = Some g" ..
    from live_grant_chain_permits [OF rehydrated_grants_inv [OF es] k g(4,3) assms(3)] k g(2)
    show ?thesis by blast
  qed
  with assms(2) show ?thesis by (auto simp: policy_permits_def list_ex_iff)
qed


section \<open>What a delegated grant adds\<close>




section \<open>Separation of duties\<close>

text \<open>
  What entitles a recorded permission: it continues work admitted earlier for the same principal and
  scope, or it is not under a separation rule, or someone else was allowed the approval it names.
\<close>

definition duly_approved ::
  "(string, authorization_decision) bmap \<Rightarrow> separation_rule \<Rightarrow> authorization_decision \<Rightarrow> bool" where
  "duly_approved decisions rule dec =
     (\<exists>approval_id approval. req_approval_decision_id (dec_request dec) = Some approval_id
        \<and> bm_get decisions approval_id = Some approval \<and> dec_kind approval = Allow
        \<and> req_action (dec_request approval) = approval_action rule
        \<and> req_approved_action (dec_request approval) = Some (req_action (dec_request dec))
        \<and> pr_id (req_principal (dec_request approval)) \<noteq> pr_id (req_principal (dec_request dec))
        \<and> req_target_digest (dec_request approval) = req_target_digest (dec_request dec)
        \<and> dec_decided_at dec < dec_valid_until approval)"

definition continues_work ::
  "(string, authorization_decision) bmap \<Rightarrow> authorization_decision \<Rightarrow> bool" where
  "continues_work decisions dec =
     (\<exists>accepted_id accepted. req_accepted_work_decision_id (dec_request dec) = Some accepted_id
        \<and> bm_get decisions accepted_id = Some accepted
        \<and> accepted_authority_is_valid (dec_request dec) accepted)"

definition duties_inv :: "authorization_policy \<Rightarrow> bool" where
  "duties_inv p =
     ((ap_id p = None \<longrightarrow> (\<forall>k dec. bm_get (ap_decisions_by_id p) k = Some dec \<longrightarrow> dec_kind dec = Deny)
         \<and> ap_owner p = None \<and> ap_grants p = []) \<and>
      (\<forall>k dec. bm_get (ap_decisions_by_id p) k = Some dec \<longrightarrow> dec_kind dec = Allow \<longrightarrow>
         continues_work (ap_decisions_by_id p) dec \<or>
         (case bm_get (ap_separation_rules p) (req_action (dec_request dec)) of
            None \<Rightarrow> True
          | Some rule \<Rightarrow> duly_approved (ap_decisions_by_id p) rule dec)))"

lemma authority_allowed:
  assumes "decision_authority_is_valid p dec" and "dec_kind dec = Allow"
  shows "continues_work (ap_decisions_by_id p) dec \<or>
    (case bm_get (ap_separation_rules p) (req_action (dec_request dec)) of
       None \<Rightarrow> True | Some rule \<Rightarrow> duly_approved (ap_decisions_by_id p) rule dec)"
proof (cases "continues_work (ap_decisions_by_id p) dec")
  case False
  let ?approval = "Option.bind (req_approval_decision_id (dec_request dec))
    (bm_get (ap_decisions_by_id p))"
  from assms False have "duty_denial p (dec_request dec) ?approval (dec_decided_at dec) = None"
    by (auto simp: decision_authority_is_valid_def decision_authority_is_valid_with_authorities_def
        continues_work_def Let_def bind_eq_Some_conv split: if_splits option.splits)
  then have "separation_denial p (dec_request dec) ?approval (dec_decided_at dec) = None"
    by (auto simp: duty_denial_def split: option.splits)
  then show ?thesis
    by (auto simp: separation_denial_def approval_suffices_def duly_approved_def
        decision_is_live_at_def bind_eq_Some_conv split: option.splits if_splits)
qed simp

lemma unopened_authority:
  assumes "decision_authority_is_valid p dec" and "ap_owner p = None" and "ap_grants p = []"
    and "\<And>k x. bm_get (ap_decisions_by_id p) k = Some x \<Longrightarrow> dec_kind x = Deny"
  shows "dec_kind dec = Deny"
proof (rule ccontr)
  assume "dec_kind dec \<noteq> Deny"
  then have allow: "dec_kind dec = Allow" by (cases "dec_kind dec") auto
  have "\<not> continues_work (ap_decisions_by_id p) dec"
    using assms(4) by (auto simp: continues_work_def accepted_authority_is_valid_def Let_def)
  with assms(1,2,3) allow show False
    by (auto simp: decision_authority_is_valid_def decision_authority_is_valid_with_authorities_def
        continues_work_def is_owner_def Let_def bind_eq_Some_conv split: if_splits option.splits)
qed

lemma decisions_kept:
  assumes "bm_get m k = None"
  shows "continues_work m dec \<Longrightarrow> continues_work (bm_insert k x m) dec"
    and "duly_approved m rule dec \<Longrightarrow> duly_approved (bm_insert k x m) rule dec"
proof -
  have kept: "bm_get (bm_insert k x m) j = Some y" if "bm_get m j = Some y" for j y
    using that assms by auto
  show "continues_work m dec \<Longrightarrow> continues_work (bm_insert k x m) dec"
    unfolding continues_work_def using kept by metis
  show "duly_approved m rule dec \<Longrightarrow> duly_approved (bm_insert k x m) rule dec"
    unfolding duly_approved_def using kept by metis
qed

lemma duties_inv_apply:
  assumes inv: "duties_inv p" and "policy_apply env p e = Inr q"
  shows "duties_inv q"
  using assms(2)
proof (cases rule: policy_apply_cases)
  case (opened policy_id owner rules at mapped)
  with inv show ?thesis by (fastforce simp: duties_inv_def)
next
  case (issued policy_id g at)
  from issued(2) obtain i where "ap_id p = Some i" by auto
  with issued(6) inv show ?thesis by (simp add: duties_inv_def cong: option.case_cong)
next
  case (revoked policy_id r g)
  with inv show ?thesis by (simp add: duties_inv_def cong: option.case_cong)
next
  case (recorded policy_id dec)
  let ?ds = "bm_insert (dec_id dec) dec (ap_decisions_by_id p)"
  note kept = decisions_kept [OF recorded(3), where x = dec]
  have entitled: "continues_work ?ds d \<or>
      (case bm_get (ap_separation_rules p) (req_action (dec_request d)) of
         None \<Rightarrow> True | Some rule \<Rightarrow> duly_approved ?ds rule d)"
    if "bm_get ?ds k = Some d" "dec_kind d = Allow" for k d
  proof -
    have "continues_work (ap_decisions_by_id p) d \<or>
        (case bm_get (ap_separation_rules p) (req_action (dec_request d)) of
           None \<Rightarrow> True | Some rule \<Rightarrow> duly_approved (ap_decisions_by_id p) rule d)"
    proof (cases "k = dec_id dec")
      case True
      with that(1) have "d = dec" by simp
      with authority_allowed [OF recorded(4)] that(2) show ?thesis by blast
    next
      case False
      with that have "bm_get (ap_decisions_by_id p) k = Some d" by simp
      with inv that(2) show ?thesis unfolding duties_inv_def by blast
    qed
    with kept show ?thesis by (cases "bm_get (ap_separation_rules p) (req_action (dec_request d))") auto
  qed
  have unopened: "(\<forall>k d. bm_get ?ds k = Some d \<longrightarrow> dec_kind d = Deny) \<and> ap_owner p = None
    \<and> ap_grants p = []"
    if "ap_id p = None"
    using inv that unopened_authority [OF recorded(4)] by (auto simp: duties_inv_def)
  have q: "ap_id q = ap_id p" "ap_owner q = ap_owner p" "ap_grants q = ap_grants p"
    "ap_separation_rules q = ap_separation_rules p" "ap_decisions_by_id q = ?ds"
    using recorded(5) by simp_all
  show ?thesis unfolding duties_inv_def q using unopened entitled by blast
qed

lemma rehydrated_duties_inv: "policy_rehydrate env es = Inr p \<Longrightarrow> duties_inv p"
  by (erule rehydrate_invariant) (simp add: duties_inv_def policy_empty_def, erule duties_inv_apply)


section \<open>Answering a request\<close>

lemma decision_build_Inr:
  assumes "decision_build env request version kind grant_id denial decided_at valid_until = Inr dec"
  shows "dec_request dec = request" "dec_policy_version dec = version" "dec_kind dec = kind"
    "dec_grant_id dec = grant_id" "dec_denial_reason dec = denial" "dec_decided_at dec = decided_at"
    "dec_valid_until dec = valid_until" "decided_at < valid_until"
    and "principal_validate (req_principal request) = Inr () \<Longrightarrow> decision_validate env dec = Inr ()"
  using assms
  by (auto simp: decision_build_def decision_validate_def result_simps cong: decision_kind.case_cong)

lemma matching_grant_Some:
  assumes "policy_rehydrate env es = Inr p" and "matching_grant p request now = Some g"
  shows "bm_get (ap_grants p) (gr_id g) = Some g" "gr_grantee g = pr_id (req_principal request)"
    "grant_permits g (req_action request) (req_scope request) now" "grant_chain_is_live p g now"
proof -
  from assms(2) have g: "g \<in> set (bm_values (ap_grants p))" "gr_grantee g = pr_id (req_principal
    request)"
    "grant_permits g (req_action request) (req_scope request) now" "grant_chain_is_live p g now"
    by (auto simp: matching_grant_def find_Some_iff)
  then show "gr_grantee g = pr_id (req_principal request)"
    "grant_permits g (req_action request) (req_scope request) now" "grant_chain_is_live p g now"
    by simp_all
  from rehydrated_grant [OF assms(1) g(1)] rehydrated_grants_inv [OF assms(1)]
  show "bm_get (ap_grants p) (gr_id g) = Some g" by (auto simp: grants_inv_def)
qed

lemma permits_iff_matching:
  "policy_permits p (req_principal request) (req_action request) (req_scope request) now \<longleftrightarrow>
     is_owner p (req_principal request) \<and> owner_permits (req_action request)
     \<or> matching_grant p request now \<noteq> None"
  unfolding policy_permits_def matching_grant_def find_None_iff list_ex_iff by auto

abbreviation named_approval ::
  "authorization_policy \<Rightarrow> authorization_request \<Rightarrow> authorization_decision option" where
  "named_approval p request \<equiv>
     Option.bind (req_approval_decision_id request) (bm_get (ap_decisions_by_id p))"

text \<open>The shape of a new answer.\<close>

lemma decide_authorize_new:
  assumes "decide_authorize env p request now ttl = Inr (dec, Some e)"
  obtains i until where "ap_id p = Some i" "e = DecisionRecorded i dec"
    "bm_get (ap_decisions_by_request p) (req_id request) = None"
    "datetime_checked_add env now (nanos_of_seconds (uint ttl)) = Some until"
    "if policy_permits p (req_principal request) (req_action request) (req_scope request) now
        \<and> duty_denial p request (named_approval p request) now = None
     then decision_build env request (saturating_inc (ap_version p)) Allow
            (map_option gr_id (matching_grant p request now)) None now
            (case Option.bind (matching_grant p request now) gr_valid_until of
               None \<Rightarrow> until | Some grant_until \<Rightarrow> min grant_until until) = Inr dec
     else decision_build env request (saturating_inc (ap_version p)) Deny None
            (if policy_permits p (req_principal request) (req_action request) (req_scope request) now
             then duty_denial p request (named_approval p request) now else Some NoMatchingGrant)
            now until = Inr dec"
proof -
  let ?existing = "bm_get (ap_decisions_by_request p) (req_id request)"
  let ?g = "matching_grant p request now"
  let ?denial = "if \<not> (is_owner p (req_principal request) \<and> owner_permits (req_action request))
    \<and> ?g = None
    then Some NoMatchingGrant else duty_denial p request (named_approval p request) now"
  have none: "?existing = None"
    using assms
    by (cases ?existing) (auto simp: decide_authorize_def decide_authorize_with_decisions_def
        result_simps split: if_splits)
  from assms [unfolded decide_authorize_def decide_authorize_with_decisions_def none Let_def]
  obtain i until where i: "ap_id p = Some i"
    and until: "datetime_checked_add env now (nanos_of_seconds (uint ttl)) = Some until"
    and build: "(case ?denial of
        Some reason \<Rightarrow> decision_build env request (saturating_inc (ap_version p)) Deny None (Some reason)
          now until
      | None \<Rightarrow> decision_build env request (saturating_inc (ap_version p)) Allow (map_option gr_id ?g)
          None now (case ?g of None \<Rightarrow> until | Some grant \<Rightarrow> (case gr_valid_until grant of
            None \<Rightarrow> until | Some grant_until \<Rightarrow> min grant_until until))) = Inr dec"
    and e: "e = DecisionRecorded i dec"
    by (auto simp: result_simps)
  have "(case ?g of None \<Rightarrow> until | Some grant \<Rightarrow> (case gr_valid_until grant of
      None \<Rightarrow> until | Some grant_until \<Rightarrow> min grant_until until)) =
    (case Option.bind ?g gr_valid_until of None \<Rightarrow> until | Some grant_until \<Rightarrow> min grant_until until)"
    by (cases ?g) simp_all
  with build i e none until show thesis
    by (intro that [of i until])
      (auto simp: permits_iff_matching split: option.splits if_splits)
qed

lemma answer_is_exact:
  assumes "decide_authorize env p request now ttl = Inr (dec, Some e)"
  shows "dec_kind dec = Allow \<longleftrightarrow>
    policy_permits p (req_principal request) (req_action request) (req_scope request) now
    \<and> duty_denial p request (named_approval p request) now = None"
  using assms
  by (rule decide_authorize_new) (auto dest!: decision_build_Inr(3) split: if_splits)

lemma answer_authority:
  assumes es: "policy_rehydrate env es = Inr p" and exact: "checked_add_sound env"
    and ttl: "decision_ttl_from_seconds s = Inr ttl"
    and dec: "decide_authorize env p request now ttl = Inr (dec, Some e)"
  shows "decision_authority_is_valid p dec"
proof -
  from dec obtain until where until: "datetime_checked_add env now (nanos_of_seconds (uint ttl)) =
    Some until"
    and build: "if policy_permits p (req_principal request) (req_action request) (req_scope request) now
        \<and> duty_denial p request (named_approval p request) now = None
     then decision_build env request (saturating_inc (ap_version p)) Allow
            (map_option gr_id (matching_grant p request now)) None now
            (case Option.bind (matching_grant p request now) gr_valid_until of
               None \<Rightarrow> until | Some grant_until \<Rightarrow> min grant_until until) = Inr dec
     else decision_build env request (saturating_inc (ap_version p)) Deny None
            (if policy_permits p (req_principal request) (req_action request) (req_scope request) now
             then duty_denial p request (named_approval p request) now else Some NoMatchingGrant)
            now until = Inr dec"
    by (rule decide_authorize_new)
  from ttl have "uint ttl \<le> 300"
    by (auto simp: decision_ttl_from_seconds_def word_less_def split: if_splits)
  moreover from exact until have "until = now + nanos_of_seconds (uint ttl)"
    unfolding checked_add_sound_def by blast
  ultimately have short: "until - now \<le> nanos_of_seconds 300" by (simp add: nanos_of_seconds_def)
  show ?thesis
  proof (cases "policy_permits p (req_principal request) (req_action request) (req_scope request) now
      \<and> duty_denial p request (named_approval p request) now = None")
    case True
    with build have b: "decision_build env request (saturating_inc (ap_version p)) Allow
        (map_option gr_id (matching_grant p request now)) None now
        (case Option.bind (matching_grant p request now) gr_valid_until of
           None \<Rightarrow> until | Some grant_until \<Rightarrow> min grant_until until) = Inr dec" by simp
    note f = decision_build_Inr [OF b]
    have ends: "\<not> nanos_of_seconds 300 < dec_valid_until dec - now"
      using short by (auto simp: f split: option.splits)
    show ?thesis
    proof (cases "matching_grant p request now")
      case None
      with True ends show ?thesis
        by (auto simp: decision_authority_is_valid_def permits_iff_matching Let_def f
            decision_authority_is_valid_with_authorities_def)
    next
      case (Some g)
      note m = matching_grant_Some [OF es Some]
      have "case gr_valid_until g of None \<Rightarrow> True | Some end \<Rightarrow> dec_valid_until dec \<le> end"
        by (auto simp: f Some split: option.splits)
      with True ends Some m show ?thesis
        by (simp add: decision_authority_is_valid_def Let_def f
            decision_authority_is_valid_with_authorities_def)
    qed
  next
    case False
    with build have b: "decision_build env request (saturating_inc (ap_version p)) Deny None
        (if policy_permits p (req_principal request) (req_action request) (req_scope request) now
         then duty_denial p request (named_approval p request) now else Some NoMatchingGrant)
        now until = Inr dec" by (simp only: if_False)
    note f = decision_build_Inr [OF b]
    from short have "\<not> nanos_of_seconds 300 < dec_valid_until dec - now" by (simp add: f)
    then show ?thesis
      by (simp add: decision_authority_is_valid_def Let_def f permits_iff_matching
          decision_authority_is_valid_with_authorities_def)
  qed
qed

lemma answer_is_recordable:
  assumes "policy_rehydrate env es = Inr p" and "checked_add_sound env"
    and "decision_ttl_from_seconds s = Inr ttl" and pr: "principal_validate (req_principal
      request) = Inr ()"
    and dec: "decide_authorize env p request now ttl = Inr (dec, Some e)"
    and fresh: "bm_get (ap_decisions_by_id p) (dec_id dec) = None"
  shows "\<exists>q. policy_apply env p e = Inr q \<and> bm_get (ap_decisions_by_request q) (req_id request) =
    Some dec"
  using dec
proof (rule decide_authorize_new)
  fix i until
  assume i: "ap_id p = Some i" "e = DecisionRecorded i dec"
    "bm_get (ap_decisions_by_request p) (req_id request) = None"
    and build: "if policy_permits p (req_principal request) (req_action request) (req_scope request) now
        \<and> duty_denial p request (named_approval p request) now = None
     then decision_build env request (saturating_inc (ap_version p)) Allow
            (map_option gr_id (matching_grant p request now)) None now
            (case Option.bind (matching_grant p request now) gr_valid_until of
               None \<Rightarrow> until | Some grant_until \<Rightarrow> min grant_until until) = Inr dec
     else decision_build env request (saturating_inc (ap_version p)) Deny None
            (if policy_permits p (req_principal request) (req_action request) (req_scope request) now
             then duty_denial p request (named_approval p request) now else Some NoMatchingGrant)
            now until = Inr dec"
  have "dec_request dec = request" "dec_policy_version dec = saturating_inc (ap_version p)"
    "decision_validate env dec = Inr ()"
    using build pr by (auto dest: decision_build_Inr split: if_splits)
  with i fresh answer_authority [OF assms(1,2,3) dec] show ?thesis
    by (simp add: policy_apply_def apply_decision_def bm_contains_def)
qed


section \<open>An example policy\<close>

definition authz_env :: authorization_platform where
  "authz_env = \<lparr>sha256_hex = (\<lambda>s. s), datetime_checked_add = (\<lambda>t d. Some (t + d)),
     evidence_pack_to_value = (\<lambda>_. None), decision_to_json = (\<lambda>(request, _). Some (req_id request))\<rparr>"

definition sample_host :: authenticated_principal where
  "sample_host = \<lparr>pr_id = ''host'', pr_kind = TrustedHost, pr_method = LocalHostPolicy\<rparr>"

definition sample_person :: "string \<Rightarrow> authenticated_principal" where
  "sample_person name = \<lparr>pr_id = name, pr_kind = HumanPrincipal, pr_method = MutualTls\<rparr>"

definition sample_grant ::
  "string \<Rightarrow> string \<Rightarrow> string set \<Rightarrow> authorization_scope \<Rightarrow> 8 word \<Rightarrow> authenticated_principal \<Rightarrow>
     string option \<Rightarrow> authorization_grant" where
  "sample_grant n grantee actions scope depth issuer parent =
     \<lparr>gr_id = n, gr_grantee = grantee, gr_actions = actions, gr_scope = scope, gr_valid_from = 0,
      gr_valid_until = None, gr_delegation_depth = depth, gr_issued_by = issuer,
      gr_parent_grant_id = parent\<rparr>"

definition sample_auth_request :: "string \<Rightarrow> string \<Rightarrow> string \<Rightarrow> authorization_request" where
  "sample_auth_request n name action =
     \<lparr>req_id = n, req_principal = sample_person name, req_action = action, req_scope = GlobalScope,
      req_target_digest = ''t'', req_approval_decision_id = None,
      req_accepted_work_decision_id = None, req_approved_action = None\<rparr>"

definition sample_allowed :: "authorization_request \<Rightarrow> u64 \<Rightarrow> string \<Rightarrow> authorization_decision" where
  "sample_allowed request version grant_id =
     \<lparr>dec_id = req_id request, dec_request = request, dec_policy_version = version, dec_kind = Allow,
      dec_grant_id = Some grant_id, dec_denial_reason = None, dec_decided_at = 10,
      dec_valid_until = 20\<rparr>"

text \<open>
  A policy with one separation rule and four grants.  The host grants \<open>ann\<close> the tree of a ceremony
  and \<open>ann\<close> passes the ceremony itself on to \<open>bob\<close>; then \<open>ann\<close> approves a publication and \<open>bob\<close> is
  allowed to carry it out.
\<close>

definition sample_policy_journal :: "policy_event list" where
  "sample_policy_journal =
     [PolicyOpened ''main'' sample_host
        [\<lparr>approval_action = ''approve_ceremony_guard'',
          execution_action = ''publish_ceremony_definition''\<rparr>] 0,
      GrantIssued ''main'' (sample_grant ''g1'' ''ann'' {''issue_authorization_grant'',
        ''cancel_ceremony''}
        (CeremonyTreeScope ''child'') 2 sample_host None) 1,
      GrantIssued ''main'' (sample_grant ''g2'' ''bob'' {''cancel_ceremony''}
        (CeremonyScope ''child'') 1 (sample_person ''ann'') (Some ''g1'')) 2,
      GrantIssued ''main'' (sample_grant ''g3'' ''ann'' {''approve_ceremony_guard''} GlobalScope 0
        sample_host None) 3,
      GrantIssued ''main'' (sample_grant ''g4'' ''bob'' {''publish_ceremony_definition''} GlobalScope 0
        sample_host None) 4,
      DecisionRecorded ''main'' (sample_allowed
        (sample_auth_request ''r1'' ''ann'' ''approve_ceremony_guard''
           \<lparr>req_approved_action := Some ''publish_ceremony_definition''\<rparr>) 6 ''g3''),
      DecisionRecorded ''main'' (sample_allowed
        (sample_auth_request ''r2'' ''bob'' ''publish_ceremony_definition''
           \<lparr>req_approval_decision_id := Some ''r1''\<rparr>) 7 ''g4'')]"

definition sample_policy_leaves :: "(authorization_policy \<Rightarrow> bool) \<Rightarrow> bool" where
  "sample_policy_leaves P =
     (case policy_rehydrate authz_env sample_policy_journal of Inl _ \<Rightarrow> False | Inr p \<Rightarrow> P p)"

lemma sample_policy_leavesE:
  assumes "sample_policy_leaves P"
  obtains p where "policy_rehydrate authz_env sample_policy_journal = Inr p" and "P p"
  using assms by (auto simp: sample_policy_leaves_def split: sum.splits)

text \<open>What the second grant of the policy has to be, to permit more than the first.\<close>

definition sample_delegation :: "authorization_policy \<Rightarrow> bool" where
  "sample_delegation p =
     (case (bm_get (ap_grants p) ''g1'', bm_get (ap_grants p) ''g2'') of
       (Some g1, Some g2) \<Rightarrow>
         gr_parent_grant_id g2 = Some ''g1'' \<and> grant_chain_is_live p g2 10
         \<and> ''cancel_ceremony'' \<in> gr_actions g2 \<and> gr_grantee g2 = ''bob'' \<and> gr_grantee g1 = ''ann''
         \<and> \<not> is_owner p (sample_person ''ann'')
         \<and> map gr_id (filter (\<lambda>g. gr_grantee g = ''ann'' \<and> ''cancel_ceremony'' \<in> gr_actions g)
              (bm_values (ap_grants p))) = [''g1'']
         \<and> gr_scope g1 = CeremonyTreeScope ''child'' \<and> gr_scope g2 = CeremonyScope ''child''
     | _ \<Rightarrow> False)"

lemma sample_policy_checks:
  shows sample_policy_permits:
    "sample_policy_leaves (\<lambda>p. policy_permits p (sample_person ''bob'') ''cancel_ceremony''
       (CeremonyScope ''child'') 10 \<and> \<not> owner_permits ''cancel_ceremony'')"
    and sample_policy_widens:
    "sample_policy_leaves sample_delegation"
    and sample_policy_holds:
    "sample_policy_leaves (\<lambda>p. map_option gr_grantee (bm_get (ap_grants p) ''g2'') = Some ''bob'')"
    and sample_policy_separates:
    "sample_policy_leaves (\<lambda>p.
       map_option (\<lambda>d. (dec_kind d, req_action (dec_request d), req_accepted_work_decision_id
         (dec_request d)))
         (bm_get (ap_decisions_by_id p) ''r2'') = Some (Allow, ''publish_ceremony_definition'', None)
       \<and> \<not> Option.is_none (bm_get (ap_separation_rules p) ''publish_ceremony_definition''))"
    and sample_policy_answers:
    "sample_policy_leaves (\<lambda>p.
       case decide_authorize authz_env p (sample_auth_request ''r3'' ''bob''
         ''publish_ceremony_definition'')
         12 5 of
         Inl _ \<Rightarrow> False
       | Inr (dec, e) \<Rightarrow> \<not> Option.is_none e \<and> dec_denial_reason dec = Some ApprovalRequired
           \<and> Option.is_none (bm_get (ap_decisions_by_id p) (dec_id dec)))"
  by code_simp+


section \<open>Properties\<close>

text \<open>
  C10: whatever a policy permits, its owner permitted.  If a principal may do something in a scope
  that needs no lineage, either the principal is the owner, doing what owners do, or it holds a grant
  that descends from one the owner issued, and no grant on the way is revoked, out of its time, or
  narrower than what is permitted.
\<close>

theorem permission_comes_from_the_owner:
  assumes "policy_rehydrate env es = Inr p" and "policy_permits p pr action scope now"
    and "\<not> is_resolved_request_scope scope"
  shows "is_owner p pr \<and> owner_permits action \<or>
    (\<exists>k g. bm_get (ap_grants p) k = Some g \<and> gr_grantee g = pr_id pr
       \<and> chain_permits p g action scope now)"
  using assms by (rule permitted_chain)

theorem permission_comes_from_the_owner_witness:
  "\<exists>p k g. bm_get (ap_grants p) k = Some g \<and> gr_grantee g = ''bob''
     \<and> chain_permits p g ''cancel_ceremony'' (CeremonyScope ''child'') 10"
proof -
  obtain p where "policy_rehydrate authz_env sample_policy_journal = Inr p"
    "policy_permits p (sample_person ''bob'') ''cancel_ceremony'' (CeremonyScope ''child'') 10
       \<and> \<not> owner_permits ''cancel_ceremony''"
    using sample_policy_permits by (rule sample_policy_leavesE)
  then show ?thesis
    using permission_comes_from_the_owner
      [of authz_env sample_policy_journal p "sample_person ''bob''" "''cancel_ceremony''"
        "CeremonyScope ''child''" 10]
    by (auto simp: sample_person_def)
qed

text \<open>
  C11: no one approves their own work.  A recorded permission for an action under a separation rule
  either continues work admitted before, or names an approval of exactly this action on exactly this
  target that was allowed to someone else and had not expired.
\<close>

theorem separated_actions_are_approved:
  assumes "policy_rehydrate env es = Inr p" and "bm_get (ap_decisions_by_id p) k = Some dec"
    and "dec_kind dec = Allow" and "bm_get (ap_separation_rules p) (req_action (dec_request dec)) =
      Some rule"
  shows "continues_work (ap_decisions_by_id p) dec \<or> duly_approved (ap_decisions_by_id p) rule dec"
  using rehydrated_duties_inv [OF assms(1)] assms(2-4) by (fastforce simp: duties_inv_def)

theorem separated_actions_are_approved_witness:
  "\<exists>(p :: authorization_policy) rule dec. dec_kind dec = Allow \<and> duly_approved (ap_decisions_by_id
    p) rule dec"
proof -
  obtain p where p: "policy_rehydrate authz_env sample_policy_journal = Inr p"
    and d: "map_option (\<lambda>d. (dec_kind d, req_action (dec_request d),
          req_accepted_work_decision_id (dec_request d))) (bm_get (ap_decisions_by_id p) ''r2'')
        = Some (Allow, ''publish_ceremony_definition'', None)
      \<and> \<not> Option.is_none (bm_get (ap_separation_rules p) ''publish_ceremony_definition'')"
    using sample_policy_separates by (rule sample_policy_leavesE)
  then obtain dec rule where "bm_get (ap_decisions_by_id p) ''r2'' = Some dec" "dec_kind dec = Allow"
    "bm_get (ap_separation_rules p) (req_action (dec_request dec)) = Some rule"
    "req_accepted_work_decision_id (dec_request dec) = None"
    by (auto simp: Option.is_none_def)
  moreover from this separated_actions_are_approved [OF p this(1,2,3)]
  have "duly_approved (ap_decisions_by_id p) rule dec" by (auto simp: continues_work_def)
  ultimately show ?thesis by blast
qed

text \<open>
  C22: the search along the parents of a grant ends.  The depth of delegation, one byte, grows from a
  grant to its parent, so 256 steps are enough in every policy a journal rehydrates to, and the
  answer is the one the recursion of the code defines.
\<close>

theorem grant_search_ends:
  assumes "policy_rehydrate env es = Inr p" and "bm_get (ap_grants p) k = Some g"
  shows "grant_chain 256 p g now \<noteq> None \<and>
    (grant_chain_is_live p g now \<longleftrightarrow>
       gr_id g \<notin> ap_revoked p \<and> grant_is_active_at g now \<and>
       (case gr_parent_grant_id g of
          None \<Rightarrow> is_owner p (gr_issued_by g)
        | Some parent_id \<Rightarrow> \<exists>parent. bm_get (ap_grants p) parent_id = Some parent
            \<and> gr_grantee parent = pr_id (gr_issued_by g) \<and> grant_chain_is_live p parent now))"
proof
  note inv = rehydrated_grants_inv [OF assms(1)]
  show "grant_chain 256 p g now \<noteq> None" by (rule grant_chain_ends [OF inv assms(2)]) simp
  show "grant_chain_is_live p g now \<longleftrightarrow>
       gr_id g \<notin> ap_revoked p \<and> grant_is_active_at g now \<and>
       (case gr_parent_grant_id g of
          None \<Rightarrow> is_owner p (gr_issued_by g)
        | Some parent_id \<Rightarrow> \<exists>parent. bm_get (ap_grants p) parent_id = Some parent
            \<and> gr_grantee parent = pr_id (gr_issued_by g) \<and> grant_chain_is_live p parent now)"
    by (rule grant_chain_is_live_unfold [OF inv assms(2)])
qed

theorem grant_search_ends_witness:
  "\<exists>p g. gr_grantee g = ''bob'' \<and> grant_chain 256 p g 10 \<noteq> None"
proof -
  obtain p where p: "policy_rehydrate authz_env sample_policy_journal = Inr p"
    and g: "map_option gr_grantee (bm_get (ap_grants p) ''g2'') = Some ''bob''"
    using sample_policy_holds by (rule sample_policy_leavesE)
  from g obtain g where "bm_get (ap_grants p) ''g2'' = Some g" "gr_grantee g = ''bob''" by auto
  with grant_search_ends [OF p this(1), of 10] show ?thesis by blast
qed

text \<open>
  C17: a new answer is exact and can be recorded.  It allows the request exactly when the policy
  permits it and no separation rule stands against it; and unless its digest collides with that of an
  earlier decision, the policy accepts the event, after which the request is known.
\<close>

theorem answers_are_exact_and_recordable:
  assumes "policy_rehydrate env es = Inr p" and "checked_add_sound env"
    and "decision_ttl_from_seconds s = Inr ttl" and "principal_validate (req_principal request) =
      Inr ()"
    and "decide_authorize env p request now ttl = Inr (dec, Some e)"
    and "bm_get (ap_decisions_by_id p) (dec_id dec) = None"
  shows "(dec_kind dec = Allow \<longleftrightarrow>
      policy_permits p (req_principal request) (req_action request) (req_scope request) now
      \<and> duty_denial p request (named_approval p request) now = None)
    \<and> (\<exists>q. policy_apply env p e = Inr q
         \<and> bm_get (ap_decisions_by_request q) (req_id request) = Some dec)"
  using answer_is_exact [OF assms(5)] answer_is_recordable [OF assms] by blast

theorem answers_are_exact_and_recordable_witness:
  "\<exists>p e q dec. policy_apply authz_env p e = Inr q \<and> dec_denial_reason dec = Some ApprovalRequired
     \<and> bm_get (ap_decisions_by_request q) ''r3'' = Some dec"
proof -
  let ?request = "sample_auth_request ''r3'' ''bob'' ''publish_ceremony_definition''"
  obtain p where p: "policy_rehydrate authz_env sample_policy_journal = Inr p"
    and d: "case decide_authorize authz_env p ?request 12 5 of
         Inl _ \<Rightarrow> False
       | Inr (dec, e) \<Rightarrow> \<not> Option.is_none e \<and> dec_denial_reason dec = Some ApprovalRequired
           \<and> Option.is_none (bm_get (ap_decisions_by_id p) (dec_id dec))"
    using sample_policy_answers by (rule sample_policy_leavesE)
  from d obtain dec e where dec: "decide_authorize authz_env p ?request 12 5 = Inr (dec, Some e)"
    "dec_denial_reason dec = Some ApprovalRequired" "bm_get (ap_decisions_by_id p) (dec_id dec) = None"
    by (auto simp: Option.is_none_def split: sum.splits)
  have exact: "checked_add_sound authz_env" by (simp add: checked_add_sound_def authz_env_def)
  have ttl: "decision_ttl_from_seconds 5 = Inr 5" by (simp add: decision_ttl_from_seconds_def)
  have pr: "principal_validate (req_principal ?request) = Inr ()"
    by (simp add: principal_validate_def sample_auth_request_def sample_person_def)
  from answers_are_exact_and_recordable [OF p exact ttl pr dec(1,3)] dec(2) show ?thesis
    by (auto simp: sample_auth_request_def)
qed



end
