(* ===== verification/Audit_Journal.thy ===== *)
theory Audit_Journal
  imports Ceremony_Instance Authorization_Policy
begin

text \<open>
  The audit journal of a ceremony (\<open>entities/audit_record.rs\<close>, \<open>entities/audit_fact.rs\<close>,
  \<open>entities/audit_chain.rs\<close> and \<open>value_objects/audit\<close>): facts sealed into records, each holding the
  digest of its content and of the record before it, and the verifier that reads a journal back.

  What a digest is computed from is written out byte by byte.  The digest itself, the rendering of a
  time and the rendering of an event and of evidence as JSON are third-party code, the fields of
  \<open>audit_platform\<close>.  A trace context is represented by its trace identifier, the only part read.
\<close>


section \<open>Event types and actors\<close>

datatype audit_event_type =
    AuditHostHandoffRecorded | AuditCeremonyDefinitionValidated
  | AuditCeremonyDefinitionPublished | AuditCeremonyInstanceStarted
  | AuditStepStarted | AuditStepLeaseRenewed
  | AuditStepCompleted | AuditStepFailed
  | AuditContextWritten | AuditStateIterationStarted
  | AuditTransitionApplied | AuditInterventionRequested
  | AuditInterventionResponded | AuditInterventionClosed
  | AuditInterventionDeliveryAcknowledged | AuditEvidenceCollected
  | AuditParticipantsBound | AuditReasonAsserted
  | AuditHumanApprovalRecorded | AuditHumanDeferralRecorded
  | AuditChildSpawnPlanned | AuditChildSpawnPlanAdopted
  | AuditChildCompletionAccepted | AuditCeremonyCompleted
  | AuditCeremonyFailed | AuditInstanceImported
  | AuditMemoryRecalled | AuditCeremonyPaused
  | AuditCeremonyResumed | AuditCeremonyCancelled
  | AuditCeremonyDeadlineExceeded | AuditStateDeadlineExceeded
  | AuditStepDeadlineExceeded | AuditLateStepResultObserved
  | AuditExecutionReceiptLinked | AuditSuccessorPlanned
  | AuditSuccessionCarried

fun event_type_as_str :: "audit_event_type \<Rightarrow> string" where
  "event_type_as_str AuditHostHandoffRecorded = ''host_handoff_recorded''"
| "event_type_as_str AuditCeremonyDefinitionValidated = ''ceremony_definition_validated''"
| "event_type_as_str AuditCeremonyDefinitionPublished = ''ceremony_definition_published''"
| "event_type_as_str AuditCeremonyInstanceStarted = ''ceremony_instance_started''"
| "event_type_as_str AuditStepStarted = ''step_started''"
| "event_type_as_str AuditStepLeaseRenewed = ''step_lease_renewed''"
| "event_type_as_str AuditStepCompleted = ''step_completed''"
| "event_type_as_str AuditStepFailed = ''step_failed''"
| "event_type_as_str AuditContextWritten = ''context_written''"
| "event_type_as_str AuditStateIterationStarted = ''state_iteration_started''"
| "event_type_as_str AuditTransitionApplied = ''transition_applied''"
| "event_type_as_str AuditInterventionRequested = ''intervention_requested''"
| "event_type_as_str AuditInterventionResponded = ''intervention_responded''"
| "event_type_as_str AuditInterventionClosed = ''intervention_closed''"
| "event_type_as_str AuditInterventionDeliveryAcknowledged = ''intervention_delivery_acknowledged''"
| "event_type_as_str AuditEvidenceCollected = ''evidence_collected''"
| "event_type_as_str AuditParticipantsBound = ''participants_bound''"
| "event_type_as_str AuditReasonAsserted = ''reason_asserted''"
| "event_type_as_str AuditHumanApprovalRecorded = ''human_approval_recorded''"
| "event_type_as_str AuditHumanDeferralRecorded = ''human_deferral_recorded''"
| "event_type_as_str AuditChildSpawnPlanned = ''child_spawn_planned''"
| "event_type_as_str AuditChildSpawnPlanAdopted = ''child_spawn_plan_adopted''"
| "event_type_as_str AuditChildCompletionAccepted = ''child_completion_accepted''"
| "event_type_as_str AuditCeremonyCompleted = ''ceremony_completed''"
| "event_type_as_str AuditCeremonyFailed = ''ceremony_failed''"
| "event_type_as_str AuditInstanceImported = ''instance_imported''"
| "event_type_as_str AuditMemoryRecalled = ''memory_recalled''"
| "event_type_as_str AuditCeremonyPaused = ''ceremony_paused''"
| "event_type_as_str AuditCeremonyResumed = ''ceremony_resumed''"
| "event_type_as_str AuditCeremonyCancelled = ''ceremony_cancelled''"
| "event_type_as_str AuditCeremonyDeadlineExceeded = ''ceremony_deadline_exceeded''"
| "event_type_as_str AuditStateDeadlineExceeded = ''state_deadline_exceeded''"
| "event_type_as_str AuditStepDeadlineExceeded = ''step_deadline_exceeded''"
| "event_type_as_str AuditLateStepResultObserved = ''late_step_result_observed''"
| "event_type_as_str AuditExecutionReceiptLinked = ''execution_receipt_linked''"
| "event_type_as_str AuditSuccessorPlanned = ''successor_planned''"
| "event_type_as_str AuditSuccessionCarried = ''succession_carried''"

definition event_type :: "ceremony_event \<Rightarrow> audit_event_type" where
  "event_type e = (case e of
     HostHandoffRecorded _ \<Rightarrow> AuditHostHandoffRecorded
   | CeremonyInstanceStarted _ \<Rightarrow> AuditCeremonyInstanceStarted
   | ParticipantsBound _ \<Rightarrow> AuditParticipantsBound
   | StepStarted _ \<Rightarrow> AuditStepStarted
   | StepLeaseRenewed _ \<Rightarrow> AuditStepLeaseRenewed
   | StepCompleted _ \<Rightarrow> AuditStepCompleted
   | StepFailed _ \<Rightarrow> AuditStepFailed
   | ContextWritten _ \<Rightarrow> AuditContextWritten
   | StateIterationStarted _ \<Rightarrow> AuditStateIterationStarted
   | TransitionApplied _ _ \<Rightarrow> AuditTransitionApplied
   | InterventionRequested _ \<Rightarrow> AuditInterventionRequested
   | InterventionResponded _ _ \<Rightarrow> AuditInterventionResponded
   | InterventionClosed _ _ _ \<Rightarrow> AuditInterventionClosed
   | InterventionDeliveryAcknowledged _ _ \<Rightarrow> AuditInterventionDeliveryAcknowledged
   | EvidenceCollected _ \<Rightarrow> AuditEvidenceCollected
   | ReasonAsserted _ \<Rightarrow> AuditReasonAsserted
   | HumanApprovalRecorded _ \<Rightarrow> AuditHumanApprovalRecorded
   | HumanDeferralRecorded _ \<Rightarrow> AuditHumanDeferralRecorded
   | CeremonyCompleted _ _ \<Rightarrow> AuditCeremonyCompleted
   | InstanceImported _ \<Rightarrow> AuditInstanceImported
   | MemoryRecalled _ _ \<Rightarrow> AuditMemoryRecalled
   | ChildSpawnPlanned _ _ \<Rightarrow> AuditChildSpawnPlanned
   | ChildSpawnPlanAdopted _ _ _ \<Rightarrow> AuditChildSpawnPlanAdopted
   | ChildCompletionAccepted _ _ \<Rightarrow> AuditChildCompletionAccepted
   | CeremonyPaused _ _ \<Rightarrow> AuditCeremonyPaused
   | CeremonyResumed _ \<Rightarrow> AuditCeremonyResumed
   | CeremonyCancelled _ _ \<Rightarrow> AuditCeremonyCancelled
   | CeremonyDeadlineExceeded _ _ \<Rightarrow> AuditCeremonyDeadlineExceeded
   | StateDeadlineExceeded _ _ \<Rightarrow> AuditStateDeadlineExceeded
   | StepDeadlineExceeded _ _ _ \<Rightarrow> AuditStepDeadlineExceeded
   | LateStepResultObserved _ _ \<Rightarrow> AuditLateStepResultObserved
   | ExecutionReceiptLinked _ _ _ \<Rightarrow> AuditExecutionReceiptLinked
   | SuccessorPlanned _ \<Rightarrow> AuditSuccessorPlanned
   | SuccessionCarried _ _ \<Rightarrow> AuditSuccessionCarried)"

fun actor_kind_as_str :: "actor_kind \<Rightarrow> string" where
  "actor_kind_as_str HumanActor = ''human''"
| "actor_kind_as_str AgentActor = ''agent''"
| "actor_kind_as_str ServiceActor = ''service''"
| "actor_kind_as_str EngineActor = ''engine''"

record audit_actor =
  act_id :: string
  act_kind :: actor_kind
  act_role_id :: "string option"

definition audit_actor_new :: "string \<Rightarrow> actor_kind \<Rightarrow> string option \<Rightarrow> audit_actor result" where
  "audit_actor_new actor_id kind role =
     (let trimmed = trim actor_id in
      if trimmed = [] then Inl (EmptyField ''audit_actor.actor_id'')
      else if 256 < length trimmed
      then Inl (FieldTooLong ''audit_actor.actor_id'' (length trimmed) 256)
      else Inr \<lparr>act_id = trimmed, act_kind = kind, act_role_id = role\<rparr>)"


section \<open>Facts and records\<close>

record audit_fact =
  fact_event_id :: string
  fact_event :: ceremony_event
  fact_ceremony_id :: string
  fact_definition_name :: string
  fact_definition_version :: string
  fact_occurred_at :: int
  fact_actor :: audit_actor
  fact_correlation_id :: "string option"
  fact_causation_id :: "string option"
  fact_trace :: "string option"

record audit_record =
  aud_event_id :: string
  aud_event_type :: audit_event_type
  aud_schema_version :: u32
  aud_ceremony_id :: string
  aud_definition_name :: string
  aud_definition_version :: string
  aud_sequence :: u64
  aud_occurred_at :: int
  aud_actor :: audit_actor
  aud_correlation_id :: "string option"
  aud_causation_id :: "string option"
  aud_trace_id :: "string option"
  aud_event_schema_version :: "u32 option"
  aud_event :: "ceremony_event option"
  aud_authorization_evidence :: "authorization_evidence option"
  aud_previous_record_hash :: "string option"
  aud_record_hash :: string

record audit_platform =
  sha256 :: "string \<Rightarrow> string"
  rfc3339 :: "int \<Rightarrow> string option"
  event_to_json :: "ceremony_event \<Rightarrow> string option"
  evidence_to_json :: "authorization_evidence \<Rightarrow> string option"

definition has_canonical_shape :: "audit_record \<Rightarrow> bool" where
  "has_canonical_shape r =
     (if aud_schema_version r = 1
      then aud_event r = None \<and> aud_event_schema_version r = None
           \<and> aud_authorization_evidence r = None
      else if aud_schema_version r = 2
      then aud_event r \<noteq> None \<and> aud_event_schema_version r \<noteq> None
           \<and> aud_authorization_evidence r = None
      else if aud_schema_version r = 3
      then aud_event r \<noteq> None \<and> aud_event_schema_version r \<noteq> None
           \<and> aud_authorization_evidence r \<noteq> None
      else False)"


section \<open>The digest of a record\<close>

definition write_field :: "string \<Rightarrow> string" where
  "write_field v = be64 (length v) @ v"

definition write_optional :: "string option \<Rightarrow> string" where
  "write_optional v =
     (case v of None \<Rightarrow> [CHR 0x00] | Some value \<Rightarrow> CHR 0x01 # write_field value)"

definition canonical_scheme :: "u32 \<Rightarrow> string result" where
  "canonical_scheme version =
     (if version = 1 then Inr ''underpass.made.audit-record.v1''
      else if version = 2 then Inr ''underpass.made.audit-record.v2''
      else if version = 3 then Inr ''underpass.made.audit-record.v3''
      else Inl (InvariantViolated ''audit record schema version has no canonical form''))"

definition canonical_envelope :: "audit_record \<Rightarrow> string \<Rightarrow> string" where
  "canonical_envelope r occurred_at =
     be32 (unat (aud_schema_version r))
     @ write_field (aud_event_id r)
     @ write_field (event_type_as_str (aud_event_type r))
     @ write_field (aud_ceremony_id r)
     @ write_field (aud_definition_name r)
     @ write_field (aud_definition_version r)
     @ be64 (unat (aud_sequence r))
     @ write_field occurred_at
     @ write_field (act_id (aud_actor r))
     @ write_field (actor_kind_as_str (act_kind (aud_actor r)))
     @ write_optional (act_role_id (aud_actor r))
     @ write_optional (aud_correlation_id r)
     @ write_optional (aud_causation_id r)
     @ write_optional (aud_trace_id r)
     @ write_optional (aud_previous_record_hash r)"

definition canonical_event :: "audit_platform \<Rightarrow> audit_record \<Rightarrow> string result" where
  "canonical_event env r =
     (if aud_schema_version r \<in> {2, 3}
      then (case (aud_event_schema_version r, aud_event r) of
              (Some version, Some event) \<Rightarrow>
                and_then (ok_or (event_to_json env event)
                  (InvariantViolated ''ceremony event cannot be rendered canonically''))
                  (\<lambda>payload. Inr (be32 (unat version) @ write_field payload))
            | _ \<Rightarrow> Inl (InvariantViolated ''a version-2 audit record must carry its event''))
      else Inr [])"

definition canonical_authorization :: "audit_platform \<Rightarrow> audit_record \<Rightarrow> string result" where
  "canonical_authorization env r =
     (if aud_schema_version r = 3
      then and_then (ok_or (aud_authorization_evidence r) (InvariantViolated
             ''a version-3 audit record must carry authorization evidence'')) (\<lambda>evidence.
           and_then (ok_or (evidence_to_json env evidence)
             (InvariantViolated ''authorization evidence cannot be rendered canonically''))
             (\<lambda>authorization. Inr (write_field authorization)))
      else Inr [])"

definition canonical_record :: "audit_platform \<Rightarrow> audit_record \<Rightarrow> string result" where
  "canonical_record env r =
     and_then (ok_or (rfc3339 env (aud_occurred_at r))
       (InvariantViolated ''audit record timestamp cannot be rendered canonically'')) (\<lambda>occurred_at.
     and_then (canonical_scheme (aud_schema_version r)) (\<lambda>scheme.
     and_then (canonical_event env r) (\<lambda>event.
     and_then (canonical_authorization env r) (\<lambda>authorization.
       Inr (scheme @ canonical_envelope r occurred_at @ event @ authorization)))))"

definition compute_hash :: "audit_platform \<Rightarrow> audit_record \<Rightarrow> string result" where
  "compute_hash env r = and_then (canonical_record env r) (\<lambda>canonical. Inr (sha256 env canonical))"

definition digest_is_intact :: "audit_platform \<Rightarrow> audit_record \<Rightarrow> bool result" where
  "digest_is_intact env r =
     (if \<not> has_canonical_shape r then Inr False
      else and_then (compute_hash env r) (\<lambda>hash. Inr (hash = aud_record_hash r)))"


section \<open>Sealing\<close>

definition validate_authorization_evidence :: "authorization_evidence \<Rightarrow> int \<Rightarrow> unit result" where
  "validate_authorization_evidence evidence occurred_at =
     and_then (require (ae_admitted_at evidence < ae_valid_until evidence) (InvariantViolated
       ''audit authorization evidence expiry must follow admission'')) (\<lambda>_.
       require (ae_admitted_at evidence \<le> occurred_at \<and> occurred_at < ae_valid_until evidence)
         (InvariantViolated ''audit fact must occur while its authorization evidence is live''))"

definition unsealed ::
  "audit_fact \<Rightarrow> authorization_evidence option \<Rightarrow> u32 \<Rightarrow> u64 \<Rightarrow> string option \<Rightarrow> audit_record" where
  "unsealed f evidence version sequence previous =
     \<lparr>aud_event_id = fact_event_id f, aud_event_type = event_type (fact_event f),
      aud_schema_version = version, aud_ceremony_id = fact_ceremony_id f,
      aud_definition_name = fact_definition_name f,
      aud_definition_version = fact_definition_version f, aud_sequence = sequence,
      aud_occurred_at = fact_occurred_at f, aud_actor = fact_actor f,
      aud_correlation_id = fact_correlation_id f, aud_causation_id = fact_causation_id f,
      aud_trace_id = fact_trace f,
      aud_event_schema_version = Some (of_nat (schema_version (fact_event f))),
      aud_event = Some (fact_event f), aud_authorization_evidence = evidence,
      aud_previous_record_hash = previous, aud_record_hash = replicate 32 (CHR 0x00)\<rparr>"

definition seal ::
  "audit_platform \<Rightarrow> audit_fact \<Rightarrow> authorization_evidence option \<Rightarrow> u32 \<Rightarrow> u64 \<Rightarrow> string option \<Rightarrow>
     audit_record result" where
  "seal env f evidence version sequence previous =
     and_then (case evidence of
         None \<Rightarrow> Inr ()
       | Some e \<Rightarrow> validate_authorization_evidence e (fact_occurred_at f)) (\<lambda>_.
     let r = unsealed f evidence version sequence previous
     in and_then (compute_hash env r) (\<lambda>hash. Inr (r\<lparr>aud_record_hash := hash\<rparr>)))"

definition first_record :: "audit_platform \<Rightarrow> audit_fact \<Rightarrow> audit_record result" where
  "first_record env f = seal env f None 2 1 None"

definition first_authorized ::
  "audit_platform \<Rightarrow> audit_fact \<Rightarrow> authorization_evidence \<Rightarrow> audit_record result" where
  "first_authorized env f evidence = seal env f (Some evidence) 3 1 None"

definition validate_predecessor :: "audit_platform \<Rightarrow> audit_record \<Rightarrow> unit result" where
  "validate_predecessor env previous =
     and_then (digest_is_intact env previous) (\<lambda>intact.
       require intact (InvariantViolated
         ''an audit record cannot follow an unsupported or altered predecessor''))"

definition following ::
  "audit_platform \<Rightarrow> audit_fact \<Rightarrow> audit_record \<Rightarrow> audit_record result" where
  "following env f previous =
     and_then (validate_predecessor env previous) (\<lambda>_.
     and_then (require (fact_ceremony_id f = aud_ceremony_id previous) (InvariantViolated
       ''an audit record must belong to the same ceremony as its predecessor'')) (\<lambda>_.
       seal env f None 2 (saturating_inc (aud_sequence previous))
         (Some (aud_record_hash previous))))"

definition following_authorized ::
  "audit_platform \<Rightarrow> audit_fact \<Rightarrow> authorization_evidence \<Rightarrow> audit_record \<Rightarrow>
     audit_record result" where
  "following_authorized env f evidence previous =
     and_then (validate_predecessor env previous) (\<lambda>_.
     and_then (require (fact_ceremony_id f = aud_ceremony_id previous) (InvariantViolated
       ''an audit record must belong to the same ceremony as its predecessor'')) (\<lambda>_.
       seal env f (Some evidence) 3 (saturating_inc (aud_sequence previous))
         (Some (aud_record_hash previous))))"

definition continues :: "audit_record \<Rightarrow> audit_record \<Rightarrow> bool" where
  "continues r previous =
     (aud_ceremony_id r = aud_ceremony_id previous
      \<and> aud_sequence r = saturating_inc (aud_sequence previous)
      \<and> aud_previous_record_hash r = Some (aud_record_hash previous))"


section \<open>Verification\<close>

datatype audit_chain_defect =
    DoesNotStartAtTheBeginning u64
  | DigestAltered u64
  | UnexpectedRoot u64
  | SequenceBroken u64 u64
  | LinkBroken u64
  | ForeignCeremony u64

datatype audit_chain_verdict = Intact | Broken audit_chain_defect

definition digest_defect :: "audit_platform \<Rightarrow> audit_record \<Rightarrow> audit_chain_verdict option" where
  "digest_defect env r =
     (case digest_is_intact env r of
        Inr True \<Rightarrow> None | _ \<Rightarrow> Some (Broken (DigestAltered (aud_sequence r))))"

fun verify_rest :: "audit_platform \<Rightarrow> audit_record \<Rightarrow> audit_record list \<Rightarrow> audit_chain_verdict" where
  "verify_rest env previous [] = Intact"
| "verify_rest env previous (r # rest) =
     (if aud_ceremony_id r \<noteq> aud_ceremony_id previous
      then Broken (ForeignCeremony (aud_sequence r))
      else if aud_sequence r \<noteq> saturating_inc (aud_sequence previous)
      then Broken (SequenceBroken (saturating_inc (aud_sequence previous)) (aud_sequence r))
      else case aud_previous_record_hash r of
        None \<Rightarrow> Broken (UnexpectedRoot (aud_sequence r))
      | Some hash \<Rightarrow>
          if hash \<noteq> aud_record_hash previous then Broken (LinkBroken (aud_sequence r))
          else case digest_defect env r of
            Some verdict \<Rightarrow> verdict
          | None \<Rightarrow> verify_rest env r rest)"

definition audit_verify :: "audit_platform \<Rightarrow> audit_record list \<Rightarrow> audit_chain_verdict" where
  "audit_verify env records =
     (case records of
        [] \<Rightarrow> Intact
      | first # rest \<Rightarrow>
          if aud_sequence first \<noteq> 1
          then Broken (DoesNotStartAtTheBeginning (aud_sequence first))
          else if aud_previous_record_hash first \<noteq> None
          then Broken (UnexpectedRoot (aud_sequence first))
          else case digest_defect env first of
            Some verdict \<Rightarrow> verdict
          | None \<Rightarrow> verify_rest env first rest)"

definition next_sequence :: "audit_record list \<Rightarrow> u64" where
  "next_sequence records =
     (if records = [] then 1 else saturating_inc (aud_sequence (last records)))"

end
