(* ===== verification/Audit_Safety.thy ===== *)
theory Audit_Safety
  imports Audit_Journal
begin

text \<open>
  What the audit journal guarantees.  The bytes a digest is computed from determine the record they
  were written for; a journal sealed record by record verifies; and a journal that verifies is fixed,
  down to its first record, by the digest of its last one.
\<close>


section \<open>Reading fields back\<close>

abbreviation length_fits :: "string \<Rightarrow> bool" where
  "length_fits s \<equiv> length s < 2 ^ 64"

lemma be32_length [simp]: "length (be32 n) = 4"
  by (simp add: be32_def)

lemma be32_append: "be32 (unat a) @ x = be32 (unat b) @ y \<longleftrightarrow> a = b \<and> x = y" for a b :: u32
proof -
  have "unat a < 2 ^ 32" "unat b < 2 ^ 32"
    using unsigned_less [of a, where 'a = nat] unsigned_less [of b, where 'a = nat] by simp_all
  then show ?thesis using be32_inj [of "unat a" "unat b"]
    by (auto simp: append_eq_append_conv unsigned_word_eqI)
qed

lemma be64_append: "be64 (unat a) @ x = be64 (unat b) @ y \<longleftrightarrow> a = b \<and> x = y" for a b :: u64
proof -
  have "unat a < 2 ^ 64" "unat b < 2 ^ 64"
    using unsigned_less [of a, where 'a = nat] unsigned_less [of b, where 'a = nat] by simp_all
  then show ?thesis using be64_inj [of "unat a" "unat b"]
    by (auto simp: append_eq_append_conv unsigned_word_eqI)
qed

lemma write_field_append:
  assumes "length_fits a" and "length_fits b"
  shows "write_field a @ x = write_field b @ y \<longleftrightarrow> a = b \<and> x = y"
proof
  assume eq: "write_field a @ x = write_field b @ y"
  then have "be64 (length a) = be64 (length b)" and rest: "a @ x = b @ y"
    by (simp_all add: write_field_def append_eq_append_conv)
  then have "length a = length b" using assms by (intro be64_inj)
  with rest show "a = b \<and> x = y" by simp
qed simp

lemma write_field_inj: "length_fits a \<Longrightarrow> length_fits b \<Longrightarrow> write_field a = write_field b \<longleftrightarrow> a = b"
  using write_field_append [of a b "[]" "[]"] by simp

lemma write_optional_append:
  assumes "pred_option length_fits a" and "pred_option length_fits b"
  shows "write_optional a @ x = write_optional b @ y \<longleftrightarrow> a = b \<and> x = y"
  using assms write_field_append by (cases a; cases b) (auto simp: write_optional_def)


section \<open>The digest input determines the record\<close>

definition all_event_types :: "audit_event_type list" where
  "all_event_types = [
     AuditHostHandoffRecorded, AuditCeremonyDefinitionValidated,
     AuditCeremonyDefinitionPublished, AuditCeremonyInstanceStarted,
     AuditStepStarted, AuditStepLeaseRenewed,
     AuditStepCompleted, AuditStepFailed,
     AuditContextWritten, AuditStateIterationStarted,
     AuditTransitionApplied, AuditInterventionRequested,
     AuditInterventionResponded, AuditInterventionClosed,
     AuditInterventionDeliveryAcknowledged, AuditEvidenceCollected,
     AuditParticipantsBound, AuditReasonAsserted,
     AuditHumanApprovalRecorded, AuditHumanDeferralRecorded,
     AuditChildSpawnPlanned, AuditChildSpawnPlanAdopted,
     AuditChildCompletionAccepted, AuditCeremonyCompleted,
     AuditCeremonyFailed, AuditInstanceImported,
     AuditMemoryRecalled, AuditCeremonyPaused,
     AuditCeremonyResumed, AuditCeremonyCancelled,
     AuditCeremonyDeadlineExceeded, AuditStateDeadlineExceeded,
     AuditStepDeadlineExceeded, AuditLateStepResultObserved,
     AuditExecutionReceiptLinked, AuditSuccessorPlanned,
     AuditSuccessionCarried]"

lemma all_event_types_complete: "t \<in> set all_event_types"
  by (cases t) (simp_all add: all_event_types_def)

lemma event_type_names_distinct: "distinct (map event_type_as_str all_event_types)"
  by code_simp

lemma event_type_as_str_inj: "event_type_as_str t = event_type_as_str u \<longleftrightarrow> t = u"
  using event_type_names_distinct all_event_types_complete by (auto simp: distinct_map inj_on_def)

lemma actor_kind_as_str_inj: "actor_kind_as_str k = actor_kind_as_str l \<longleftrightarrow> k = l"
  by (cases k; cases l) simp_all

lemma short_names: "length_fits (event_type_as_str t)" "length_fits (actor_kind_as_str k)"
  by (cases t; simp) (cases k; simp)

text \<open>
  What a record must satisfy to be held in memory, and what the renderings of two records must
  satisfy to be told apart: equal texts come from equal values.
\<close>

definition record_fits :: "audit_platform \<Rightarrow> audit_record \<Rightarrow> bool" where
  "record_fits env r =
     (length_fits (aud_event_id r) \<and> length_fits (aud_ceremony_id r) \<and> length_fits (aud_definition_name r)
      \<and> length_fits (aud_definition_version r) \<and> length_fits (act_id (aud_actor r))
      \<and> pred_option length_fits (act_role_id (aud_actor r)) \<and> pred_option length_fits (aud_correlation_id r)
      \<and> pred_option length_fits (aud_causation_id r) \<and> pred_option length_fits (aud_trace_id r)
      \<and> pred_option length_fits (aud_previous_record_hash r)
      \<and> pred_option length_fits (rfc3339 env (aud_occurred_at r))
      \<and> pred_option length_fits (Option.bind (aud_event r) (event_to_json env))
      \<and> pred_option length_fits (Option.bind (aud_authorization_evidence r) (evidence_to_json env)))"

definition told_apart :: "('a \<Rightarrow> string option) \<Rightarrow> 'a \<Rightarrow> 'a \<Rightarrow> bool" where
  "told_apart render x y = (render x = render y \<longrightarrow> render x \<noteq> None \<longrightarrow> x = y)"

definition renders_apart :: "audit_platform \<Rightarrow> audit_record \<Rightarrow> audit_record \<Rightarrow> bool" where
  "renders_apart env r s =
     (told_apart (rfc3339 env) (aud_occurred_at r) (aud_occurred_at s)
      \<and> told_apart (\<lambda>e. Option.bind e (event_to_json env)) (aud_event r) (aud_event s)
      \<and> told_apart (\<lambda>e. Option.bind e (evidence_to_json env)) (aud_authorization_evidence r)
          (aud_authorization_evidence s))"

lemma canonical_scheme_append:
  assumes "canonical_scheme v = Inr a" and "canonical_scheme w = Inr b"
  shows "a @ x = b @ y \<longleftrightarrow> v = w \<and> x = y"
proof -
  from assms have "length a = length b" by (auto simp: canonical_scheme_def split: if_splits)
  moreover from assms have "a = b \<longleftrightarrow> v = w" by (auto simp: canonical_scheme_def split: if_splits)
  ultimately show ?thesis by auto
qed

lemma canonical_envelope_append:
  assumes "record_fits env r" and "record_fits env s"
    and "rfc3339 env (aud_occurred_at r) = Some t" and "rfc3339 env (aud_occurred_at s) = Some u"
    and "canonical_envelope r t @ x = canonical_envelope s u @ y"
  shows "aud_schema_version r = aud_schema_version s \<and> aud_event_id r = aud_event_id s
    \<and> aud_event_type r = aud_event_type s \<and> aud_ceremony_id r = aud_ceremony_id s
    \<and> aud_definition_name r = aud_definition_name s
    \<and> aud_definition_version r = aud_definition_version s \<and> aud_sequence r = aud_sequence s
    \<and> t = u \<and> aud_actor r = aud_actor s \<and> aud_correlation_id r = aud_correlation_id s
    \<and> aud_causation_id r = aud_causation_id s \<and> aud_trace_id r = aud_trace_id s
    \<and> aud_previous_record_hash r = aud_previous_record_hash s \<and> x = y"
proof -
  have fit: "length_fits (aud_event_id r)" "length_fits (aud_ceremony_id r)" "length_fits (aud_definition_name r)"
    "length_fits (aud_definition_version r)" "length_fits (act_id (aud_actor r))" "length_fits t"
    "pred_option length_fits (act_role_id (aud_actor r))" "pred_option length_fits (aud_correlation_id r)"
    "pred_option length_fits (aud_causation_id r)" "pred_option length_fits (aud_trace_id r)"
    "pred_option length_fits (aud_previous_record_hash r)"
    "length_fits (aud_event_id s)" "length_fits (aud_ceremony_id s)" "length_fits (aud_definition_name s)"
    "length_fits (aud_definition_version s)" "length_fits (act_id (aud_actor s))" "length_fits u"
    "pred_option length_fits (act_role_id (aud_actor s))" "pred_option length_fits (aud_correlation_id s)"
    "pred_option length_fits (aud_causation_id s)" "pred_option length_fits (aud_trace_id s)"
    "pred_option length_fits (aud_previous_record_hash s)"
    using assms(1-4) by (simp_all only: record_fits_def option.pred_inject)
  note cancel = be32_append be64_append write_field_append [OF short_names(1) short_names(1)]
    write_field_append [OF short_names(2) short_names(2)]
    write_field_append [OF fit(1) fit(12)] write_field_append [OF fit(2) fit(13)]
    write_field_append [OF fit(3) fit(14)] write_field_append [OF fit(4) fit(15)]
    write_field_append [OF fit(5) fit(16)] write_field_append [OF fit(6) fit(17)]
    write_optional_append [OF fit(7) fit(18)] write_optional_append [OF fit(8) fit(19)]
    write_optional_append [OF fit(9) fit(20)] write_optional_append [OF fit(10) fit(21)]
    write_optional_append [OF fit(11) fit(22)] event_type_as_str_inj actor_kind_as_str_inj
  from assms(5) show ?thesis
    unfolding canonical_envelope_def append_assoc cancel by (cases "aud_actor r"; cases "aud_actor s") simp
qed

lemma canonical_event_eq:
  assumes "record_fits env r" and "record_fits env s" and "renders_apart env r s"
    and "has_canonical_shape r" and "has_canonical_shape s"
    and "aud_schema_version r = aud_schema_version s"
    and "canonical_event env r = Inr a" and "canonical_event env s = Inr b" and "a @ x = b @ y"
  shows "aud_event r = aud_event s \<and> aud_event_schema_version r = aud_event_schema_version s \<and> x = y"
proof (cases "aud_schema_version r = 1")
  case True
  with assms(4-9) show ?thesis by (auto simp: has_canonical_shape_def canonical_event_def)
next
  case False
  with assms(4,5,6) have v: "aud_schema_version r \<in> {2, 3}" "aud_schema_version s \<in> {2, 3}"
    by (auto simp: has_canonical_shape_def split: if_splits)
  with assms(4,5) obtain vr er vs es where
    r: "aud_event_schema_version r = Some vr" "aud_event r = Some er" and
    s: "aud_event_schema_version s = Some vs" "aud_event s = Some es"
    by (auto simp: has_canonical_shape_def)
  with assms(7,8) v obtain jr js where
    jr: "event_to_json env er = Some jr" "a = be32 (unat vr) @ write_field jr" and
    js: "event_to_json env es = Some js" "b = be32 (unat vs) @ write_field js"
    by (auto simp: canonical_event_def result_simps)
  from assms(1,2) r s jr js have "length_fits jr" "length_fits js" by (simp_all add: record_fits_def)
  from assms(9) jr js have "vr = vs" "jr = js" "x = y"
    by (simp_all add: be32_append write_field_append [OF \<open>length_fits jr\<close> \<open>length_fits js\<close>])
  with assms(3) r s jr js show ?thesis by (simp add: renders_apart_def told_apart_def)
qed

lemma canonical_authorization_eq:
  assumes "record_fits env r" and "record_fits env s" and "renders_apart env r s"
    and "has_canonical_shape r" and "has_canonical_shape s"
    and "aud_schema_version r = aud_schema_version s"
    and "canonical_authorization env r = Inr a" and "canonical_authorization env s = Inr a"
  shows "aud_authorization_evidence r = aud_authorization_evidence s"
proof (cases "aud_schema_version r = 3")
  case True
  with assms(6,7,8) obtain er es jr js where
    r: "aud_authorization_evidence r = Some er" "evidence_to_json env er = Some jr" "a = write_field jr" and
    s: "aud_authorization_evidence s = Some es" "evidence_to_json env es = Some js" "a = write_field js"
    by (auto simp: canonical_authorization_def result_simps)
  from assms(1,2) r s have "length_fits jr" "length_fits js" by (simp_all add: record_fits_def)
  with r s have "jr = js" by (simp add: write_field_inj)
  with assms(3) r s show ?thesis by (simp add: renders_apart_def told_apart_def)
next
  case False
  with assms(4,5,6) show ?thesis by (auto simp: has_canonical_shape_def split: if_splits)
qed

lemma canonical_record_inj:
  assumes "record_fits env r" and "record_fits env s" and "renders_apart env r s"
    and "has_canonical_shape r" and "has_canonical_shape s"
    and "canonical_record env r = Inr c" and "canonical_record env s = Inr c"
    and "aud_record_hash r = aud_record_hash s"
  shows "r = s"
proof -
  from assms(6) obtain t a ea za where r: "rfc3339 env (aud_occurred_at r) = Some t"
    "canonical_scheme (aud_schema_version r) = Inr a" "canonical_event env r = Inr ea"
    "canonical_authorization env r = Inr za" "c = a @ canonical_envelope r t @ ea @ za"
    by (auto simp: canonical_record_def result_simps)
  from assms(7) obtain u b eb zb where s: "rfc3339 env (aud_occurred_at s) = Some u"
    "canonical_scheme (aud_schema_version s) = Inr b" "canonical_event env s = Inr eb"
    "canonical_authorization env s = Inr zb" "c = b @ canonical_envelope s u @ eb @ zb"
    by (auto simp: canonical_record_def result_simps)
  from r(5) s(5) have "a @ canonical_envelope r t @ ea @ za = b @ canonical_envelope s u @ eb @ zb"
    by (rule trans [OF sym])
  then have "canonical_envelope r t @ ea @ za = canonical_envelope s u @ eb @ zb"
    unfolding canonical_scheme_append [OF r(2) s(2)] by (rule conjunct2)
  note env = canonical_envelope_append [OF assms(1,2) r(1) s(1) this]
  then have version: "aud_schema_version r = aud_schema_version s" and rest: "ea @ za = eb @ zb" by simp_all
  note ev = canonical_event_eq [OF assms(1-5) version r(3) s(3) rest]
  then have "za = zb" by simp
  with r(4) s(4) have "aud_authorization_evidence r = aud_authorization_evidence s"
    by (intro canonical_authorization_eq [OF assms(1-5) version]) simp_all
  moreover have "aud_occurred_at r = aud_occurred_at s"
    using assms(3) r(1) s(1) env by (simp add: renders_apart_def told_apart_def)
  ultimately show ?thesis
    using env ev assms(8) by (cases r; cases s) simp
qed


section \<open>What verification checks\<close>

definition link_ok :: "audit_platform \<Rightarrow> audit_record option \<Rightarrow> audit_record \<Rightarrow> bool" where
  "link_ok env previous r =
     (digest_is_intact env r = Inr True \<and>
      (case previous of
         None \<Rightarrow> aud_sequence r = 1 \<and> aud_previous_record_hash r = None
       | Some q \<Rightarrow> continues r q))"

fun chain_ok :: "audit_platform \<Rightarrow> audit_record option \<Rightarrow> audit_record list \<Rightarrow> bool" where
  "chain_ok env previous [] = True"
| "chain_ok env previous (r # rs) = (link_ok env previous r \<and> chain_ok env (Some r) rs)"

lemma digest_defect_None: "digest_defect env r = None \<longleftrightarrow> digest_is_intact env r = Inr True"
  by (auto simp: digest_defect_def split: sum.splits bool.splits)

lemma digest_defect_Some: "digest_defect env r = Some v \<Longrightarrow> v \<noteq> Intact"
  by (auto simp: digest_defect_def split: sum.splits bool.splits)

lemma verify_rest_iff: "verify_rest env q rs = Intact \<longleftrightarrow> chain_ok env (Some q) rs"
proof (induction rs arbitrary: q)
  case (Cons r rs)
  show ?case
  proof (cases "digest_defect env r")
    case None
    then have "digest_is_intact env r = Inr True" by (simp add: digest_defect_None)
    with Cons None show ?thesis by (auto simp: link_ok_def continues_def split: option.splits)
  next
    case (Some v)
    then have "digest_is_intact env r \<noteq> Inr True" by (metis digest_defect_None option.distinct(1))
    with Some digest_defect_Some [OF Some] show ?thesis
      by (auto simp: link_ok_def split: option.splits)
  qed
qed simp

lemma audit_verify_iff: "audit_verify env rs = Intact \<longleftrightarrow> chain_ok env None rs"
proof (cases rs)
  case (Cons r rest)
  show ?thesis
  proof (cases "digest_defect env r")
    case None
    then have "digest_is_intact env r = Inr True" by (simp add: digest_defect_None)
    with Cons None show ?thesis by (auto simp: audit_verify_def link_ok_def verify_rest_iff)
  next
    case (Some v)
    then have "digest_is_intact env r \<noteq> Inr True" by (metis digest_defect_None option.distinct(1))
    with Cons Some digest_defect_Some [OF Some] show ?thesis by (auto simp: audit_verify_def link_ok_def)
  qed
qed (simp add: audit_verify_def)

lemma chain_ok_snoc:
  "chain_ok env q (rs @ [r]) \<longleftrightarrow> chain_ok env q rs \<and> link_ok env (if rs = [] then q else Some (last rs)) r"
  by (induction rs arbitrary: q) auto

lemma intact_snoc:
  "audit_verify env (rs @ [r]) = Intact \<longleftrightarrow>
     audit_verify env rs = Intact \<and> link_ok env (if rs = [] then None else Some (last rs)) r"
  by (simp add: audit_verify_iff chain_ok_snoc)

lemma intact_link:
  "link_ok env q r \<Longrightarrow> has_canonical_shape r \<and> compute_hash env r = Inr (aud_record_hash r)"
  by (auto simp: link_ok_def digest_is_intact_def result_simps split: if_splits)


section \<open>Sealed journals\<close>

text \<open>A journal written by sealing: each record was sealed as the first or after the one before.\<close>

inductive sealed_journal :: "audit_platform \<Rightarrow> audit_fact list \<Rightarrow> audit_record list \<Rightarrow> bool"
  for env where
  empty: "sealed_journal env [] []"
| first: "first_record env f = Inr r \<Longrightarrow> sealed_journal env [f] [r]"
| first_auth: "first_authorized env f e = Inr r \<Longrightarrow> sealed_journal env [f] [r]"
| follow: "sealed_journal env fs rs \<Longrightarrow> rs \<noteq> [] \<Longrightarrow> following env f (last rs) = Inr r \<Longrightarrow>
    sealed_journal env (fs @ [f]) (rs @ [r])"
| follow_auth: "sealed_journal env fs rs \<Longrightarrow> rs \<noteq> [] \<Longrightarrow>
    following_authorized env f e (last rs) = Inr r \<Longrightarrow> sealed_journal env (fs @ [f]) (rs @ [r])"

lemma compute_hash_update [simp]: "compute_hash env (r\<lparr>aud_record_hash := h\<rparr>) = compute_hash env r"
  by (simp add: compute_hash_def canonical_record_def canonical_envelope_def canonical_event_def
      canonical_authorization_def)

lemma unsealed_simps [simp]:
  "aud_schema_version (unsealed f evidence version sequence previous) = version"
  "aud_ceremony_id (unsealed f evidence version sequence previous) = fact_ceremony_id f"
  "aud_sequence (unsealed f evidence version sequence previous) = sequence"
  "aud_event_schema_version (unsealed f evidence version sequence previous) =
     Some (of_nat (schema_version (fact_event f)))"
  "aud_event (unsealed f evidence version sequence previous) = Some (fact_event f)"
  "aud_authorization_evidence (unsealed f evidence version sequence previous) = evidence"
  "aud_previous_record_hash (unsealed f evidence version sequence previous) = previous"
  by (simp_all add: unsealed_def)

lemma seal_Inr:
  assumes "seal env f evidence version sequence previous = Inr r"
    and "version = 2 \<and> evidence = None \<or> version = 3 \<and> evidence \<noteq> None"
  shows "digest_is_intact env r = Inr True \<and> aud_sequence r = sequence
    \<and> aud_previous_record_hash r = previous \<and> aud_event r = Some (fact_event f)
    \<and> aud_ceremony_id r = fact_ceremony_id f \<and> aud_authorization_evidence r = evidence"
  using assms
  by (auto simp: seal_def digest_is_intact_def has_canonical_shape_def Let_def result_simps)

lemma first_links:
  "first_record env f = Inr r \<Longrightarrow> link_ok env None r \<and> aud_event r = Some (fact_event f)"
  "first_authorized env f e = Inr r \<Longrightarrow> link_ok env None r \<and> aud_event r = Some (fact_event f)"
  by (auto simp: first_record_def first_authorized_def link_ok_def dest!: seal_Inr)

lemma following_links:
  "following env f q = Inr r \<Longrightarrow> link_ok env (Some q) r \<and> aud_event r = Some (fact_event f)"
  "following_authorized env f e q = Inr r \<Longrightarrow> link_ok env (Some q) r \<and> aud_event r = Some (fact_event f)"
  by (auto simp: following_def following_authorized_def link_ok_def continues_def result_simps
      dest!: seal_Inr)

lemma sealed_journal_intact:
  "sealed_journal env fs rs \<Longrightarrow>
     audit_verify env rs = Intact \<and> map aud_event rs = map (Some \<circ> fact_event) fs"
proof (induction rule: sealed_journal.induct)
  case empty
  show ?case by (simp add: audit_verify_def)
next
  case (first f r)
  from first_links(1) [OF first] show ?case by (simp add: audit_verify_iff)
next
  case (first_auth f e r)
  from first_links(2) [OF first_auth] show ?case by (simp add: audit_verify_iff)
next
  case (follow fs rs f r)
  from following_links(1) [OF follow.hyps(3)] follow.IH follow.hyps(2) show ?case by (simp add: intact_snoc)
next
  case (follow_auth fs rs f e r)
  from following_links(2) [OF follow_auth.hyps(3)] follow_auth.IH follow_auth.hyps(2) show ?case
    by (simp add: intact_snoc)
qed

text \<open>Where everything can be rendered, every list of facts about one ceremony can be sealed.\<close>

definition renders_all :: "audit_platform \<Rightarrow> bool" where
  "renders_all env = ((\<forall>t. rfc3339 env t \<noteq> None) \<and> (\<forall>e. event_to_json env e \<noteq> None))"

lemma seal_succeeds:
  assumes "renders_all env"
  shows "\<exists>r. seal env f None 2 sequence previous = Inr r"
proof -
  obtain t where "rfc3339 env (aud_occurred_at (unsealed f None 2 sequence previous)) = Some t"
    using assms by (auto simp: renders_all_def)
  moreover obtain j where "event_to_json env (fact_event f) = Some j"
    using assms by (auto simp: renders_all_def)
  ultimately show ?thesis
    by (simp add: seal_def compute_hash_def canonical_record_def canonical_scheme_def
        canonical_event_def canonical_authorization_def Let_def)
qed

lemma facts_can_be_sealed:
  assumes "renders_all env" and "\<forall>f \<in> set fs. fact_ceremony_id f = c"
  shows "\<exists>rs. sealed_journal env fs rs \<and> length rs = length fs
    \<and> (rs \<noteq> [] \<longrightarrow> digest_is_intact env (last rs) = Inr True \<and> aud_ceremony_id (last rs) = c)"
  using assms(2)
proof (induction fs rule: rev_induct)
  case Nil
  show ?case by (intro exI [of _ "[]"]) (simp add: sealed_journal.empty)
next
  case (snoc f fs)
  then obtain rs where rs: "sealed_journal env fs rs" "length rs = length fs"
    and prev: "rs \<noteq> [] \<longrightarrow> digest_is_intact env (last rs) = Inr True \<and> aud_ceremony_id (last rs) = c"
    by auto
  have f: "fact_ceremony_id f = c" using snoc.prems by simp
  show ?case
  proof (cases "rs = []")
    case True
    with rs(2) have "fs = []" by simp
    moreover obtain r where r: "first_record env f = Inr r"
      using seal_succeeds [OF assms(1), of f 1 None] by (auto simp: first_record_def)
    moreover from r f have "digest_is_intact env r = Inr True" "aud_ceremony_id r = c"
      by (auto simp: first_record_def dest!: seal_Inr)
    ultimately show ?thesis by (intro exI [of _ "[r]"]) (simp add: sealed_journal.first)
  next
    case False
    with prev f obtain r where r: "following env f (last rs) = Inr r"
      using seal_succeeds [OF assms(1), of f "saturating_inc (aud_sequence (last rs))"
          "Some (aud_record_hash (last rs))"]
      by (auto simp: following_def validate_predecessor_def)
    then have "digest_is_intact env r = Inr True" "aud_ceremony_id r = c"
      using f by (auto simp: following_def result_simps dest!: seal_Inr)
    with sealed_journal.follow [OF rs(1) False r] rs(2) show ?thesis by (intro exI [of _ "rs @ [r]"]) simp
  qed
qed

lemma intact_positions:
  assumes "audit_verify env rs = Intact" and "length rs < 2 ^ 64" and "k < length rs"
  shows "unat (aud_sequence (rs ! k)) = Suc k"
  using assms
proof (induction rs arbitrary: k rule: rev_induct)
  case (snoc r rs)
  from snoc.prems(1) have rs: "audit_verify env rs = Intact"
    and r: "link_ok env (if rs = [] then None else Some (last rs)) r"
    by (simp_all add: intact_snoc)
  show ?case
  proof (cases "k < length rs")
    case True
    with snoc.IH [OF rs _ True] snoc.prems(2) show ?thesis by (simp add: nth_append)
  next
    case False
    with snoc.prems(3) have k: "k = length rs" by simp
    show ?thesis
    proof (cases "rs = []")
      case True
      with r k show ?thesis by (simp add: link_ok_def)
    next
      case rs_not_Nil: False
      then have "unat (aud_sequence (last rs)) = length rs"
        using snoc.IH [OF rs, of "length rs - 1"] snoc.prems(2) by (simp add: last_conv_nth)
      moreover from this snoc.prems(2) have "aud_sequence (last rs) \<noteq> - 1"
        by (auto simp: unsigned_minus_1_eq_mask mask_eq_exp_minus_1)
      moreover from r rs_not_Nil have "aud_sequence r = saturating_inc (aud_sequence (last rs))"
        by (simp add: link_ok_def continues_def)
      ultimately show ?thesis using k by (simp add: saturating_inc_def unat_inc nth_append)
    qed
  qed
qed simp


section \<open>Tamper evidence\<close>

definition collision :: "audit_platform \<Rightarrow> audit_record \<Rightarrow> audit_record \<Rightarrow> bool" where
  "collision env r s =
     (\<exists>c d. canonical_record env r = Inr c \<and> canonical_record env s = Inr d \<and> c \<noteq> d
        \<and> sha256 env c = sha256 env d)"

lemma same_digest:
  assumes "link_ok env p r" and "link_ok env q s" and "aud_record_hash r = aud_record_hash s"
    and "record_fits env r" and "record_fits env s" and "renders_apart env r s"
  shows "r = s \<or> collision env r s"
proof -
  from intact_link [OF assms(1)] obtain c where c: "has_canonical_shape r" "canonical_record env r = Inr c"
    "sha256 env c = aud_record_hash r"
    by (auto simp: compute_hash_def result_simps)
  from intact_link [OF assms(2)] obtain d where d: "has_canonical_shape s" "canonical_record env s = Inr d"
    "sha256 env d = aud_record_hash s"
    by (auto simp: compute_hash_def result_simps)
  show ?thesis
  proof (cases "c = d")
    case True
    with canonical_record_inj [OF assms(4-6) c(1) d(1) c(2)] d(2) assms(3) show ?thesis by simp
  next
    case False
    with c d assms(3) show ?thesis by (auto simp: collision_def)
  qed
qed

lemma last_digest_fixes_journal:
  assumes "audit_verify env rs = Intact" and "audit_verify env ss = Intact"
    and "rs \<noteq> []" and "ss \<noteq> []" and "aud_record_hash (last rs) = aud_record_hash (last ss)"
    and "\<And>r. r \<in> set rs \<union> set ss \<Longrightarrow> record_fits env r"
    and "\<And>r s. r \<in> set rs \<Longrightarrow> s \<in> set ss \<Longrightarrow> renders_apart env r s"
  shows "rs = ss \<or> (\<exists>r \<in> set rs. \<exists>s \<in> set ss. collision env r s)"
  using assms
proof (induction rs arbitrary: ss rule: rev_induct)
  case (snoc r rs)
  obtain ts s where ss: "ss = ts @ [s]" using snoc.prems(4) by (cases ss rule: rev_exhaust) auto
  from snoc.prems(1,2) have rs: "audit_verify env rs = Intact" and ts: "audit_verify env ts = Intact"
    and r: "link_ok env (if rs = [] then None else Some (last rs)) r"
    and s: "link_ok env (if ts = [] then None else Some (last ts)) s"
    by (simp_all add: intact_snoc ss)
  have "r = s \<or> collision env r s"
    by (rule same_digest [OF r s]) (use snoc.prems(5-7) in \<open>simp_all add: ss\<close>)
  then show ?case
  proof
    assume eq: "r = s"
    show ?thesis
    proof (cases "rs = [] \<or> ts = []")
      case True
      with r s eq have "rs = []" "ts = []" by (auto simp: link_ok_def continues_def split: if_splits)
      with eq ss show ?thesis by simp
    next
      case False
      with r s eq have "aud_record_hash (last rs) = aud_record_hash (last ts)"
        by (simp add: link_ok_def continues_def)
      with False snoc.prems(6,7) have "rs = ts \<or> (\<exists>r \<in> set rs. \<exists>s \<in> set ts. collision env r s)"
        by (intro snoc.IH [OF rs ts]) (simp_all add: ss)
      with eq ss show ?thesis by auto
    qed
  qed (auto simp: ss)
qed simp


section \<open>Properties\<close>

text \<open>
  C9: a verified journal is fixed by its last digest.  Two journals that verify and end in the same
  digest are the same, record for record, or two of their records exhibit a collision of the hash
  function.  No field can be edited, and no record dropped, inserted or moved, without this.
\<close>

theorem last_digest_fixes_the_journal:
  assumes "audit_verify env rs = Intact" and "audit_verify env ss = Intact"
    and "rs \<noteq> []" and "ss \<noteq> []" and "aud_record_hash (last rs) = aud_record_hash (last ss)"
    and "\<forall>r \<in> set rs \<union> set ss. record_fits env r"
    and "\<forall>r \<in> set rs. \<forall>s \<in> set ss. renders_apart env r s"
  shows "rs = ss \<or> (\<exists>r \<in> set rs. \<exists>s \<in> set ss. collision env r s)"
  by (rule last_digest_fixes_journal [OF assms(1-5)]) (use assms(6,7) in blast)+

definition sample_audit_env :: audit_platform where
  "sample_audit_env = \<lparr>sha256 = (\<lambda>_. ''h''), rfc3339 = (\<lambda>_. Some ''now''),
     event_to_json = (\<lambda>_. Some ''{}''), evidence_to_json = (\<lambda>_. Some ''{}'')\<rparr>"

definition sample_fact :: "string \<Rightarrow> string \<Rightarrow> ceremony_event \<Rightarrow> audit_fact" where
  "sample_fact n c e =
     \<lparr>fact_event_id = n, fact_event = e, fact_ceremony_id = c,
      fact_definition_name = ''review'', fact_definition_version = ''1'', fact_occurred_at = 0,
      fact_actor = \<lparr>act_id = ''made'', act_kind = EngineActor, act_role_id = None\<rparr>,
      fact_correlation_id = None, fact_causation_id = None, fact_trace = None\<rparr>"

abbreviation sample_sealed :: "string \<Rightarrow> audit_record" where
  "sample_sealed n \<equiv>
     (unsealed (sample_fact n ''c1'' (CeremonyResumed 0)) None 2 1 None)\<lparr>aud_record_hash := ''h''\<rparr>"

lemma sample_sealed_facts:
  "link_ok sample_audit_env None (sample_sealed n)"
  "length n < 100 \<Longrightarrow> record_fits sample_audit_env (sample_sealed n)"
  "renders_apart sample_audit_env (sample_sealed n) (sample_sealed m)"
  by (simp_all add: link_ok_def digest_is_intact_def has_canonical_shape_def compute_hash_def
      canonical_record_def canonical_scheme_def canonical_event_def canonical_authorization_def
      record_fits_def renders_apart_def told_apart_def unsealed_def sample_fact_def
      sample_audit_env_def)

theorem last_digest_fixes_the_journal_witness:
  "[sample_sealed ''e1''] \<noteq> [sample_sealed ''e2'']
   \<and> collision sample_audit_env (sample_sealed ''e1'') (sample_sealed ''e2'')"
proof -
  have "sample_sealed ''e1'' \<noteq> sample_sealed ''e2''" by (simp add: unsealed_def sample_fact_def)
  moreover have "audit_verify sample_audit_env [sample_sealed n] = Intact" for n
    by (simp add: audit_verify_iff sample_sealed_facts)
  ultimately show ?thesis
    using last_digest_fixes_the_journal
      [of sample_audit_env "[sample_sealed ''e1'']" "[sample_sealed ''e2'']"]
    by (simp add: sample_sealed_facts)
qed

end
