(* ===== verification/Spec2Isabelle.thy ===== *)
theory Spec2Isabelle
  imports Deviations Workflow_Refinement Step_Effort Budget_Safety Authorization_Safety Audit_Safety
begin

text \<open>
  A verification development for MADE, an engine that runs ceremonies: workflows in which people and
  agents take the steps of a published definition, and whose whole history is an append-only
  journal.  The subject is the crate \<open>made-core\<close> (\<open>crates/made-core/src\<close>; the paths below are relative
  to it), which holds the rules of the program without its input and output.

  \<^bold>\<open>The parts and how they interact.\<close>  A \<^emph>\<open>definition\<close> (\<open>entities/ceremony_definition.rs\<close>) gives states,
  transitions, steps, guards and roles; it is validated by \<open>entities/ceremony_definition_analysis\<close> before
  it can be built, and two definitions can be compared
  (\<open>value_objects/ceremony/ceremony_definition_diff.rs\<close>).  A \<^emph>\<open>ceremony\<close>
  (\<open>entities/ceremony_instance.rs\<close>) is event sourced: a command is decided against the current state
  and the definition (\<open>decisions/\<close>), which gives events or an error, and the events are folded into the
  state (\<open>fold/\<close>).  Workers claim steps under leases and deadlines and report results under the fence
  of their claim; guards hold transitions back, some until a person approves; interventions are
  questions raised during a run; a ceremony can spawn children and be succeeded by another.  A
  \<^emph>\<open>budget ledger\<close> (\<open>entities/budget_ledger.rs\<close>) reserves what a step may consume; an \<^emph>\<open>authorization
  policy\<close> (\<open>entities/authorization_policy.rs\<close>) says who may do what where; and the \<^emph>\<open>audit journal\<close>
  (\<open>entities/audit_record.rs\<close>, \<open>entities/audit_chain.rs\<close>) seals each event into a chain of digests.

  \<^bold>\<open>The model.\<close>  Each theory below follows one part of the source, one definition per function, with the
  names of the code; a name several modules share, or one of HOL, has a prefix or suffix.

  \<^item> \<open>Made_Prelude\<close>: results with \<open>and_then\<close> for the \<open>?\<close> operator, \<open>BTreeMap\<close> as a sorted list of bindings
    behind the locale \<open>ordered_map\<close>, and the locale \<open>event_sourced\<close>, which the ceremony and the ledger
    interpret.
  \<^item> \<open>Domain_Values\<close>, \<open>Digest_Encoding\<close>, \<open>Step_Records\<close>, \<open>Ceremony_Values\<close>: the value objects.  Counters
    are words of their width, with saturating or checked increments as in the code; times are
    nanoseconds.
  \<^item> \<open>Ceremony_Definition\<close>, \<open>Definition_Analysis\<close>, \<open>Definition_Diff\<close>: definitions; \<open>definition_new\<close> is
    \<open>CeremonyDefinition::new_with_transition_budgets\<close>, of which \<open>CeremonyDefinition::new\<close> is the case
    without budgets, \<open>analyze\<close> the analysis, \<open>between\<close> the comparison.
  \<^item> \<open>Ceremony_Intervention\<close>, \<open>Ceremony_Instance\<close>, \<open>Ceremony_Fold\<close>, \<open>Ceremony_Decide\<close>: the aggregate;
    \<open>decide\<close> has one function per command, \<open>apply_event\<close> one per event, \<open>execute\<close> is a decision followed
    by its fold, \<open>rehydrate\<close> the replay of a stream.  \<open>ceremony_run env d es i\<close> says that \<open>es\<close> is the
    journal and \<open>i\<close> the state after some sequence of accepted commands under the definition \<open>d\<close>.
  \<^item> \<open>Budget_Ledger\<close>, \<open>Authorization_Policy\<close>, \<open>Audit_Journal\<close>: the ledger, the policy and the sealed
    journal, each with its decisions, its application of events and its replay.

  \<^bold>\<open>What is shown.\<close>

  \<^item> \<open>Definition_Validity\<close>: validation accepts exactly the definitions that satisfy a declarative
    condition, and its searches compute reachability and the strongly connected components.
    \<open>Definition_Diff\<close> and \<open>Diff_Safety\<close>: which differences strand a running session, and that a session
    they do not strand keeps the moves it could make.
  \<^item> \<open>Decision_Shapes\<close>, \<open>Ceremony_Effects\<close>, \<open>Ceremony_Run\<close>: each decision as a condition and the events it
    gives; what each event changes; every accepted decision folds, so the journal always replays.
  \<^item> \<open>Run_Invariants\<close>, \<open>Run_Safety\<close>: a run is a walk through the declared transitions within its budgets;
    completion, lifecycle, ended ceremonies, keys and interventions.
  \<^item> \<open>Workflow_Refinement\<close>: the ceremony implements a small abstract workflow, by simulation.
  \<^item> \<open>Step_Safety\<close>, \<open>Step_Effort\<close>, \<open>Human_Approval\<close>: claims, fences, leases and deadlines; attempts and
    iterations stay within their policies; human guards need recorded approvals.
  \<^item> \<open>Budget_Safety\<close>: reservations are accepted exactly when they fit, never overcommit an account, and
    charge nothing twice when they are repeated.
  \<^item> \<open>Authorization_Safety\<close>: permissions come from the owner along live grants, separated actions were
    approved by someone else, and the answers of the policy are exact and can be recorded.
  \<^item> \<open>Audit_Safety\<close>: the byte form of a record loses nothing, so the last digest of a journal that verifies
    fixes the whole journal up to a collision of the hash; sealing produces journals that verify.
  \<^item> \<open>Ceremony_Example\<close>: concrete runs the witnesses use.  \<open>Deviations\<close>, and the last theorem of
    \<open>Authorization_Safety\<close>: where the code does less than it means to.
  \<^item> This theory: the properties that span components.

  \<^bold>\<open>Parameters.\<close>  What is not code of the repository is an argument: \<open>platform\<close> has the hexadecimal
  SHA-256, the checked addition of a duration to a time and the JSON of an evidence pack;
  \<open>authorization_platform\<close> adds the JSON of a decision; \<open>audit_platform\<close> has the digest, the rendering of
  times and the JSON of events and evidence.  No theorem assumes the hash injective: where two inputs
  could collide, the collision is an alternative of the conclusion.  The hypotheses on the others are
  named: \<open>checked_add_sound\<close>, that a checked addition returns the sum or nothing, and \<open>renders_apart\<close>,
  that the renderings of different values of the records in question differ.

  \<^bold>\<open>Bounds.\<close>  Every loop is a total function except one: the search along the parents of a grant has
  fuel for 256 grants.  Each delegated grant has a smaller delegation depth than its parent, and a
  depth is a byte, so no chain is longer; \<open>grant_search_ends\<close> shows that the fuel never runs out in a
  policy that was rehydrated.  A panic of the code is the error \<open>Panic\<close>.

  \<^bold>\<open>Not modelled.\<close>  Serialisation and the reading of stored events (generated by \<open>serde\<close>); definition
  drafts and documents; deliberation, councils and scores (floating point, and language models behind
  ports); agentic systems; evidence bundles and signatures, external context, artifacts, activity
  views and metrics; ports, which are interfaces only.  Of the other crates nothing is modelled:
  \<open>made-app\<close> orchestrates ports asynchronously, and \<open>made-adapters\<close>, \<open>made-mcp\<close>, \<open>made-embedded\<close>, \<open>made\<close>,
  \<open>made-client\<close> and \<open>made-console\<close> are input, output and wiring; the protocol crates are generated.
  Concurrent writers are therefore outside: a journal here has one writer at a time, which the stores
  behind the ports provide by comparing stream revisions.
\<close>


section \<open>Definitions\<close>

text \<open>
  C31: a definition \<open>CeremonyDefinition::new_with_transition_budgets\<close> returns is well formed.  Its
  maps are sorted and keyed by the identifiers of their values, it passes every rule of validation,
  and its steps come back in the order they were declared.
\<close>

theorem constructed_definition_is_well_formed:
  assumes "definition_new name version description inputs outputs states transitions steps guards
    roles max_transitions max_bounces = Inr d"
  shows "definition_wf d \<and> definition_ok d \<and> steps_in_declaration_order d = steps"
  using definition_new_facts [OF assms] by (simp add: validate_ok)

theorem constructed_definition_is_well_formed_witness:
  "definition_wf sample_definition \<and> definition_ok sample_definition
   \<and> steps_in_declaration_order sample_definition = [sample_step]"
  by (rule constructed_definition_is_well_formed [OF sample_definition_new])


section \<open>Journals\<close>

text \<open>
  C1: replaying the journal of a ceremony gives the state its writer holds, whatever commands were
  accepted on the way.
\<close>

theorem journal_replays_to_live_state:
  assumes "ceremony_run env d es i"
  shows "rehydrate es = Inr i"
  using assms by (rule ceremony.replay_journal)

theorem journal_replays_to_live_state_witness:
  "\<exists>es i. rehydrate es = Inr i \<and> ci_completed_at i = Some 40"
proof -
  obtain es i where "ceremony_run sample_env sample_definition es i" "ci_completed_at i = Some 40"
    using example_leaves_run [OF sample_completes] by blast
  with journal_replays_to_live_state show ?thesis by blast
qed

text \<open>
  C15: no accepted command leaves the journal unreadable.  Whatever a decision returns can be folded
  into the state it was decided on; in particular no panic of the fold is reachable from a decision
  that was accepted.
\<close>

theorem accepted_decisions_fold:
  assumes "decide env i c d = Inr es"
  shows "\<exists>j. apply_all i es = Inr j"
  using assms by (rule decided_folds)

theorem accepted_decisions_fold_witness:
  "\<exists>i es j. decide sample_env i (StartStep sample_start_unnamed) sample_definition = Inr es
     \<and> apply_all i es = Inr j"
proof -
  obtain i j where "execute sample_env sample_definition i (StartStep sample_start_unnamed) = Inr j"
    using example_before_run [OF sample_starts] by blast
  then obtain es where
    "decide sample_env i (StartStep sample_start_unnamed) sample_definition = Inr es"
    unfolding execute_fold by blast
  with accepted_decisions_fold show ?thesis by blast
qed


section \<open>The state machine\<close>

text \<open>
  A transition is decided exactly when it is admitted, and then it records the edge taken, enters
  the target state under the next visit number, and completes the ceremony if that state is terminal.
\<close>

theorem transition_decided_iff_admitted:
  "decide env i (ApplyTransition rid trigger now) d = Inr es \<longleftrightarrow>
     (\<exists>t visit deadline. transition_admitted env i rid trigger now d t visit deadline
        \<and> es = TransitionApplied (transition_taken i rid t now)
                 (Some (visit_entry d (t_to t) visit deadline)) #
               (if is_terminal_state d (t_to t) then [CeremonyCompleted (t_to t) now] else []))"
  by (simp add: decide_apply_transition_iff)

text \<open>
  C5: in every reachable state the recorded transitions form a walk of the definition from its
  initial state to the current one, the visit counter counts them without wrapping, and the
  declared transition and bounce budgets are respected.
\<close>

theorem run_is_a_budgeted_walk:
  assumes "ceremony_run env d es i"
  shows "machine_inv d i"
  using assms by (rule run_machine_inv)

theorem run_is_a_budgeted_walk_witness:
  "\<exists>i. machine_inv sample_definition i \<and> ci_current_state i = ''end''"
proof -
  obtain es i where "ceremony_run sample_env sample_definition es i" "ci_current_state i = ''end''"
    using example_leaves_run [OF sample_completes] by blast
  with run_is_a_budgeted_walk show ?thesis by blast
qed

text \<open>
  C6: a ceremony takes a bounded number of transitions, whatever is commanded.  The bound is the
  transition budget; without one it is the bounce budget for each edge; without either a valid
  definition has no cycle and the bound is the number of its states.
\<close>

theorem run_transitions_bounded:
  assumes "definition_ok d" and "ceremony_run env d es i"
  shows "length (ci_transitions i) \<le> transition_bound d"
  using assms(1) run_machine_inv [OF assms(2)] by (rule run_transition_bound)

theorem run_transitions_bounded_witness:
  "\<exists>i :: ceremony_instance. length (ci_transitions i) = 1 \<and> length (ci_transitions i) \<le> transition_bound sample_definition"
proof -
  obtain es i where "ceremony_run sample_env sample_definition es i" "length (ci_transitions i) = 1"
    using example_leaves_run [OF sample_completes] by blast
  with run_transitions_bounded [OF sample_wf_ok(2)] show ?thesis by blast
qed

text \<open>
  C4: a ceremony refines the abstract workflow of its definition.  Every reachable state maps to one
  the abstract machine reaches by advancing along edges within budget while running, and by pausing,
  resuming and finishing.
\<close>

theorem ceremony_refines_workflow:
  assumes "definition_wf d" and "ceremony_run env d es i"
  shows "workflow_reaches d (workflow_of i)"
  using assms by (rule run_refines)

theorem ceremony_refines_workflow_witness:
  "\<exists>i. workflow_reaches sample_definition (workflow_of i) \<and> wf_complete (workflow_of i)"
proof -
  obtain es i where "ceremony_run sample_env sample_definition es i" "ci_completed_at i = Some 40"
    using example_leaves_run [OF sample_completes] by blast
  with ceremony_refines_workflow [OF sample_wf_ok(1)] show ?thesis
    by (auto simp: workflow_of_def)
qed


section \<open>What no command undoes\<close>

text \<open>
  C18: a ceremony records a completion exactly while it stands in a terminal state, and it never
  stands there with an open intervention.
\<close>

theorem completion_is_terminal_and_settled:
  assumes "definition_wf d" and "ceremony_run env d es i"
  shows "completion_inv d i"
  using assms by (rule run_completion_inv)

theorem completion_is_terminal_and_settled_witness:
  "\<exists>i. completion_inv sample_definition i \<and> ci_completed_at i = Some 40"
proof -
  obtain es i where "ceremony_run sample_env sample_definition es i" "ci_completed_at i = Some 40"
    using example_leaves_run [OF sample_completes] by blast
  with completion_is_terminal_and_settled [OF sample_wf_ok(1)] show ?thesis by blast
qed



text \<open>
  C26: no two claims of a ceremony share an idempotency key, and the keys the state remembers are
  exactly those of the claims in its journal.
\<close>

theorem claims_never_share_a_key:
  assumes "ceremony_run env d es i"
  shows "distinct (List.map_filter started_key es)
    \<and> set (List.map_filter started_key es) = ci_idempotency_keys i"
  using run_keys_inv [OF assms] by (simp add: keys_inv_def)

theorem claims_never_share_a_key_witness:
  "\<exists>es :: ceremony_event list. set (List.map_filter started_key es) = {''key-1''}
     \<and> distinct (List.map_filter started_key es)"
proof -
  obtain es i where "ceremony_run sample_env sample_definition es i"
    "ci_idempotency_keys i = {''key-1''}"
    using example_leaves_run [OF sample_completes] by blast
  with claims_never_share_a_key [of sample_env sample_definition es i] show ?thesis by auto
qed

text \<open>
  C28: the stored lifecycle is consistent.  A phase other than running says when it was entered, a
  reason to have ended is there exactly when the ceremony has ended, and a ceremony with a planned
  successor never runs again.
\<close>

theorem lifecycle_is_consistent:
  assumes "ceremony_run env d es i"
  shows "lifecycle_inv i"
  using assms by (rule run_lifecycle_inv)

theorem lifecycle_is_consistent_witness:
  "\<exists>i. lifecycle_inv i \<and> phase (ci_lifecycle i) = Paused"
proof -
  obtain es i where "ceremony_run sample_env sample_definition es i" "phase (ci_lifecycle i) = Paused"
    using example_leaves_run [OF sample_pauses] by blast
  with lifecycle_is_consistent show ?thesis by blast
qed

text \<open>
  C29: interventions have pairwise distinct identifiers, and each of them is well formed: a role
  responds at most once and only if the target admits it, a delivery is acknowledged at most once,
  and a time of closing is there exactly when the intervention is closed.
\<close>

theorem interventions_are_well_formed:
  assumes "ceremony_run env d es i"
  shows "interventions_inv i"
  using assms by (rule run_interventions_inv)

theorem interventions_are_well_formed_witness:
  "\<exists>i. interventions_inv i \<and> length (ci_interventions i) = 1"
proof -
  obtain es i where "ceremony_run sample_env sample_definition es i" "length (ci_interventions i) = 1"
    using example_leaves_run [OF sample_asks] by blast
  with interventions_are_well_formed show ?thesis by blast
qed

text \<open>
  C8: a human guard is passed only with a recorded approval, provided that nothing else can write
  its key: the opening context does not hold it and no step of the definition writes to it.
\<close>

theorem human_guard_needs_recorded_approval:
  assumes "definition_wf d" and "ceremony_run env d es i" and "\<not> writes_key d g"
    and "\<not> is_guard_approved (opening_context es) g"
    and "decide env i (ApplyTransition rid trigger now) d = Inr es'"
    and "transition_for_trigger d (ci_current_state i) trigger = Some t"
    and "g \<in> set (t_required_guards t)" and "bm_get (def_guards d) g = Some guard"
    and "guard_condition guard = HumanApproval"
  shows "\<exists>a. HumanApprovalRecorded a \<in> set es \<and> approval_guard_name a = g"
  using assms by (rule approval_recorded)

theorem human_guard_needs_recorded_approval_witness:
  "\<exists>es i a. ceremony_run sample_env sample_definition es i
     \<and> HumanApprovalRecorded a \<in> set es \<and> approval_guard_name a = ''go''"
proof -
  obtain es i where run: "ceremony_run sample_env sample_definition es i"
    and facts: "\<not> is_guard_approved (opening_context es) ''go''"
    "ci_current_state i = ''draft''"
    "\<not> isl (decide sample_env i (ApplyTransition (Some ''lead'') ''finish'' 40) sample_definition)"
    using example_journal_run [OF sample_approved] by blast
  obtain es' where "decide sample_env i (ApplyTransition (Some ''lead'') ''finish'' 40)
      sample_definition = Inr es'"
    using facts(3) by (cases "decide sample_env i (ApplyTransition (Some ''lead'') ''finish'' 40)
      sample_definition") simp_all
  from human_guard_needs_recorded_approval [OF sample_wf_ok(1) run _ facts(1) this,
      of sample_transition "\<lparr>guard_name = ''go'', guard_condition = HumanApproval\<rparr>"] run facts(2)
  show ?thesis
    by (auto simp: writes_key_def sample_definition_def sample_step_def sample_transition_def
        transition_for_trigger_def bm_contains_def)
qed


section \<open>Steps\<close>

text \<open>
  C19: an accepted start leaves exactly one claim: the record of the step holds the lease, the fence
  of the step is the one derived from the claim, the key is remembered, and the deadline is the one
  decided for the claim, bound to its fence, or cleared.  But for the time of the update nothing else
  of the ceremony changes.
\<close>

theorem started_step_is_claimed:
  assumes "execute env d i (StartStep c) = Inr j"
  shows "\<exists>step r attempt role sealed_role deadline.
    claim_admitted env i c d step r attempt role sealed_role
    \<and> decide_step_deadline env i c r attempt (new_claim_fence env i c r attempt) (fst role)
        (cs_timeout step) = Inr deadline
    \<and> claim_made env i c r attempt role sealed_role deadline j"
  using assms by (rule start_step_claims) blast

theorem started_step_is_claimed_witness:
  "\<exists>i j step r attempt role sealed_role deadline.
     execute sample_env sample_definition i (StartStep sample_start_unnamed) = Inr j
     \<and> claim_admitted sample_env i sample_start_unnamed sample_definition step r attempt role sealed_role
     \<and> claim_made sample_env i sample_start_unnamed r attempt role sealed_role deadline j"
proof -
  obtain i j where "execute sample_env sample_definition i (StartStep sample_start_unnamed) = Inr j"
    using example_before_run [OF sample_starts] by blast
  with started_step_is_claimed [OF this] show ?thesis by blast
qed

text \<open>
  C7: the steps the ceremony lists as claimable are exactly those it lets start, for a start that is
  otherwise prepared: work is admitted, the key is new, the reservation is the one asked for, and the
  step's own deadline is representable.
\<close>

theorem claimable_steps_are_startable:
  assumes "definition_wf d" and "start_prepared env i c d"
    and "claimable_step_ids_at i d (st_cmd_now c) (st_cmd_max_parallel_ceiling c) = Inr ids"
  shows "(\<exists>es. decide env i (StartStep c) d = Inr es) \<longleftrightarrow> st_cmd_step_id c \<in> set ids"
  using assms by (rule claimable_iff_startable)

theorem claimable_steps_are_startable_witness:
  "\<exists>i es. decide sample_env i (StartStep sample_start_unnamed) sample_definition = Inr es
     \<and> claimable_step_ids_at i sample_definition 10 4 = Inr [''write'']"
proof -
  obtain i where "start_prepared sample_env i sample_start_unnamed sample_definition"
    and ids: "claimable_step_ids_at i sample_definition 10 4 = Inr [''write'']"
    using example_before_run [OF sample_starts] by blast
  from claimable_steps_are_startable [OF sample_wf_ok(1) this(1), of "[''write'']"] ids
  show ?thesis by (auto simp: sample_start_def)
qed

text \<open>
  C20: in a concurrent state, an accepted start never leaves more live claims than the definition and
  the host allow.
\<close>

theorem live_claims_within_capacity:
  assumes "definition_wf d" and "execute env d i (StartStep c) = Inr j" and "in_concurrent_state i d"
  shows "live_claims j d (st_cmd_now c)
    \<le> unat (effective_with (def_max_parallel d) (st_cmd_max_parallel_ceiling c))"
  using assms by (rule start_step_capacity)

theorem live_claims_within_capacity_witness:
  "\<exists>j. live_claims j sample_definition 10 = 1
     \<and> live_claims j sample_definition (st_cmd_now sample_start_unnamed)
        \<le> unat (effective_with (def_max_parallel sample_definition)
             (st_cmd_max_parallel_ceiling sample_start_unnamed))"
proof -
  obtain i j where "execute sample_env sample_definition i (StartStep sample_start_unnamed) = Inr j"
    "in_concurrent_state i sample_definition" "live_claims j sample_definition 10 = 1"
    using example_before_run [OF sample_starts] by blast
  with live_claims_within_capacity [OF sample_wf_ok(1)] show ?thesis by blast
qed


text \<open>
  C14: a worker that lost its claim cannot change the work.  A result under a fence that is not the
  current one of the step is refused, replayed, or kept as a late observation; directly or through an
  execution receipt, the work of the ceremony stays the same and no earlier observation is lost.
\<close>

theorem lost_claim_changes_no_work:
  assumes "execute env d i c = Inr j"
    and "c = ApplyStepResult x \<and> step_claim_fence env i (ar_step_id x) \<noteq> Inr (ar_claim_fence x)
       \<or> c = ApplyExecutionReceiptResult s f l r now \<and> step_claim_fence env i s \<noteq> Inr f"
  shows "same_work i j \<and> observations_kept i j"
proof -
  from assms(1) obtain es where "decide env i c d = Inr es" "try_fold apply_event i es = Inr j"
    by (auto simp: execute_fold)
  with assms(2) show ?thesis
    using stale_result_same_work [of env i x d es j] stale_receipt_same_work [of env i s f l r now d es j]
    by auto
qed

theorem lost_claim_changes_no_work_witness:
  "\<exists>i j. execute sample_env sample_definition i (ApplyStepResult sample_result) = Inr j
     \<and> length (ci_late_step_results j) = 1 \<and> same_work i j \<and> observations_kept i j"
proof -
  obtain i j where exec: "execute sample_env sample_definition i (ApplyStepResult sample_result) = Inr j"
    and late: "length (ci_late_step_results j) = 1"
    and "isl (step_claim_fence sample_env i ''write'')"
    using example_before_run [OF sample_late] by blast
  then have "step_claim_fence sample_env i (ar_step_id sample_result) \<noteq> Inr (ar_claim_fence sample_result)"
    by (auto simp: sample_result_def)
  with lost_claim_changes_no_work [OF exec, of sample_result] exec late show ?thesis by blast
qed

text \<open>
  C27: a late result is observed once.  Reporting a result for a claim that already has a late one
  decides nothing, and it is accepted only for the same step with the same result.
\<close>

theorem late_result_observed_once:
  assumes "bm_get (ci_late_step_results i) (ar_claim_fence c) = Some l"
    and "decide env i (ApplyStepResult c) d = Inr es"
  shows "es = [] \<and> late_step_id l = ar_step_id c \<and> late_result l = ar_result c"
  using known_late_result [OF assms(1)] assms(2) by simp

theorem late_result_observed_once_witness:
  "\<exists>i l. bm_get (ci_late_step_results i) sample_fence = Some l
     \<and> decide sample_env i (ApplyStepResult sample_result) sample_definition = Inr []
     \<and> late_result l = sample_success"
proof -
  obtain i j where "execute sample_env sample_definition i (ApplyStepResult sample_result) = Inr j"
    and "\<not> Option.is_none (bm_get (ci_late_step_results i) sample_fence)"
    using example_before_run [OF sample_late_again] by blast
  then obtain es l where dec: "decide sample_env i (ApplyStepResult sample_result) sample_definition = Inr es"
    and l: "bm_get (ci_late_step_results i) sample_fence = Some l"
    by (auto simp: execute_fold Option.is_none_def)
  from l have "bm_get (ci_late_step_results i) (ar_claim_fence sample_result) = Some l"
    by (simp add: sample_result_def)
  from late_result_observed_once [OF this dec] dec l show ?thesis
    by (auto simp: sample_result_def)
qed

text \<open>
  C24: a renewal either replays an earlier one or extends a live lease.  An extension keeps the claim
  and its fence, starts from the expiry the worker expected, never shortens the lease, and never
  passes the deadline of the step.
\<close>

theorem renewal_only_extends:
  assumes "execute env d i (RenewStepLease c) = Inr j"
  shows "j = i \<or> lease_extended env c i j"
  using assms by (rule renewal_extends_or_replays)

theorem renewal_only_extends_witness:
  "\<exists>i j. execute sample_env sample_definition i (RenewStepLease sample_renewal) = Inr j
     \<and> lease_extended sample_env sample_renewal i j"
proof -
  obtain i j where exec: "execute sample_env sample_definition i (RenewStepLease sample_renewal) = Inr j"
    and "ci_updated_at i \<noteq> ci_updated_at j"
    using example_before_run [OF sample_renews] by blast
  then have "j \<noteq> i" by auto
  with renewal_only_extends [OF exec] exec show ?thesis by blast
qed


section \<open>Deadlines\<close>

text \<open>
  C23: the deadline of a claim is the earliest of the step's own timeout, the deadline of the state
  and the deadline of the ceremony, and it is bound to the fence of the claim; without any of the
  three there is none.
\<close>

theorem claim_deadline_is_earliest:
  assumes "execute env d i (StartStep c) = Inr j" and "checked_add_sound env"
    and "def_step d (st_cmd_step_id c) = Some step" and "bm_wf (ci_step_deadlines i)"
  shows "case bm_get (ci_step_deadlines j) (st_cmd_step_id c) of
      None \<Rightarrow> deadline_candidates i (st_cmd_now c) (cs_timeout step) = {}
    | Some dl \<Rightarrow> sd_at dl \<in> deadline_candidates i (st_cmd_now c) (cs_timeout step)
        \<and> (\<forall>t \<in> deadline_candidates i (st_cmd_now c) (cs_timeout step). sd_at dl \<le> t)
        \<and> step_claim_fence env j (st_cmd_step_id c) = Inr (sd_claim_fence dl)"
  using assms(1)
proof (cases rule: start_step_claims)
  case (1 step' r attempt role sealed_role deadline)
  then have "step' = step" using assms(3) by (auto simp: claim_admitted_def split: prod.splits)
  with step_deadline_is_earliest [OF 1(2) assms(2)] 1(3) assms(4) show ?thesis
    by (cases deadline) (auto simp: claim_made_def)
qed

theorem claim_deadline_is_earliest_witness:
  "\<exists>j dl. bm_get (ci_step_deadlines j) ''write'' = Some dl
     \<and> step_claim_fence sample_env j ''write'' = Inr (sd_claim_fence dl)"
proof -
  obtain es i j where run: "ceremony_run sample_env sample_definition es i"
    and exec: "execute sample_env sample_definition i (StartStep sample_start_unnamed) = Inr j"
    and one: "\<not> Option.is_none (bm_get (ci_step_deadlines j) ''write'')"
    using example_before_run [OF sample_starts] by blast
  have "checked_add_sound sample_env" by (simp add: checked_add_sound_def sample_env_def)
  moreover have "def_step sample_definition (st_cmd_step_id sample_start_unnamed) = Some sample_step"
    by (simp add: def_step_def sample_definition_def sample_start_def)
  moreover have "bm_wf (ci_step_deadlines i)"
    using run_deadlines_inv [OF run] by (simp add: deadlines_inv_def deadline_map_ok_def)
  moreover obtain dl where "bm_get (ci_step_deadlines j) (st_cmd_step_id sample_start_unnamed) = Some dl"
    using one by (auto simp: sample_start_def Option.is_none_def)
  ultimately have "bm_get (ci_step_deadlines j) ''write'' = Some dl
      \<and> step_claim_fence sample_env j ''write'' = Inr (sd_claim_fence dl)"
    using claim_deadline_is_earliest [OF exec, of sample_step] by (simp add: sample_start_def)
  then show ?thesis by blast
qed

text \<open>
  C13: enforcing deadlines is always accepted on a ceremony of the definition, and afterwards the
  ceremony has ended or no deadline it holds has passed.
\<close>

theorem enforcement_leaves_nothing_overdue:
  assumes "ceremony_run env d es i"
  shows "\<exists>j. execute env d i (EnforceCeremonyDeadlines now) = Inr j
    \<and> (is_ended j \<or> nothing_overdue j now)"
  using enforce_deadlines_total [of i d env now] machine_invD(1) [OF run_machine_inv [OF assms]]
    enforce_deadlines_effect [OF run_deadlines_inv [OF assms]] by blast

theorem enforcement_leaves_nothing_overdue_witness:
  "\<exists>i j. length (ci_step_deadlines i) = 1
     \<and> execute sample_env sample_definition i sample_enforce = Inr j
     \<and> (is_ended j \<or> nothing_overdue j 6000000)"
proof -
  obtain es i where "ceremony_run sample_env sample_definition es i" "length (ci_step_deadlines i) = 1"
    using example_before_run [OF sample_enforces] by blast
  with enforcement_leaves_nothing_overdue [of sample_env sample_definition es i 6000000]
  show ?thesis by blast
qed


section \<open>Fences\<close>

abbreviation claim_input :: "string \<Rightarrow> string \<Rightarrow> step_record \<Rightarrow> step_lease \<Rightarrow> string" where
  "claim_input i s r l \<equiv> digest_input ''made.step-claim-fence.v1'' (claim_fence_parts i s r l)"

text \<open>
  C25: claims with equal fences are the same claim.  If the fences of two claims agree, the claims have
  the same coordinates, or the two byte strings hashed for them are a collision of the hash function.
\<close>

theorem equal_fences_equal_claims:
  assumes "claim_fence_for_record env i s r = Inr fence" and "claim_fence_for_record env i' s' r' = Inr fence"
    and "rec_lease r = Some l" and "rec_lease r' = Some l'"
    and "list_all (\<lambda>p. length p < 2 ^ 64) (claim_fence_parts i s r l @ claim_fence_parts i' s' r' l')"
  shows "claim_coordinates i s r l = claim_coordinates i' s' r' l'
    \<or> claim_input i s r l \<noteq> claim_input i' s' r' l'
      \<and> sha256_hex env (claim_input i s r l) = sha256_hex env (claim_input i' s' r' l')"
proof (cases "claim_input i s r l = claim_input i' s' r' l'")
  case True
  then have "claim_fence_parts i s r l = claim_fence_parts i' s' r' l'"
    by (rule digest_input_inj) (use assms(5) in \<open>simp_all add: list_all_iff\<close>)
  then show ?thesis by (simp add: claim_fence_parts_inj)
next
  case False
  with assms(1-4) show ?thesis by (simp add: claim_fence_for_record_def)
qed

theorem equal_fences_equal_claims_witness:
  "claim_input ''c1'' ''write'' sample_claimed sample_lease
     \<noteq> claim_input ''c1'' ''write'' (sample_claimed\<lparr>rec_attempt := 2\<rparr>) sample_lease
   \<and> sha256_hex sample_env (claim_input ''c1'' ''write'' sample_claimed sample_lease)
     = sha256_hex sample_env (claim_input ''c1'' ''write'' (sample_claimed\<lparr>rec_attempt := 2\<rparr>) sample_lease)"
proof -
  let ?ps = "claim_fence_parts ''c1'' ''write'' sample_claimed sample_lease"
  let ?qs = "claim_fence_parts ''c1'' ''write'' (sample_claimed\<lparr>rec_attempt := 2\<rparr>) sample_lease"
  have short: "list_all (\<lambda>p. length p < 2 ^ 64) (?ps @ ?qs)"
  proof (rule list.pred_mono_strong)
    show "list_all (\<lambda>p. length p < 100) (?ps @ ?qs)" using sample_parts_short by simp
  qed simp
  have fence: "claim_fence_for_record sample_env ''c1'' ''write'' sample_claimed = Inr sample_fence"
    "claim_fence_for_record sample_env ''c1'' ''write'' (sample_claimed\<lparr>rec_attempt := 2\<rparr>) = Inr sample_fence"
    by (simp_all add: claim_fence_for_record_def sample_env_def sample_fence_def)
  have "claim_coordinates ''c1'' ''write'' sample_claimed sample_lease
      \<noteq> claim_coordinates ''c1'' ''write'' (sample_claimed\<lparr>rec_attempt := 2\<rparr>) sample_lease"
    by (simp add: claim_coordinates_def record_pending_def FIRST_def)
  with equal_fences_equal_claims [OF fence _ _ short] show ?thesis by simp
qed


section \<open>Effort\<close>

text \<open>
  C21: the effort spent on a step is bounded.  In every reachable state a step is on its first attempt
  or on one its retry policy allows, and on its first iteration or on one within its repeat policy.
\<close>

theorem step_effort_is_bounded:
  assumes "ceremony_run env d es i" and "bm_get (ci_step_records i) s = Some r"
  shows "(rec_attempt r = FIRST \<or>
      (\<exists>step. def_step d s = Some step \<and> rec_attempt r \<le> max_attempts (cs_retry_policy step)))
    \<and> (rec_iteration r = FIRST \<or>
      (\<exists>step p. def_step d s = Some step \<and> cs_repeat_policy step = Some p
         \<and> rec_iteration r \<le> step_max_iterations p \<and> rec_iteration r \<le> MAX_STEP_ITERATIONS))"
  using run_effort_inv [OF assms(1)] assms(2)
  by (auto simp: effort_inv_def effort_allowed_def attempt_allowed_def iteration_allowed_def
      allows_attempt_def)

theorem step_effort_is_bounded_witness:
  "\<exists>r :: step_record. rec_attempt r = 2 \<and> (rec_attempt r = FIRST \<or>
     (\<exists>step. def_step sample_definition ''write'' = Some step
        \<and> rec_attempt r \<le> max_attempts (cs_retry_policy step)))"
proof -
  obtain es i where run: "ceremony_run sample_env sample_definition es i"
    and "map_option rec_attempt (bm_get (ci_step_records i) ''write'') = Some 2"
    using example_leaves_run [OF sample_retries] by blast
  then obtain r where "bm_get (ci_step_records i) ''write'' = Some r" "rec_attempt r = 2" by auto
  with step_effort_is_bounded [OF run this(1)] show ?thesis by blast
qed


section \<open>The audited journal\<close>

text \<open>
  C16: the sealed journal of a ceremony verifies, and replaying what it holds gives the ceremony back.
  Sealing the events of a run one after the other, with or without authorization evidence, leaves a
  journal the verifier finds intact and the fold takes to the state the writer holds.
\<close>

theorem sealed_run_verifies_and_replays:
  assumes "ceremony_run env d es i" and "sealed_journal audit fs rs" and "map fact_event fs = es"
  shows "audit_verify audit rs = Intact \<and> rehydrate (map (the \<circ> aud_event) rs) = Inr i"
proof -
  note sealed = sealed_journal_intact [OF assms(2)]
  then have "map the (map aud_event rs) = map the (map (Some \<circ> fact_event) fs)" by simp
  with assms(3) have "map (the \<circ> aud_event) rs = es" by (simp add: comp_def)
  with sealed ceremony.replay_journal [OF assms(1)] show ?thesis by simp
qed

theorem sealed_run_verifies_and_replays_witness:
  "\<exists>rs i. audit_verify sample_audit_env rs = Intact
     \<and> rehydrate (map (the \<circ> aud_event) rs) = Inr i \<and> ci_completed_at i = Some 40"
proof -
  obtain es i where run: "ceremony_run sample_env sample_definition es i" "ci_completed_at i = Some 40"
    using example_leaves_run [OF sample_completes] by blast
  let ?fs = "map (sample_fact ''e'' ''c1'') es"
  have "renders_all sample_audit_env" by (simp add: renders_all_def sample_audit_env_def)
  then obtain rs where rs: "sealed_journal sample_audit_env ?fs rs"
    using facts_can_be_sealed [of sample_audit_env ?fs "''c1''"] by (auto simp: sample_fact_def)
  have "map fact_event ?fs = es" by (induction es) (simp_all add: sample_fact_def)
  from sealed_run_verifies_and_replays [OF run(1) rs this] run(2) show ?thesis by blast
qed

end
